(* ===== verification/Prelude.thy ===== *)
theory Prelude
  imports "HOL-Library.Word"
begin

text \<open>
  Shared vocabulary of the development: the machine-integer types of the C sources, the ways a
  call can end (\<open>outcome\<close>), sequencing of calls, preservation of state predicates, and the
  generic facts on words and lists that the components use.
\<close>

section \<open>Integer types\<close>

type_synonym u8 = "8 word"      \<comment> \<open>\<open>unsigned char\<close>, and \<open>char\<close> read as a byte\<close>
type_synonym u16 = "16 word"    \<comment> \<open>\<open>CHAR16\<close>, \<open>unsigned short\<close>\<close>
type_synonym u32 = "32 word"    \<comment> \<open>\<open>unsigned\<close>\<close>
type_synonym u64 = "64 word"    \<comment> \<open>\<open>uint64_t\<close>, \<open>size_t\<close>, \<open>UINTN\<close>, pointers\<close>
type_synonym i32 = "32 word"    \<comment> \<open>\<open>int\<close>, read with \<open>sint\<close>\<close>
type_synonym i64 = "64 word"    \<comment> \<open>\<open>long\<close>, \<open>ssize_t\<close>, \<open>off_t\<close>, \<open>time_t\<close>, read with \<open>sint\<close>\<close>

text \<open>
  The three integer conversions the sources rely on: narrowing a 64-bit register to an \<open>int\<close>
  parameter, widening an \<open>int\<close> result with its sign, widening an unsigned value with zeros.
\<close>

abbreviation to_int :: "u64 \<Rightarrow> i32" where "to_int x \<equiv> ucast x"
abbreviation sext :: "i32 \<Rightarrow> i64" where "sext x \<equiv> scast x"
abbreviation zext :: "'a::len word \<Rightarrow> u64" where "zext x \<equiv> ucast x"

section \<open>How a call ends\<close>

text \<open>
  Undefined behaviour of C is a value of its own, so that a theorem about a call that returns
  also says that no undefined behaviour was met on the way.
\<close>

datatype ub =
    Oob_read       \<comment> \<open>an array is read outside its bounds\<close>
  | Oob_write      \<comment> \<open>an array is written outside its bounds\<close>
  | Null_deref     \<comment> \<open>an access through the null pointer\<close>
  | Array_size     \<comment> \<open>an array whose size in bytes does not fit the address space\<close>
  | Uninit_read    \<comment> \<open>a local variable is read before it was written\<close>
  | Bad_shift      \<comment> \<open>a shift by more bits than the type allows\<close>
  | No_return_value  \<comment> \<open>a declaration the compiler refuses (\<open>#error\<close>, undeclared macro)\<close>

datatype reset_type = EfiResetWarm | EfiResetShutdown

datatype ('s, 'a) outcome =
    Ret 'a 's                \<comment> \<open>the call returns to its caller\<close>
  | Exited u64 's            \<comment> \<open>\<open>BS->Exit\<close> took control away, with this status\<close>
  | Reset reset_type 's      \<comment> \<open>\<open>RT->ResetSystem\<close> took control away\<close>
  | Hang 's                  \<comment> \<open>an endless loop with this state\<close>
  | Diverge                  \<comment> \<open>a loop of the code that never reaches its exit\<close>
  | Undef ub                 \<comment> \<open>undefined behaviour\<close>

fun bind_out :: "('s, 'a) outcome \<Rightarrow> ('a \<Rightarrow> 's \<Rightarrow> ('s, 'b) outcome) \<Rightarrow> ('s, 'b) outcome" where
  "bind_out (Ret a s) f = f a s"
| "bind_out (Exited st s) f = Exited st s"
| "bind_out (Reset r s) f = Reset r s"
| "bind_out (Hang s) f = Hang s"
| "bind_out Diverge f = Diverge"
| "bind_out (Undef u) f = Undef u"

lemma bind_out_eq_Ret:
  "bind_out m f = Ret b s' \<longleftrightarrow> (\<exists>a s. m = Ret a s \<and> f a s = Ret b s')"
  by (cases m) auto

lemma bind_out_assoc:
  "bind_out (bind_out m f) g = bind_out m (\<lambda>a s. bind_out (f a s) g)"
  by (cases m) auto

lemma bind_out_Ret_right [simp]: "bind_out m Ret = m"
  by (cases m) auto

text \<open>The state a call leaves behind, when it leaves one.\<close>

fun final :: "('s, 'a) outcome \<Rightarrow> 's option" where
  "final (Ret a s) = Some s"
| "final (Exited st s) = Some s"
| "final (Reset r s) = Some s"
| "final (Hang s) = Some s"
| "final Diverge = None"
| "final (Undef u) = None"

text \<open>A state predicate that a call keeps, however the call ends.\<close>

definition keeps :: "('s \<Rightarrow> bool) \<Rightarrow> 's \<Rightarrow> ('s, 'a) outcome \<Rightarrow> bool" where
  "keeps P s m \<longleftrightarrow> (P s \<longrightarrow> (\<forall>s'. final m = Some s' \<longrightarrow> P s'))"

named_theorems keeps_intros \<open>rules that show a state predicate is kept\<close>
named_theorems handler_defs \<open>definitions of the system call handlers\<close>

lemma keepsD: "keeps P s m \<Longrightarrow> P s \<Longrightarrow> final m = Some s' \<Longrightarrow> P s'"
  by (simp add: keeps_def)

lemma keeps_Ret [keeps_intros]: "(P s \<Longrightarrow> P s') \<Longrightarrow> keeps P s (Ret a s')"
  by (simp add: keeps_def)

lemma keeps_Exited [keeps_intros]: "(P s \<Longrightarrow> P s') \<Longrightarrow> keeps P s (Exited st s')"
  by (simp add: keeps_def)

lemma keeps_Reset [keeps_intros]: "(P s \<Longrightarrow> P s') \<Longrightarrow> keeps P s (Reset r s')"
  by (simp add: keeps_def)

lemma keeps_Hang [keeps_intros]: "(P s \<Longrightarrow> P s') \<Longrightarrow> keeps P s (Hang s')"
  by (simp add: keeps_def)

lemma keeps_Diverge [keeps_intros]: "keeps P s Diverge"
  by (simp add: keeps_def)

lemma keeps_Undef [keeps_intros]: "keeps P s (Undef u)"
  by (simp add: keeps_def)

lemma keeps_bind [keeps_intros]:
  assumes "keeps P s m" and "\<And>a s'. P s' \<Longrightarrow> keeps P s' (f a s')"
  shows "keeps P s (bind_out m f)"
  using assms by (cases m) (auto simp: keeps_def)

lemma keeps_if [keeps_intros]:
  "(b \<Longrightarrow> keeps P s x) \<Longrightarrow> (\<not> b \<Longrightarrow> keeps P s y) \<Longrightarrow> keeps P s (if b then x else y)"
  by simp

text \<open>A fact about the value and the state of every normal return.\<close>

definition returns :: "('a \<Rightarrow> 's \<Rightarrow> bool) \<Rightarrow> ('s, 'a) outcome \<Rightarrow> bool" where
  "returns Q m \<longleftrightarrow> (\<forall>a s. m = Ret a s \<longrightarrow> Q a s)"

named_theorems returns_intros \<open>rules that show a fact about normal returns\<close>

lemma returnsD: "returns Q m \<Longrightarrow> m = Ret a s \<Longrightarrow> Q a s"
  by (simp add: returns_def)

lemma returns_Ret [returns_intros]: "Q a s \<Longrightarrow> returns Q (Ret a s)"
  by (simp add: returns_def)

lemma returns_others [returns_intros]:
  "returns Q (Exited st s)" "returns Q (Reset r s)" "returns Q (Hang s)" "returns Q Diverge"
  "returns Q (Undef u)"
  by (simp_all add: returns_def)

lemma returns_bind [returns_intros]: "(\<And>a s. returns Q (f a s)) \<Longrightarrow> returns Q (bind_out m f)"
  by (cases m) (auto simp: returns_def)

lemma returns_if [returns_intros]:
  "(b \<Longrightarrow> returns Q x) \<Longrightarrow> (\<not> b \<Longrightarrow> returns Q y) \<Longrightarrow> returns Q (if b then x else y)"
  by simp

section \<open>Words\<close>

text \<open>A count that a 64-bit register holds is its own value read back.\<close>

lemma unat_of_nat_u64: "n < 2 ^ 64 \<Longrightarrow> unat (of_nat n :: u64) = n"
  by (simp add: unat_of_nat)

lemma of_nat_u64_eq_iff: "m < 2 ^ 64 \<Longrightarrow> n < 2 ^ 64 \<Longrightarrow> (of_nat m :: u64) = of_nat n \<longleftrightarrow> m = n"
  by (metis unat_of_nat_u64)

lemma unat_ucast_up:
  "LENGTH('a) \<le> LENGTH('b) \<Longrightarrow> unat (ucast (x :: 'a::len word) :: 'b::len word) = unat x"
proof -
  assume "LENGTH('a) \<le> LENGTH('b)"
  then have "(2 :: nat) ^ LENGTH('a) \<le> 2 ^ LENGTH('b)"
    by (rule power_increasing) simp
  moreover have "unat x < 2 ^ LENGTH('a)" by simp
  ultimately have "unat x < 2 ^ LENGTH('b)" by linarith
  then show ?thesis
    by (simp add: unsigned_ucast_eq take_bit_nat_eq_self)
qed

lemma unat_zext32: "unat (zext (x :: u32)) = unat x"
  by (simp add: unat_ucast_up)

lemma ucast_up_eq_0:
  "LENGTH('a) \<le> LENGTH('b) \<Longrightarrow> (ucast (x :: 'a::len word) :: 'b::len word) = 0 \<longleftrightarrow> x = 0"
  by (metis unat_eq_zero unat_ucast_up)

lemma sint_to_int: 
  assumes "unat (x :: u64) < 2 ^ 31" 
  shows "sint (to_int x) = int (unat x)"
proof -
  have "take_bit 32 (unat x) = unat x"
    using assms by (intro take_bit_nat_eq_self) simp
  then have "unat (to_int x) = unat x"
    by (simp only: unsigned_ucast_eq) simp
  then have eq: "uint (to_int x) = int (unat x)" by (simp only: uint_nat)
  have "- (2 ^ 31) \<le> int n \<and> int n < 2 ^ 31" if "n < 2 ^ 31" for n :: nat
    using that by auto
  with assms have "signed_take_bit 31 (int (unat x)) = int (unat x)"
    by (intro signed_take_bit_int_eq_self) blast+
  then show ?thesis
    by (simp only: sint_uint eq) (simp del: of_nat_unat)
qed

lemma unat_plus_one: "unat (x :: 'a::len word) + 1 < 2 ^ LENGTH('a) \<Longrightarrow> unat (x + 1) = unat x + 1"
  by (cases "LENGTH('a) = 1") (auto simp: unat_word_ariths)

section \<open>Lists\<close>

lemma takeWhile_append_stop:
  "\<forall>x \<in> set xs. P x \<Longrightarrow> \<not> P y \<Longrightarrow> takeWhile P (xs @ y # ys) = xs"
  by simp

lemma list_update_replicate_same: "(replicate n x)[i := x] = replicate n x"
  by (induction n arbitrary: i) (auto split: nat.splits)

end
