(* ===== verification/Float32.thy ===== *)
theory Float32
  imports Complex_Main Prelude
begin

text \<open>
  C's \<open>float\<close> as the demonstration program uses it: binary32 numbers with rounding to the nearest value
  (ties to even) after every operation, gradual underflow included. Infinities and not-a-numbers are left
  out; where the program computes with \<open>float\<close>, the values are shown to stay far below the range
  in which they arise. The sign of a zero is not kept: the program never divides by a computed value
  and only compares and adds.
\<close>

section \<open>Values and rounding\<close>

text \<open>\<open>F32 m e\<close> is the number \<open>m * 2 ^ e\<close>.\<close>

datatype f32 = F32 int int

fun bit_length :: "nat \<Rightarrow> nat" where
  "bit_length n = (if n = 0 then 0 else Suc (bit_length (n div 2)))"

declare bit_length.simps [simp del]

text \<open>\<open>m / 2 ^ k\<close> rounded to the nearest integer, to the even one when two are equally near.\<close>

definition round_half_even :: "int \<Rightarrow> nat \<Rightarrow> int" where
  "round_half_even m k =
     (let q = m div 2 ^ k; r = m mod 2 ^ k
      in if 2 * r < 2 ^ k \<or> 2 * r = 2 ^ k \<and> even q then q else q + 1)"

text \<open>To 24 significant bits, and to no bit below \<open>2 ^ -149\<close>.\<close>

definition round32 :: "int \<Rightarrow> int \<Rightarrow> f32" where
  "round32 m e =
     (if m = 0 then F32 0 0
      else
        let k = max (int (bit_length (nat \<bar>m\<bar>)) - 24) (- 149 - e)
        in if k \<le> 0 then F32 m e else F32 (round_half_even m (nat k)) (e + k))"

section \<open>Operations\<close>

fun f_add :: "f32 \<Rightarrow> f32 \<Rightarrow> f32" where
  "f_add (F32 m e) (F32 n d) =
     (let l = min e d in round32 (m * 2 ^ nat (e - l) + n * 2 ^ nat (d - l)) l)"

fun f_sub :: "f32 \<Rightarrow> f32 \<Rightarrow> f32" where
  "f_sub a (F32 n d) = f_add a (F32 (- n) d)"

fun f_mul :: "f32 \<Rightarrow> f32 \<Rightarrow> f32" where
  "f_mul (F32 m e) (F32 n d) = round32 (m * n) (e + d)"

text \<open>Sixty bits of the quotient and one for what is left.\<close>

fun f_div :: "f32 \<Rightarrow> f32 \<Rightarrow> f32" where
  "f_div (F32 m e) (F32 n d) =
     (let q = m * 2 ^ 60 div n; r = m * 2 ^ 60 mod n
      in round32 (2 * q + (if r = 0 then 0 else 1)) (e - d - 61))"

fun f_less :: "f32 \<Rightarrow> f32 \<Rightarrow> bool" where
  "f_less (F32 m e) (F32 n d) =
     (let l = min e d in m * 2 ^ nat (e - l) < n * 2 ^ nat (d - l))"

definition f_int :: "int \<Rightarrow> f32" where
  "f_int n = round32 n 0"

section \<open>What they compute\<close>

primrec val :: "f32 \<Rightarrow> real" where
  "val (F32 m e) = of_int m * 2 powi e"

lemma bit_length_upper: "n < 2 ^ bit_length n"
proof (induction n rule: bit_length.induct)
  case (1 n)
  then show ?case
    by (cases "n = 0") (simp_all add: bit_length.simps [of n])
qed

lemma bit_length_lower: "0 < n \<Longrightarrow> 2 ^ bit_length n \<le> 2 * n"
proof (induction n rule: bit_length.induct)
  case (1 n)
  show ?case
  proof (cases "n div 2 = 0")
    case True
    then show ?thesis using 1(2) by (simp add: bit_length.simps [of n] bit_length.simps [of 0])
  next
    case False
    then have "2 ^ bit_length (n div 2) \<le> 2 * (n div 2)" using 1 by simp
    then show ?thesis using 1(2) by (simp add: bit_length.simps [of n])
  qed
qed

lemma round_half_even_error: "2 * \<bar>round_half_even m k * 2 ^ k - m\<bar> \<le> 2 ^ k"
proof -
  define q r P where "q = m div 2 ^ k" and "r = m mod 2 ^ k" and "P = (2 :: int) ^ k"
  have "m = q * P + r" unfolding q_def r_def P_def by (simp only: div_mult_mod_eq)
  moreover have "0 \<le> r" "r < P" unfolding r_def P_def by simp_all
  ultimately show ?thesis
    unfolding round_half_even_def Let_def q_def [symmetric] r_def [symmetric] P_def [symmetric]
    by (auto simp: algebra_simps abs_if)
qed

lemma powi_plus_nat: "(2 :: real) powi (e + int k) = 2 powi e * 2 ^ k"
  by (simp add: power_int_add)

text \<open>Rounding: half a unit in the last of 24 places, or half the smallest number.\<close>

lemma round32_error:
  "\<bar>val (round32 m e) - of_int m * 2 powi e\<bar> \<le> \<bar>of_int m * 2 powi e\<bar> / 2 ^ 24 + 2 powi (- 150)"
proof (cases "m = 0")
  case True
  then show ?thesis by (simp add: round32_def)
next
  case False
  define b where "b = bit_length (nat \<bar>m\<bar>)"
  define k where "k = max (int b - 24) (- 149 - e)"
  show ?thesis
  proof (cases "k \<le> 0")
    case True
    then have "round32 m e = F32 m e" using False by (simp add: round32_def b_def k_def Let_def)
    then show ?thesis by simp
  next
    case k: False
    define n where "n = nat k"
    have kn: "k = int n" using k by (simp add: n_def)
    let ?q = "round_half_even m n"
    have "round32 m e = F32 ?q (e + k)"
      using False k unfolding round32_def Let_def b_def [symmetric] k_def [symmetric] n_def [symmetric] by simp
    then have v: "val (round32 m e) - of_int m * 2 powi e = of_int (?q * 2 ^ n - m) * 2 powi e"
      by (simp add: kn powi_plus_nat algebra_simps)
    have "real_of_int (2 * \<bar>?q * 2 ^ n - m\<bar>) \<le> real_of_int (2 ^ n)"
      using round_half_even_error by (simp only: of_int_le_iff)
    then have err: "2 * \<bar>of_int (?q * 2 ^ n - m)\<bar> \<le> (2 :: real) ^ n" by simp
    have pos: "0 < (2 :: real) powi e" by simp
    have "2 * \<bar>val (round32 m e) - of_int m * 2 powi e\<bar> \<le> 2 ^ n * 2 powi e"
      using mult_right_mono [OF err, of "2 powi e"] unfolding v by (simp add: abs_mult)
    also have "\<dots> = 2 powi (e + k)" by (simp add: kn powi_plus_nat)
    also have "\<dots> \<le> 2 * (\<bar>of_int m * 2 powi e\<bar> / 2 ^ 24 + 2 powi (- 150))"
    proof (cases "int b - 24 \<le> - 149 - e")
      case True
      then have "e + k = - 149" by (simp add: k_def)
      moreover have "(2 :: real) powi (- 150 + int 1) = 2 powi (- 150) * 2 ^ 1" by (rule powi_plus_nat)
      ultimately have "2 powi (e + k) = 2 * (2 :: real) powi (- 150)" by (simp only:) simp
      then show ?thesis by simp
    next
      case b: False
      have "2 ^ b \<le> 2 * nat \<bar>m\<bar>" using bit_length_lower [of "nat \<bar>m\<bar>"] False by (simp add: b_def)
      then have "real (2 ^ b) \<le> real (2 * nat \<bar>m\<bar>)" by (simp only: of_nat_le_iff)
      then have mb: "(2 :: real) ^ b \<le> 2 * \<bar>of_int m\<bar>" by simp
      have ek: "e + k + int 24 = e + int b" using b by (simp add: k_def)
      have "2 powi (e + k) * 2 ^ 24 = (2 :: real) powi (e + k + int 24)" by (rule powi_plus_nat [symmetric])
      also have "\<dots> = 2 powi e * 2 ^ b" unfolding ek by (rule powi_plus_nat)
      also have "\<dots> \<le> 2 powi e * (2 * \<bar>of_int m\<bar>)" using mb by (intro mult_left_mono) simp_all
      finally have "2 powi (e + k) * 2 ^ 24 \<le> 2 * \<bar>of_int m * (2 :: real) powi e\<bar>" by (simp add: abs_mult)
      then show ?thesis by simp
    qed
    finally show ?thesis by simp
  qed
qed

text \<open>Two values over the smaller of their exponents.\<close>

lemma val_at:
  assumes "l \<le> e"
  shows "of_int (m * 2 ^ nat (e - l)) * 2 powi l = of_int m * (2 :: real) powi e"
proof -
  have "2 powi e = (2 :: real) powi (l + int (nat (e - l)))" using assms by simp
  then show ?thesis unfolding powi_plus_nat by simp
qed

lemma f_add_error: "\<bar>val (f_add a b) - (val a + val b)\<bar> \<le> \<bar>val a + val b\<bar> / 2 ^ 24 + 2 powi (- 150)"
proof (cases a; cases b)
  fix m e n d assume ab: "a = F32 m e" "b = F32 n d"
  let ?l = "min e d"
  have "of_int (m * 2 ^ nat (e - ?l)) * 2 powi ?l = val (F32 m e)"
    "of_int (n * 2 ^ nat (d - ?l)) * 2 powi ?l = val (F32 n d)"
    unfolding val.simps by (rule val_at, simp)+
  then have eq: "of_int (m * 2 ^ nat (e - ?l) + n * 2 ^ nat (d - ?l)) * 2 powi ?l = val (F32 m e) + val (F32 n d)"
    by (simp only: of_int_add distrib_right)
  show ?thesis
    using round32_error [of "m * 2 ^ nat (e - ?l) + n * 2 ^ nat (d - ?l)" ?l] unfolding eq ab f_add.simps Let_def .
qed

lemma f_sub_error: "\<bar>val (f_sub a b) - (val a - val b)\<bar> \<le> \<bar>val a - val b\<bar> / 2 ^ 24 + 2 powi (- 150)"
proof (cases b)
  case (F32 n d)
  then show ?thesis using f_add_error [of a "F32 (- n) d"] by simp
qed

lemma f_mul_error: "\<bar>val (f_mul a b) - val a * val b\<bar> \<le> \<bar>val a * val b\<bar> / 2 ^ 24 + 2 powi (- 150)"
proof (cases a; cases b)
  fix m e n d assume ab: "a = F32 m e" "b = F32 n d"
  have "(2 :: real) powi (e + d) = 2 powi e * 2 powi d" by (rule power_int_add) simp
  then have eq: "of_int (m * n) * 2 powi (e + d) = val (F32 m e) * val (F32 n d)"
    by (simp only: val.simps of_int_mult ac_simps)
  show ?thesis using round32_error [of "m * n" "e + d"] unfolding eq ab f_mul.simps .
qed

lemma f_less_iff: "f_less a b \<longleftrightarrow> val a < val b"
proof (cases a; cases b)
  fix m e n d assume ab: "a = F32 m e" "b = F32 n d"
  let ?l = "min e d"
  have v: "of_int (m * 2 ^ nat (e - ?l)) * 2 powi ?l = val (F32 m e)"
    "of_int (n * 2 ^ nat (d - ?l)) * 2 powi ?l = val (F32 n d)"
    unfolding val.simps by (rule val_at, simp)+
  have "m * 2 ^ nat (e - ?l) < n * 2 ^ nat (d - ?l) \<longleftrightarrow>
      of_int (m * 2 ^ nat (e - ?l)) * (2 :: real) powi ?l < of_int (n * 2 ^ nat (d - ?l)) * 2 powi ?l"
    by (simp only: mult_less_cancel_right_pos of_int_less_iff zero_less_power_int zero_less_numeral)
  then show ?thesis unfolding v ab f_less.simps Let_def .
qed

lemma f_div_int_error:
  assumes "0 < n" and "n < 2 ^ 60"
  shows "\<bar>val (f_div (F32 m 0) (F32 n 0)) - m / n\<bar> \<le> \<bar>m / n\<bar> / 2 ^ 24 + 2 powi (- 60)"
proof -
  define x where "x = real_of_int m / real_of_int n"
  define q r t where "q = m * 2 ^ 60 div n" and "r = m * 2 ^ 60 mod n" and "t = 2 * q + (if r = 0 then 0 else 1)"
  define E where "E = (2 :: real) powi (- 61)"
  have "m * 2 ^ 60 = q * n + r" unfolding q_def r_def by (simp only: div_mult_mod_eq)
  then have "real_of_int (m * 2 ^ 60) = of_int q * of_int n + of_int r" by (simp only: of_int_add of_int_mult)
  then have xq: "x * 2 ^ 60 = of_int q + of_int r / of_int n"
    using assms(1) by (simp add: x_def field_simps)
  have r: "0 \<le> r" "r < n" using assms(1) by (simp_all add: r_def)
  then have "0 \<le> real_of_int r / of_int n" "real_of_int r / of_int n < 1" using assms(1) by simp_all
  then have "\<bar>of_int t - 2 * (x * 2 ^ 60)\<bar> \<le> 1" unfolding xq t_def by (simp add: abs_if)
  then have "\<bar>of_int t - 2 * (x * 2 ^ 60)\<bar> * E \<le> E" by (simp add: E_def)
  then have "\<bar>(of_int t - 2 * (x * 2 ^ 60)) * E\<bar> \<le> E" by (simp add: abs_mult E_def)
  moreover have "2 * (x * 2 ^ 60) * E = x" by (simp add: E_def power_int_def power_one_over)
  ultimately have near: "\<bar>of_int t * E - x\<bar> \<le> E" by (simp only: left_diff_distrib)
  have v: "f_div (F32 m 0) (F32 n 0) = round32 t (- 61)" by (simp add: q_def r_def t_def Let_def)
  have "\<bar>val (round32 t (- 61)) - of_int t * E\<bar> \<le> \<bar>of_int t * E\<bar> / 2 ^ 24 + 2 powi (- 150)"
    unfolding E_def by (rule round32_error)
  moreover have "2 powi (- 60) = 2 * E" "2 powi (- 150) \<le> E / 2"
    by (simp_all add: E_def power_int_def power_one_over)
  ultimately show ?thesis using near unfolding v x_def [symmetric] by simp
qed

text \<open>Small integers are exact.\<close>

lemma round32_small: "\<bar>m\<bar> < 2 ^ 24 \<Longrightarrow> - 149 \<le> e \<Longrightarrow> m \<noteq> 0 \<Longrightarrow> round32 m e = F32 m e"
proof -
  assume m: "\<bar>m\<bar> < 2 ^ 24" "- 149 \<le> e" "m \<noteq> 0"
  have "bit_length (nat \<bar>m\<bar>) \<le> 24"
  proof (rule ccontr)
    assume "\<not> ?thesis"
    then have "(2 :: nat) ^ 25 \<le> 2 ^ bit_length (nat \<bar>m\<bar>)" by (intro power_increasing) simp_all
    also have "\<dots> \<le> 2 * nat \<bar>m\<bar>" using m by (intro bit_length_lower) simp
    finally show False using m(1) by simp
  qed
  with m show ?thesis by (simp add: round32_def)
qed

lemma f_int_small: "\<bar>n\<bar> < 2 ^ 24 \<Longrightarrow> f_int n = F32 n 0"
  by (cases "n = 0") (simp_all add: f_int_def round32_small, simp add: round32_def)

lemma val_f_int: "\<bar>n\<bar> < 2 ^ 24 \<Longrightarrow> val (f_int n) = of_int n"
  by (simp add: f_int_small)

lemma f_add_int: "\<bar>a\<bar> < 2 ^ 24 \<Longrightarrow> \<bar>b\<bar> < 2 ^ 24 \<Longrightarrow> \<bar>a + b\<bar> < 2 ^ 24 \<Longrightarrow> f_add (f_int a) (f_int b) = f_int (a + b)"
  by (simp add: f_int_small [of a] f_int_small [of b]) (simp add: f_int_def)

lemma f_less_int: "\<bar>a\<bar> < 2 ^ 24 \<Longrightarrow> \<bar>b\<bar> < 2 ^ 24 \<Longrightarrow> f_less (f_int a) (f_int b) \<longleftrightarrow> a < b"
  by (simp add: f_less_iff val_f_int)

end
