(* ===== verification/Picture.thy ===== *)
theory Picture
  imports Float32
begin

text \<open>
  The picture that \<open>src/main.c\<close> prints: the innermost of its three loops, which counts for one point how
  many rounds of a complex square stay inside a circle, and the character for the count. The loops
  around it are in theory \<open>Demo\<close>.
\<close>

unbundle bit_operations_syntax

section \<open>The code\<close>

text \<open>
  \<open>escape\<close> is the innermost one,
  \<open>for(i=k=r=0; j=r*r-i*i-2+x/25, i=2*r*i+y/10, j*j+i*i<11&&k++<111; r=j);\<close>, and returns the value of
  \<open>k\<close> when it is left.
\<close>

definition next_j :: "f32 \<Rightarrow> f32 \<Rightarrow> f32 \<Rightarrow> f32" where
  "next_j x r i = f_add (f_sub (f_sub (f_mul r r) (f_mul i i)) (f_int 2)) (f_div x (f_int 25))"

definition next_i :: "f32 \<Rightarrow> f32 \<Rightarrow> f32 \<Rightarrow> f32" where
  "next_i y r i = f_add (f_mul (f_mul (f_int 2) r) i) (f_div y (f_int 10))"

definition stays :: "f32 \<Rightarrow> f32 \<Rightarrow> bool" where
  "stays j i \<longleftrightarrow> f_less (f_add (f_mul j j) (f_mul i i)) (f_int 11)"

lemma sint_plus_one: "sint k < 111 \<Longrightarrow> sint (k + 1) = sint k + 1" for k :: i32
proof -
  assume "sint k < 111"
  moreover have "- (2 ^ 31) \<le> sint k" using sint_ge [of k] by simp
  ultimately have "signed_take_bit 31 (sint k + 1) = sint k + 1"
    by (intro signed_take_bit_int_eq_self) simp_all
  then show ?thesis by (simp add: sint_word_ariths(1))
qed

function escape :: "f32 \<Rightarrow> f32 \<Rightarrow> f32 \<Rightarrow> f32 \<Rightarrow> i32 \<Rightarrow> i32" where
  "escape x y r i k =
     (let j = next_j x r i; i = next_i y r i
      in if stays j i then (if sint k < 111 then escape x y j i (k + 1) else k + 1) else k)"
  by pat_completeness auto

termination by (relation "measure (\<lambda>(x, y, r, i, k). nat (111 - sint k))") (simp_all add: sint_plus_one)

declare escape.simps [simp del]

definition shade :: "i32 \<Rightarrow> char" where
  "shade k = '' .:-;!/>)|&IH%*#'' ! unat (k AND 15)"


section \<open>A reference\<close>

text \<open>The values of \<open>r\<close> and \<open>i\<close> round by round, and the first round whose point leaves the circle.\<close>

primrec orbit :: "f32 \<Rightarrow> f32 \<Rightarrow> nat \<Rightarrow> f32 \<times> f32" where
  "orbit x y 0 = (f_int 0, f_int 0)"
| "orbit x y (Suc n) = (case orbit x y n of (r, i) \<Rightarrow> (next_j x r i, next_i y r i))"

definition leaves :: "f32 \<Rightarrow> f32 \<Rightarrow> nat \<Rightarrow> bool" where
  "leaves x y n \<longleftrightarrow> \<not> case_prod stays (orbit x y (Suc n))"

definition escape_time :: "f32 \<Rightarrow> f32 \<Rightarrow> nat" where
  "escape_time x y = (case List.find (leaves x y) [0..<112] of None \<Rightarrow> 112 | Some n \<Rightarrow> n)"

lemma escape_from:
  assumes "n \<le> 111" and "orbit x y n = (r, i)"
  shows "escape x y r i (of_nat n) = of_nat (case List.find (leaves x y) [n..<112] of None \<Rightarrow> 112 | Some m \<Rightarrow> m)"
  using assms
proof (induction "111 - n" arbitrary: n r i)
  case 0
  then have n: "n = 111" by simp
  have "[111..<112] = [111 :: nat]" by (simp add: upt_rec)
  moreover have "orbit x y (Suc 111) = (next_j x r i, next_i y r i)" using 0(3) unfolding n orbit.simps by simp
  ultimately show ?case
    unfolding n by (subst escape.simps) (simp add: Let_def leaves_def del: orbit.simps)
next
  case (Suc d)
  then have lt: "n < 111" by simp
  have sn: "sint (of_nat n :: i32) = int n"
    using lt by (simp add: signed_of_nat signed_take_bit_int_eq_self)
  have up: "[n..<112] = n # [Suc n..<112]" using lt by (simp add: upt_rec)
  let ?j = "next_j x r i" and ?i = "next_i y r i"
  have o: "orbit x y (Suc n) = (?j, ?i)" using Suc.prems(2) by simp
  have "escape x y ?j ?i (of_nat (Suc n)) =
      of_nat (case List.find (leaves x y) [Suc n..<112] of None \<Rightarrow> 112 | Some m \<Rightarrow> m)"
    by (rule Suc.hyps(1)) (use Suc.hyps(2) lt o in simp_all)
  then show ?case
    using lt sn up o by (subst escape.simps) (simp add: Let_def leaves_def add.commute)
qed

lemma escape_eq: "escape x y (f_int 0) (f_int 0) 0 = of_nat (escape_time x y)"
  using escape_from [of 0 x y "f_int 0" "f_int 0"] by (simp add: escape_time_def)

lemma escape_time_cases:
  "(\<exists>n < 112. leaves x y n \<and> (\<forall>m < n. \<not> leaves x y m) \<and> escape_time x y = n) \<or>
   (\<forall>m < 112. \<not> leaves x y m) \<and> escape_time x y = 112"
proof (cases "List.find (leaves x y) [0..<112]")
  case None
  then have "escape_time x y = 112" by (simp add: escape_time_def)
  with None show ?thesis by (auto simp: find_None_iff)
next
  case (Some n)
  then have "escape_time x y = n" by (simp add: escape_time_def)
  with Some show ?thesis by (auto simp: find_Some_iff)
qed

section \<open>The values stay small\<close>

lemma tiny: "(2 :: real) powi (- 150) \<le> 1 / 2000"
  by (simp add: power_int_def power_one_over)

lemma rounded:
  fixes v x :: real
  assumes "\<bar>v - x\<bar> \<le> \<bar>x\<bar> / 2 ^ 24 + 2 powi (- 150)"
  shows "\<bar>v - x\<bar> \<le> \<bar>x\<bar> / 1000 + 1 / 1000"
  using assms tiny by simp

lemma rounded_bound:
  fixes v x B C :: real
  assumes "\<bar>v - x\<bar> \<le> \<bar>x\<bar> / 2 ^ 24 + 2 powi (- 150)" and "\<bar>x\<bar> \<le> B" and "B + B / 1000 + 1 / 1000 \<le> C"
  shows "\<bar>v\<bar> \<le> C"
  using rounded [OF assms(1)] assms(2,3) by linarith

lemma mul_bound:
  assumes "\<bar>val a\<bar> \<le> A" and "\<bar>val b\<bar> \<le> B" and "A * B + A * B / 1000 + 1 / 1000 \<le> C"
  shows "\<bar>val (f_mul a b)\<bar> \<le> C"
proof (rule rounded_bound [OF f_mul_error _ assms(3)])
  show "\<bar>val a * val b\<bar> \<le> A * B" using assms(1,2) by (simp add: abs_mult mult_mono')
qed

lemma add_bound:
  assumes "\<bar>val a\<bar> \<le> A" and "\<bar>val b\<bar> \<le> B" and "(A + B) + (A + B) / 1000 + 1 / 1000 \<le> C"
  shows "\<bar>val (f_add a b)\<bar> \<le> C" and "\<bar>val (f_sub a b)\<bar> \<le> C"
  using assms(1,2) by (auto intro: rounded_bound [OF f_add_error _ assms(3)] rounded_bound [OF f_sub_error _ assms(3)])

lemma quotient_bound:
  fixes m n q :: int
  assumes "\<bar>m\<bar> < 2 ^ 24" and "0 < n" and "n < 2 ^ 24" and "\<bar>m\<bar> \<le> q * n"
  shows "\<bar>val (f_div (f_int m) (f_int n))\<bar> \<le> q + q / 1000 + 1 / 1000"
proof -
  define x where "x = real_of_int m / real_of_int n"
  have "real_of_int \<bar>m\<bar> \<le> real_of_int (q * n)" using assms(4) by (simp only: of_int_le_iff)
  then have "\<bar>x\<bar> \<le> q" using assms(2) by (simp add: x_def pos_divide_le_eq abs_divide)
  moreover have "\<bar>val (f_div (f_int m) (f_int n)) - x\<bar> \<le> \<bar>x\<bar> / 2 ^ 24 + 2 powi (- 60)"
    using f_div_int_error [of n m] assms(1-3) by (simp add: f_int_small x_def)
  moreover have "(2 :: real) powi (- 60) \<le> 1 / 2000" by (simp add: power_int_def power_one_over)
  moreover have "\<bar>x\<bar> / 2 ^ 24 \<le> \<bar>x\<bar> / 2000" by simp
  ultimately show ?thesis by linarith
qed

lemma square_rounded:
  "val (f_mul a a) \<ge> (val a)\<^sup>2 - (val a)\<^sup>2 / 1000 - 1 / 1000"
proof -
  have "\<bar>val a * val a\<bar> = (val a)\<^sup>2" by (simp add: power2_eq_square)
  then show ?thesis
    using rounded [OF f_mul_error [of a a]] by (simp add: power2_eq_square)
qed

lemma stays_bound:
  assumes "stays j i"
  shows "\<bar>val j\<bar> \<le> 4" and "\<bar>val i\<bar> \<le> 4"
proof -
  have s: "val (f_add (f_mul j j) (f_mul i i)) < 11"
    using assms by (simp add: stays_def f_less_iff val_f_int)
  define S :: real where "S = val (f_mul j j) + val (f_mul i i)"
  have "S - \<bar>S\<bar> / 1000 - 1 / 1000 < 11"
    using s rounded [OF f_add_error [of "f_mul j j" "f_mul i i"]] unfolding S_def by linarith
  then have "S < 12" by linarith
  then have "(val j)\<^sup>2 + (val i)\<^sup>2 < 16"
    using square_rounded [of j] square_rounded [of i] zero_le_power2 [of "val j"] zero_le_power2 [of "val i"]
    unfolding S_def by linarith
  then have "(val j)\<^sup>2 \<le> 16" "(val i)\<^sup>2 \<le> 16"
    using zero_le_power2 [of "val j"] zero_le_power2 [of "val i"] by linarith+
  then have "(val j)\<^sup>2 \<le> 4\<^sup>2" "(val i)\<^sup>2 \<le> 4\<^sup>2" by simp_all
  then show "\<bar>val j\<bar> \<le> 4" "\<bar>val i\<bar> \<le> 4" 
    using abs_le_square_iff [of "val j" 4] abs_le_square_iff [of "val i" 4] by simp_all
qed

text \<open>Every value the loop computes in a round.\<close>

definition computed :: "f32 \<Rightarrow> f32 \<Rightarrow> f32 \<Rightarrow> f32 \<Rightarrow> f32 list" where
  "computed x y r i =
     (let j = next_j x r i; i' = next_i y r i in
      [f_mul r r, f_mul i i, f_sub (f_mul r r) (f_mul i i), f_sub (f_sub (f_mul r r) (f_mul i i)) (f_int 2),
       f_div x (f_int 25), j, f_mul (f_int 2) r, f_mul (f_mul (f_int 2) r) i, f_div y (f_int 10), i',
       f_mul j j, f_mul i' i', f_add (f_mul j j) (f_mul i' i')])"

lemma computed_small:
  assumes "a \<in> {1..84}" and "b \<in> {-15..15}" and "\<bar>val r\<bar> \<le> 4" and "\<bar>val i\<bar> \<le> 4"
  shows "\<forall>v \<in> set (computed (f_int a) (f_int b) r i). \<bar>val v\<bar> \<le> 4000"
proof -
  have rr: "\<bar>val (f_mul r r)\<bar> \<le> 17" by (rule mul_bound [OF assms(3,3)]) simp
  have ii: "\<bar>val (f_mul i i)\<bar> \<le> 17" by (rule mul_bound [OF assms(4,4)]) simp
  have d: "\<bar>val (f_sub (f_mul r r) (f_mul i i))\<bar> \<le> 35" by (rule add_bound(2) [OF rr ii]) simp
  have two: "\<bar>val (f_int 2)\<bar> \<le> 2" by (simp add: val_f_int)
  have d2: "\<bar>val (f_sub (f_sub (f_mul r r) (f_mul i i)) (f_int 2))\<bar> \<le> 38" by (rule add_bound(2) [OF d two]) simp
  have x: "\<bar>val (f_div (f_int a) (f_int 25))\<bar> \<le> 5"
    using quotient_bound [of a 25 4] assms(1) by auto
  have j: "\<bar>val (next_j (f_int a) r i)\<bar> \<le> 44" unfolding next_j_def by (rule add_bound(1) [OF d2 x]) simp
  have r2: "\<bar>val (f_mul (f_int 2) r)\<bar> \<le> 9" by (rule mul_bound [OF two assms(3)]) simp
  have ri: "\<bar>val (f_mul (f_mul (f_int 2) r) i)\<bar> \<le> 37" by (rule mul_bound [OF r2 assms(4)]) simp
  have y: "\<bar>val (f_div (f_int b) (f_int 10))\<bar> \<le> 3"
    using quotient_bound [of b 10 2] assms(2) by auto linarith
  have i': "\<bar>val (next_i (f_int b) r i)\<bar> \<le> 41" unfolding next_i_def by (rule add_bound(1) [OF ri y]) simp
  have jj: "\<bar>val (f_mul (next_j (f_int a) r i) (next_j (f_int a) r i))\<bar> \<le> 1940" by (rule mul_bound [OF j j]) simp
  have ii': "\<bar>val (f_mul (next_i (f_int b) r i) (next_i (f_int b) r i))\<bar> \<le> 1690" by (rule mul_bound [OF i' i']) simp
  have "\<bar>val (f_add (f_mul (next_j (f_int a) r i) (next_j (f_int a) r i))
      (f_mul (next_i (f_int b) r i) (next_i (f_int b) r i)))\<bar> \<le> 4000"
    by (rule add_bound(1) [OF jj ii']) simp
  then show ?thesis
    using rr ii d d2 x j r2 ri y i' jj ii' by (simp add: computed_def Let_def)
qed

lemma orbit_small:
  assumes "\<forall>m < n. \<not> leaves x y m" and "orbit x y n = (r, i)"
  shows "\<bar>val r\<bar> \<le> 4 \<and> \<bar>val i\<bar> \<le> 4"
proof (cases n)
  case 0
  then show ?thesis using assms(2) by (auto simp: f_int_def round32_def)
next
  case (Suc m)
  then have "stays r i" using assms by (auto simp: leaves_def simp del: orbit.simps)
  then show ?thesis using stays_bound by blast
qed

section \<open>The mirror image\<close>

fun neg :: "f32 \<Rightarrow> f32" where
  "neg (F32 m e) = F32 (- m) e"

lemma half_even_flip:
  assumes "0 < r" and "r < (P :: int)"
  shows "(if 2 * (P - r) < P \<or> 2 * (P - r) = P \<and> even (- q - 1) then - q - 1 else - q - 1 + 1) =
    - (if 2 * r < P \<or> 2 * r = P \<and> even q then q else q + (1 :: int))"
  using assms by (cases "2 * r < P"; cases "2 * r = P"; cases "even q"; simp)

lemma round_half_even_minus: "round_half_even (- m) k = - round_half_even m k"
proof -
  define P where "P = (2 :: int) ^ k"
  define q r where "q = m div P" and "r = m mod P"
  have P: "0 < P" by (simp add: P_def)
  have r: "0 \<le> r" "r < P" using P unfolding r_def by simp_all
  have dm: "(- m) div P = (if r = 0 then - q else - q - 1)" "(- m) mod P = (if r = 0 then 0 else P - r)"
    using P unfolding q_def r_def by (simp_all add: zdiv_zminus1_eq_if zmod_zminus1_eq_if)
  show ?thesis
  proof (cases "r = 0")
    case True
    then show ?thesis
      using P dm unfolding round_half_even_def Let_def P_def [symmetric] q_def [symmetric] r_def [symmetric]
      by (simp only: if_True) simp
  next
    case False
    then show ?thesis
      using r dm unfolding round_half_even_def Let_def P_def [symmetric] q_def [symmetric] r_def [symmetric]
      by (simp only: if_False) (rule half_even_flip, simp_all)
  qed
qed

lemma round32_minus: "round32 (- m) e = neg (round32 m e)"
  by (simp add: round32_def Let_def round_half_even_minus)

lemma f_add_neg: "f_add (neg a) (neg b) = neg (f_add a b)"
proof (cases a; cases b)
  fix m e n d assume ab: "a = F32 m e" "b = F32 n d"
  show ?thesis
    using round32_minus [of "m * 2 ^ nat (e - min e d) + n * 2 ^ nat (d - min e d)" "min e d"]
    by (simp add: ab Let_def)
qed

lemma f_mul_neg: "f_mul a (neg b) = neg (f_mul a b)" "f_mul (neg a) b = neg (f_mul a b)"
  by (cases a; cases b; simp add: round32_minus)+

lemma neg_neg: "neg (neg a) = a"
  by (cases a) simp

lemma f_div_neg:
  assumes "0 < n"
  shows "f_div (neg a) (F32 n 0) = neg (f_div a (F32 n 0))"
proof (cases a)
  case (F32 m e)
  define q r where "q = m * 2 ^ 60 div n" and "r = m * 2 ^ 60 mod n"
  have "r < n" using assms by (simp add: r_def)
  have "- m * 2 ^ 60 div n = (if r = 0 then - q else - q - 1)" "- m * 2 ^ 60 mod n = (if r = 0 then 0 else n - r)"
    using assms by (simp_all add: q_def r_def zdiv_zminus1_eq_if zmod_zminus1_eq_if)
  then have "f_div (neg a) (F32 n 0) = round32 (- (2 * q + (if r = 0 then 0 else 1))) (e - 0 - 61)"
    using \<open>r < n\<close> by (simp add: F32 Let_def) (intro impI arg_cong2 [where f = round32], simp_all)
  then show ?thesis unfolding round32_minus by (simp add: F32 Let_def q_def r_def)
qed

lemma f_int_neg: "f_int (- n) = neg (f_int n)"
  using round32_minus [of n 0] by (simp add: f_int_def)

lemma orbit_neg: "orbit x (neg y) n = (fst (orbit x y n), neg (snd (orbit x y n)))"
proof (induction n)
  case 0
  then show ?case by (simp add: f_int_def round32_def)
next
  case (Suc n)
  then show ?case
    using f_div_neg [of 10 y]
    by (simp add: next_j_def next_i_def f_mul_neg neg_neg f_add_neg case_prod_beta f_int_small [of 10])
qed

lemma escape_neg: "escape_time x (neg y) = escape_time x y"
  by (simp add: escape_time_def leaves_def [abs_def] orbit_neg case_prod_beta stays_def f_mul_neg neg_neg del: orbit.simps)

lemma escape_mirror: "escape x (f_int (- b)) (f_int 0) (f_int 0) 0 = escape x (f_int b) (f_int 0) (f_int 0) 0"
  by (simp add: escape_eq f_int_neg escape_neg)

text \<open>
  C15: The innermost loop ends for every point of the picture: \<open>k\<close> is the number of the first round
  whose point leaves the circle, or 112 when the first 112 rounds stay inside. No value computed on the way
  exceeds 4000, so that no \<open>float\<close> operation overflows; and the picture is symmetric: the point
  mirrored at the middle line gives the same \<open>k\<close>, in spite of all rounding.
\<close>

theorem escape_counts_rounds:
  assumes "a \<in> {1..84}" and "b \<in> {-15..15}"
  shows "\<exists>n \<le> 112. escape (f_int a) (f_int b) (f_int 0) (f_int 0) 0 = of_nat n \<and>
    escape (f_int a) (f_int (- b)) (f_int 0) (f_int 0) 0 = of_nat n \<and>
    (\<forall>m < n. \<not> leaves (f_int a) (f_int b) m) \<and> (n < 112 \<longrightarrow> leaves (f_int a) (f_int b) n) \<and>
    (\<forall>m \<le> n. \<forall>v \<in> set (case_prod (computed (f_int a) (f_int b)) (orbit (f_int a) (f_int b) m)). \<bar>val v\<bar> \<le> 4000)"
proof (intro exI conjI)
  let ?n = "escape_time (f_int a) (f_int b)"
  show n: "?n \<le> 112" "\<forall>m < ?n. \<not> leaves (f_int a) (f_int b) m" "?n < 112 \<longrightarrow> leaves (f_int a) (f_int b) ?n"
    using escape_time_cases [of "f_int a" "f_int b"] by auto
  show "escape (f_int a) (f_int b) (f_int 0) (f_int 0) 0 = of_nat ?n"
    "escape (f_int a) (f_int (- b)) (f_int 0) (f_int 0) 0 = of_nat ?n"
    unfolding escape_mirror by (rule escape_eq)+
  show "\<forall>m \<le> ?n. \<forall>v \<in> set (case_prod (computed (f_int a) (f_int b)) (orbit (f_int a) (f_int b) m)). \<bar>val v\<bar> \<le> 4000"
  proof (intro allI impI)
    fix m assume "m \<le> ?n"
    then have "\<forall>l < m. \<not> leaves (f_int a) (f_int b) l" using n(2) by simp
    moreover obtain r i where o: "orbit (f_int a) (f_int b) m = (r, i)" by (cases "orbit (f_int a) (f_int b) m")
    ultimately have "\<bar>val r\<bar> \<le> 4 \<and> \<bar>val i\<bar> \<le> 4" using orbit_small by blast
    then show "\<forall>v \<in> set (case_prod (computed (f_int a) (f_int b)) (orbit (f_int a) (f_int b) m)). \<bar>val v\<bar> \<le> 4000"
      using computed_small [OF assms, of r i] o by simp
  qed
qed

text \<open>The corner of the picture, and a point near its middle.\<close>

lemma bit_length_eval:
  "bit_length 0 = 0" "bit_length (Suc 0) = Suc 0"
  "bit_length (numeral w) = Suc (bit_length (numeral w div 2))"
proof -
  show zero: "bit_length 0 = 0" by (subst bit_length.simps) simp
  show "bit_length (Suc 0) = Suc 0" by (subst bit_length.simps) (simp add: zero)
  show "bit_length (numeral w) = Suc (bit_length (numeral w div 2))" by (subst bit_length.simps) simp
qed

lemma corner: "escape (f_int 1) (f_int (- 15)) (f_int 0) (f_int 0) 0 = 1"
proof -
  note eval = f_int_small round32_def bit_length_eval round_half_even_def next_j_def next_i_def stays_def
  have 1: "next_j (f_int 1) (f_int 0) (f_int 0) = F32 (- 16441672) (- 23)"
    "next_i (f_int (- 15)) (f_int 0) (f_int 0) = F32 (- 12582912) (- 23)"
    "stays (F32 (- 16441672) (- 23)) (F32 (- 12582912) (- 23))"
    by (simp_all add: eval Let_def)
  have 2: "next_j (f_int 1) (F32 (- 16441672) (- 23)) (F32 (- 12582912) (- 23)) = F32 (- 12361447) (- 25)"
    "next_i (f_int (- 15)) (F32 (- 16441672) (- 23)) (F32 (- 12582912) (- 23)) = F32 9185526 (- 21)"
    "\<not> stays (F32 (- 12361447) (- 25)) (F32 9185526 (- 21))"
    by (simp_all add: eval Let_def)
  show ?thesis
    using 1 2 by (simp add: escape.simps [of _ _ "f_int 0"] escape.simps [of _ _ "F32 (- 16441672) (- 23)"] Let_def)
qed

theorem escape_counts_rounds_witness:
  "leaves (f_int 1) (f_int (- 15)) 1 \<and> \<not> leaves (f_int 1) (f_int (- 15)) 0 \<and>
   escape (f_int 1) (f_int 15) (f_int 0) (f_int 0) 0 = 1"
proof -
  obtain n where n: "n \<le> 112" "(1 :: i32) = of_nat n" "escape (f_int 1) (f_int 15) (f_int 0) (f_int 0) 0 = of_nat n"
      "\<forall>m < n. \<not> leaves (f_int 1) (f_int (- 15)) m" "n < 112 \<longrightarrow> leaves (f_int 1) (f_int (- 15)) n"
    using escape_counts_rounds [of 1 "- 15"] unfolding corner by auto
  have "unat (1 :: i32) = unat (of_nat n :: i32)" using n(2) by (rule arg_cong)
  then have "n = 1" using n(1) by (simp add: unat_of_nat)
  with n show ?thesis by simp
qed

end
