(* ===== verification/Memory.thy ===== *)
theory Memory
  imports Prelude
begin

text \<open>
  The memory the emulated program and the emulator share: a flat, byte-addressed 64-bit address
  space (UEFI runs the program in ring 0 with memory mapped identically, and a system call hands
  pointers over as plain \<open>uint64_t\<close> values). Multi-byte accesses are little-endian, as on x86-64.
  The file also states, once, what every indexed container of the model promises to its readers
  and writers (locale \<open>cells\<close>), and interprets it on the memory and on C arrays.
\<close>

unbundle bit_operations_syntax

section \<open>Containers of cells\<close>

text \<open>
  The interface: \<open>valid m i\<close> says that cell \<open>i\<close> exists, \<open>get\<close> reads it, \<open>put\<close> writes it.
\<close>

locale cells =
  fixes valid :: "'m \<Rightarrow> 'i \<Rightarrow> bool"
    and get :: "'m \<Rightarrow> 'i \<Rightarrow> 'v"
    and put :: "'i \<Rightarrow> 'v \<Rightarrow> 'm \<Rightarrow> 'm"
  assumes get_put_same: "valid m i \<Longrightarrow> get (put i v m) i = v"
    and get_put_other: "i \<noteq> j \<Longrightarrow> get (put i v m) j = get m j"
    and valid_put: "valid (put i v m) j \<longleftrightarrow> valid m j"
begin

text \<open>Writing a list of cells in order, and reading one that was not written.\<close>

lemma get_fold_put_other:
  "j \<notin> fst ` set ups \<Longrightarrow> get (fold (\<lambda>(i, v). put i v) ups m) j = get m j"
proof (induction ups arbitrary: m)
  case Nil
  then show ?case by simp
next
  case (Cons u ups)
  then show ?case by (cases u) (auto simp: get_put_other)
qed

lemma valid_fold_put: "valid (fold (\<lambda>(i, v). put i v) ups m) j \<longleftrightarrow> valid m j"
proof (induction ups arbitrary: m)
  case Nil
  then show ?case by simp
next
  case (Cons u ups)
  then show ?case by (cases u) (simp add: valid_put)
qed

text \<open>With distinct cells, every write of the list is read back.\<close>

lemma get_fold_put_same:
  assumes "distinct (map fst ups)" and "(i, v) \<in> set ups" and "valid m i"
  shows "get (fold (\<lambda>(i, v). put i v) ups m) i = v"
  using assms
proof (induction ups arbitrary: m)
  case Nil
  then show ?case by simp
next
  case (Cons u ups)
  obtain j w where u: "u = (j, w)" by (cases u)
  show ?case
  proof (cases "(i, v) = u")
    case True
    with Cons.prems(1) u have "i \<notin> fst ` set ups" by auto
    with True u Cons.prems(3) show ?thesis
      by (simp add: get_fold_put_other get_put_same)
  next
    case False
    with Cons.prems u have "(i, v) \<in> set ups" and "distinct (map fst ups)" by auto
    with u Cons.prems(3) show ?thesis by (simp add: Cons.IH valid_put)
  qed
qed

end

section \<open>Byte memory\<close>

type_synonym memory = "u64 \<Rightarrow> u8"

definition load8 :: "memory \<Rightarrow> u64 \<Rightarrow> u8" where
  "load8 m a = m a"

definition store8 :: "u64 \<Rightarrow> u8 \<Rightarrow> memory \<Rightarrow> memory" where
  "store8 a b m = m(a := b)"

interpretation ram: cells "\<lambda>_ _. True" load8 store8
  by unfold_locales (auto simp: load8_def store8_def)

text \<open>A C array of fixed length, indexed from 0.\<close>

interpretation carray: cells "\<lambda>xs i. i < length xs" "(!)" "\<lambda>i v xs. xs[i := v]"
  by unfold_locales auto

text \<open>A run of bytes, lowest address first.\<close>

fun load_bytes :: "memory \<Rightarrow> u64 \<Rightarrow> nat \<Rightarrow> u8 list" where
  "load_bytes m a 0 = []"
| "load_bytes m a (Suc n) = load8 m a # load_bytes m (a + 1) n"

fun store_bytes :: "u64 \<Rightarrow> u8 list \<Rightarrow> memory \<Rightarrow> memory" where
  "store_bytes a [] m = m"
| "store_bytes a (b # bs) m = store_bytes (a + 1) bs (store8 a b m)"

text \<open>The addresses of \<open>n\<close> bytes from \<open>a\<close> on, as a condition on the distance from \<open>a\<close>.\<close>

definition in_range :: "u64 \<Rightarrow> nat \<Rightarrow> u64 \<Rightarrow> bool" where
  "in_range a n x \<longleftrightarrow> unat (x - a) < n"

lemma length_load_bytes [simp]: "length (load_bytes m a n) = n"
  by (induction n arbitrary: a) auto

lemma nth_load_bytes: "i < n \<Longrightarrow> load_bytes m a n ! i = load8 m (a + of_nat i)"
proof (induction n arbitrary: a i)
  case 0
  then show ?case by simp
next
  case (Suc n)
  then show ?case
    by (cases i) (auto simp: add.assoc)
qed

text \<open>A run of writes is the list of its single writes.\<close>

fun byte_writes :: "u64 \<Rightarrow> u8 list \<Rightarrow> (u64 \<times> u8) list" where
  "byte_writes a [] = []"
| "byte_writes a (b # bs) = (a, b) # byte_writes (a + 1) bs"

lemma store_bytes_fold: "store_bytes a bs m = fold (\<lambda>(i, v). store8 i v) (byte_writes a bs) m"
  by (induction bs arbitrary: a m) auto

lemma set_byte_writes:
  "set (byte_writes a bs) = {(a + of_nat i, bs ! i) |i. i < length bs}"
proof (induction bs arbitrary: a)
  case Nil
  then show ?case by simp
next
  case (Cons b bs)
  have "{(a + of_nat i, (b # bs) ! i) |i. i < length (b # bs)} =
      insert (a, b) {(a + 1 + of_nat i, bs ! i) |i. i < length bs}" (is "?L = ?R")
  proof
    show "?L \<subseteq> ?R"
      by (auto simp: less_Suc_eq_0_disj add.assoc)
    have "(a + 1 + of_nat i, bs ! i) \<in> ?L" if "i < length bs" for i
      using that by (auto intro!: exI [of _ "Suc i"] simp: add.assoc)
    moreover have "(a, b) \<in> ?L"
      by (auto intro!: exI [of _ 0])
    ultimately show "?R \<subseteq> ?L" by auto
  qed
  with Cons show ?case by simp
qed

lemma map_fst_byte_writes: "map fst (byte_writes a bs) = map (\<lambda>i. a + of_nat i) [0..<length bs]"
proof (induction bs arbitrary: a)
  case Nil
  then show ?case by simp
next
  case (Cons b bs)
  have "[0..<length (b # bs)] = 0 # map Suc [0..<length bs]"
    by (simp add: map_Suc_upt upt_conv_Cons del: upt_Suc)
  with Cons show ?case by (simp add: o_def add.assoc)
qed

lemma distinct_byte_writes:
  "length bs \<le> 2 ^ 64 \<Longrightarrow> distinct (map fst (byte_writes a bs))"
  by (auto simp: map_fst_byte_writes distinct_map inj_on_def of_nat_u64_eq_iff)

lemma load8_store_bytes_other:
  assumes "\<not> in_range a (length bs) x"
  shows "load8 (store_bytes a bs m) x = load8 m x"
proof -
  have "x \<notin> fst ` set (byte_writes a bs)"
  proof
    assume "x \<in> fst ` set (byte_writes a bs)"
    then obtain i where "i < length bs" and "x = a + of_nat i"
      by (auto simp: set_byte_writes)
    then have "unat (x - a) \<le> i" by (simp add: unat_of_nat)
    with \<open>i < length bs\<close> assms show False by (simp add: in_range_def)
  qed
  then show ?thesis by (simp add: store_bytes_fold ram.get_fold_put_other)
qed

lemma load_bytes_store_bytes_same:
  assumes "length bs \<le> 2 ^ 64" and "n = length bs"
  shows "load_bytes (store_bytes a bs m) a n = bs"
proof (rule nth_equalityI)
  fix i assume i: "i < length (load_bytes (store_bytes a bs m) a n)"
  have "(a + of_nat i, bs ! i) \<in> set (byte_writes a bs)"
    using i assms by (auto simp: set_byte_writes)
  then have "load8 (store_bytes a bs m) (a + of_nat i) = bs ! i"
    unfolding store_bytes_fold
    by (rule ram.get_fold_put_same [OF distinct_byte_writes [OF assms(1)]]) simp
  with i show "load_bytes (store_bytes a bs m) a n ! i = bs ! i"
    by (simp add: nth_load_bytes)
qed (simp add: assms)

lemma load_bytes_cong:
  "(\<And>x. in_range a n x \<Longrightarrow> load8 m x = load8 m' x) \<Longrightarrow> n \<le> 2 ^ 64
     \<Longrightarrow> load_bytes m a n = load_bytes m' a n"
  by (rule nth_equalityI) (auto simp: nth_load_bytes in_range_def unat_of_nat)

text \<open>Two runs of bytes with no address in common.\<close>

definition disjoint :: "u64 \<Rightarrow> nat \<Rightarrow> u64 \<Rightarrow> nat \<Rightarrow> bool" where
  "disjoint a n b k \<longleftrightarrow> n \<le> unat (b - a) \<and> k \<le> unat (a - b)"

lemma disjoint_not_in_range:
  assumes "disjoint a n b k" and "in_range b k x"
  shows "\<not> in_range a n x"
proof
  assume "in_range a n x"
  with assms have *: "unat (x - a) < n" "unat (x - b) < k" "n \<le> unat (b - a)" "k \<le> unat (a - b)"
    by (simp_all add: in_range_def disjoint_def)
  moreover have "unat a < 2 ^ 64" "unat b < 2 ^ 64" "unat x < 2 ^ 64"
    using unsigned_less [of a] unsigned_less [of b] unsigned_less [of x] by simp_all
  ultimately show False
    by (simp add: unat_sub_if' split: if_splits)
qed

lemma load_bytes_store_bytes_disjoint:
  assumes "disjoint a (length bs) b k" and "k \<le> 2 ^ 64"
  shows "load_bytes (store_bytes a bs m) b k = load_bytes m b k"
  by (rule load_bytes_cong [OF _ assms(2)])
    (auto intro: load8_store_bytes_other dest: disjoint_not_in_range [OF assms(1)])

section \<open>Little-endian scalars\<close>

definition le_bytes :: "nat \<Rightarrow> 'a::len word \<Rightarrow> u8 list" where
  "le_bytes n w = map (\<lambda>i. ucast (drop_bit (8 * i) w)) [0..<n]"

fun of_le_bytes :: "u8 list \<Rightarrow> 'a::len word" where
  "of_le_bytes [] = 0"
| "of_le_bytes (b # bs) = ucast b OR push_bit 8 (of_le_bytes bs)"

lemma length_le_bytes [simp]: "length (le_bytes n w) = n"
  by (simp add: le_bytes_def)

lemma bit_of_le_bytes:
  "bit (of_le_bytes bs :: 'a::len word) k \<longleftrightarrow>
     k < LENGTH('a) \<and> k div 8 < length bs \<and> bit (bs ! (k div 8)) (k mod 8)"
proof (induction bs arbitrary: k)
  case Nil
  then show ?case by simp
next
  case (Cons b bs)
  show ?case
  proof (cases "k < 8")
    case True
    then show ?thesis
      by (auto simp: bit_or_iff bit_ucast_iff bit_push_bit_iff)
  next
    case False
    then obtain j where k: "k = j + 8"
      by (metis add.commute le_Suc_ex not_less)
    have "\<not> bit b (j + 8)"
      by (auto dest: bit_imp_le_length)
    moreover have "(j + 8) div 8 = Suc (j div 8)"
      by simp
    ultimately show ?thesis
      by (auto simp: bit_or_iff bit_ucast_iff bit_push_bit_iff k Cons)
  qed
qed

lemma of_le_bytes_le_bytes:
  fixes w :: "'a::len word"
  assumes "8 * n = LENGTH('a)"
  shows "of_le_bytes (le_bytes n w) = w"
proof (rule bit_word_eqI)
  fix k assume k: "k < LENGTH('a)"
  then have "k div 8 < n" using assms by simp
  then have "bit (of_le_bytes (le_bytes n w) :: 'a word) k
      \<longleftrightarrow> bit w (8 * (k div 8) + k mod 8)"
    using k by (simp add: bit_of_le_bytes le_bytes_def bit_ucast_iff bit_drop_bit_eq)
  then show "bit (of_le_bytes (le_bytes n w) :: 'a word) k = bit w k"
    by simp
qed

definition load16 :: "memory \<Rightarrow> u64 \<Rightarrow> u16" where
  "load16 m a = of_le_bytes (load_bytes m a 2)"

definition load32 :: "memory \<Rightarrow> u64 \<Rightarrow> u32" where
  "load32 m a = of_le_bytes (load_bytes m a 4)"

definition load64 :: "memory \<Rightarrow> u64 \<Rightarrow> u64" where
  "load64 m a = of_le_bytes (load_bytes m a 8)"

definition store16 :: "u64 \<Rightarrow> u16 \<Rightarrow> memory \<Rightarrow> memory" where
  "store16 a v m = store_bytes a (le_bytes 2 v) m"

definition store32 :: "u64 \<Rightarrow> u32 \<Rightarrow> memory \<Rightarrow> memory" where
  "store32 a v m = store_bytes a (le_bytes 4 v) m"

definition store64 :: "u64 \<Rightarrow> u64 \<Rightarrow> memory \<Rightarrow> memory" where
  "store64 a v m = store_bytes a (le_bytes 8 v) m"

named_theorems mem_simps \<open>reading memory back after writes\<close>

lemma load_store_same [mem_simps]:
  "load16 (store16 a v16 m) a = v16"
  "load32 (store32 a v32 m) a = v32"
  "load64 (store64 a v64 m) a = v64"
  by (simp_all add: load16_def load32_def load64_def store16_def store32_def store64_def
      load_bytes_store_bytes_same of_le_bytes_le_bytes)

lemma load32_store_other [mem_simps]:
  "disjoint a 4 b 4 \<Longrightarrow> load32 (store32 a w m) b = load32 m b"
  "disjoint a 8 b 4 \<Longrightarrow> load32 (store64 a v m) b = load32 m b"
  by (simp_all add: load32_def store32_def store64_def load_bytes_store_bytes_disjoint)

lemma load64_store_other [mem_simps]:
  "disjoint a 4 b 8 \<Longrightarrow> load64 (store32 a w m) b = load64 m b"
  "disjoint a 8 b 8 \<Longrightarrow> load64 (store64 a v m) b = load64 m b"
  by (simp_all add: load64_def store32_def store64_def load_bytes_store_bytes_disjoint)

text \<open>Fields of one structure: both addresses are offsets from the same base.\<close>

lemma disjoint_offsets [mem_simps]:
  "disjoint (p + x) n (p + y) k \<longleftrightarrow> n \<le> unat (y - x) \<and> k \<le> unat (x - y)"
  "disjoint p n (p + y) k \<longleftrightarrow> n \<le> unat y \<and> k \<le> unat (- y)"
  "disjoint (p + x) n p k \<longleftrightarrow> n \<le> unat (- x) \<and> k \<le> unat x"
  by (simp_all add: disjoint_def)

end
