(* ===== verification/Firmware.thy ===== *)
theory Firmware
  imports Prelude
begin

text \<open>
  The boundary of the model. UEFI firmware and the gnu-efi headers are not part of the
  repository: their constants and services are parameters of every definition that uses them,
  collected in the records \<open>efi_consts\<close> and \<open>firmware\<close>. A service takes the state of the outside
  world (type \<open>'w\<close>) and returns its \<open>EFI_STATUS\<close>, its outputs and the new world. What a theorem
  relies on about a service is a named hypothesis over these records.
\<close>

unbundle bit_operations_syntax

section \<open>Data the sources exchange with the firmware\<close>

text \<open>The members of \<open>EFI_TIME\<close> that \<open>time_efi_time_to_time_t\<close> reads, at their widths.\<close>

record efi_time =
  Year :: u16
  Month :: u8
  Day :: u8
  Hour :: u8
  Minute :: u8
  Second :: u8

text \<open>\<open>EFI_TIME efi_time = {0}\<close>.\<close>

definition zero_time :: efi_time where
  "zero_time = \<lparr>Year = 0, Month = 0, Day = 0, Hour = 0, Minute = 0, Second = 0\<rparr>"

text \<open>The members of \<open>EFI_FILE_INFO\<close> the sources use; \<open>FileName\<close> is the array up to its NUL.\<close>

record efi_file_info =
  FileSize :: u64
  PhysicalSize :: u64
  CreateTime :: efi_time
  LastAccessTime :: efi_time
  ModificationTime :: efi_time
  Attribute :: u64
  FileName :: "u16 list"

text \<open>
  What the \<open>Buffer\<close> argument of \<open>SetInfo\<close> points to: a file-information structure, or (the call
  in \<open>fd_efi_set_file_info\<close>, which passes \<open>&info\<close> for a parameter \<open>info\<close> that is a pointer
  already) the variable that holds the address of that structure.
\<close>

datatype setinfo_buffer = Info_struct efi_file_info | Info_pointer_variable efi_file_info

section \<open>Constants of the EFI headers\<close>

record efi_consts =
  EFI_SUCCESS :: u64
  EFI_WRITE_PROTECTED :: u64
  EFI_ACCESS_DENIED :: u64
  EFI_VOLUME_FULL :: u64
  EFI_NOT_FOUND :: u64
  EFI_INVALID_PARAMETER :: u64
  EFI_ABORTED :: u64
  EFI_END_OF_FILE :: u64
  EFI_FILE_MODE_READ :: u64
  EFI_FILE_MODE_WRITE :: u64
  EFI_FILE_MODE_CREATE :: u64
  EFI_FILE_DIRECTORY :: u64
  EFI_ERROR :: "u64 \<Rightarrow> bool"

section \<open>Services\<close>

record 'w firmware =
  hdr :: efi_consts
  handle_loaded_image :: "u64 \<Rightarrow> 'w \<Rightarrow> u64 \<times> u64 option \<times> 'w"
    \<comment> \<open>\<open>HandleProtocol\<close> for the loaded image: status, its \<open>DeviceHandle\<close> if one was found\<close>
  handle_file_system :: "u64 \<Rightarrow> 'w \<Rightarrow> u64 \<times> u64 option \<times> 'w"
    \<comment> \<open>\<open>HandleProtocol\<close> for the file system of a device: status, its interface\<close>
  open_volume :: "u64 \<Rightarrow> 'w \<Rightarrow> u64 \<times> u64 option \<times> 'w"
    \<comment> \<open>\<open>OpenVolume\<close>: status, the root directory\<close>
  f_open :: "u64 \<Rightarrow> u16 list \<Rightarrow> u64 \<Rightarrow> u64 \<Rightarrow> 'w \<Rightarrow> u64 \<times> u64 \<times> 'w"
    \<comment> \<open>\<open>Open(This, path, mode, attributes)\<close>: status, new handle\<close>
  f_close :: "u64 \<Rightarrow> 'w \<Rightarrow> u64 \<times> 'w"
  f_flush :: "u64 \<Rightarrow> 'w \<Rightarrow> u64 \<times> 'w"
  f_read :: "u64 \<Rightarrow> u64 \<Rightarrow> 'w \<Rightarrow> u64 \<times> u64 \<times> u8 list \<times> 'w"
    \<comment> \<open>\<open>Read(This, &size, buffer)\<close>: status, new size, bytes put into the buffer\<close>
  f_read_entry :: "u64 \<Rightarrow> 'w \<Rightarrow> u64 \<times> efi_file_info option \<times> 'w"
    \<comment> \<open>\<open>Read\<close> into a buffer of type \<open>EFI_FILE_INFO\<close>: status, the structure if one was written\<close>
  f_write :: "u64 \<Rightarrow> u64 \<Rightarrow> u8 list \<Rightarrow> 'w \<Rightarrow> u64 \<times> u64 \<times> 'w"
    \<comment> \<open>\<open>Write(This, &size, buffer)\<close>: status, new size\<close>
  f_getpos :: "u64 \<Rightarrow> 'w \<Rightarrow> u64 \<times> u64 \<times> 'w"
  f_setpos :: "u64 \<Rightarrow> u64 \<Rightarrow> 'w \<Rightarrow> u64 \<times> 'w"
  f_getinfo :: "u64 \<Rightarrow> 'w \<Rightarrow> u64 \<times> efi_file_info \<times> 'w"
  f_setinfo :: "u64 \<Rightarrow> setinfo_buffer \<Rightarrow> 'w \<Rightarrow> u64 \<times> 'w"
  out_string :: "u16 list \<Rightarrow> 'w \<Rightarrow> u64 \<times> 'w"
    \<comment> \<open>\<open>ConOut->OutputString\<close>, the characters before the NUL\<close>
  wait_for_key :: "'w \<Rightarrow> u64 \<times> 'w"
  read_key :: "'w \<Rightarrow> u64 \<times> u16 \<times> 'w"
    \<comment> \<open>\<open>ConIn->ReadKeyStroke\<close>: status, what \<open>key.UnicodeChar\<close> holds afterwards\<close>
  stall :: "u64 \<Rightarrow> 'w \<Rightarrow> u64 \<times> 'w"
  allocate_pool :: "u64 \<Rightarrow> 'w \<Rightarrow> u64 \<times> u64 \<times> 'w"
  free_pool :: "u64 \<Rightarrow> 'w \<Rightarrow> u64 \<times> 'w"
  get_time :: "'w \<Rightarrow> u64 \<times> efi_time option \<times> 'w"
    \<comment> \<open>\<open>RT->GetTime\<close>: status, the time if one was written\<close>
  bs_exit :: "u64 \<Rightarrow> u64 \<Rightarrow> 'w \<Rightarrow> bool \<times> 'w"
    \<comment> \<open>\<open>BS->Exit(image, status)\<close>: does control stay away from the image?\<close>
  reset_system :: "reset_type \<Rightarrow> 'w \<Rightarrow> bool \<times> 'w"
    \<comment> \<open>\<open>RT->ResetSystem\<close>: does control stay away from the caller?\<close>

section \<open>Documented values\<close>

text \<open>
  The values the UEFI specification gives to these constants. No definition of the model uses
  them; theorems take \<open>uefi_consts\<close> as a hypothesis on the parameter, and witnesses as its value.
\<close>

definition efi_err :: "u64 \<Rightarrow> u64" where
  "efi_err n = 0x8000000000000000 OR n"

definition uefi_consts :: efi_consts where
  "uefi_consts = \<lparr>
     EFI_SUCCESS = 0,
     EFI_WRITE_PROTECTED = efi_err 8,
     EFI_ACCESS_DENIED = efi_err 15,
     EFI_VOLUME_FULL = efi_err 11,
     EFI_NOT_FOUND = efi_err 14,
     EFI_INVALID_PARAMETER = efi_err 2,
     EFI_ABORTED = efi_err 21,
     EFI_END_OF_FILE = efi_err 31,
     EFI_FILE_MODE_READ = 1,
     EFI_FILE_MODE_WRITE = 2,
     EFI_FILE_MODE_CREATE = 0x8000000000000000,
     EFI_FILE_DIRECTORY = 0x10,
     EFI_ERROR = (\<lambda>st. bit st 63)\<rparr>"

end
