(* ===== verification/Machine.thy ===== *)
theory Machine
  imports Memory Firmware
begin

text \<open>
  The state of the emulator (the globals of \<open>src/linux-uefi.c\<close>, the program's memory and \<open>errno\<close>,
  and the outside world), its start-up code, and the two helpers every other component uses:
  \<open>bstr_to_wstr\<close> (byte string to \<open>CHAR16\<close> string) and \<open>efi_status_to_errno\<close>.
\<close>

unbundle bit_operations_syntax

section \<open>Constants\<close>

abbreviation (input) MAX_FDS :: nat where "MAX_FDS \<equiv> 16"
abbreviation (input) VIRTUAL_FD_BASE :: nat where "VIRTUAL_FD_BASE \<equiv> 4"
abbreviation (input) EMU_PID :: "'a::len word" where "EMU_PID \<equiv> 2"
abbreviation (input) EMU_UID :: "'a::len word" where "EMU_UID \<equiv> 1000"
abbreviation (input) EMU_GID :: "'a::len word" where "EMU_GID \<equiv> 1000"

abbreviation (input) EPERM :: "'a::len word" where "EPERM \<equiv> 1"
abbreviation (input) ENOENT :: "'a::len word" where "ENOENT \<equiv> 2"
abbreviation (input) ESRCH :: "'a::len word" where "ESRCH \<equiv> 3"
abbreviation (input) EIO :: "'a::len word" where "EIO \<equiv> 5"
abbreviation (input) EBADF :: "'a::len word" where "EBADF \<equiv> 9"
abbreviation (input) ENOMEM :: "'a::len word" where "ENOMEM \<equiv> 12"
abbreviation (input) EACCES :: "'a::len word" where "EACCES \<equiv> 13"
abbreviation (input) ENOTDIR :: "'a::len word" where "ENOTDIR \<equiv> 20"
abbreviation (input) EISDIR :: "'a::len word" where "EISDIR \<equiv> 21"
abbreviation (input) EINVAL :: "'a::len word" where "EINVAL \<equiv> 22"
abbreviation (input) EMFILE :: "'a::len word" where "EMFILE \<equiv> 24"
abbreviation (input) ENOSPC :: "'a::len word" where "ENOSPC \<equiv> 28"
abbreviation (input) EROFS :: "'a::len word" where "EROFS \<equiv> 30"
abbreviation (input) ENOSYS :: "'a::len word" where "ENOSYS \<equiv> 38"
abbreviation (input) ENOTSUP :: "'a::len word" where "ENOTSUP \<equiv> 95"

abbreviation (input) O_WRONLY :: i32 where "O_WRONLY \<equiv> 0x1"
abbreviation (input) O_RDWR :: i32 where "O_RDWR \<equiv> 0x2"
abbreviation (input) O_CREAT :: i32 where "O_CREAT \<equiv> 0x40"
abbreviation (input) O_APPEND :: i32 where "O_APPEND \<equiv> 0x400"
abbreviation (input) O_DIRECTORY :: i32 where "O_DIRECTORY \<equiv> 0x10000"

abbreviation (input) SEEK_SET :: i32 where "SEEK_SET \<equiv> 0"
abbreviation (input) SEEK_CUR :: i32 where "SEEK_CUR \<equiv> 1"
abbreviation (input) SEEK_END :: i32 where "SEEK_END \<equiv> 2"

section \<open>State\<close>

text \<open>
  A file handle is an \<open>EFI_FILE_HANDLE\<close> pointer kept as its address; \<open>0\<close> is the null handle.
  \<open>errno\<close> is the global of \<open>nolibc/errno.h\<close>; the emulator itself never writes it.
\<close>

record 'w machine =
  Image_handle :: u64
  Volume_handle :: u64
  fds :: "u64 list"
  fres :: "u8 list"
  mem :: memory
  errno :: i32
  world :: 'w

text \<open>The static objects have the size they are declared with.\<close>

definition wf_machine :: "'w machine \<Rightarrow> bool" where
  "wf_machine s \<longleftrightarrow> length (fds s) = MAX_FDS \<and> length (fres s) = 1024"

section \<open>C arrays and strings\<close>

text \<open>A write into an array object: \<open>None\<close> when the index is outside the object.\<close>

definition arr_put :: "nat \<Rightarrow> 'v \<Rightarrow> 'v list \<Rightarrow> 'v list option" where
  "arr_put i v xs = (if i < length xs then Some (xs[i := v]) else None)"

definition arr_get :: "'v list \<Rightarrow> nat \<Rightarrow> 'v option" where
  "arr_get xs i = (if i < length xs then Some (xs ! i) else None)"

text \<open>A wide string literal, and the \<open>CHAR16\<close> units stored in a byte array.\<close>

definition wide :: "string \<Rightarrow> u16 list" where
  "wide cs = map of_char cs"

fun wide_chars :: "u8 list \<Rightarrow> u16 list" where
  "wide_chars (lo # hi # bs) = (ucast lo OR push_bit 8 (ucast hi)) # wide_chars bs"
| "wide_chars bs = []"

text \<open>What a reader of a NUL-terminated string sees.\<close>

definition before_nul :: "'a::len word list \<Rightarrow> 'a word list" where
  "before_nul xs = takeWhile (\<lambda>x. x \<noteq> 0) xs"

section \<open>Byte strings to wide strings\<close>

text \<open>
  The loop of \<open>bstr_to_wstr\<close> over the static buffer \<open>fres\<close>; \<open>510\<close> is \<open>sizeof(fres)/2 - 2\<close>.
  \<open>Inl\<close> reports a write outside the buffer.
\<close>

partial_function (option) bstr_loop ::
  "memory \<Rightarrow> u64 \<Rightarrow> nat \<Rightarrow> u8 list \<Rightarrow> (ub + nat \<times> u8 list) option" where
  "bstr_loop m input it buf =
     (let c = load8 m (input + of_nat it) in
      if c \<noteq> 0 \<and> it \<noteq> 510 then
        (case arr_put (it * 2) c buf of
           None \<Rightarrow> Some (Inl Oob_write)
         | Some buf1 \<Rightarrow>
             (case arr_put (it * 2 + 1) 0 buf1 of
                None \<Rightarrow> Some (Inl Oob_write)
              | Some buf2 \<Rightarrow> bstr_loop m input (it + 1) buf2))
      else Some (Inr (it, buf)))"

text \<open>
  The function returns the buffer's address; every caller hands it to the firmware at once, so
  the model returns the string found there.
\<close>

definition bstr_to_wstr :: "u64 \<Rightarrow> 'w machine \<Rightarrow> ('w machine, u16 list) outcome" where
  "bstr_to_wstr input s =
     (if input = 0 then Undef Null_deref
      else
      case bstr_loop (mem s) input 0 (fres s) of
        None \<Rightarrow> Diverge
      | Some (Inl u) \<Rightarrow> Undef u
      | Some (Inr (it, buf)) \<Rightarrow>
          (case arr_put (it * 2) 0 buf of
             None \<Rightarrow> Undef Oob_write
           | Some buf1 \<Rightarrow>
               (case arr_put (it * 2 + 1) 0 buf1 of
                  None \<Rightarrow> Undef Oob_write
                | Some buf2 \<Rightarrow> Ret (before_nul (wide_chars buf2)) (s\<lparr>fres := buf2\<rparr>))))"

section \<open>Status codes\<close>

definition efi_status_to_errno :: "efi_consts \<Rightarrow> u64 \<Rightarrow> i32" where
  "efi_status_to_errno h status =
     (let c = status AND 0xffff in
      if c = EFI_WRITE_PROTECTED h AND 0xffff then EROFS
      else if c = EFI_ACCESS_DENIED h AND 0xffff then EACCES
      else if c = EFI_VOLUME_FULL h AND 0xffff then ENOSPC
      else if c = EFI_NOT_FOUND h AND 0xffff then ENOENT
      else if c = EFI_INVALID_PARAMETER h AND 0xffff then EINVAL
      else EIO)"

text \<open>The tail most handlers share: \<open>if (EFI_ERROR(status)) return -efi_status_to_errno(status)\<close>.\<close>

definition check_status :: "efi_consts \<Rightarrow> u64 \<Rightarrow> 'a::len word \<Rightarrow> 'a word" where
  "check_status h status ok = (if EFI_ERROR h status then scast (- efi_status_to_errno h status) else ok)"

section \<open>Start-up\<close>

definition GetVolume :: "'w firmware \<Rightarrow> u64 \<Rightarrow> 'w machine \<Rightarrow> ('w machine, u64) outcome" where
  "GetVolume fw img s =
     (case handle_loaded_image fw img (world s) of
        (_, None, w) \<Rightarrow> Undef Null_deref
      | (_, Some dev, w) \<Rightarrow>
          (case handle_file_system fw dev w of
             (_, None, w) \<Rightarrow> Undef Uninit_read
           | (_, Some io, w) \<Rightarrow>
               (case open_volume fw io w of
                  (_, None, w) \<Rightarrow> Undef Uninit_read
                | (_, Some v, w) \<Rightarrow> Ret v (s\<lparr>world := w\<rparr>))))"

text \<open>
  \<open>efi_main\<close>, the entry point: the globals are set, the program's \<open>main\<close> runs, and its result
  becomes the status of the image. \<open>main\<close> is the program linked against the emulator.
\<close>

definition efi_init :: "'w firmware \<Rightarrow> u64 \<Rightarrow> 'w machine \<Rightarrow> ('w machine, unit) outcome" where
  "efi_init fw ImageHandle s =
     bind_out (GetVolume fw ImageHandle (s\<lparr>Image_handle := ImageHandle\<rparr>)) (\<lambda>v s.
       let s = s\<lparr>Volume_handle := v, fds := replicate MAX_FDS 0\<rparr>;
           (_, w) = out_string fw (wide (''Initialized! Calling main()...'' @ [CHR 0x0D, CHR 0x0A])) (world s)
       in Ret () (s\<lparr>world := w\<rparr>))"

definition efi_main ::
  "'w firmware \<Rightarrow> ('w machine \<Rightarrow> ('w machine, i32) outcome) \<Rightarrow> u64 \<Rightarrow> 'w machine
     \<Rightarrow> ('w machine, u64) outcome" where
  "efi_main fw main ImageHandle s =
     bind_out (efi_init fw ImageHandle s) (\<lambda>_ s.
       bind_out (main s) (\<lambda>r s.
         Ret (if r \<noteq> 0 then EFI_END_OF_FILE (hdr fw) else EFI_SUCCESS (hdr fw)) s))"

section \<open>Facts on arrays, strings and the conversion\<close>

lemma arr_put_Some [simp]: "i < length xs \<Longrightarrow> arr_put i v xs = Some (xs[i := v])"
  by (simp add: arr_put_def)

lemma arr_put_eq_None [simp]: "arr_put i v xs = None \<longleftrightarrow> length xs \<le> i"
  by (simp add: arr_put_def not_less)

lemma wide_chars_interleave [simp]:
  "wide_chars (concat (map (\<lambda>c. [c, 0]) cs) @ bs) = map ucast cs @ wide_chars bs"
  by (induction cs) auto

lemma before_nul_append_zero [simp]: "0 \<notin> set xs \<Longrightarrow> before_nul (xs @ 0 # ys) = xs"
  unfolding before_nul_def by (subst takeWhile_append2) auto

lemma before_nul_set: "x \<in> set (before_nul xs) \<Longrightarrow> x \<noteq> 0"
  unfolding before_nul_def by (auto dest: set_takeWhileD)

lemma update_two:
  assumes "Suc n < length xs"
  shows "xs[n := a, Suc n := b] = take n xs @ a # b # drop (Suc (Suc n)) xs"
  using assms
proof (induction n arbitrary: xs)
  case 0
  then show ?case
    by (cases xs; cases "tl xs") auto
next
  case (Suc n)
  then show ?case by (cases xs) auto
qed

text \<open>
  The loop copies the bytes before the NUL, at most 510 of them, as pairs of a byte and a zero;
  it stays inside the buffer and ends.
\<close>

lemma bstr_loop_runs:
  assumes "it \<le> 510" and "length buf = 1024"
  shows "bstr_loop m p it buf =
    (let cs = before_nul (load_bytes m (p + of_nat it) (510 - it)) in
     Some (Inr (it + length cs,
       take (2 * it) buf @ concat (map (\<lambda>c. [c, 0]) cs) @ drop (2 * (it + length cs)) buf)))"
  using assms
proof (induction "510 - it" arbitrary: it buf)
  case 0
  then have "it = 510" by simp
  then show ?case
    by (simp add: bstr_loop.simps before_nul_def)
next
  case (Suc n)
  let ?c = "load8 m (p + of_nat it)"
  from Suc.hyps(2) have it: "it < 510" and n: "510 - it = Suc (510 - Suc it)" by auto
  show ?case
  proof (cases "?c = 0")
    case True
    then show ?thesis
      by (simp add: bstr_loop.simps [of m p it] before_nul_def n)
  next
    case False
    let ?buf = "buf[2 * it := ?c, Suc (2 * it) := 0]"
    have buf: "?buf = take (2 * it) buf @ ?c # 0 # drop (Suc (Suc (2 * it))) buf"
      using it Suc.prems(2) by (intro update_two) simp
    have step: "bstr_loop m p it buf = bstr_loop m p (Suc it) ?buf"
      using False it Suc.prems(2) by (simp add: bstr_loop.simps [of m p it] mult.commute)
    have IH: "bstr_loop m p (Suc it) ?buf =
      (let cs = before_nul (load_bytes m (p + of_nat (Suc it)) (510 - Suc it)) in
        Some (Inr (Suc it + length cs,
         take (2 * Suc it) ?buf @ concat (map (\<lambda>c. [c, 0]) cs) @ drop (2 * (Suc it + length cs)) ?buf)))"
      by (rule Suc.hyps(1)) (use Suc it in auto)
    have cs: "before_nul (load_bytes m (p + of_nat it) (510 - it)) =
       ?c # before_nul (load_bytes m (p + of_nat (Suc it)) (510 - Suc it))"
      using False by (simp add: before_nul_def n ac_simps)
    have t: "take (2 * Suc it) ?buf = take (2 * it) buf @ [?c, 0]"
      by (subst buf) (use Suc.prems(2) it in simp)
    have d: "drop (2 * (Suc it + k)) ?buf = drop (2 * (it + Suc k)) buf" for k
      by (simp add: drop_update_cancel)
    show ?thesis
      unfolding step IH cs Let_def t d by simp
  qed
qed

lemma bstr_to_wstr_null [simp]: "bstr_to_wstr 0 s = Undef Null_deref"
  by (simp add: bstr_to_wstr_def)

lemma bstr_to_wstr_returns:
  assumes "length (fres s) = 1024" and "p \<noteq> 0"
  shows "\<exists>buf. length buf = 1024 \<and> bstr_to_wstr p s =
    Ret (map ucast (before_nul (load_bytes (mem s) p 510))) (s\<lparr>fres := buf\<rparr>)"
proof -
  define cs where "cs = before_nul (load_bytes (mem s) p 510)"
  define buf where "buf = concat (map (\<lambda>c. [c, 0]) cs) @ drop (2 * length cs) (fres s)"
  have len: "length cs \<le> 510"
    unfolding cs_def before_nul_def by (metis length_load_bytes length_takeWhile_le)
  have conc: "length (concat (map (\<lambda>c. [c, 0 :: u8]) cs)) = 2 * length cs"
    by (induction cs) auto
  have loop: "bstr_loop (mem s) p 0 (fres s) = Some (Inr (length cs, buf))"
    using bstr_loop_runs [of 0 "fres s" "mem s" p] assms by (simp add: Let_def cs_def buf_def)
  have lbuf: "length buf = 1024"
    using conc assms len by (simp add: buf_def)
  have upd: "buf[2 * length cs := 0, Suc (2 * length cs) := 0]
      = concat (map (\<lambda>c. [c, 0]) cs) @ 0 # 0 # drop (Suc (Suc (2 * length cs))) buf" (is "?buf = _")
    using len lbuf conc by (subst update_two) (simp_all add: buf_def)
  have nz: "0 \<notin> set (map ucast cs :: u16 list)"
    using before_nul_set [of _ "load_bytes (mem s) p 510"] by (auto simp: cs_def ucast_up_eq_0)
  have "before_nul (wide_chars ?buf) = map ucast cs"
    unfolding upd using nz by simp
  then have "bstr_to_wstr p s = Ret (map ucast cs) (s\<lparr>fres := ?buf\<rparr>)"
    using loop lbuf len assms(2) by (simp add: bstr_to_wstr_def mult.commute)
  moreover have "length ?buf = 1024" using lbuf by simp
  ultimately show ?thesis unfolding cs_def by blast
qed

text \<open>Every error number the translation produces is positive.\<close>

lemma efi_status_to_errno_range:
  "efi_status_to_errno h st \<in> {EROFS, EACCES, ENOSPC, ENOENT, EINVAL, EIO}"
  by (auto simp: efi_status_to_errno_def Let_def)

lemma sint_neg_errno: "sint (- efi_status_to_errno h st) < 0"
  using efi_status_to_errno_range [of h st] by auto

section \<open>Frames\<close>

text \<open>
  The part of the state that only the descriptor table's own operations (and start-up) may change.
  A handler that does not work on the table keeps every frame, however it ends.
\<close>

definition frame :: "'w machine \<Rightarrow> u64 \<times> u64 \<times> u64 list \<times> nat \<times> i32" where
  "frame s = (Image_handle s, Volume_handle s, fds s, length (fres s), errno s)"

abbreviation in_frame :: "u64 \<times> u64 \<times> u64 list \<times> nat \<times> i32 \<Rightarrow> 'w machine \<Rightarrow> bool" where
  "in_frame f s \<equiv> frame s = f"

lemma frame_updates [simp]:
  "frame (s\<lparr>world := w\<rparr>) = frame s"
  "frame (s\<lparr>mem := m\<rparr>) = frame s"
  by (simp_all add: frame_def)

lemma frame_eqD:
  "frame s' = frame s \<Longrightarrow> fds s' = fds s \<and> length (fres s') = length (fres s) \<and> errno s' = errno s"
  by (simp add: frame_def)

lemma bstr_loop_length:
  assumes "bstr_loop m p it buf = Some (Inr (n, buf'))"
  shows "length buf' = length buf"
proof -
  have "(case x of Inl u \<Rightarrow> True | Inr (n, b) \<Rightarrow> length b = length buf)"
    if "bstr_loop m p it buf = Some x" for x
  proof (rule bstr_loop.raw_induct [where P = "\<lambda>m p it buf x.
      (case x of Inl u \<Rightarrow> True | Inr (n, b) \<Rightarrow> length b = length buf)", OF _ that])
    fix loop m p it buf x
    assume IH: "\<And>m p it buf x. loop m p it buf = Some x \<Longrightarrow>
        (case x of Inl u \<Rightarrow> True | Inr (n, b) \<Rightarrow> length b = length buf)"
      and "(let c = load8 m (p + of_nat it) in
        if c \<noteq> 0 \<and> it \<noteq> 510 then
          (case arr_put (it * 2) c buf of None \<Rightarrow> Some (Inl Oob_write)
           | Some buf1 \<Rightarrow> (case arr_put (it * 2 + 1) 0 buf1 of None \<Rightarrow> Some (Inl Oob_write)
             | Some buf2 \<Rightarrow> loop m p (it + 1) buf2))
        else Some (Inr (it, buf))) = Some x"
    then show "(case x of Inl u \<Rightarrow> True | Inr (n, b) \<Rightarrow> length b = length buf)"
      by (auto simp: Let_def arr_put_def split: if_splits sum.splits dest!: IH)
  qed
  with assms show ?thesis by fastforce
qed

lemma bstr_to_wstr_frame [keeps_intros]:
  "frame s' = frame s \<Longrightarrow> keeps (in_frame f) s (bstr_to_wstr p s')"
  by (auto simp: keeps_def bstr_to_wstr_def frame_def arr_put_def bstr_loop_length
      split: option.splits sum.splits if_splits)

end
