(* ===== verification/Descriptors.thy ===== *)
theory Descriptors
  imports Machine
begin

text \<open>
  The descriptor table of \<open>src/linux-uefi.c\<close> (\<open>static EFI_FILE_HANDLE fds[MAX_FDS]\<close>) and the system
  calls that work on it: \<open>fd_open\<close>, \<open>fd_close\<close>, \<open>fd_fsync\<close>, \<open>fd_dup\<close>, \<open>fd_dup2\<close>, \<open>fd_lseek\<close>. A
  descriptor seen by the program ("virtual") is an index of the table plus 4.
\<close>

unbundle bit_operations_syntax

section \<open>The table\<close>

text \<open>The loop of \<open>fd_real_find_free\<close>, from index \<open>it\<close> on; its test is \<open>if (fds[it])\<close>.\<close>

fun scan_free :: "nat \<Rightarrow> u64 list \<Rightarrow> i32" where
  "scan_free it [] = - 1"
| "scan_free it (h # hs) = (if h \<noteq> 0 then of_nat it else scan_free (Suc it) hs)"

definition fd_real_find_free :: "'w machine \<Rightarrow> i32" where
  "fd_real_find_free s = scan_free 0 (fds s)"

fun scan_handle :: "u64 \<Rightarrow> nat \<Rightarrow> u64 list \<Rightarrow> i32" where
  "scan_handle FileHandle it [] = 0"
| "scan_handle FileHandle it (h # hs) = (if h = FileHandle then of_nat it else scan_handle FileHandle (Suc it) hs)"

definition fd_real_for_handle :: "u64 \<Rightarrow> 'w machine \<Rightarrow> i32" where
  "fd_real_for_handle FileHandle s = scan_handle FileHandle 0 (fds s)"

definition fd_real_reset :: "nat \<Rightarrow> 'w machine \<Rightarrow> 'w machine" where
  "fd_real_reset fd s = s\<lparr>fds := (fds s)[fd := 0]\<rparr>"

definition TO_REAL_FD :: "i32 \<Rightarrow> int" where
  "TO_REAL_FD fd = sint fd - int VIRTUAL_FD_BASE"

definition TO_VIRTUAL_FD :: "i32 \<Rightarrow> i32" where
  "TO_VIRTUAL_FD fd = fd + of_nat VIRTUAL_FD_BASE"

text \<open>Reading \<open>fds[i]\<close> for a C index: \<open>None\<close> outside the array.\<close>

definition fds_at :: "'w machine \<Rightarrow> int \<Rightarrow> u64 option" where
  "fds_at s i = (if i < 0 then None else arr_get (fds s) (nat i))"

text \<open>
  The lines every descriptor call starts with: the two range checks, the table read and the test
  for the null handle. The rest of the call is the continuation.
\<close>

definition with_fd ::
  "i32 \<Rightarrow> 'w machine \<Rightarrow> (u64 \<Rightarrow> ('w machine, 'r::len word) outcome) \<Rightarrow> ('w machine, 'r word) outcome" where
  "with_fd fd s k =
     (if sint fd > int MAX_FDS then Ret (- EBADF) s
      else if sint fd < int VIRTUAL_FD_BASE then Ret (- EACCES) s
      else
        (case fds_at s (TO_REAL_FD fd) of
           None \<Rightarrow> Undef Oob_read
         | Some FileHandle \<Rightarrow> if FileHandle = 0 then Ret (- EBADF) s else k FileHandle))"

section \<open>File information\<close>

definition fd_efi_get_file_info ::
  "'w firmware \<Rightarrow> u64 \<Rightarrow> 'w machine \<Rightarrow> u64 \<times> efi_file_info \<times> 'w machine" where
  "fd_efi_get_file_info fw FileHandle s =
     (case f_getinfo fw FileHandle (world s) of (status, info, w) \<Rightarrow> (status, info, s\<lparr>world := w\<rparr>))"

text \<open>The call passes \<open>&info\<close>, the address of its own pointer parameter, as the buffer.\<close>

definition fd_efi_set_file_info ::
  "'w firmware \<Rightarrow> u64 \<Rightarrow> efi_file_info \<Rightarrow> 'w machine \<Rightarrow> u64 \<times> 'w machine" where
  "fd_efi_set_file_info fw FileHandle info s =
     (case f_setinfo fw FileHandle (Info_pointer_variable info) (world s) of
        (status, w) \<Rightarrow> (status, s\<lparr>world := w\<rparr>))"

section \<open>System calls\<close>

definition open_mode :: "efi_consts \<Rightarrow> i32 \<Rightarrow> u64" where
  "open_mode h flags =
     (let m = EFI_FILE_MODE_READ h;
          m = (if flags AND O_APPEND \<noteq> 0 then m OR EFI_FILE_MODE_WRITE h else m);
          m = (if flags AND O_CREAT \<noteq> 0 then m OR EFI_FILE_MODE_CREATE h else m);
          m = (if flags AND O_WRONLY \<noteq> 0 \<or> flags AND O_RDWR \<noteq> 0 then m OR EFI_FILE_MODE_WRITE h else m)
      in m)"

definition fd_open :: "'w firmware \<Rightarrow> u64 \<Rightarrow> i32 \<Rightarrow> 'w machine \<Rightarrow> ('w machine, i32) outcome" where
  "fd_open fw pathname flags s =
     (let fd = fd_real_find_free s; h = hdr fw; OpenMode = open_mode h flags in
      if sint fd < 0 then Ret (- EMFILE) s
      else
        bind_out (bstr_to_wstr pathname s) (\<lambda>path s.
        case f_open fw (Volume_handle s) path OpenMode
               (if flags AND O_DIRECTORY \<noteq> 0 then EFI_FILE_DIRECTORY h else 0) (world s) of
          (status, FileHandle, w) \<Rightarrow>
            let s = s\<lparr>world := w\<rparr> in
            if EFI_ERROR h status then Ret (- efi_status_to_errno h status) s
            else
              (case fd_efi_get_file_info fw FileHandle s of
                 (status, info, s) \<Rightarrow>
                   if EFI_ERROR h status then Ret (- efi_status_to_errno h status) s
                   else
                     let s = (if flags AND O_APPEND \<noteq> 0 then
                                s\<lparr>world := snd (f_setpos fw FileHandle 0xFFFFFFFFFFFFFFFF (world s))\<rparr>
                              else if OpenMode AND EFI_FILE_MODE_WRITE h \<noteq> 0 then
                                snd (fd_efi_set_file_info fw FileHandle (info\<lparr>FileSize := 0\<rparr>) s)
                              else s)
                     in if flags AND O_DIRECTORY \<noteq> 0 then
                          (if Attribute info AND EFI_FILE_DIRECTORY h = 0 then Ret (- ENOTDIR) s
                           else Ret (TO_VIRTUAL_FD fd) s)
                        else
                          (if Attribute info AND EFI_FILE_DIRECTORY h \<noteq> 0 then Ret (- EISDIR) s
                           else Ret (TO_VIRTUAL_FD fd) s))))"

definition close_handle :: "'w firmware \<Rightarrow> i32 \<Rightarrow> 'w machine \<Rightarrow> u64 \<Rightarrow> ('w machine, i32) outcome" where
  "close_handle fw fd s FileHandle =
     (let s = fd_real_reset (nat (TO_REAL_FD fd)) s in
      if fd_real_for_handle FileHandle s = 0 then
        (case f_close fw FileHandle (world s) of
           (status, w) \<Rightarrow> Ret (check_status (hdr fw) status 0) (s\<lparr>world := w\<rparr>))
      else Ret 0 s)"

definition fd_close :: "'w firmware \<Rightarrow> i32 \<Rightarrow> 'w machine \<Rightarrow> ('w machine, i32) outcome" where
  "fd_close fw fd s = with_fd fd s (close_handle fw fd s)"

definition flush_handle :: "'w firmware \<Rightarrow> 'w machine \<Rightarrow> u64 \<Rightarrow> ('w machine, i32) outcome" where
  "flush_handle fw s FileHandle =
     (case f_flush fw FileHandle (world s) of
        (status, w) \<Rightarrow> Ret (check_status (hdr fw) status 0) (s\<lparr>world := w\<rparr>))"

definition fd_fsync :: "'w firmware \<Rightarrow> i32 \<Rightarrow> 'w machine \<Rightarrow> ('w machine, i32) outcome" where
  "fd_fsync fw fd s = with_fd fd s (flush_handle fw s)"

definition dup_handle :: "'w machine \<Rightarrow> u64 \<Rightarrow> ('w machine, i32) outcome" where
  "dup_handle s FileHandle =
     (let new_fd = fd_real_find_free s in
      if sint new_fd < 0 then Ret (- EMFILE) s
      else
        (case arr_put (nat (sint new_fd)) FileHandle (fds s) of
           None \<Rightarrow> Undef Oob_write
         | Some t \<Rightarrow> Ret (TO_VIRTUAL_FD new_fd) (s\<lparr>fds := t\<rparr>)))"

definition fd_dup :: "i32 \<Rightarrow> 'w machine \<Rightarrow> ('w machine, i32) outcome" where
  "fd_dup old_fd s = with_fd old_fd s (dup_handle s)"

text \<open>\<open>new_fd\<close> is not range-checked before it indexes the table, and it indexes it twice
  differently: less 4 for the old content, as it is for the new handle.\<close>

definition fd_dup2 :: "'w firmware \<Rightarrow> i32 \<Rightarrow> i32 \<Rightarrow> 'w machine \<Rightarrow> ('w machine, i32) outcome" where
  "fd_dup2 fw old_fd new_fd s =
     (if sint old_fd > int MAX_FDS then Ret (- EBADF) s
      else if sint old_fd < int VIRTUAL_FD_BASE then Ret (- EACCES) s
      else
        (case fds_at s (TO_REAL_FD new_fd) of
           None \<Rightarrow> Undef Oob_read
         | Some cur \<Rightarrow>
             bind_out (if cur \<noteq> 0 then fd_close fw new_fd s else Ret 0 s) (\<lambda>res s.
               if sint res < 0 then Ret res s
               else
                 (case fds_at s (TO_REAL_FD old_fd) of
                    None \<Rightarrow> Undef Oob_read
                  | Some FileHandle \<Rightarrow>
                      if FileHandle = 0 then Ret (- EBADF) s
                      else if sint new_fd < 0 then Ret (- EMFILE) s
                      else
                        (case arr_put (nat (sint new_fd)) FileHandle (fds s) of
                           None \<Rightarrow> Undef Oob_write
                         | Some t \<Rightarrow> Ret (TO_VIRTUAL_FD new_fd) (s\<lparr>fds := t\<rparr>))))))"

text \<open>The two arms of \<open>SEEK_END\<close>, the second shared with \<open>SEEK_CUR\<close> by fall-through.\<close>

definition seek_from_current ::
  "'w firmware \<Rightarrow> u64 \<Rightarrow> i64 \<Rightarrow> 'w machine \<Rightarrow> u64 \<times> u64 \<times> 'w machine" where
  "seek_from_current fw FileHandle offset s =
     (case f_getpos fw FileHandle (world s) of
        (status, offset64, w) \<Rightarrow>
          if EFI_ERROR (hdr fw) status then (status, offset64, s\<lparr>world := w\<rparr>)
          else
            (case f_setpos fw FileHandle (offset64 + offset) w of
               (status, w) \<Rightarrow> (status, offset64 + offset, s\<lparr>world := w\<rparr>)))"

text \<open>With any other \<open>whence\<close>, \<open>status\<close> is tested without having been assigned.\<close>

definition seek_handle ::
  "'w firmware \<Rightarrow> i64 \<Rightarrow> i32 \<Rightarrow> 'w machine \<Rightarrow> u64 \<Rightarrow> ('w machine, i64) outcome" where
  "seek_handle fw offset whence s FileHandle =
     (if whence = SEEK_SET then
        (case f_setpos fw FileHandle offset (world s) of
           (status, w) \<Rightarrow> Ret (check_status (hdr fw) status offset) (s\<lparr>world := w\<rparr>))
      else if whence = SEEK_END then
        (case f_setpos fw FileHandle 0xFFFFFFFFFFFFFFFF (world s) of
           (status, w) \<Rightarrow>
             if EFI_ERROR (hdr fw) status then Ret (check_status (hdr fw) status 0) (s\<lparr>world := w\<rparr>)
             else
               (case seek_from_current fw FileHandle offset (s\<lparr>world := w\<rparr>) of
                  (status, offset64, s) \<Rightarrow> Ret (check_status (hdr fw) status offset64) s))
      else if whence = SEEK_CUR then
        (case seek_from_current fw FileHandle offset s of
           (status, offset64, s) \<Rightarrow> Ret (check_status (hdr fw) status offset64) s)
      else Undef Uninit_read)"

definition fd_lseek ::
  "'w firmware \<Rightarrow> i32 \<Rightarrow> i64 \<Rightarrow> i32 \<Rightarrow> 'w machine \<Rightarrow> ('w machine, i64) outcome" where
  "fd_lseek fw fd offset whence s = with_fd fd s (seek_handle fw offset whence s)"

section \<open>The contract of a descriptor call\<close>

text \<open>
  What the callers of a descriptor call rely on: it is the common guard followed by an operation
  on a live handle. The lemmas hold for every such call; each call of the model is an instance.
\<close>

definition slot :: "'w machine \<Rightarrow> i32 \<Rightarrow> u64" where
  "slot s fd = fds s ! nat (sint fd - 4)"

definition in_window :: "i32 \<Rightarrow> bool" where
  "in_window fd \<longleftrightarrow> 4 \<le> sint fd \<and> sint fd \<le> 16"

lemma with_fd_cases:
  assumes "length (fds s) = 16"
  shows "with_fd fd s k =
    (if 16 < sint fd then Ret (- EBADF) s
     else if sint fd < 4 then Ret (- EACCES) s
     else if slot s fd = 0 then Ret (- EBADF) s
     else k (slot s fd))"
  using assms by (auto simp: with_fd_def fds_at_def arr_get_def TO_REAL_FD_def slot_def)

locale descriptor_call =
  fixes call :: "i32 \<Rightarrow> 'w machine \<Rightarrow> ('w machine, 'r::len word) outcome"
    and body :: "i32 \<Rightarrow> 'w machine \<Rightarrow> u64 \<Rightarrow> ('w machine, 'r word) outcome"
  assumes guarded: "call fd s = with_fd fd s (body fd s)"
begin

lemma above: "16 < sint fd \<Longrightarrow> call fd s = Ret (- EBADF) s"
  by (simp add: guarded with_fd_def)

lemma below: "sint fd < 4 \<Longrightarrow> call fd s = Ret (- EACCES) s"
  by (simp add: guarded with_fd_def)

lemma dead:
  "length (fds s) = 16 \<Longrightarrow> in_window fd \<Longrightarrow> slot s fd = 0 \<Longrightarrow> call fd s = Ret (- EBADF) s"
  by (simp add: guarded with_fd_cases in_window_def)

lemma live:
  "length (fds s) = 16 \<Longrightarrow> in_window fd \<Longrightarrow> slot s fd \<noteq> 0 \<Longrightarrow> call fd s = body fd s (slot s fd)"
  by (simp add: guarded with_fd_cases in_window_def)

lemma empty_table:
  assumes "fds s = replicate 16 0"
  shows "call fd s = Ret (if sint fd < 4 then - EACCES else - EBADF) s"
proof -
  have "slot s fd = 0" if "\<not> 16 < sint fd" "\<not> sint fd < 4"
    using that assms by (simp add: slot_def)
  then show ?thesis using assms by (auto simp: guarded with_fd_cases)
qed

lemma undefined_only_in_body:
  "length (fds s) = 16 \<Longrightarrow> call fd s = Undef u \<Longrightarrow> body fd s (slot s fd) = Undef u"
  by (auto simp: guarded with_fd_cases split: if_splits)

lemma keeps_call:
  "length (fds s) = 16 \<Longrightarrow> keeps P s (body fd s (slot s fd)) \<Longrightarrow> keeps P s (call fd s)"
  by (auto simp: guarded with_fd_cases intro: keeps_intros)

lemma keeps_call_always: "(\<And>h. keeps P s (body fd s h)) \<Longrightarrow> keeps P s (call fd s)"
  by (auto simp: guarded with_fd_def split: option.splits intro: keeps_intros)

end

interpretation close_call: descriptor_call "fd_close fw" "close_handle fw" for fw
  by unfold_locales (simp add: fd_close_def)

interpretation fsync_call: descriptor_call "fd_fsync fw" "\<lambda>_. flush_handle fw" for fw
  by unfold_locales (simp add: fd_fsync_def)

interpretation dup_call: descriptor_call fd_dup "\<lambda>_. dup_handle"
  by unfold_locales (simp add: fd_dup_def)

interpretation lseek_call: descriptor_call
  "\<lambda>fd. fd_lseek fw fd offset whence" "\<lambda>_. seek_handle fw offset whence" for fw offset whence
  by unfold_locales (simp add: fd_lseek_def)

section \<open>Facts on the table\<close>

lemma scan_free_result:
  "scan_free it hs = - 1 \<and> (\<forall>h \<in> set hs. h = 0) \<or>
   (\<exists>i < length hs. scan_free it hs = of_nat (it + i) \<and> hs ! i \<noteq> 0 \<and> (\<forall>j < i. hs ! j = 0))"
proof (induction it hs rule: scan_free.induct)
  case (1 it)
  then show ?case by simp
next
  case (2 it h hs)
  show ?case
  proof (cases "h = 0")
    case True
    then consider (none) "scan_free (Suc it) hs = - 1" "\<forall>h \<in> set hs. h = 0"
      | (found) i where "i < length hs" "scan_free (Suc it) hs = of_nat (Suc it + i)" "hs ! i \<noteq> 0"
          "\<forall>j < i. hs ! j = 0"
      using 2 by auto
    then show ?thesis
    proof cases
      case none
      with True show ?thesis by simp
    next
      case found
      with True show ?thesis
        by (intro disjI2 exI [of _ "Suc i"]) (auto simp: nth_Cons')
    qed
  next
    case False
    then show ?thesis by (intro disjI2 exI [of _ 0]) simp
  qed
qed

lemma scan_handle_eq_0:
  "length hs < 2 ^ 32 \<Longrightarrow> scan_handle h 0 hs = 0 \<longleftrightarrow> h \<notin> set hs \<or> (hs \<noteq> [] \<and> hd hs = h)"
proof -
  have gen: "scan_handle h it hs = 0 \<longleftrightarrow> h \<notin> set hs" if "0 < it" "it + length hs < 2 ^ 32" for it hs
    using that
  proof (induction h it hs rule: scan_handle.induct)
    case (1 h it)
    then show ?case by simp
  next
    case (2 h it g hs)
    have "(of_nat it :: i32) \<noteq> 0"
      using 2 by (simp add: word_of_nat_eq_0_iff nat_dvd_not_less)
    with 2 show ?case by auto
  qed
  assume "length hs < 2 ^ 32"
  then show ?thesis
    by (cases hs) (auto simp: gen)
qed

lemma sint_small: "n < 2 ^ 31 \<Longrightarrow> sint (of_nat n :: i32) = int n"
  by (simp add: signed_of_nat signed_take_bit_int_eq_self)

lemma sint_slot_index: "n < 16 \<Longrightarrow> sint (of_nat n :: i32) = int n"
  by (rule sint_small) simp

lemma find_free_cases:
  assumes "length (fds s) = 16"
  obtains "fd_real_find_free s = - 1" and "fds s = replicate 16 0"
  | i where "i < 16" and "fd_real_find_free s = of_nat i" and "fds s ! i \<noteq> 0"
      and "\<forall>j < i. fds s ! j = 0"
  using scan_free_result [of 0 "fds s"] assms
  unfolding fd_real_find_free_def by (metis add_0 replicate_eqI)

lemma sint_virtual: "i < 16 \<Longrightarrow> sint (TO_VIRTUAL_FD (of_nat i)) = int i + 4"
proof -
  assume "i < 16"
  have "TO_VIRTUAL_FD (of_nat i) = of_nat (i + 4)" by (simp add: TO_VIRTUAL_FD_def)
  then show ?thesis using sint_small [of "i + 4"] \<open>i < 16\<close> by simp
qed

lemma fd_open_frame [keeps_intros]: "keeps (in_frame f) s (fd_open fw p flags s)"
  unfolding fd_open_def fd_efi_get_file_info_def fd_efi_set_file_info_def Let_def
  by (auto intro!: keeps_intros split: prod.splits)

lemma close_handle_keeps_rest:
  "final (close_handle fw fd s h) = Some s' \<Longrightarrow>
     fds s' = (fds s)[nat (TO_REAL_FD fd) := 0] \<and> length (fres s') = length (fres s) \<and>
     mem s' = mem s \<and> errno s' = errno s \<and> Image_handle s' = Image_handle s \<and> Volume_handle s' = Volume_handle s"
  by (auto simp: close_handle_def fd_real_reset_def Let_def split: prod.splits if_splits)

lemma close_open_slot:
  assumes "wf_machine s" and "in_window fd" and "slot s fd \<noteq> 0"
    and "t = (fds s)[nat (sint fd - 4) := 0]"
  shows "fd_close fw fd s =
    (if slot s fd \<in> set t \<and> hd t \<noteq> slot s fd then Ret 0 (s\<lparr>fds := t\<rparr>)
     else
       let (status, w) = f_close fw (slot s fd) (world s)
       in Ret (check_status (hdr fw) status 0) (s\<lparr>fds := t, world := w\<rparr>))"
proof -
  have len: "length (fds s) = 16" using assms(1) by (simp add: wf_machine_def)
  then have t: "length t = 16" using assms(4) by simp
  then have "t \<noteq> []" and "length t < 2 ^ 32" by auto
  then have "fd_real_for_handle (slot s fd) (s\<lparr>fds := t\<rparr>) = 0 \<longleftrightarrow>
      \<not> (slot s fd \<in> set t \<and> hd t \<noteq> slot s fd)"
    by (simp add: fd_real_for_handle_def scan_handle_eq_0)
  then show ?thesis
    unfolding close_call.live [OF len assms(2,3)]
    by (simp add: close_handle_def fd_real_reset_def TO_REAL_FD_def assms(4) split: prod.splits)
qed

section \<open>Properties\<close>

text \<open>
  C28: Closing an open descriptor (4 to 16) empties its table slot, whatever the firmware answers, and
  changes no other slot. The firmware's file is closed when no slot of the table refers to the handle any
  more, but also whenever slot 0 (descriptor 4) still does, whether or not further slots do as well; it
  is left open exactly when some slot refers to it and slot 0 does not.
\<close>

theorem fd_close_open_descriptor:
  assumes "wf_machine s" and "in_window fd" and "slot s fd \<noteq> 0"
    and "t = (fds s)[nat (sint fd - 4) := 0]"
  shows "fd_close fw fd s =
    (if slot s fd \<in> set t \<and> hd t \<noteq> slot s fd then Ret 0 (s\<lparr>fds := t\<rparr>)
     else
       let (status, w) = f_close fw (slot s fd) (world s)
       in Ret (if EFI_ERROR (hdr fw) status then - efi_status_to_errno (hdr fw) status else 0)
            (s\<lparr>fds := t, world := w\<rparr>))"
  unfolding close_open_slot [OF assms] by (simp add: check_status_def split: prod.splits)

text \<open>
  Consequence for a duplicated handle: when descriptor 4 (slot 0) and another descriptor hold the
  same handle, closing the other one closes the firmware's file although descriptor 4 still holds it.
\<close>

lemma fd_close_closes_shared_handle:
  assumes "wf_machine s" and "in_window fd" and "fd \<noteq> 4" and "slot s fd = slot s 4" and "slot s 4 \<noteq> 0"
    and "f_close fw (slot s 4) (world s) = (status, w)"
  shows "\<exists>r s'. fd_close fw fd s = Ret r s' \<and> world s' = w \<and> slot s' 4 = slot s 4"
proof -
  let ?i = "nat (sint fd - 4)" and ?t = "(fds s)[nat (sint fd - 4) := 0]"
  have len: "length (fds s) = 16" using assms(1) by (simp add: wf_machine_def)
  have "sint fd \<noteq> 4"
  proof
    assume "sint fd = 4"
    then have "word_of_int (sint fd) = (4 :: i32)" by simp
    with assms(3) show False by simp
  qed
  then have i: "0 < ?i" using assms(2) by (simp add: in_window_def)
  then have "hd ?t = slot s fd"
    using len assms(4) by (cases "fds s") (auto simp: slot_def split: nat.splits)
  then have "fd_close fw fd s =
      Ret (if EFI_ERROR (hdr fw) status then - efi_status_to_errno (hdr fw) status else 0)
        (s\<lparr>fds := ?t, world := w\<rparr>)"
    using close_open_slot [OF assms(1,2) _ refl, of fw] assms(4-6) by (simp add: check_status_def)
  then show ?thesis using i by (simp add: slot_def)
qed

text \<open>\<open>fd_open\<close> returns an error, or the descriptor of the first used slot; it never changes the table.\<close>

lemma fd_open_table: "fd_open fw p flags s = Ret r s' \<Longrightarrow> fds s' = fds s"
  using fd_open_frame [of "frame s" s fw p flags] by (simp add: keeps_def frame_def)

lemma fd_open_result:
  assumes "fd_open fw p flags s = Ret r s'" and "0 \<le> sint r"
  shows "r = TO_VIRTUAL_FD (fd_real_find_free s)"
proof -
  have "returns (\<lambda>r _. sint r < 0 \<or> r = TO_VIRTUAL_FD (fd_real_find_free s)) (fd_open fw p flags s)"
    unfolding fd_open_def Let_def
    by (auto intro!: returns_intros simp: sint_neg_errno split: prod.splits)
  then show ?thesis using assms by (auto dest: returnsD)
qed

text \<open>
  C38: A descriptor that \<open>open\<close> or \<open>dup\<close> gives out denotes the first table slot that was already in use
  before the call, never a free one. \<open>open\<close> does not even record the file it opened: the table is what
  it was, and the descriptor denotes whatever that slot held. \<open>dup\<close> stores the duplicated handle
  over the one in that slot, which is lost unless it is the same.
\<close>

theorem descriptors_given_out_are_used:
  assumes "wf_machine s"
  shows "(fd_open fw p flags s = Ret r s' \<and> 0 \<le> sint r \<longrightarrow>
       fds s' = fds s \<and> (\<exists>i < 16. fds s ! i \<noteq> 0 \<and> (\<forall>j < i. fds s ! j = 0) \<and> r = of_nat (i + 4))) \<and>
     (in_window fd \<and> slot s fd \<noteq> 0 \<longrightarrow>
       (\<exists>i < 16. fds s ! i \<noteq> 0 \<and> (\<forall>j < i. fds s ! j = 0) \<and>
         fd_dup fd s = Ret (of_nat (i + 4)) (s\<lparr>fds := (fds s)[i := slot s fd]\<rparr>)))"
proof -
  have len: "length (fds s) = 16" using assms by (simp add: wf_machine_def)
  show ?thesis
    using len
  proof (cases rule: find_free_cases)
    case 1
    have "\<not> (in_window fd \<and> slot s fd \<noteq> 0)" using 1 by (auto simp: slot_def in_window_def)
    moreover have "\<not> (fd_open fw p flags s = Ret r s' \<and> 0 \<le> sint r)" using 1 by (auto simp: fd_open_def)
    ultimately show ?thesis by blast
  next
    case (2 i)
    have "fd_dup fd s = Ret (of_nat (i + 4)) (s\<lparr>fds := (fds s)[i := slot s fd]\<rparr>)"
      if "in_window fd" "slot s fd \<noteq> 0"
      using 2 unfolding dup_call.live [OF len that]
      by (simp add: dup_handle_def sint_slot_index len TO_VIRTUAL_FD_def)
    moreover have "fds s' = fds s \<and> r = of_nat (i + 4)"
      if "fd_open fw p flags s = Ret r s'" "0 \<le> sint r"
      using fd_open_table [OF that(1)] fd_open_result [OF that] 2 by (simp add: TO_VIRTUAL_FD_def)
    ultimately show ?thesis using 2 by blast
  qed
qed

text \<open>What \<open>dup2\<close> closes first: the new descriptor, when it is open; its slot is empty afterwards.\<close>

definition close_target :: "'w firmware \<Rightarrow> i32 \<Rightarrow> 'w machine \<Rightarrow> ('w machine, i32) outcome" where
  "close_target fw new s = (if slot s new = 0 then Ret 0 s else fd_close fw new s)"

lemma close_target_table:
  assumes "wf_machine s" and "in_window new" and "close_target fw new s = Ret c sc"
  shows "fds sc = (fds s)[nat (sint new - 4) := 0]"
proof (cases "slot s new = 0")
  case True
  then have "(fds s)[nat (sint new - 4) := 0] = fds s" using list_update_id by (metis slot_def)
  then show ?thesis using True assms(3) by (simp add: close_target_def)
next
  case False
  have len: "length (fds s) = 16" using assms(1) by (simp add: wf_machine_def)
  show ?thesis
    using False assms(3) close_handle_keeps_rest [of fw new s "slot s new" sc]
    by (simp add: close_target_def close_call.live [OF len assms(2)] TO_REAL_FD_def)
qed

lemma dup2_steps:
  assumes "wf_machine s" and "in_window old" and "in_window new"
  shows "fd_dup2 fw old new s = bind_out (close_target fw new s) (\<lambda>res sc.
    if sint res < 0 then Ret res sc
    else if new = old \<or> slot s old = 0 then Ret (- EBADF) sc
    else (case arr_put (nat (sint new)) (slot s old) (fds sc) of
        None \<Rightarrow> Undef Oob_write
      | Some t \<Rightarrow> Ret (new + 4) (sc\<lparr>fds := t\<rparr>)))"
proof -
  have len: "length (fds s) = 16" using assms(1) by (simp add: wf_machine_def)
  have at: "fds_at t (TO_REAL_FD fd) = Some (slot t fd)" if "length (fds t) = 16" "in_window fd" for t fd
    using that by (auto simp: in_window_def fds_at_def arr_get_def TO_REAL_FD_def slot_def)
  have "(if slot s new \<noteq> 0 then fd_close fw new s else Ret 0 s) = close_target fw new s"
    by (simp add: close_target_def)
  then have d: "fd_dup2 fw old new s = bind_out (close_target fw new s) (\<lambda>res s.
      if sint res < 0 then Ret res s
      else (case fds_at s (TO_REAL_FD old) of None \<Rightarrow> Undef Oob_read
        | Some h \<Rightarrow> if h = 0 then Ret (- EBADF) s
            else if sint new < 0 then Ret (- EMFILE) s
            else (case arr_put (nat (sint new)) h (fds s) of None \<Rightarrow> Undef Oob_write
               | Some t \<Rightarrow> Ret (TO_VIRTUAL_FD new) (s\<lparr>fds := t\<rparr>))))"
    using assms(2) at [OF len assms(3)] by (simp add: fd_dup2_def in_window_def)
  show ?thesis
  proof (cases "close_target fw new s")
    case (Ret c sc)
    have t: "fds sc = (fds s)[nat (sint new - 4) := 0]" by (rule close_target_table [OF assms(1,3) Ret])
    have "sint new = sint old \<longleftrightarrow> new = old" by (auto dest: signed_word_eqI)
    then have "slot sc old = (if new = old then 0 else slot s old)"
      using assms(2,3) len unfolding slot_def t
      by (auto simp: in_window_def nth_list_update nat_eq_iff)
    then show ?thesis
      using at [of sc old] assms(2,3) len t unfolding d Ret
      by (auto simp: TO_VIRTUAL_FD_def in_window_def arr_put_def)
  qed (simp_all add: d)
qed

text \<open>
  C39: \<open>dup2\<close> between descriptors 4 to 16. The new one, when open, is closed first, which empties its
  slot; an error of that close is the result, with nothing else done. Then onto itself, or from a
  descriptor that is not open, the call fails with \<open>-EBADF\<close>: \<open>dup2\<close> of an open descriptor onto itself
  destroys it and never succeeds (POSIX asks for it to stay open and be returned). Otherwise, where the
  call returns, it does not return the new descriptor: it stores exactly the old one's handle in the
  table slot numbered like the new descriptor and returns the number plus 4.
\<close>

theorem fd_dup2_outcomes:
  assumes "wf_machine s" and "in_window old" and "in_window new"
    and "close_target fw new s = Ret c sc" and "fd_dup2 fw old new s = Ret r s'"
  shows "fds sc = (fds s)[nat (sint new - 4) := 0] \<and>
    (if sint c < 0 then r = c \<and> s' = sc
     else if new = old \<or> slot s old = 0 then r = - EBADF \<and> s' = sc
     else r = new + 4 \<and> s' = sc\<lparr>fds := (fds sc)[nat (sint new) := slot s old]\<rparr>)"
proof (intro conjI close_target_table [OF assms(1,3,4)])
  show "if sint c < 0 then r = c \<and> s' = sc
     else if new = old \<or> slot s old = 0 then r = - EBADF \<and> s' = sc
     else r = new + 4 \<and> s' = sc\<lparr>fds := (fds sc)[nat (sint new) := slot s old]\<rparr>"
    using assms(5) unfolding dup2_steps [OF assms(1-3)] assms(4)
    by (auto simp: arr_put_def split: if_splits)
qed

text \<open>
  \<open>dup2\<close> does not check its second argument: with a valid first descriptor, a second one below 4
  or above 19 makes it read outside the table.
\<close>

lemma fd_dup2_unchecked_target:
  assumes "wf_machine s" and "in_window old" and "sint new < 4 \<or> 19 < sint new"
  shows "fd_dup2 fw old new s = Undef Oob_read"
  using assms by (auto simp: fd_dup2_def in_window_def fds_at_def arr_get_def TO_REAL_FD_def wf_machine_def)

section \<open>Seeking\<close>

text \<open>
  Documented behaviour of the position calls, for abstraction functions that read a handle's
  position and file length off the outside world: setting the position to all ones moves to the
  end of the file, any other value is taken as it is, and reading it changes nothing.
\<close>

definition position_contract ::
  "'w firmware \<Rightarrow> ('w \<Rightarrow> u64 \<Rightarrow> u64) \<Rightarrow> ('w \<Rightarrow> u64 \<Rightarrow> u64) \<Rightarrow> u64 \<Rightarrow> bool" where
  "position_contract fw pos len h \<longleftrightarrow>
     (\<forall>w p. \<not> EFI_ERROR (hdr fw) (fst (f_setpos fw h p w)) \<and>
        len (snd (f_setpos fw h p w)) h = len w h \<and>
        pos (snd (f_setpos fw h p w)) h = (if p = 0xFFFFFFFFFFFFFFFF then len w h else p)) \<and>
     (\<forall>w. \<not> EFI_ERROR (hdr fw) (fst (f_getpos fw h w)) \<and>
        fst (snd (f_getpos fw h w)) = pos w h \<and> snd (snd (f_getpos fw h w)) = w)"

definition seek_target :: "i32 \<Rightarrow> u64 \<Rightarrow> u64 \<Rightarrow> i64 \<Rightarrow> u64" where
  "seek_target whence cur len offset =
     (if whence = SEEK_SET then offset else if whence = SEEK_CUR then cur + offset else len + offset)"

text \<open>
  C29: On an open descriptor, with a firmware that keeps positions as documented, \<open>lseek\<close> returns the
  position POSIX asks for, modulo \<open>2^64\<close> (the offset itself, the current position plus it, or the end
  of the file plus it), and that is the file's new position, except that a target of all ones
  becomes the end of the file. Nothing but the outside world changes.
\<close>

theorem fd_lseek_moves:
  assumes "wf_machine s" and "in_window fd" and "slot s fd \<noteq> 0"
    and "position_contract fw pos len (slot s fd)"
    and "whence = 0 \<or> whence = 1 \<or> whence = 2"
    and "target = seek_target whence (pos (world s) (slot s fd)) (len (world s) (slot s fd)) offset"
  shows "\<exists>w. fd_lseek fw fd offset whence s = Ret target (s\<lparr>world := w\<rparr>) \<and>
    pos w (slot s fd) = (if target = 0xFFFFFFFFFFFFFFFF then len (world s) (slot s fd) else target)"
proof -
  have l: "length (fds s) = 16" using assms(1) by (simp add: wf_machine_def)
  show ?thesis
    using assms(4-6) unfolding lseek_call.live [OF l assms(2,3)] position_contract_def
    by (elim disjE) (auto simp: seek_handle_def seek_from_current_def seek_target_def check_status_def
        case_prod_beta)
qed

text \<open>
  With any other \<open>whence\<close>, an open descriptor makes \<open>lseek\<close> test a status variable it never
  assigned: undefined behaviour instead of \<open>-EINVAL\<close>.
\<close>

lemma fd_lseek_bad_whence:
  assumes "wf_machine s" and "in_window fd" and "slot s fd \<noteq> 0" and "whence \<notin> {0, 1, 2}"
  shows "fd_lseek fw fd offset whence s = Undef Uninit_read"
  using assms by (simp add: lseek_call.live wf_machine_def seek_handle_def)

section \<open>Frames and the empty table\<close>

definition no_files :: "'w machine \<Rightarrow> bool" where
  "no_files s \<longleftrightarrow> fds s = replicate MAX_FDS 0"

lemma keeps_of_frame:
  assumes "\<And>f. keeps (in_frame f) s m"
  shows "keeps no_files s m" and "keeps wf_machine s m"
proof -
  have eq: "fds s' = fds s \<and> length (fres s') = length (fres s)" if "final m = Some s'" for s'
    using keepsD [OF assms [of "frame s"] refl that] by (auto dest: frame_eqD)
  show "keeps no_files s m"
    unfolding keeps_def no_files_def using eq by metis
  show "keeps wf_machine s m"
    unfolding keeps_def wf_machine_def using eq by metis
qed

lemma fd_fsync_frame [keeps_intros]: "keeps (in_frame f) s (fd_fsync fw fd s)"
  by (rule fsync_call.keeps_call_always)
    (auto simp: flush_handle_def split: prod.splits intro!: keeps_intros)

lemma fd_lseek_frame [keeps_intros]: "keeps (in_frame f) s (fd_lseek fw fd offset whence s)"
  by (rule lseek_call.keeps_call_always)
    (auto simp: seek_handle_def seek_from_current_def split: prod.splits if_splits intro!: keeps_intros)

lemma fd_close_wf [keeps_intros]: "keeps wf_machine s (fd_close fw fd s)"
  by (rule close_call.keeps_call_always)
    (auto simp: keeps_def wf_machine_def dest: close_handle_keeps_rest)

lemma fd_dup_wf [keeps_intros]: "keeps wf_machine s (fd_dup fd s)"
  by (rule dup_call.keeps_call_always)
    (auto simp: keeps_def wf_machine_def dup_handle_def arr_put_def Let_def split: if_splits)

lemma fd_dup2_wf [keeps_intros]: "keeps wf_machine s (fd_dup2 fw old new s)"
proof -
  have put: "arr_put i h (fds s) = Some t \<Longrightarrow> wf_machine s \<Longrightarrow> wf_machine (s\<lparr>fds := t\<rparr>)"
    for i h t and s :: "'a machine"
    by (auto simp: wf_machine_def arr_put_def split: if_splits)
  show ?thesis
    unfolding fd_dup2_def
    by (auto intro!: keeps_intros intro: put split: option.splits)
qed

lemma scan_free_replicate [simp]: "scan_free it (replicate n 0) = - 1"
  by (induction n arbitrary: it) auto

lemma fd_open_empty: "no_files s \<Longrightarrow> fd_open fw p flags s = Ret (- EMFILE) s"
  by (simp add: no_files_def fd_open_def fd_real_find_free_def del: replicate.simps)

lemma fd_dup2_empty:
  assumes "no_files s"
  shows "fd_dup2 fw old new s =
    (if 16 < sint old then Ret (- EBADF) s else if sint old < 4 then Ret (- EACCES) s
     else if sint new < 4 \<or> 19 < sint new then Undef Oob_read else Ret (- EBADF) s)"
  using assms by (auto simp: fd_dup2_def no_files_def fds_at_def arr_get_def TO_REAL_FD_def)

lemma empty_table_calls:
  assumes "no_files s"
  shows "fd_close fw fd s = Ret (if sint fd < 4 then - EACCES else - EBADF) s"
    and "fd_fsync fw fd s = Ret (if sint fd < 4 then - EACCES else - EBADF) s"
    and "fd_dup fd s = Ret (if sint fd < 4 then - EACCES else - EBADF) s"
    and "fd_lseek fw fd offset whence s = Ret (if sint fd < 4 then - EACCES else - EBADF) s"
  using assms unfolding no_files_def
  by (rule close_call.empty_table fsync_call.empty_table dup_call.empty_table lseek_call.empty_table)+

lemma fd_table_calls_no_files [keeps_intros]:
  "keeps no_files s (fd_close fw fd s)"
  "keeps no_files s (fd_dup fd s)"
  "keeps no_files s (fd_dup2 fw old new s)"
  by (auto simp: keeps_def empty_table_calls fd_dup2_empty)

end
