(* ===== verification/FileIO.thy ===== *)
theory FileIO
  imports Descriptors
begin

text \<open>
  \<open>fd_read\<close> and \<open>fd_write\<close> of \<open>src/linux-uefi.c\<close>: the console behind descriptors 0, 1 and 2, and the
  firmware's files behind the others. The console loops count with a 32-bit \<open>unsigned\<close> against a
  64-bit \<open>count\<close>; they are defined without assuming that they end.
\<close>

unbundle bit_operations_syntax

section \<open>Reading\<close>

text \<open>
  The keyboard loop of \<open>fd_read\<close>. The result is the value of \<open>it\<close> when the loop is left. A skipped
  backspace (\<open>continue\<close>) still counts a position, as in the code. \<open>Inl\<close> reports a store through a null
  buffer.
\<close>

partial_function (option) read_keys ::
  "'w firmware \<Rightarrow> u64 \<Rightarrow> u64 \<Rightarrow> u32 \<Rightarrow> 'w machine \<Rightarrow> (ub + u32 \<times> 'w machine) option" where
  "read_keys fw buf count it s =
     (if zext it = count then Some (Inr (it, s))
      else
        let w = snd (stall fw 1000 (world s));
            w = snd (wait_for_key fw w);
            (_, key, w) = read_key fw w;
            c = (ucast key :: u8)
        in if it = 0 \<and> c = 0x08 then read_keys fw buf count (it + 1) (s\<lparr>world := w\<rparr>)
           else
             let w = snd (out_string fw (before_nul [key]) w);
                 w = (if c = 0x0D then snd (out_string fw [0x0A] w) else w);
                 c = (if c = 0x0D then 0x0A else c);
                 s = s\<lparr>world := w, mem := store8 (buf + zext it) c (mem s)\<rparr>
             in if buf = 0 then Some (Inl Null_deref)
                else if c = 0x0A then Some (Inr (it, s)) else read_keys fw buf count (it + 1) s)"

definition read_console :: "'w firmware \<Rightarrow> u64 \<Rightarrow> u64 \<Rightarrow> 'w machine \<Rightarrow> ('w machine, i64) outcome" where
  "read_console fw buf count s =
     (case read_keys fw buf count 0 s of
        None \<Rightarrow> Diverge
      | Some (Inl u) \<Rightarrow> Undef u
      | Some (Inr (it, s)) \<Rightarrow> Ret (zext (it + 1)) s)"

definition read_file ::
  "'w firmware \<Rightarrow> u64 \<Rightarrow> u64 \<Rightarrow> 'w machine \<Rightarrow> u64 \<Rightarrow> ('w machine, i64) outcome" where
  "read_file fw buf count s FileHandle =
     (case f_read fw FileHandle count (world s) of
        (status, count, bytes, w) \<Rightarrow>
          Ret (check_status (hdr fw) status count) (s\<lparr>world := w, mem := store_bytes buf bytes (mem s)\<rparr>))"

definition fd_read ::
  "'w firmware \<Rightarrow> i32 \<Rightarrow> u64 \<Rightarrow> u64 \<Rightarrow> 'w machine \<Rightarrow> ('w machine, i64) outcome" where
  "fd_read fw fd buf count s =
     (if sint fd > int MAX_FDS then Ret (- EBADF) s
      else if fd = 0 then read_console fw buf count s
      else with_fd fd s (read_file fw buf count s))"

section \<open>Writing\<close>

text \<open>
  The conversion loop of \<open>fd_write\<close>. \<open>str_buf\<close> is a local array of \<open>count*2\<close> \<open>CHAR16\<close> without
  initial contents (\<open>None\<close>); a write outside it, or a read through a null \<open>src\<close>, ends the loop with \<open>Inl\<close>. Writing the two bytes of
  an element stores the byte with a zero high half.
\<close>

partial_function (option) expand_chars ::
  "memory \<Rightarrow> u64 \<Rightarrow> u64 \<Rightarrow> u32 \<Rightarrow> u32 \<Rightarrow> u16 option list \<Rightarrow> (ub + u32 \<times> u16 option list) option" where
  "expand_chars m src count it str_it str_buf =
     (if zext it = count then Some (Inr (str_it, str_buf))
      else if src = 0 then Some (Inl Null_deref)
      else
        let c = load8 m (src + zext it) in
        if c = 0 then expand_chars m src count (it + 1) (str_it - 1 + 1) str_buf
        else if c = 0x0A then
          (case arr_put (unat str_it) (Some 0x0D) str_buf of
             None \<Rightarrow> Some (Inl Oob_write)
           | Some str_buf1 \<Rightarrow>
               (case arr_put (unat (str_it + 1)) (Some 0x0A) str_buf1 of
                  None \<Rightarrow> Some (Inl Oob_write)
                | Some str_buf2 \<Rightarrow> expand_chars m src count (it + 1) (str_it + 1 + 1) str_buf2))
        else
          (case arr_put (unat str_it) (Some (ucast c)) str_buf of
             None \<Rightarrow> Some (Inl Oob_write)
           | Some str_buf1 \<Rightarrow> expand_chars m src count (it + 1) (str_it + 1) str_buf1))"

text \<open>What \<open>OutputString\<close> reads from the array: the elements before the first zero.\<close>

fun read_wstr :: "u16 option list \<Rightarrow> ub + u16 list" where
  "read_wstr [] = Inl Oob_read"
| "read_wstr (None # xs) = Inl Uninit_read"
| "read_wstr (Some x # xs) =
     (if x = 0 then Inr [] else (case read_wstr xs of Inl u \<Rightarrow> Inl u | Inr ys \<Rightarrow> Inr (x # ys)))"

text \<open>An array of \<open>count*2\<close> elements (a \<open>size_t\<close> that may have wrapped) of two bytes each has to exist.\<close>

definition write_console :: "'w firmware \<Rightarrow> u64 \<Rightarrow> u64 \<Rightarrow> 'w machine \<Rightarrow> ('w machine, i64) outcome" where
  "write_console fw buf count s =
     (if 2 ^ 64 \<le> unat (count * 2) * 2 then Undef Array_size
      else
      case expand_chars (mem s) buf count 0 0 (replicate (unat (count * 2)) None) of
        None \<Rightarrow> Diverge
      | Some (Inl u) \<Rightarrow> Undef u
      | Some (Inr (str_it, str_buf)) \<Rightarrow>
          (case arr_put (unat str_it) (Some 0) str_buf of
             None \<Rightarrow> Undef Oob_write
           | Some str_buf \<Rightarrow>
               (case read_wstr str_buf of
                  Inl u \<Rightarrow> Undef u
                | Inr str \<Rightarrow>
                    (case out_string fw str (world s) of
                       (status, w) \<Rightarrow> Ret (check_status (hdr fw) status count) (s\<lparr>world := w\<rparr>)))))"

definition write_file ::
  "'w firmware \<Rightarrow> u64 \<Rightarrow> u64 \<Rightarrow> 'w machine \<Rightarrow> u64 \<Rightarrow> ('w machine, i64) outcome" where
  "write_file fw buf count s FileHandle =
     (case f_write fw FileHandle count (load_bytes (mem s) buf (unat count)) (world s) of
        (status, count, w) \<Rightarrow> Ret (check_status (hdr fw) status count) (s\<lparr>world := w\<rparr>))"

definition fd_write ::
  "'w firmware \<Rightarrow> i32 \<Rightarrow> u64 \<Rightarrow> u64 \<Rightarrow> 'w machine \<Rightarrow> ('w machine, i64) outcome" where
  "fd_write fw fd buf count s =
     (if sint fd > int MAX_FDS then Ret (- EBADF) s
      else if fd = 1 \<or> fd = 2 then write_console fw buf count s
      else with_fd fd s (write_file fw buf count s))"

section \<open>The console text of a byte string\<close>

fun console_text :: "u8 list \<Rightarrow> u16 list" where
  "console_text [] = []"
| "console_text (b # bs) =
     (if b = 0 then console_text bs
      else if b = 0x0A then 0x0D # 0x0A # console_text bs
      else ucast b # console_text bs)"

lemma console_text_nonzero: "0 \<notin> set (console_text bs)"
  by (induction bs) (auto simp: ucast_up_eq_0)

lemma length_console_text: "length (console_text bs) \<le> 2 * length bs"
  by (induction bs) auto

lemma length_console_text_full:
  "length (console_text bs) = 2 * length bs \<longleftrightarrow> (\<forall>b \<in> set bs. b = 0x0A)"
proof (induction bs)
  case Nil
  then show ?case by simp
next
  case (Cons b bs)
  then show ?case using length_console_text [of bs] by auto
qed

lemma read_wstr_filled:
  "0 \<notin> set xs \<Longrightarrow> read_wstr (map Some xs @ Some 0 # ys) = Inr xs"
  by (induction xs) auto

section \<open>The conversion loop\<close>

lemma unat_of_nat_u32: "n < 2 ^ 32 \<Longrightarrow> unat (of_nat n :: u32) = n"
  by (simp add: unat_of_nat)

lemma zext_of_nat: "n < 2 ^ 32 \<Longrightarrow> zext (of_nat n :: u32) = of_nat n"
proof -
  assume "n < 2 ^ 32"
  then have "unat (zext (of_nat n :: u32)) = n"
    by (simp only: unat_zext32 unat_of_nat_u32)
  moreover have "unat (of_nat n :: u64) = n"
    using \<open>n < 2 ^ 32\<close> by (intro unat_of_nat_u64) simp
  ultimately show ?thesis by (metis word_unat_eq_iff)
qed

lemma append_cell:
  "arr_put (length xs) (Some v) (map Some xs @ replicate (Suc r) None) =
     Some (map Some (xs @ [v]) @ replicate r None)"
  by (simp add: arr_put_def list_update_append)

text \<open>The three steps of the loop.\<close>

lemma expand_steps:
  assumes "zext it \<noteq> count" and "src \<noteq> 0"
  shows "load8 m (src + zext it) = 0 \<Longrightarrow>
      expand_chars m src count it p buf = expand_chars m src count (it + 1) p buf"
    and "load8 m (src + zext it) = 0x0A \<Longrightarrow> arr_put (unat p) (Some 0x0D) buf = Some b1 \<Longrightarrow>
      arr_put (unat (p + 1)) (Some 0x0A) b1 = Some b2 \<Longrightarrow>
      expand_chars m src count it p buf = expand_chars m src count (it + 1) (p + 1 + 1) b2"
    and "load8 m (src + zext it) = c \<Longrightarrow> c \<noteq> 0 \<Longrightarrow> c \<noteq> 0x0A \<Longrightarrow>
      arr_put (unat p) (Some (ucast c)) buf = Some b1 \<Longrightarrow>
      expand_chars m src count it p buf = expand_chars m src count (it + 1) (p + 1) b1"
  using assms by (simp_all add: expand_chars.simps [of m src count it p buf])

text \<open>The buffer of a write of \<open>n\<close> bytes, filled with \<open>xs\<close> so far.\<close>

abbreviation filled :: "nat \<Rightarrow> u16 list \<Rightarrow> u16 option list" where
  "filled n xs \<equiv> map Some xs @ replicate (2 * n - length xs) None"

lemma put_filled:
  assumes "length xs < 2 * n" and "length xs < 2 ^ 32"
  shows "arr_put (unat (of_nat (length xs) :: u32)) (Some v) (filled n xs) = Some (filled n (xs @ [v]))"
proof -
  obtain r where "2 * n - length xs = Suc r" using assms(1) by (cases "2 * n - length xs") auto
  then show ?thesis using append_cell [of xs v r] assms(2) by (simp add: unat_of_nat_u32)
qed

lemma expand_round:
  assumes "k < n" and "2 * n < 2 ^ 32" and "length xs \<le> 2 * k"
    and "ys = xs @ console_text [load8 m (src + of_nat k)]" and "src \<noteq> 0"
  shows "expand_chars m src (of_nat n) (of_nat k) (of_nat (length xs)) (filled n xs) =
    expand_chars m src (of_nat n) (of_nat (Suc k)) (of_nat (length ys)) (filled n ys)"
proof -
  let ?c = "load8 m (src + of_nat k)"
  have z: "zext (of_nat k :: u32) = of_nat k" using assms(1,2) by (simp add: zext_of_nat)
  have nz: "zext (of_nat k :: u32) \<noteq> (of_nat n :: u64)" and at: "load8 m (src + zext (of_nat k :: u32)) = ?c"
    unfolding z using assms(1,2) by (simp_all add: of_nat_u64_eq_iff)
  have put: "arr_put (unat (of_nat (length xs) :: u32)) (Some v) (filled n xs) = Some (filled n (xs @ [v]))"
    "arr_put (unat (of_nat (length xs) + 1 :: u32)) (Some w) (filled n (xs @ [v])) = Some (filled n (xs @ [v, w]))" for v w
    using assms(1-3) put_filled [of xs n v] put_filled [of "xs @ [v]" n w] by (simp_all add: add.commute)
  consider "?c = 0" | "?c = 0x0A" | "?c \<noteq> 0" "?c \<noteq> 0x0A" by blast
  then show ?thesis
  proof cases
    case 1
    then show ?thesis using expand_steps(1) [OF nz assms(5) at [unfolded 1]] assms(4) by (simp add: add.commute)
  next
    case 2
    then have "ys = xs @ [0x0D, 0x0A]" using assms(4) by simp
    then show ?thesis using expand_steps(2) [OF nz assms(5) at [unfolded 2] put] by (simp add: add.commute)
  next
    case 3
    then show ?thesis using expand_steps(3) [OF nz assms(5) at 3 put(1)] assms(4) by (simp add: add.commute)
  qed
qed

lemma console_text_Cons: "console_text (b # bs) = console_text [b] @ console_text bs"
  by simp

lemma expand_chars_runs:
  assumes "k \<le> n" and "2 * n < 2 ^ 32" and "length xs \<le> 2 * k" and "bs = load_bytes m src n"
    and "src \<noteq> 0 \<or> n = 0"
  shows "expand_chars m src (of_nat n) (of_nat k) (of_nat (length xs)) (filled n xs) =
    (let ys = xs @ console_text (drop k bs) in Some (Inr (of_nat (length ys), filled n ys)))"
  using assms(1,3)
proof (induction "n - k" arbitrary: k xs)
  case 0
  then show ?case using assms(2,4) by (simp add: expand_chars.simps zext_of_nat)
next
  case (Suc j)
  let ?ys = "xs @ console_text [load8 m (src + of_nat k)]"
  have k: "k < n" using Suc.hyps(2) by simp
  then have "drop k bs = load8 m (src + of_nat k) # drop (Suc k) bs"
    using assms(4) by (simp add: nth_load_bytes flip: Cons_nth_drop_Suc)
  moreover have "length ?ys \<le> 2 * Suc k"
    using Suc.prems length_console_text [of "[load8 m (src + of_nat k)]"] by simp
  moreover have src: "src \<noteq> 0" using assms(5) k by simp
  ultimately show ?case
    using expand_round [OF k assms(2) Suc.prems(2) refl src, of m] Suc.hyps(1) [of "Suc k" ?ys] Suc.hyps(2) k
    by (simp only: console_text_Cons [of _ "drop (Suc k) bs"] append_assoc)
qed

lemma write_console_eq:
  assumes "unat count < 2 ^ 31" and "bs = load_bytes (mem s) buf (unat count)"
  shows "write_console fw buf count s =
    (if buf = 0 \<and> count \<noteq> 0 then Undef Null_deref
     else if \<forall>b \<in> set bs. b = 0x0A then Undef Oob_write
     else
       let (status, w) = out_string fw (console_text bs) (world s)
       in Ret (check_status (hdr fw) status count) (s\<lparr>world := w\<rparr>))"
proof (cases "buf = 0 \<and> count \<noteq> 0")
  case True
  then have "expand_chars (mem s) buf count 0 0 b = Some (Inl Null_deref)" for b
    by (simp add: expand_chars.simps)
  moreover have "unat (count * 2) \<le> unat count * 2"
    by (simp only: unat_word_ariths(2) mod_less_eq_dividend) simp
  ultimately show ?thesis using True assms(1) by (simp add: write_console_def)
next
  case False
  let ?n = "unat count" and ?t = "console_text bs"
  have n: "2 * ?n < 2 ^ 32" using assms(1) by simp
  have "unat (count * 2) = unat count * 2"
    using n by (subst unat_mult_lem [THEN iffD1]) simp_all
  then have c: "unat (count * 2) = 2 * ?n" by simp
  have fits: "\<not> 2 ^ 64 \<le> 2 * ?n * 2" using n by simp
  have src: "buf \<noteq> 0 \<or> ?n = 0" using False by auto
  note null = False
  have len: "length bs = ?n" using assms(2) by simp
  have run: "expand_chars (mem s) buf count 0 0 (replicate (2 * ?n) None) =
      Some (Inr (of_nat (length ?t), map Some ?t @ replicate (2 * ?n - length ?t) None))"
    using expand_chars_runs [of 0 ?n "[]" bs "mem s" buf] assms(2) n src
    by (simp add: Let_def)
  have le: "length ?t \<le> 2 * ?n" using length_console_text [of bs] len by simp
  have u: "unat (of_nat (length ?t) :: u32) = length ?t"
    by (rule unat_of_nat_u32) (use le n in linarith)
  show ?thesis
  proof (cases "\<forall>b \<in> set bs. b = 0x0A")
    case True
    then have "length ?t = 2 * ?n" using length_console_text_full [of bs] len by simp
    then have "arr_put (length ?t) (Some 0) (map Some ?t @ replicate (2 * ?n - length ?t) None) = None"
      by simp
    then show ?thesis by (simp only: write_console_def if_not_P [OF fits] if_not_P [OF null] c run u option.case sum.case prod.case if_P [OF True])
  next
    case False
    then have "length ?t \<noteq> 2 * ?n" using length_console_text_full [of bs] len by simp
    with le obtain r where r: "2 * ?n - length ?t = Suc r"
      by (cases "2 * ?n - length ?t") auto
    have p: "arr_put (length ?t) (Some 0) (map Some ?t @ replicate (2 * ?n - length ?t) None) =
        Some (map Some ?t @ Some 0 # replicate r None)"
      unfolding r using append_cell [of ?t 0 r] by simp
    show ?thesis
      by (simp only: write_console_def if_not_P [OF fits] if_not_P [OF null] c run u p option.case sum.case prod.case if_not_P [OF False]
          read_wstr_filled [OF console_text_nonzero] Let_def case_prod_beta fst_conv snd_conv)
  qed
qed

lemma fd_std [simp]:
  "fd_write fw 1 buf count s = write_console fw buf count s"
  "fd_write fw 2 buf count s = write_console fw buf count s"
  "fd_read fw 0 buf count s = read_console fw buf count s"
  by (simp_all add: fd_write_def fd_read_def)

text \<open>
  C11: Writing to descriptor 1 or 2: the firmware receives, in one \<open>OutputString\<close>, the bytes of the
  buffer with every newline turned into a carriage return and a newline and every NUL left out, and
  the call returns \<open>count\<close> or the firmware's error; but when every byte is a newline (and when
  \<open>count\<close> is 0) the terminating NUL is written outside the array, which is undefined behaviour, as is
  a null buffer with a \<open>count\<close> other than 0.
\<close>

theorem fd_write_console:
  assumes "fd = 1 \<or> fd = 2" and "unat count < 2 ^ 31" and "bs = load_bytes (mem s) buf (unat count)"
  shows "fd_write fw fd buf count s =
    (if buf = 0 \<and> count \<noteq> 0 then Undef Null_deref
     else if \<forall>b \<in> set bs. b = 0x0A then Undef Oob_write
     else
       let (status, w) = out_string fw (console_text bs) (world s)
       in Ret (if EFI_ERROR (hdr fw) status then scast (- efi_status_to_errno (hdr fw) status) else count)
            (s\<lparr>world := w\<rparr>))"
  using assms(1) write_console_eq [OF assms(2,3), of fw]
  by (auto simp: check_status_def)

text \<open>Without a bound on \<open>count\<close>: the 32-bit counter never reaches it.\<close>

lemma zext_less: "unat (zext (x :: u32)) < 2 ^ 32"
  using unsigned_less [of x] by (simp only: unat_zext32) simp

lemma expand_chars_never:
  assumes "2 ^ 32 \<le> unat count" and "2 ^ 32 \<le> length buf" and "src \<noteq> 0"
  shows "expand_chars m src count it p buf = None"
proof -
  have "length buf < 2 ^ 32 \<or> unat count < 2 ^ 32 \<or> src = 0" if "expand_chars m src count it p buf = Some x" for x
  proof (rule expand_chars.raw_induct [where P = "\<lambda>m src count it p buf x.
      length buf < 2 ^ 32 \<or> unat count < 2 ^ 32 \<or> src = 0", OF _ that])
    fix loop m src count and it p :: u32 and buf x
    assume IH: "\<And>m src count it p buf x. loop m src count it p buf = Some x \<Longrightarrow>
        length buf < 2 ^ 32 \<or> unat count < 2 ^ 32 \<or> src = 0"
      and step: "(if zext it = count then Some (Inr (p, buf))
      else if src = 0 then Some (Inl Null_deref)
      else let c = load8 m (src + zext it) in
        if c = 0 then loop m src count (it + 1) (p - 1 + 1) buf
        else if c = 0x0A then
          (case arr_put (unat p) (Some 0x0D) buf of None \<Rightarrow> Some (Inl Oob_write)
           | Some buf1 \<Rightarrow> (case arr_put (unat (p + 1)) (Some 0x0A) buf1 of None \<Rightarrow> Some (Inl Oob_write)
                | Some buf2 \<Rightarrow> loop m src count (it + 1) (p + 1 + 1) buf2))
        else (case arr_put (unat p) (Some (ucast c)) buf of None \<Rightarrow> Some (Inl Oob_write)
           | Some buf1 \<Rightarrow> loop m src count (it + 1) (p + 1) buf1)) = Some x"
    have small: "length buf < 2 ^ 32" if "length buf \<le> unat q" for q :: u32
    proof -
      have "unat q < 2 ^ LENGTH(32)" by (rule unsigned_less)
      with that show ?thesis by simp
    qed
    with step show "length buf < 2 ^ 32 \<or> unat count < 2 ^ 32 \<or> src = 0"
      using zext_less [of it]
      by (auto simp: Let_def arr_put_def not_less split: if_splits dest!: IH dest: small)
  qed
  with assms show ?thesis by (cases "expand_chars m src count it p buf") fastforce+
qed

lemma expand_chars_ends:
  assumes "unat it \<le> unat count" and "unat count < 2 ^ 32"
  shows "expand_chars m src count it p buf \<noteq> None"
  using assms(1)
proof (induction "unat count - unat it" arbitrary: it p buf)
  case 0
  then have "zext it = count" using unat_zext32 [of it] by (simp add: word_unat_eq_iff)
  then show ?case by (simp add: expand_chars.simps)
next
  case (Suc j)
  then have lt: "unat it < unat count" by linarith
  then have ne: "zext it \<noteq> count" using unat_zext32 [of it] by (metis less_irrefl)
  have s: "unat (it + 1) = unat it + 1"
    by (rule unat_plus_one) (use lt assms(2) in simp)
  have IH: "expand_chars m src count (it + 1) p' buf' \<noteq> None" for p' buf'
    by (rule Suc.hyps(1)) (use s lt Suc.hyps(2) in linarith)+
  show ?case
    using ne IH by (subst expand_chars.simps) (auto simp: Let_def split: option.splits)
qed

section \<open>The keyboard\<close>

text \<open>
  Documented behaviour of the console: \<open>typed\<close> is the queue of keys still to be read, \<open>shown\<close> the
  text printed so far. Reading takes the first key off the queue, printing appends, and neither
  waiting nor printing touches the queue.
\<close>

definition console_contract ::
  "'w firmware \<Rightarrow> ('w \<Rightarrow> u16 list) \<Rightarrow> ('w \<Rightarrow> u16 list) \<Rightarrow> bool" where
  "console_contract fw typed shown \<longleftrightarrow>
     (\<forall>w k ks. typed w = k # ks \<longrightarrow> fst (snd (read_key fw w)) = k \<and>
        typed (snd (snd (read_key fw w))) = ks \<and> shown (snd (snd (read_key fw w))) = shown w) \<and>
     (\<forall>w. typed (snd (wait_for_key fw w)) = typed w \<and> shown (snd (wait_for_key fw w)) = shown w) \<and>
     (\<forall>w us. typed (snd (stall fw us w)) = typed w \<and> shown (snd (stall fw us w)) = shown w) \<and>
     (\<forall>w str. typed (snd (out_string fw str w)) = typed w \<and>
        shown (snd (out_string fw str w)) = shown w @ str)"

lemma console_calls:
  assumes "console_contract fw typed shown"
  shows "out_string fw str w = (st, w') \<Longrightarrow> typed w' = typed w \<and> shown w' = shown w @ str"
    and "stall fw us w = (st, w') \<Longrightarrow> typed w' = typed w \<and> shown w' = shown w"
  using assms unfolding console_contract_def by (metis snd_conv)+

text \<open>The byte a key becomes, and the keys that neither end a line nor are a backspace at its start.\<close>

definition plain_key :: "u16 \<Rightarrow> bool" where
  "plain_key k \<longleftrightarrow> (ucast k :: u8) \<noteq> 0x0D \<and> (ucast k :: u8) \<noteq> 0x0A"

definition echo :: "u16 list \<Rightarrow> u16 list" where
  "echo ks = concat (map (\<lambda>k. before_nul [k]) ks)"

text \<open>One round of the loop, for each kind of key.\<close>

lemma read_keys_steps:
  assumes "console_contract fw typed shown" and "typed (world s) = k # ks" and "zext it \<noteq> count"
    and "buf \<noteq> 0 \<or> it = 0 \<and> (ucast k :: u8) = 0x08"
  shows "it = 0 \<Longrightarrow> (ucast k :: u8) = 0x08 \<Longrightarrow>
      \<exists>w. typed w = ks \<and> shown w = shown (world s) \<and>
        read_keys fw buf count it s = read_keys fw buf count (it + 1) (s\<lparr>world := w\<rparr>)"
    and "\<not> (it = 0 \<and> (ucast k :: u8) = 0x08) \<Longrightarrow> plain_key k \<Longrightarrow>
      \<exists>w. typed w = ks \<and> shown w = shown (world s) @ before_nul [k] \<and>
        read_keys fw buf count it s = read_keys fw buf count (it + 1)
          (s\<lparr>world := w, mem := store8 (buf + zext it) (ucast k) (mem s)\<rparr>)"
    and "(ucast k :: u8) = 0x0D \<Longrightarrow>
      \<exists>w. typed w = ks \<and> shown w = shown (world s) @ before_nul [k] @ [0x0A] \<and>
        read_keys fw buf count it s =
          Some (Inr (it, s\<lparr>world := w, mem := store8 (buf + zext it) 0x0A (mem s)\<rparr>))"
proof -
  define w1 where "w1 = snd (wait_for_key fw (snd (stall fw 1000 (world s))))"
  define w2 where "w2 = snd (snd (read_key fw w1))"
  define w3 where "w3 = snd (out_string fw (before_nul [k]) w2)"
  have t1: "typed w1 = k # ks" "shown w1 = shown (world s)"
    using assms(1,2) by (simp_all add: console_contract_def w1_def)
  then have t2: "fst (snd (read_key fw w1)) = k" "typed w2 = ks" "shown w2 = shown (world s)"
    using assms(1) by (simp_all add: console_contract_def w2_def)
  then have t3: "typed w3 = ks" "shown w3 = shown (world s) @ before_nul [k]"
    using assms(1) by (simp_all add: console_contract_def w3_def)
  have eq: "read_keys fw buf count it s =
    (if it = 0 \<and> (ucast k :: u8) = 0x08 then read_keys fw buf count (it + 1) (s\<lparr>world := w2\<rparr>)
     else
       let w = (if (ucast k :: u8) = 0x0D then snd (out_string fw [0x0A] w3) else w3);
           c = (if (ucast k :: u8) = 0x0D then 0x0A else ucast k);
           s = s\<lparr>world := w, mem := store8 (buf + zext it) c (mem s)\<rparr>
       in if c = 0x0A then Some (Inr (it, s)) else read_keys fw buf count (it + 1) s)"
    using assms(3,4) t2(1)
    by (subst read_keys.simps) (simp add: Let_def w1_def w2_def w3_def case_prod_beta)
  show "\<exists>w. typed w = ks \<and> shown w = shown (world s) \<and>
        read_keys fw buf count it s = read_keys fw buf count (it + 1) (s\<lparr>world := w\<rparr>)"
    if "it = 0" "(ucast k :: u8) = 0x08"
    using eq that t2 by auto
  show "\<exists>w. typed w = ks \<and> shown w = shown (world s) @ before_nul [k] \<and>
        read_keys fw buf count it s = read_keys fw buf count (it + 1)
          (s\<lparr>world := w, mem := store8 (buf + zext it) (ucast k) (mem s)\<rparr>)"
    if "\<not> (it = 0 \<and> (ucast k :: u8) = 0x08)" "plain_key k"
    using that t3 unfolding eq by (intro exI [of _ w3]) (simp only: plain_key_def Let_def if_False)
  show "\<exists>w. typed w = ks \<and> shown w = shown (world s) @ before_nul [k] @ [0x0A] \<and>
        read_keys fw buf count it s =
          Some (Inr (it, s\<lparr>world := w, mem := store8 (buf + zext it) 0x0A (mem s)\<rparr>))"
    if "(ucast k :: u8) = 0x0D"
    using that t3 assms(1) unfolding eq
    by (intro exI [of _ "snd (out_string fw [0x0A] w3)"]) (simp add: console_contract_def)
qed

lemma echo_simps [simp]: "echo [] = []" "echo (k # ks) = before_nul [k] @ echo ks"
  by (simp_all add: echo_def)

text \<open>A run of plain keys is stored and echoed; the loop then goes on behind it.\<close>

lemma read_keys_plain:
  assumes "console_contract fw typed shown" and "typed (world s) = ks @ rest"
    and "\<forall>k \<in> set ks. plain_key k" and "it = 0 \<and> ks \<noteq> [] \<longrightarrow> (ucast (hd ks) :: u8) \<noteq> 0x08"
    and "unat it + length ks \<le> unat count" and "unat count < 2 ^ 32" and "buf \<noteq> 0 \<or> ks = []"
  shows "\<exists>w. typed w = rest \<and> shown w = shown (world s) @ echo ks \<and>
    read_keys fw buf count it s = read_keys fw buf count (it + of_nat (length ks))
      (s\<lparr>world := w, mem := store_bytes (buf + zext it) (map ucast ks) (mem s)\<rparr>)"
  using assms(2-5,7)
proof (induction ks arbitrary: it s)
  case Nil
  then show ?case by (intro exI [of _ "world s"]) simp
next
  case (Cons k ks)
  have lt: "unat it < unat count" using Cons.prems(4) by simp
  then have ne: "zext it \<noteq> count" using unat_zext32 [of it] by (metis less_irrefl)
  have suc: "unat (it + 1) = unat it + 1"
    by (rule unat_plus_one) (use lt assms(6) in simp)
  then have z: "zext (it + 1) = zext it + 1"
    using assms(6) lt unat_plus_one [of "zext it"] unat_zext32 [of it] unat_zext32 [of "it + 1"]
    by (simp add: word_unat_eq_iff)
  have "it + 1 \<noteq> 0" using suc by (metis Suc_eq_plus1 nat.simps(3) unat_0)
  obtain w where w: "typed w = ks @ rest" "shown w = shown (world s) @ before_nul [k]"
      "read_keys fw buf count it s = read_keys fw buf count (it + 1)
          (s\<lparr>world := w, mem := store8 (buf + zext it) (ucast k) (mem s)\<rparr>)" (is "_ = read_keys _ _ _ _ ?s")
    using read_keys_steps(2) [OF assms(1) _ ne, of s k "ks @ rest" buf] Cons.prems by auto
  obtain w' where "typed w' = rest" "shown w' = shown (world ?s) @ echo ks"
     "read_keys fw buf count (it + 1) ?s = read_keys fw buf count (it + 1 + of_nat (length ks))
      (?s\<lparr>world := w', mem := store_bytes (buf + zext (it + 1)) (map ucast ks) (mem ?s)\<rparr>)"
    using Cons.IH [of ?s "it + 1"] w(1) Cons.prems suc \<open>it + 1 \<noteq> 0\<close> by auto
  then show ?case using w
    by (intro exI [of _ w']) (simp add: z add.assoc)
qed

text \<open>The keyboard loop ends as soon as \<open>count\<close> fits its counter, whatever the firmware answers.\<close>

lemma read_keys_ends:
  assumes "unat it \<le> unat count" and "unat count < 2 ^ 32"
  shows "read_keys fw buf count it s \<noteq> None"
  using assms(1)
proof (induction "unat count - unat it" arbitrary: it s)
  case 0
  then have "zext it = count" using unat_zext32 [of it] by (simp add: word_unat_eq_iff)
  then show ?case by (simp add: read_keys.simps)
next
  case (Suc j)
  then have lt: "unat it < unat count" by linarith
  then have ne: "zext it \<noteq> count" using unat_zext32 [of it] by (metis less_irrefl)
  have s: "unat (it + 1) = unat it + 1"
    by (rule unat_plus_one) (use lt assms(2) in simp)
  have IH: "read_keys fw buf count (it + 1) s' \<noteq> None" for s'
    by (rule Suc.hyps(1)) (use s lt Suc.hyps(2) in linarith)+
  then have IH0: "it = 0 \<Longrightarrow> read_keys fw buf count 1 s' \<noteq> None" for s'
    by (metis add_0)
  show ?case
    using ne IH IH0 by (subst read_keys.simps) (simp add: Let_def case_prod_beta del: not_None_eq)
qed

text \<open>
  C16: The console loops end for every \<open>count\<close> below \<open>2^32\<close>, whatever the firmware answers and whatever
  the buffer holds. A write to the console of \<open>2^32\<close> bytes or more (below \<open>2^62\<close>) from a buffer that is
  not null never ends, because its counter is 32 bits wide; from \<open>2^62\<close> on (below \<open>2^63\<close>) it is undefined
  before the loop starts, because the size of the conversion array in bytes overflows.
\<close>

theorem console_io_terminates:
  "(unat count < 2 ^ 32 \<longrightarrow> fd_read fw fd buf count s \<noteq> Diverge \<and> fd_write fw fd buf count s \<noteq> Diverge) \<and>
   (2 ^ 32 \<le> unat count \<and> unat count < 2 ^ 62 \<and> buf \<noteq> 0 \<longrightarrow> fd_write fw 1 buf count s = Diverge) \<and>
   (2 ^ 62 \<le> unat count \<and> unat count < 2 ^ 63 \<longrightarrow> fd_write fw 1 buf count s = Undef Array_size)"
proof (intro conjI impI)
  assume c: "unat count < 2 ^ 32"
  have "with_fd fd s k \<noteq> Diverge" if "\<And>h. k h \<noteq> Diverge" for k :: "u64 \<Rightarrow> ('a machine, i64) outcome"
    using that by (simp add: with_fd_def split: option.splits)
  then show "fd_read fw fd buf count s \<noteq> Diverge" "fd_write fw fd buf count s \<noteq> Diverge"
    using read_keys_ends [of 0 count, OF _ c] expand_chars_ends [of 0 count, OF _ c]
    by (auto simp: fd_read_def fd_write_def read_console_def write_console_def read_file_def
        write_file_def case_prod_beta simp del: not_None_eq split: option.splits sum.splits)
next
  assume c: "2 ^ 32 \<le> unat count \<and> unat count < 2 ^ 62 \<and> buf \<noteq> 0"
  then have n: "unat (count * 2) = unat count * 2"
    by (subst unat_mult_lem [THEN iffD1]) simp_all
  have "expand_chars (mem s) buf count 0 0 (replicate (unat (count * 2)) None) = None"
    using c n by (intro expand_chars_never) simp_all
  then show "fd_write fw 1 buf count s = Diverge"
    using c n by (simp add: fd_write_def write_console_def)
next
  assume c: "2 ^ 62 \<le> unat count \<and> unat count < 2 ^ 63"
  then have "unat (count * 2) = unat count * 2"
    by (subst unat_mult_lem [THEN iffD1]) simp_all
  then show "fd_write fw 1 buf count s = Undef Array_size"
    using c by (simp add: fd_write_def write_console_def)
qed

lemma store_bytes_append:
  "store_bytes a (xs @ ys) m = store_bytes (a + of_nat (length xs)) ys (store_bytes a xs m)"
  by (induction xs arbitrary: a m) (simp_all add: add.assoc)

text \<open>The value \<open>fd_read\<close> computes from the counter, as long as it does not wrap.\<close>

lemma zext_Suc_count: "Suc n < 2 ^ 32 \<Longrightarrow> zext (of_nat n + 1 :: u32) = of_nat (n + 1)"
  using zext_of_nat [of "Suc n"] by (simp add: add.commute)

lemma read_console_line:
  assumes "console_contract fw typed shown" and "typed (world s) = ks @ k # rest"
    and "\<forall>k \<in> set ks. plain_key k" and "ks \<noteq> [] \<longrightarrow> (ucast (hd ks) :: u8) \<noteq> 0x08"
    and "(ucast k :: u8) = 0x0D" and "length ks < unat count" and "unat count < 2 ^ 32" and "buf \<noteq> 0"
  shows "\<exists>w. read_console fw buf count s = Ret (of_nat (length ks + 1))
      (s\<lparr>world := w, mem := store_bytes buf (map ucast ks @ [0x0A]) (mem s)\<rparr>) \<and>
    typed w = rest \<and> shown w = shown (world s) @ echo ks @ before_nul [k] @ [0x0A]"
proof -
  let ?n = "length ks"
  obtain w where w: "typed w = k # rest" "shown w = shown (world s) @ echo ks"
    and run: "read_keys fw buf count 0 s = read_keys fw buf count (of_nat ?n)
      (s\<lparr>world := w, mem := store_bytes buf (map ucast ks) (mem s)\<rparr>)" (is "_ = read_keys _ _ _ _ ?s")
    using read_keys_plain [OF assms(1-3), of 0 count buf] assms(4,6-8) by auto
  have n: "Suc ?n < 2 ^ 32 \<or> Suc ?n = unat count" "?n < 2 ^ 32" using assms(6,7) by linarith+
  have z: "zext (of_nat ?n :: u32) = of_nat ?n" using n by (simp add: zext_of_nat)
  have "of_nat ?n \<noteq> count" using assms(6) unat_of_nat_u64 [of ?n] n by auto
  then obtain w' where w': "typed w' = rest" "shown w' = shown (world ?s) @ before_nul [k] @ [0x0A]"
      "read_keys fw buf count (of_nat ?n) ?s =
          Some (Inr (of_nat ?n, ?s\<lparr>world := w', mem := store8 (buf + of_nat ?n) 0x0A (mem ?s)\<rparr>))"
    using read_keys_steps(3) [OF assms(1), of ?s k rest "of_nat ?n" count buf] w(1) assms(5,8)
    unfolding z by auto
  have "zext (of_nat ?n + 1 :: u32) = of_nat (?n + 1)"
    using assms(6,7) by (intro zext_Suc_count) linarith
  then show ?thesis
    using w w' run by (intro exI [of _ w']) (simp add: read_console_def store_bytes_append)
qed

text \<open>
  C12: Reading a line from the console: with a firmware that queues keys, plain keys followed by the
  return key, in a buffer with room for them, are stored as their bytes with a newline behind them;
  the call returns their number with the newline, takes exactly these keys off the queue, echoes
  them, and changes no other byte.
\<close>

theorem fd_read_console_line:
  assumes "console_contract fw typed shown" and "typed (world s) = ks @ k # rest"
    and "\<forall>k \<in> set ks. plain_key k" and "ks \<noteq> [] \<longrightarrow> (ucast (hd ks) :: u8) \<noteq> 0x08"
    and "(ucast k :: u8) = 0x0D" and "length ks < unat count" and "unat count < 2 ^ 32" and "buf \<noteq> 0"
  shows "\<exists>w. fd_read fw 0 buf count s = Ret (of_nat (length ks + 1))
      (s\<lparr>world := w, mem := store_bytes buf (map ucast ks @ [0x0A]) (mem s)\<rparr>) \<and>
    typed w = rest \<and> shown w = shown (world s) @ echo ks @ before_nul [k] @ [0x0A]"
  using read_console_line [OF assms] by simp

lemma read_console_full:
  assumes "console_contract fw typed shown" and "typed (world s) = ks @ rest"
    and "\<forall>k \<in> set ks. plain_key k" and "ks \<noteq> [] \<longrightarrow> (ucast (hd ks) :: u8) \<noteq> 0x08"
    and "length ks = unat count" and "unat count + 1 < 2 ^ 32" and "buf \<noteq> 0 \<or> count = 0"
  shows "\<exists>w. read_console fw buf count s = Ret (count + 1)
      (s\<lparr>world := w, mem := store_bytes buf (map ucast ks) (mem s)\<rparr>) \<and> typed w = rest \<and>
    shown w = shown (world s) @ echo ks"
proof -
  have c: "of_nat (length ks) = count" unfolding assms(5) by simp
  have z: "zext (of_nat (length ks) :: u32) = count"
    using assms(5,6) unfolding c [symmetric] by (intro zext_of_nat) simp
  have "\<exists>w. typed w = rest \<and> shown w = shown (world s) @ echo ks \<and>
    read_keys fw buf count 0 s = read_keys fw buf count (0 + of_nat (length ks))
      (s\<lparr>world := w, mem := store_bytes (buf + zext (0 :: u32)) (map ucast ks) (mem s)\<rparr>)"
    using assms by (intro read_keys_plain) auto
  then obtain w where w: "typed w = rest" "shown w = shown (world s) @ echo ks"
    "read_keys fw buf count 0 s = Some (Inr (of_nat (length ks),
      s\<lparr>world := w, mem := store_bytes buf (map ucast ks) (mem s)\<rparr>))"
    using z by (auto simp: read_keys.simps [of _ _ _ "of_nat (length ks)"])
  have "zext (of_nat (length ks) + 1 :: u32) = of_nat (length ks + 1)"
    using assms(5,6) by (intro zext_Suc_count) simp
  then show ?thesis
    using w c by (intro exI [of _ w]) (simp add: read_console_def add.commute)
qed

text \<open>
  C36: When the buffer fills up before the return key comes, the call stores \<open>count\<close> bytes but returns
  \<open>count + 1\<close>; in particular a read of 0 bytes returns 1. The keys are echoed, the rest stays queued.
\<close>

theorem fd_read_console_full:
  assumes "console_contract fw typed shown" and "typed (world s) = ks @ rest"
    and "\<forall>k \<in> set ks. plain_key k" and "ks \<noteq> [] \<longrightarrow> (ucast (hd ks) :: u8) \<noteq> 0x08"
    and "length ks = unat count" and "unat count + 1 < 2 ^ 32" and "buf \<noteq> 0 \<or> count = 0"
  shows "\<exists>w. fd_read fw 0 buf count s = Ret (count + 1)
      (s\<lparr>world := w, mem := store_bytes buf (map ucast ks) (mem s)\<rparr>) \<and> typed w = rest \<and>
    shown w = shown (world s) @ echo ks"
  using read_console_full [OF assms] by simp

text \<open>
  C37: A backspace typed at the start of a line is not stored but still counted: the first byte of the
  buffer keeps its old content, the line is stored from the second byte on, and the returned length
  counts the skipped byte.
\<close>

theorem fd_read_console_leading_backspace:
  assumes "console_contract fw typed shown" and "typed (world s) = b # ks @ k # rest"
    and "(ucast b :: u8) = 0x08" and "\<forall>k \<in> set ks. plain_key k"
    and "(ucast k :: u8) = 0x0D" and "length ks + 1 < unat count" and "unat count < 2 ^ 32" and "buf \<noteq> 0"
  shows "\<exists>w m. fd_read fw 0 buf count s = Ret (of_nat (length ks + 2)) (s\<lparr>world := w, mem := m\<rparr>) \<and>
    typed w = rest \<and> load8 m buf = load8 (mem s) buf \<and>
    load_bytes m (buf + 1) (length ks + 1) = map ucast ks @ [0x0A]"
proof -
  let ?n = "length ks" and ?l = "map ucast ks @ [0x0A]"
  have c0: "0 \<noteq> count" using assms(6) by auto
  then obtain w0 where w0: "typed w0 = ks @ k # rest"
      "read_keys fw buf count 0 s = read_keys fw buf count 1 (s\<lparr>world := w0\<rparr>)"
    using read_keys_steps(1) [OF assms(1,2), of 0 count buf] assms(3) by auto
  obtain w where w: "typed w = k # rest"
    and run: "read_keys fw buf count 1 (s\<lparr>world := w0\<rparr>) = read_keys fw buf count (1 + of_nat ?n)
      (s\<lparr>world := w, mem := store_bytes (buf + 1) (map ucast ks) (mem s)\<rparr>)"
      (is "_ = read_keys _ _ _ _ ?s")
    using read_keys_plain [OF assms(1) _ assms(4), of "s\<lparr>world := w0\<rparr>" "k # rest" 1 count buf]
      w0(1) assms(6-8) by auto
  have z: "zext (1 + of_nat ?n :: u32) = 1 + of_nat ?n"
    using zext_Suc_count [of ?n] assms(6,7) by (simp add: add.commute)
  have "1 + of_nat ?n \<noteq> count" using assms(6,7) unat_of_nat_u64 [of "1 + ?n"] by auto
  then obtain w' where w': "typed w' = rest"
      "read_keys fw buf count (1 + of_nat ?n) ?s =
        Some (Inr (1 + of_nat ?n, ?s\<lparr>world := w', mem := store8 (buf + (1 + of_nat ?n)) 0x0A (mem ?s)\<rparr>))"
    using read_keys_steps(3) [OF assms(1), of ?s k rest "1 + of_nat ?n" count buf] w assms(5,8)
    unfolding z by auto
  have r: "zext (1 + of_nat ?n + 1 :: u32) = of_nat (?n + 2)"
    using zext_Suc_count [of "Suc ?n"] assms(6,7) by (simp add: add.commute)
  have m: "store8 (buf + (1 + of_nat ?n)) 0x0A (store_bytes (buf + 1) (map ucast ks) (mem s)) =
      store_bytes (buf + 1) ?l (mem s)"
    by (simp add: store_bytes_append add.assoc)
  have "fd_read fw 0 buf count s = Ret (of_nat (?n + 2))
      (s\<lparr>world := w', mem := store_bytes (buf + 1) ?l (mem s)\<rparr>)"
    using w0 run w' r m by (simp add: fd_read_def read_console_def)
  moreover have "\<not> in_range (buf + 1) (length ?l) buf"
  proof -
    have "unat (buf - (buf + 1)) = unat (0xFFFFFFFFFFFFFFFF :: u64)" by (rule arg_cong) simp
    also have "\<dots> = 0xFFFFFFFFFFFFFFFF" by (rule unat_bintrunc [THEN trans]) simp
    finally show ?thesis using assms(6,7) by (simp add: in_range_def)
  qed
  moreover have "load_bytes (store_bytes (buf + 1) ?l (mem s)) (buf + 1) (?n + 1) = ?l"
    using assms(6,7) by (intro load_bytes_store_bytes_same) simp_all
  ultimately show ?thesis
    using w'(1) load8_store_bytes_other by blast
qed

section \<open>Files\<close>

text \<open>The parts of both calls behind the descriptor guard.\<close>

interpretation read_call: descriptor_call
  "\<lambda>fd s. with_fd fd s (read_file fw buf count s)" "\<lambda>_. read_file fw buf count" for fw buf count
  by unfold_locales simp

interpretation write_call: descriptor_call
  "\<lambda>fd s. with_fd fd s (write_file fw buf count s)" "\<lambda>_. write_file fw buf count" for fw buf count
  by unfold_locales simp

lemma fd_read_guarded: "fd \<noteq> 0 \<Longrightarrow> fd_read fw fd buf count s = with_fd fd s (read_file fw buf count s)"
  by (simp add: fd_read_def with_fd_def)

lemma fd_write_guarded:
  "fd \<noteq> 1 \<Longrightarrow> fd \<noteq> 2 \<Longrightarrow> fd_write fw fd buf count s = with_fd fd s (write_file fw buf count s)"
  by (simp add: fd_write_def with_fd_def)

lemma in_window_not_std: "in_window fd \<Longrightarrow> fd \<noteq> 0 \<and> fd \<noteq> 1 \<and> fd \<noteq> 2"
  by (auto simp: in_window_def)

text \<open>
  C30: Reading an open file, for every status and every size the firmware reports: on success the call
  returns the reported size, on an error (a buffer that is too small included, where the size is the
  one that would be needed) the negative error number; what the firmware put into the buffer is
  there, and as long as it kept to the \<open>count\<close> bytes it was given no other byte changes.
\<close>

theorem fd_read_file:
  assumes "wf_machine s" and "in_window fd" and "slot s fd \<noteq> 0"
    and "f_read fw (slot s fd) count (world s) = (status, n, bytes, w)"
    and "length bytes \<le> unat count"
  shows "\<exists>m. fd_read fw fd buf count s =
      Ret (if EFI_ERROR (hdr fw) status then scast (- efi_status_to_errno (hdr fw) status) else n)
        (s\<lparr>world := w, mem := m\<rparr>) \<and>
    load_bytes m buf (length bytes) = bytes \<and>
    (\<forall>x. \<not> in_range buf (unat count) x \<longrightarrow> load8 m x = load8 (mem s) x)"
proof -
  let ?m = "store_bytes buf bytes (mem s)"
  have len: "length (fds s) = 16" using assms(1) by (simp add: wf_machine_def)
  have "fd_read fw fd buf count s = Ret (check_status (hdr fw) status n) (s\<lparr>world := w, mem := ?m\<rparr>)"
    using in_window_not_std [OF assms(2)] read_call.live [OF len assms(2,3)] assms(4)
    by (simp add: fd_read_guarded read_file_def)
  moreover have "load_bytes ?m buf (length bytes) = bytes"
    using assms(5) unsigned_less [of count, where 'a = nat] by (intro load_bytes_store_bytes_same) simp_all
  moreover have "load8 ?m x = load8 (mem s) x" if "\<not> in_range buf (unat count) x" for x
    using that assms(5) by (intro load8_store_bytes_other) (auto simp: in_range_def)
  ultimately show ?thesis by (auto simp: check_status_def)
qed

section \<open>Frames\<close>

text \<open>
  An induction over the rounds of the keyboard loop, for what does not depend on the firmware's answers:
  the loop stops, skips a key, meets a null buffer, or stores a byte and stops or goes on.
\<close>

lemma read_keys_rounds:
  assumes "read_keys fw buf count it s = Some y"
    and stop: "\<And>it s. zext it = count \<Longrightarrow> P it s (Inr (it, s))"
    and skip: "\<And>it s w y. zext it \<noteq> count \<Longrightarrow> P (it + 1) (s\<lparr>world := w\<rparr>) y \<Longrightarrow> P it s y"
    and null: "\<And>it s. zext it \<noteq> count \<Longrightarrow> buf = 0 \<Longrightarrow> P it s (Inl Null_deref)"
    and last: "\<And>it s w c. zext it \<noteq> count \<Longrightarrow> P it s (Inr (it, s\<lparr>world := w, mem := store8 (buf + zext it) c (mem s)\<rparr>))"
    and "next": "\<And>it s w c y. zext it \<noteq> count \<Longrightarrow>
      P (it + 1) (s\<lparr>world := w, mem := store8 (buf + zext it) c (mem s)\<rparr>) y \<Longrightarrow> P it s y"
  shows "P it s y"
proof (rule read_keys.raw_induct [where P = "\<lambda>fw' buf' count' it s y. fw' = fw \<and> buf' = buf \<and> count' = count \<longrightarrow> P it s y",
    OF _ assms(1), THEN mp, OF _ conjI, OF _ refl conjI, OF _ refl refl])
  fix loop fw' buf' count' it s y
  assume IH: "\<And>fw' buf' count' it s y. loop fw' buf' count' it s = Some y \<Longrightarrow> fw' = fw \<and> buf' = buf \<and> count' = count \<longrightarrow> P it s y"
    and step: "(if zext it = count' then Some (Inr (it, s))
      else
        let w = snd (stall fw' 1000 (world s));
            w = snd (wait_for_key fw' w);
            (_, key, w) = read_key fw' w;
            c = (ucast key :: u8)
        in if it = 0 \<and> c = 0x08 then loop fw' buf' count' (it + 1) (s\<lparr>world := w\<rparr>)
           else
             let w = snd (out_string fw' (before_nul [key]) w);
                 w = (if c = 0x0D then snd (out_string fw' [0x0A] w) else w);
                 c = (if c = 0x0D then 0x0A else c);
                 s = s\<lparr>world := w, mem := store8 (buf' + zext it) c (mem s)\<rparr>
             in if buf' = 0 then Some (Inl Null_deref)
                else if c = 0x0A then Some (Inr (it, s)) else loop fw' buf' count' (it + 1) s) = Some y"
  show "fw' = fw \<and> buf' = buf \<and> count' = count \<longrightarrow> P it s y"
  proof (intro impI, elim conjE)
    assume eqs: "fw' = fw" "buf' = buf" "count' = count"
    have IH': "P it s y" if "loop fw buf count it s = Some y" for it s y using IH [OF that] by simp
    show "P it s y"
    proof (cases "zext it = count")
      case True
      then show ?thesis using step eqs stop [OF True] by auto
    next
      case False
      note skip = skip [OF False] and null = null [OF False] and last = last [OF False] and "next" = "next" [OF False]
      let ?w = "snd (wait_for_key fw (snd (stall fw 1000 (world s))))"
      obtain st key w where k: "read_key fw ?w = (st, key, w)" by (cases "read_key fw ?w") auto
      show ?thesis
      proof (cases "it = 0 \<and> (ucast key :: u8) = 0x08")
        case True
        then show ?thesis
          using skip [where s = s and w = w and y = y] step False eqs k by (auto dest!: IH')
      next
        case False
        then show ?thesis
          using step \<open>zext it \<noteq> count\<close> eqs
          by (simp only: Let_def k prod.case if_False)
            (auto simp: k split: if_splits dest!: IH' intro: null last "next")
      qed
    qed
  qed
qed

lemma read_keys_frame:
  assumes "read_keys fw buf count it s = Some (Inr x)"
  shows "frame (snd x) = frame s"
proof -
  have "y = Inr x \<longrightarrow> frame (snd x) = frame s" if "read_keys fw buf count it s = Some y" for y
    using that by (rule read_keys_rounds) auto
  from this [OF assms] show ?thesis by simp
qed

lemma read_keys_undefined:
  assumes "read_keys fw buf count it s = Some (Inl u)"
  shows "u = Null_deref \<and> buf = 0"
proof -
  have "y = Inl u \<longrightarrow> u = Null_deref \<and> buf = 0" if "read_keys fw buf count it s = Some y" for y
    using that by (rule read_keys_rounds) auto
  from this [OF assms] show ?thesis by simp
qed

lemma read_console_undefined:
  assumes "read_console fw buf count s = Undef u"
  shows "u = Null_deref \<and> buf = 0 \<and> count \<noteq> 0"
proof -
  have "read_keys fw buf count 0 s = Some (Inl u)"
    using assms by (simp add: read_console_def split: option.splits sum.splits prod.splits)
  moreover from this have "count \<noteq> 0" by (auto simp: read_keys.simps [of fw buf count 0 s])
  ultimately show ?thesis using read_keys_undefined by blast
qed

lemma fd_read_frame [keeps_intros]: "keeps (in_frame f) s (fd_read fw fd buf count s)"
proof (cases "fd = 0")
  case True
  then show ?thesis
    by (auto simp: keeps_def fd_read_def read_console_def dest!: read_keys_frame split: option.splits sum.splits)
next
  case False
  show ?thesis
    unfolding fd_read_guarded [OF False]
    by (rule read_call.keeps_call_always) (auto simp: keeps_def read_file_def case_prod_beta)
qed

lemma fd_write_frame [keeps_intros]: "keeps (in_frame f) s (fd_write fw fd buf count s)"
proof (cases "fd = 1 \<or> fd = 2")
  case True
  then show ?thesis
    by (auto simp: keeps_def fd_write_def write_console_def case_prod_beta split: option.splits sum.splits)
next
  case False
  then have "fd \<noteq> 1" "fd \<noteq> 2" by auto
  then show ?thesis
    unfolding fd_write_guarded [OF \<open>fd \<noteq> 1\<close> \<open>fd \<noteq> 2\<close>]
    by (intro write_call.keeps_call_always) (auto simp: keeps_def write_file_def case_prod_beta)
qed

end
