(* ===== verification/Calendar.thy ===== *)
theory Calendar
  imports Machine
begin

text \<open>
  The calendar arithmetic of \<open>src/linux-uefi.c\<close>: \<open>time_year_to_secs\<close> (taken from musl) and
  \<open>time_efi_time_to_time_t\<close>, against a specification that adds up the lengths of the years and
  months of the Gregorian calendar.
\<close>

unbundle bit_operations_syntax

section \<open>The code\<close>

text \<open>
  \<open>year\<close> counts from 1900. The local \<open>int\<close> variables are HOL integers: for every \<open>year\<close> below
  \<open>2^32\<close> their values stay inside 32 bits (\<open>year_leaps_bounds\<close>), so no signed overflow occurs.
  The second component is \<open>*is_leap\<close>.
\<close>

definition year_leaps :: "int \<Rightarrow> int \<Rightarrow> int \<times> int" where
  "year_leaps cycles rem =
     (let (cycles, rem) = (if rem < 0 then (cycles - 1, rem + 400) else (cycles, rem));
          (is_leap, centuries, leaps) =
            (if rem = 0 then (1, 0, 0)
             else
               let (centuries, rem) =
                 (if rem \<ge> 200 then
                    (if rem \<ge> 300 then (3, rem - 300) else (2, rem - 200))
                  else if rem \<ge> 100 then (1, rem - 100) else (0, rem))
               in if rem = 0 then (0, centuries, 0)
                  else (if rem mod 4 = 0 then 1 else 0, centuries, rem div 4))
      in (leaps + (97 * cycles + 24 * centuries - is_leap), is_leap))"

definition time_year_to_secs :: "u64 \<Rightarrow> u64 \<times> int" where
  "time_year_to_secs year =
     (if year - 2 \<le> 136 then
        let y = sint (to_int year);
            leaps = drop_bit 2 (y - 68);
            (leaps, is_leap) = (if (y - 68) AND 3 = 0 then (leaps - 1, 1) else (leaps, 0))
        in (31536000 * word_of_int (y - 70) + 86400 * word_of_int leaps, is_leap)
      else
        let (leaps, is_leap) =
              year_leaps (sint (to_int ((year - 100) div 400))) (sint (to_int ((year - 100) mod 400)))
        in ((year - 100) * 31536000 + word_of_int leaps * 86400 + 946684800 + 86400, is_leap))"

definition secs_through_month :: "u64 list" where
  "secs_through_month =
     [0, 31*86400, 59*86400, 90*86400,
      120*86400, 151*86400, 181*86400, 212*86400,
      243*86400, 273*86400, 304*86400, 334*86400]"

text \<open>
  The code first rewrites the structure it was given: \<open>Year\<close> becomes years since 1900 (98 is
  added to years up to 2000), \<open>Month\<close> counts from 0, both at the width of the member. \<open>month\<close>
  comes from an unsigned byte, so it is never negative and C's \<open>/\<close> and \<open>%\<close> are \<open>div\<close> and \<open>mod\<close>.
\<close>

definition adjust_efi_time :: "efi_time \<Rightarrow> efi_time" where
  "adjust_efi_time t =
     t\<lparr>Year := Year t + (if Year t > 2000 then - 1900 else 98), Month := Month t - 1\<rparr>"

definition time_efi_time_to_time_t :: "efi_time \<Rightarrow> i64 \<times> efi_time" where
  "time_efi_time_to_time_t time =
     (let time = adjust_efi_time time;
          year = zext (Year time);
          month = uint (Month time);
          (year, month) =
            (if month \<ge> 12 \<or> month < 0 then
               let adj = word_of_int month div 12;
                   month = month mod 12;
                   (adj, month) = (if month < 0 then (adj - 1, month + 12) else (adj, month))
               in (year + adj, month)
             else (year, month));
          (t, is_leap) = time_year_to_secs year;
          t = t + secs_through_month ! nat month;
          t = (if is_leap \<noteq> 0 \<and> month \<ge> 2 then t + 86400 else t);
          t = t + 86400 * word_of_int (uint (Day time) - 1);
          t = t + 3600 * zext (Hour time);
          t = t + 60 * zext (Minute time);
          t = t + zext (Second time)
      in (t, time))"

section \<open>The specification\<close>

definition gregorian_leap :: "int \<Rightarrow> bool" where
  "gregorian_leap Y \<longleftrightarrow> 4 dvd Y \<and> (\<not> 100 dvd Y \<or> 400 dvd Y)"

definition year_length :: "int \<Rightarrow> int" where
  "year_length Y = (if gregorian_leap Y then 366 else 365)"

definition month_length :: "int \<Rightarrow> int \<Rightarrow> int" where
  "month_length Y M =
     (if M = 2 then (if gregorian_leap Y then 29 else 28)
      else if M = 4 \<or> M = 6 \<or> M = 9 \<or> M = 11 then 30 else 31)"

text \<open>Seconds from 1970-01-01 00:00:00 to a date of the year 1970 or later.\<close>

definition unix_seconds :: "int \<Rightarrow> int \<Rightarrow> int \<Rightarrow> int \<Rightarrow> int \<Rightarrow> int \<Rightarrow> int" where
  "unix_seconds Y M D h m s =
     86400 * ((\<Sum>y \<in> {1970..<Y}. year_length y) + (\<Sum>k \<in> {1..<M}. month_length Y k) + (D - 1))
     + 3600 * h + 60 * m + s"

text \<open>Days before the first of January of a year, in closed form.\<close>

definition days_before_year :: "int \<Rightarrow> int" where
  "days_before_year Y = 365 * (Y - 1) + (Y - 1) div 4 - (Y - 1) div 100 + (Y - 1) div 400"

lemma div_step:
  assumes "0 < (k :: int)"
  shows "Y div k = (Y - 1) div k + (if k dvd Y then 1 else 0)"
proof -
  define q r where "q = Y div k" and "r = Y mod k"
  have Y: "Y = k * q + r" and r: "0 \<le> r" "r < k" using assms by (simp_all add: q_def r_def)
  show ?thesis
  proof (cases "r = 0")
    case True
    have "(Y - 1) div k = q - 1"
      by (rule int_div_pos_eq [of _ _ _ "k - 1"]) (use True Y assms in \<open>simp_all add: algebra_simps\<close>)
    moreover have "k dvd Y" using True Y by simp
    ultimately show ?thesis by (simp add: q_def)
  next
    case False
    have "(Y - 1) div k = q"
      by (rule int_div_pos_eq [of _ _ _ "r - 1"]) (use False Y r in simp_all)
    moreover have "\<not> k dvd Y" using False by (simp add: r_def dvd_eq_mod_eq_0)
    ultimately show ?thesis by (simp add: q_def)
  qed
qed

lemma days_before_next_year: "days_before_year (Y + 1) = days_before_year Y + year_length Y"
proof -
  define a b c where "a = (Y - 1) div 4" and "b = (Y - 1) div 100" and "c = (Y - 1) div 400"
  have "Y div 4 = a + (if 4 dvd Y then 1 else 0)"
    and "Y div 100 = b + (if 100 dvd Y then 1 else 0)"
    and "Y div 400 = c + (if 400 dvd Y then 1 else 0)"
    unfolding a_def b_def c_def by (rule div_step, simp)+
  moreover have "400 dvd Y \<Longrightarrow> 100 dvd Y" and "100 dvd Y \<Longrightarrow> 4 dvd Y"
    using dvd_trans [of 100 400 Y] dvd_trans [of 4 100 Y] by simp_all
  ultimately show ?thesis
    unfolding days_before_year_def year_length_def gregorian_leap_def a_def [symmetric]
      b_def [symmetric] c_def [symmetric]
    by (cases "4 dvd Y"; cases "100 dvd Y"; cases "400 dvd Y") simp_all
qed

lemma sum_year_length:
  "1970 \<le> Y \<Longrightarrow> (\<Sum>y \<in> {1970..<Y}. year_length y) = days_before_year Y - days_before_year 1970"
proof (induction rule: int_ge_induct)
  case base
  then show ?case by simp
next
  case (step Y)
  then have "{1970..<Y + 1} = insert Y {1970..<Y}" by auto
  with step show ?case by (simp add: days_before_next_year)
qed

text \<open>The 400-year cycle arithmetic counts the leap days since the year 2000.\<close>

lemma year_leaps_eq:
  assumes "0 \<le> c" and "0 \<le> r" and "r < 400"
  shows "year_leaps c r =
      (days_before_year (400 * c + r + 2000) - 365 * (400 * c + r) - 730120,
       if gregorian_leap (400 * c + r + 2000) then 1 else 0)"
proof -
  define k q a b where "k = r div 100" and "q = r mod 100" and "a = q div 4" and "b = q mod 4"
  have r: "r = 100 * k + q" and q: "0 \<le> q" "q < 100" by (simp_all add: k_def q_def)
  have ab: "q = 4 * a + b" "0 \<le> b" "b < 4" by (simp_all add: a_def b_def)
  have k: "k = 0 \<or> k = 1 \<or> k = 2 \<or> k = 3"
    using assms r q by linarith
  have d4: "(400 * c + r + 1999) div 4 = 100 * c + 25 * k + 499 + a + (if b = 0 then 0 else 1)"
    by (rule int_div_pos_eq [of _ _ _ "if b = 0 then 3 else b - 1"]) (use r ab in auto)
  have d100: "(400 * c + r + 1999) div 100 = 4 * c + k + 19 + (if q = 0 then 0 else 1)"
    by (rule int_div_pos_eq [of _ _ _ "if q = 0 then 99 else q - 1"]) (use r q in auto)
  have d400: "(400 * c + r + 1999) div 400 = c + 4 + (if q = 0 \<and> k = 0 then 0 else 1)"
    by (rule int_div_pos_eq [of _ _ _ "if q = 0 \<and> k = 0 then 399 else r - 1"]) (use r q k in auto)
  have "(400 * c + r + 2000) mod 4 = b"
    by (rule int_mod_pos_eq [of _ _ "100 * c + 25 * k + a + 500"]) (use r ab in auto)
  moreover have "(400 * c + r + 2000) mod 100 = q"
    by (rule int_mod_pos_eq [of _ _ "4 * c + k + 20"]) (use r q in auto)
  moreover have "(400 * c + r + 2000) mod 400 = r"
    by (rule int_mod_pos_eq [of _ _ "c + 5"]) (use assms in auto)
  ultimately have leap: "gregorian_leap (400 * c + r + 2000) \<longleftrightarrow> b = 0 \<and> (q \<noteq> 0 \<or> r = 0)"
    by (simp add: gregorian_leap_def dvd_eq_mod_eq_0)
  have e: "400 * c + r + 2000 - 1 = 400 * c + r + 1999" by simp
  have z: "q div 4 = a" "q mod 4 = b" by (simp_all add: a_def b_def)
  have b0: "q = 0 \<Longrightarrow> b = 0 \<and> a = 0" by (simp add: a_def b_def)
  show ?thesis
    unfolding days_before_year_def e d4 d100 d400 leap
    using q k b0 by (elim disjE) (auto simp add: r year_leaps_def Let_def z)
qed


text \<open>No \<open>int\<close> variable overflows.\<close>

lemma year_leaps_bounds:
  assumes "0 \<le> c" and "c < 2 ^ 24" and "0 \<le> r" and "r < 400"
  shows "\<bar>fst (year_leaps c r)\<bar> < 2 ^ 31"
proof -
  have q: "0 \<le> x div 4 \<and> x div 4 < 25" if "0 \<le> x" "x < 100" for x :: int
    using that by auto
  consider "r < 100" | "100 \<le> r" "r < 200" | "200 \<le> r" "r < 300" | "300 \<le> r" by linarith
  then show ?thesis
  proof cases
    case 1 then show ?thesis using q [of r] assms by (auto simp: year_leaps_def Let_def)
  next
    case 2 then show ?thesis using q [of "r - 100"] assms by (auto simp: year_leaps_def Let_def)
  next
    case 3 then show ?thesis using q [of "r - 200"] assms by (auto simp: year_leaps_def Let_def)
  next
    case 4 then show ?thesis using q [of "r - 300"] assms by (auto simp: year_leaps_def Let_def)
  qed
qed

lemma small_year_days:
  assumes "2 \<le> y" and "y \<le> (138 :: int)"
  shows "days_before_year (y + 1900) - days_before_year 1970 =
      365 * (y - 70) + (y - 68) div 4 - (if (y - 68) mod 4 = 0 then 1 else 0)"
    and "gregorian_leap (y + 1900) \<longleftrightarrow> (y - 68) mod 4 = 0"
proof -
  define a b where "a = (y - 68) div 4" and "b = (y - 68) mod 4"
  have y: "y = 4 * a + b + 68" and b: "0 \<le> b" "b < 4" by (simp_all add: a_def b_def)
  have e: "y + 1900 - 1 = y + 1899" by simp
  have "(y + 1899) div 4 = a + 491 + (if b = 0 then 0 else 1)"
    by (rule int_div_pos_eq [of _ _ _ "if b = 0 then 3 else b - 1"]) (use y b in auto)
  moreover have "(y + 1899) div 100 = (if y \<le> 100 then 19 else 20)"
    by (rule int_div_pos_eq [of _ _ _ "if y \<le> 100 then y - 1 else y - 101"]) (use assms in auto)
  moreover have "(y + 1899) div 400 = (if y \<le> 100 then 4 else 5)"
    by (rule int_div_pos_eq [of _ _ _ "if y \<le> 100 then y + 299 else y - 101"]) (use assms in auto)
  ultimately show "days_before_year (y + 1900) - days_before_year 1970 =
      365 * (y - 70) + (y - 68) div 4 - (if (y - 68) mod 4 = 0 then 1 else 0)"
    unfolding days_before_year_def a_def [symmetric] b_def [symmetric] e by simp
  have "(y + 1900) mod 4 = b"
    by (rule int_mod_pos_eq [of _ _ "a + 492"]) (use y b in auto)
  moreover have "(y + 1900) mod 100 = (if y < 100 then y else y - 100)"
    by (rule int_mod_pos_eq [of _ _ "if y < 100 then 19 else 20"]) (use assms in auto)
  moreover have "(y + 1900) mod 400 = (if y < 100 then y + 300 else y - 100)"
    by (rule int_mod_pos_eq [of _ _ "if y < 100 then 4 else 5"]) (use assms in auto)
  ultimately show "gregorian_leap (y + 1900) \<longleftrightarrow> (y - 68) mod 4 = 0"
    using assms by (simp add: gregorian_leap_def dvd_eq_mod_eq_0 b_def [symmetric])
qed

section \<open>The code meets the specification\<close>

text \<open>Years from 1902 on, as far as the code's \<open>int\<close> variables go.\<close>

lemma time_year_to_secs_eq:
  assumes "2 \<le> y" and "y < 2 ^ 32"
  shows "time_year_to_secs (of_nat y) =
    (word_of_int (86400 * (days_before_year (int y + 1900) - days_before_year 1970)),
     if gregorian_leap (int y + 1900) then 1 else 0)"
proof (cases "y \<le> 138")
  case True
  have sub: "unat ((of_nat y :: u64) - of_nat k) = y - k" if "k \<le> y" for k
    using unat_of_nat_u64 [of "y - k"] that assms by (simp add: of_nat_diff)
  have small: "(of_nat y :: u64) - 2 \<le> 136"
    using True assms sub [of 2] by (simp add: word_le_nat_alt)
  have y: "sint (to_int (of_nat y)) = int y"
    using True by (simp add: sint_to_int unat_of_nat_u64)
  have m: "(int y - 68) AND 3 = (int y - 68) mod 4"
    using take_bit_eq_mask [of 2 "int y - 68"] by (simp add: take_bit_eq_mod mask_eq_exp_minus_1)
  have d: "drop_bit 2 (int y - 68) = (int y - 68) div 4"
    by (simp add: drop_bit_eq_div)
  have days: "86400 * (365 * (int y - 70) + a) = 31536000 * (int y - 70) + 86400 * a" for a
    by simp
  show ?thesis
    unfolding time_year_to_secs_def Let_def y m d using small True assms
    by (simp add: small_year_days days)
next
  case False
  define c r where "c = (int y - 100) div 400" and "r = (int y - 100) mod 400"
  have cr: "400 * c + r = int y - 100" and "0 \<le> c" "0 \<le> r" "r < 400"
    using False by (simp_all add: c_def r_def)
  have sub: "unat ((of_nat y :: u64) - of_nat k) = y - k" if "k \<le> y" for k
    using unat_of_nat_u64 [of "y - k"] that assms by (simp add: of_nat_diff)
  have big: "\<not> (of_nat y :: u64) - 2 \<le> 136"
    using False assms sub [of 2] by (simp add: word_le_nat_alt)
  have n: "unat ((of_nat y :: u64) - 100) = y - 100" using False sub [of 100] by simp
  have "int ((y - 100) div 400) = c" and "int ((y - 100) mod 400) = r"
    using False by (simp_all add: c_def r_def of_nat_diff zdiv_int zmod_int)
  then have args: "sint (to_int (((of_nat y :: u64) - 100) div 400)) = c"
      "sint (to_int (((of_nat y :: u64) - 100) mod 400)) = r"
    using assms by (simp_all add: sint_to_int unat_div unat_mod n)
  have y: "400 * c + r + 2000 = int y + 1900" "365 * (400 * c + r) = 365 * (int y - 100)"
    using cr by simp_all
  have "days_before_year 1970 = 719162" by (simp add: days_before_year_def)
  then have days: "86400 * (days_before_year Y - days_before_year 1970) =
     (int y - 100) * 31536000 + (days_before_year Y - 365 * (int y - 100) - 730120) * 86400
       + 946684800 + 86400" for Y
    by simp
  show ?thesis
    unfolding time_year_to_secs_def Let_def args year_leaps_eq [OF \<open>0 \<le> c\<close> \<open>0 \<le> r\<close> \<open>r < 400\<close>] y days
    using big by simp
qed

lemma sum_from_1: "1 < (M :: int) \<Longrightarrow> sum f {1..<M} = sum f {1..<M - 1} + f (M - 1)"
proof -
  assume "1 < M"
  then have "{1..<M} = insert (M - 1) {1..<M - 1}" by auto
  then show ?thesis by (simp add: add.commute)
qed

text \<open>The table and its leap-day correction are the lengths of the months before.\<close>

lemma secs_before_month:
  assumes "1 \<le> M" and "M \<le> 12"
  shows "secs_through_month ! nat (M - 1) + (if gregorian_leap Y \<and> 2 \<le> M - 1 then 86400 else 0) =
    word_of_int (86400 * (\<Sum>k \<in> {1..<M}. month_length Y k))"
proof -
  have "M = 1 \<or> M = 2 \<or> M = 3 \<or> M = 4 \<or> M = 5 \<or> M = 6 \<or> M = 7 \<or> M = 8 \<or> M = 9 \<or> M = 10
      \<or> M = 11 \<or> M = 12"
    using assms by presburger
  then show ?thesis
    by (elim disjE) (simp_all add: secs_through_month_def month_length_def sum_from_1)
qed

lemma efi_time_fields:
  assumes "2000 < uint (Year t)" and "1 \<le> uint (Month t)"
  shows "unat (Year (adjust_efi_time t)) = nat (uint (Year t) - 1900)"
    and "uint (Month (adjust_efi_time t)) = uint (Month t) - 1"
proof -
  have y: "2000 < Year t" using assms by (simp add: word_less_def)
  have "unat (Year t - 1900) = unat (Year t) - 1900"
    using y by (subst unat_sub) (simp_all add: word_le_nat_alt word_less_nat_alt)
  then show "unat (Year (adjust_efi_time t)) = nat (uint (Year t) - 1900)"
    using y by (simp add: adjust_efi_time_def nat_diff_distrib' flip: unat_eq_nat_uint)
  have "uint (Month t - 1) = uint (Month t) - 1"
    using assms(2) uint_sub_if' [of "Month t" 1] by simp 
  then show "uint (Month (adjust_efi_time t)) = uint (Month t) - 1"
    by (simp add: adjust_efi_time_def)
qed

lemma time_efi_time_to_time_t_word:
  assumes "2000 < uint (Year t)" and "1 \<le> uint (Month t)" and "uint (Month t) \<le> 12"
  shows "fst (time_efi_time_to_time_t t) =
    word_of_int (unix_seconds (uint (Year t)) (uint (Month t)) (uint (Day t))
      (uint (Hour t)) (uint (Minute t)) (uint (Second t)))"
proof -
  let ?a = "adjust_efi_time t" and ?Y = "uint (Year t)" and ?M = "uint (Month t)"
  define y where "y = nat (?Y - 1900)"
  have bound: "?Y < 2 ^ LENGTH(16)" by (rule unsigned_less)
  have Y: "int y + 1900 = ?Y" and y: "2 \<le> y" "y < 2 ^ 32"
    using assms(1) bound by (auto simp: y_def)
  have "zext (Year ?a) = of_nat (unat (Year ?a))" by simp
  then have zy: "zext (Year ?a) = of_nat y"
    by (simp only: efi_time_fields(1) [OF assms(1,2)] y_def)
  have rest: "Day ?a = Day t" "Hour ?a = Hour t" "Minute ?a = Minute t" "Second ?a = Second t"
    by (simp_all add: adjust_efi_time_def)
  have years: "(\<Sum>y \<in> {1970..<?Y}. year_length y) = days_before_year ?Y - days_before_year 1970"
    using assms(1) by (intro sum_year_length) simp
  have m: "\<not> (?M - 1 \<ge> 12 \<or> ?M - 1 < 0)" using assms by simp
  have "fst (time_efi_time_to_time_t t) =
      word_of_int (86400 * (days_before_year ?Y - days_before_year 1970))
      + (secs_through_month ! nat (?M - 1) + (if gregorian_leap ?Y \<and> 2 \<le> ?M - 1 then 86400 else 0))
      + 86400 * word_of_int (uint (Day t) - 1)
      + 3600 * zext (Hour t) + 60 * zext (Minute t) + zext (Second t)"
    unfolding time_efi_time_to_time_t_def Let_def efi_time_fields(2) [OF assms(1,2)] zy rest
      if_not_P [OF m] time_year_to_secs_eq [OF y] Y prod.case
    by simp
  also have "\<dots> = word_of_int (unix_seconds ?Y ?M (uint (Day t))
      (uint (Hour t)) (uint (Minute t)) (uint (Second t)))"
    unfolding secs_before_month [OF assms(2,3)] unix_seconds_def years
    by (simp add: distrib_left)
  finally show ?thesis .
qed

text \<open>The result fits a signed 64-bit \<open>time_t\<close>.\<close>

lemma unix_seconds_bounds:
  assumes "2000 < Y" and "Y < 2 ^ 17" and "1 \<le> M" and "M \<le> 12" and "0 \<le> D" and "D < 256"
    and "0 \<le> h" and "h < 256" and "0 \<le> m" and "m < 256" and "0 \<le> s" and "s < 256"
  shows "0 \<le> unix_seconds Y M D h m s" and "unix_seconds Y M D h m s < 2 ^ 63"
proof -
  have "M = 1 \<or> M = 2 \<or> M = 3 \<or> M = 4 \<or> M = 5 \<or> M = 6 \<or> M = 7 \<or> M = 8 \<or> M = 9 \<or> M = 10
      \<or> M = 11 \<or> M = 12"
    using assms by presburger
  then have months: "0 \<le> (\<Sum>k \<in> {1..<M}. month_length Y k)" "(\<Sum>k \<in> {1..<M}. month_length Y k) \<le> 366"
    by (elim disjE; simp add: month_length_def sum_from_1)+
  have "(\<Sum>y \<in> {1970..<Y}. year_length y) \<ge> of_nat (card {1970..<Y}) * 365"
    by (rule sum_bounded_below) (simp add: year_length_def)
  moreover have "(\<Sum>y \<in> {1970..<Y}. year_length y) \<le> of_nat (card {1970..<Y}) * 366"
    by (rule sum_bounded_above) (simp add: year_length_def)
  moreover have "int (card {1970..<Y}) = Y - 1970" using assms by simp
  ultimately have years: "(Y - 1970) * 365 \<le> (\<Sum>y \<in> {1970..<Y}. year_length y)"
      "(\<Sum>y \<in> {1970..<Y}. year_length y) \<le> (Y - 1970) * 366"
    by simp_all
  show "0 \<le> unix_seconds Y M D h m s" and "unix_seconds Y M D h m s < 2 ^ 63"
    using years months assms unfolding unix_seconds_def by simp_all
qed

lemma sint_of_int_u64: "0 \<le> k \<Longrightarrow> k < 2 ^ 63 \<Longrightarrow> sint (word_of_int k :: u64) = k"
  by (simp add: signed_of_int signed_take_bit_int_eq_self)

lemma sint_unix_seconds:
  assumes "2000 < uint (Year t)" and "1 \<le> uint (Month t)" and "uint (Month t) \<le> 12"
  shows "sint (word_of_int (unix_seconds (uint (Year t)) (uint (Month t)) (uint (Day t))
      (uint (Hour t)) (uint (Minute t)) (uint (Second t))) :: i64) =
    unix_seconds (uint (Year t)) (uint (Month t)) (uint (Day t))
      (uint (Hour t)) (uint (Minute t)) (uint (Second t))"
proof -
  have y: "uint (Year t) < 2 ^ LENGTH(16)" by (rule unsigned_less)
  have b: "uint x < 256" for x :: u8
  proof -
    have "uint x < 2 ^ LENGTH(8)" by (rule unsigned_less)
    then show ?thesis by simp
  qed
  show ?thesis
    by (intro sint_of_int_u64 unix_seconds_bounds) (use assms y b in auto)
qed

section \<open>Properties\<close>

text \<open>
  C14: For every date of the years 2001 to 65535 that EFI can deliver (month 1 to 12), the converted
  value, read as a signed \<open>time_t\<close>, is the number of seconds since 1970-01-01 00:00:00 of the
  Gregorian calendar; no wrap-around of the 64-bit arithmetic is visible in it.
\<close>

theorem time_efi_time_to_time_t_correct:
  assumes "2000 < uint (Year t)" and "1 \<le> uint (Month t)" and "uint (Month t) \<le> 12"
  shows "sint (fst (time_efi_time_to_time_t t)) =
    unix_seconds (uint (Year t)) (uint (Month t)) (uint (Day t))
      (uint (Hour t)) (uint (Minute t)) (uint (Second t))"
  unfolding time_efi_time_to_time_t_word [OF assms] by (rule sint_unix_seconds [OF assms])

theorem time_efi_time_to_time_t_correct_witness:
  "sint (fst (time_efi_time_to_time_t
     \<lparr>Year = 2024, Month = 3, Day = 1, Hour = 12, Minute = 30, Second = 5\<rparr>)) = 1709296205"
proof -
  have "(\<Sum>y \<in> {1970..<2024}. year_length y) = 19723"
    by (subst sum_year_length) (simp_all add: days_before_year_def)
  then show ?thesis
    using time_efi_time_to_time_t_correct
      [of "\<lparr>Year = 2024, Month = 3, Day = 1, Hour = 12, Minute = 30, Second = 5\<rparr>"]
    by (simp add: unix_seconds_def sum_from_1 month_length_def gregorian_leap_def)
qed

text \<open>
  C40: A year between 3 and 2000 is taken for a year 1998 years later: the test meant for firmware
  that reports short years also catches the valid EFI years 1900 to 2000.
\<close>

theorem efi_years_up_to_2000_shifted:
  assumes "2 < uint (Year t)" and "uint (Year t) \<le> 2000"
  shows "time_efi_time_to_time_t t = time_efi_time_to_time_t (t\<lparr>Year := Year t + 1998\<rparr>)"
proof -
  have le: "Year t \<le> 2000" using assms by (simp add: word_le_def)
  have u: "uint (Year t + 1998) = uint (Year t) + 1998"
    using assms by (simp add: uint_plus_if')
  then have gt: "\<not> Year t + 1998 \<le> 2000" using assms by (simp add: word_le_def)
  have "adjust_efi_time t = adjust_efi_time (t\<lparr>Year := Year t + 1998\<rparr>)"
    using le gt by (simp add: adjust_efi_time_def)
  then show ?thesis
    by (simp add: time_efi_time_to_time_t_def)
qed

theorem efi_years_up_to_2000_shifted_witness:
  "sint (fst (time_efi_time_to_time_t
     \<lparr>Year = 2000, Month = 1, Day = 1, Hour = 0, Minute = 0, Second = 0\<rparr>)) = 63997516800"
  (is "sint (fst (time_efi_time_to_time_t ?t)) = _")
proof -
  have "time_efi_time_to_time_t ?t = time_efi_time_to_time_t (?t\<lparr>Year := 3998\<rparr>)"
    using efi_years_up_to_2000_shifted [of ?t] by simp
  then show ?thesis by code_simp
qed

end
