(* ===== verification/Timekeeping.thy ===== *)
theory Timekeeping
  imports Calendar
begin

text \<open>
  The timekeeping system calls of \<open>src/linux-uefi.c\<close>: \<open>gettimeofday\<close>, the sleep behind \<open>select\<close>, and
  \<open>fd_select\<close> itself. A \<open>struct timeval\<close> is two 64-bit members, \<open>tv_sec\<close> at offset 0 and \<open>tv_usec\<close>
  at offset 8.
\<close>

section \<open>The code\<close>

definition time_cstd_time :: "'w firmware \<Rightarrow> u64 \<Rightarrow> 'w machine \<Rightarrow> i64 \<times> 'w machine" where
  "time_cstd_time fw tloc s =
     (case get_time fw (world s) of
        (_, t, w) \<Rightarrow>
          let efi_time = (case t of None \<Rightarrow> zero_time | Some t \<Rightarrow> t);
              ret = fst (time_efi_time_to_time_t efi_time);
              s = s\<lparr>world := w\<rparr>
          in (ret, if tloc \<noteq> 0 then s\<lparr>mem := store64 tloc ret (mem s)\<rparr> else s))"

definition store_timeval :: "u64 \<Rightarrow> i64 \<Rightarrow> i64 \<Rightarrow> memory \<Rightarrow> memory" where
  "store_timeval tv sec usec m = store64 (tv + 8) usec (store64 tv sec m)"

definition time_gettimeofday :: "'w firmware \<Rightarrow> u64 \<Rightarrow> 'w machine \<Rightarrow> ('w machine, i32) outcome" where
  "time_gettimeofday fw tv s =
     (let (sec, s) = time_cstd_time fw 0 s
      in if tv = 0 then Undef Null_deref else Ret 0 (s\<lparr>mem := store_timeval tv sec 0 (mem s)\<rparr>))"

definition time_sleep :: "'w firmware \<Rightarrow> u64 \<Rightarrow> 'w machine \<Rightarrow> ('w machine, i32) outcome" where
  "time_sleep fw duration s =
     (if duration = 0 then Undef Null_deref
      else
      case stall fw (load64 (mem s) duration * 1000000 + load64 (mem s) (duration + 8)) (world s) of
        (status, w) \<Rightarrow> Ret (check_status (hdr fw) status 0) (s\<lparr>world := w\<rparr>))"

text \<open>\<open>fd_select\<close> returns the positive constant when it is asked to watch descriptors.\<close>

definition fd_select ::
  "'w firmware \<Rightarrow> i32 \<Rightarrow> u64 \<Rightarrow> u64 \<Rightarrow> u64 \<Rightarrow> u64 \<Rightarrow> 'w machine \<Rightarrow> ('w machine, i32) outcome" where
  "fd_select fw nfds readfds writefds exceptfds timeout s =
     (if nfds \<noteq> 0 \<or> readfds \<noteq> 0 \<or> writefds \<noteq> 0 \<or> exceptfds \<noteq> 0 then Ret ENOTSUP s
      else time_sleep fw timeout s)"

section \<open>Facts\<close>

lemma load_store_timeval [mem_simps]:
  "load64 (store_timeval tv sec usec m) tv = sec"
  "load64 (store_timeval tv sec usec m) (tv + 8) = usec"
  by (simp_all add: store_timeval_def mem_simps)

lemma load8_store64_other:
  "\<not> in_range a 8 x \<Longrightarrow> load8 (store64 a v m) x = load8 m x"
  by (simp add: store64_def load8_store_bytes_other)

lemma in_range_narrow:
  "n \<le> unat (x - a) \<Longrightarrow> \<not> in_range a n x"
  by (simp add: in_range_def)

lemma load8_store_timeval_other:
  assumes "\<not> in_range tv 16 x"
  shows "load8 (store_timeval tv sec usec m) x = load8 m x"
proof -
  have d: "unat (x - tv) \<ge> 16" using assms by (simp add: in_range_def)
  then have "unat (x - (tv + 8)) \<ge> 8"
    using unat_sub [of 8 "x - tv"] by (simp add: word_le_nat_alt diff_diff_eq)
  with d show ?thesis
    by (simp add: store_timeval_def load8_store64_other in_range_narrow)
qed

section \<open>Properties\<close>

text \<open>
  What the seconds become when \<open>GetTime\<close> delivers nothing: the zeroed \<open>EFI_TIME\<close> is converted as it is.
\<close>

lemma zero_time_seconds: "sint (fst (time_efi_time_to_time_t zero_time)) = 1553990400"
  by code_simp

text \<open>
  C23: \<open>gettimeofday\<close> through a null pointer is undefined. Otherwise it returns 0 whatever the firmware
  answers: the caller's structure receives, read back through the \<open>timeval\<close> layout, the conversion of
  the time that \<open>GetTime\<close> delivered, or of an all-zero time when it delivered none (the status is
  ignored), with zero microseconds; no byte outside the 16 bytes of the structure changes. For a
  delivered time in 2001 or later with a month from 1 to 12 the seconds are Unix time.
\<close>

theorem gettimeofday_writes_unix_time:
  assumes "get_time fw (world s) = (status, answer, w)"
  shows "time_gettimeofday fw 0 s = Undef Null_deref \<and>
    (tv \<noteq> 0 \<longrightarrow>
      (\<exists>m. time_gettimeofday fw tv s = Ret 0 (s\<lparr>world := w, mem := m\<rparr>) \<and>
        load64 m tv = fst (time_efi_time_to_time_t (case answer of None \<Rightarrow> zero_time | Some t \<Rightarrow> t)) \<and>
        (answer = None \<longrightarrow> sint (load64 m tv) = 1553990400) \<and>
        (\<forall>t. answer = Some t \<and> 2000 < uint (Year t) \<and> 1 \<le> uint (Month t) \<and> uint (Month t) \<le> 12 \<longrightarrow>
          sint (load64 m tv) = unix_seconds (uint (Year t)) (uint (Month t)) (uint (Day t))
            (uint (Hour t)) (uint (Minute t)) (uint (Second t))) \<and>
        load64 m (tv + 8) = 0 \<and> (\<forall>x. \<not> in_range tv 16 x \<longrightarrow> load8 m x = load8 (mem s) x)))"
proof (intro conjI impI)
  show "time_gettimeofday fw 0 s = Undef Null_deref"
    by (simp add: time_gettimeofday_def case_prod_beta)
next
  assume tv: "tv \<noteq> 0"
  let ?sec = "fst (time_efi_time_to_time_t (case answer of None \<Rightarrow> zero_time | Some t \<Rightarrow> t))"
  have unix: "sint (fst (time_efi_time_to_time_t t)) = unix_seconds (uint (Year t)) (uint (Month t))
      (uint (Day t)) (uint (Hour t)) (uint (Minute t)) (uint (Second t))"
    if "2000 < uint (Year t) \<and> 1 \<le> uint (Month t) \<and> uint (Month t) \<le> 12" for t
    using that unfolding time_efi_time_to_time_t_word [OF that [THEN conjunct1] that [THEN conjunct2, THEN conjunct1]
        that [THEN conjunct2, THEN conjunct2]]
    by (intro sint_unix_seconds) simp_all
  show "\<exists>m. time_gettimeofday fw tv s = Ret 0 (s\<lparr>world := w, mem := m\<rparr>) \<and> load64 m tv = ?sec \<and>
      (answer = None \<longrightarrow> sint (load64 m tv) = 1553990400) \<and>
      (\<forall>t. answer = Some t \<and> 2000 < uint (Year t) \<and> 1 \<le> uint (Month t) \<and> uint (Month t) \<le> 12 \<longrightarrow>
        sint (load64 m tv) = unix_seconds (uint (Year t)) (uint (Month t)) (uint (Day t))
          (uint (Hour t)) (uint (Minute t)) (uint (Second t))) \<and>
      load64 m (tv + 8) = 0 \<and> (\<forall>x. \<not> in_range tv 16 x \<longrightarrow> load8 m x = load8 (mem s) x)"
    using tv zero_time_seconds unix
    by (intro exI [of _ "store_timeval tv ?sec 0 (mem s)"])
      (auto simp: time_gettimeofday_def time_cstd_time_def assms load_store_timeval load8_store_timeval_other)
qed

text \<open>
  A sleep request reaches the firmware as one \<open>Stall\<close> of the whole interval in microseconds,
  exact as long as the interval is below \<open>2^64\<close> microseconds; the call returns 0 or the negative
  error number of the firmware's status, and changes nothing but the outside world.
\<close>

lemma time_sleep_stalls:
  assumes "tv \<noteq> 0" and "unat us = unat (load64 (mem s) tv) * 1000000 + unat (load64 (mem s) (tv + 8))"
    and "stall fw us (world s) = (status, w)"
  shows "time_sleep fw tv s =
    Ret (if EFI_ERROR (hdr fw) status then - efi_status_to_errno (hdr fw) status else 0) (s\<lparr>world := w\<rparr>)"
proof -
  have "us = of_nat (unat us)" by simp
  also have "\<dots> = load64 (mem s) tv * 1000000 + load64 (mem s) (tv + 8)"
    unfolding assms(2) by simp
  finally show ?thesis
    using assms(1,3) by (simp add: time_sleep_def check_status_def)
qed

text \<open>
  \<open>select\<close> on any descriptor set does not fail: it returns the positive number 95, without
  waiting and without touching the state, so a caller that tests for a negative result (every
  wrapper of \<open>nolibc\<close> does) sees 95 ready descriptors.
\<close>

lemma fd_select_with_descriptors:
  assumes "nfds \<noteq> 0 \<or> readfds \<noteq> 0 \<or> writefds \<noteq> 0 \<or> exceptfds \<noteq> 0"
  shows "\<exists>r. fd_select fw nfds readfds writefds exceptfds timeout s = Ret r s \<and> sint r = 95"
  using assms by (auto simp: fd_select_def)

end
