(* ===== verification/FileStat.thy ===== *)
theory FileStat
  imports FileIO Timekeeping
begin

text \<open>
  Directory reading and file status of \<open>src/linux-uefi.c\<close>: \<open>fd_getdents64\<close>, \<open>fd_efi_stat\<close>,
  \<open>fd_fstat\<close>, \<open>fd_stat\<close>, with the layouts of \<open>struct linux_dirent64\<close> and \<open>struct stat\<close> of
  \<open>include/linux-uefi.h\<close> on x86-64.
\<close>

unbundle bit_operations_syntax

section \<open>Directories\<close>

abbreviation (input) sizeof_dirent64 :: "'a::len word" where "sizeof_dirent64 \<equiv> 24"
abbreviation (input) d_ino :: u64 where "d_ino \<equiv> 0"
abbreviation (input) d_off :: u64 where "d_off \<equiv> 8"
abbreviation (input) d_reclen :: u64 where "d_reclen \<equiv> 16"
abbreviation (input) d_name :: u64 where "d_name \<equiv> 19"

text \<open>The record length the code computes, cut to the 16 bits of \<open>d_reclen\<close>.\<close>

definition dirent_reclen :: "efi_file_info \<Rightarrow> u16" where
  "dirent_reclen info =
     (let it = of_nat (length (before_nul (FileName info))) :: u32
      in ucast (8 + 8 + 2 + 1 + zext it + 1 :: u64))"

text \<open>
  Filling one entry: the low byte of every \<open>CHAR16\<close> of the name, the NUL, then the numbers. In
  \<open>d_off = d_reclen = ...\<close> the offset gets the value that fitted the 16 bits.
\<close>

definition store_dirent :: "u64 \<Rightarrow> efi_file_info \<Rightarrow> memory \<Rightarrow> memory" where
  "store_dirent dire info m =
     (let m = store_bytes (dire + d_name) (map ucast (before_nul (FileName info)) @ [0]) m;
          m = store64 (dire + d_ino) 0 m;
          m = store16 (dire + d_reclen) (dirent_reclen info) m
      in store64 (dire + d_off) (zext (dirent_reclen info)) m)"

text \<open>
  The loop, by the number of rounds left. The entry's address \<open>dire = dirp + count\<close> is computed from
  \<open>count\<close>, not from the loop counter, and an end of directory (success without data) leaves \<open>info\<close>
  unset. Inside the loop \<open>count\<close> is not zero, so that the addition is undefined for a null \<open>dirp\<close>.
\<close>

fun getdents_loop ::
  "'w firmware \<Rightarrow> u64 \<Rightarrow> u64 \<Rightarrow> u64 \<Rightarrow> nat \<Rightarrow> u64 \<Rightarrow> 'w machine \<Rightarrow> ('w machine, i32) outcome" where
  "getdents_loop fw FileHandle dirp dire 0 fres_sum s = Ret (ucast fres_sum) s"
| "getdents_loop fw FileHandle dirp dire (Suc n) fres_sum s =
     (case f_read_entry fw FileHandle (world s) of
        (status, info, w) \<Rightarrow>
          if EFI_ERROR (hdr fw) status then Ret (- efi_status_to_errno (hdr fw) status) (s\<lparr>world := w\<rparr>)
          else if dirp = 0 then Undef Null_deref
          else
            (case info of
               None \<Rightarrow> Undef Uninit_read
             | Some info \<Rightarrow>
                 getdents_loop fw FileHandle dirp dire n (fres_sum + zext (dirent_reclen info))
                   (s\<lparr>world := w, mem := store_dirent dire info (mem s)\<rparr>)))"

text \<open>\<open>count / sizeof(struct linux_dirent64)\<close> divides the sign-extended count as an unsigned number.\<close>

definition getdents_handle ::
  "'w firmware \<Rightarrow> u64 \<Rightarrow> i32 \<Rightarrow> 'w machine \<Rightarrow> u64 \<Rightarrow> ('w machine, i32) outcome" where
  "getdents_handle fw dirp count s FileHandle =
     (let count = to_int (sext count div sizeof_dirent64)
      in getdents_loop fw FileHandle dirp (dirp + sext count * sizeof_dirent64) (unat count) 0 s)"

definition fd_getdents64 ::
  "'w firmware \<Rightarrow> i32 \<Rightarrow> u64 \<Rightarrow> i32 \<Rightarrow> 'w machine \<Rightarrow> ('w machine, i32) outcome" where
  "fd_getdents64 fw fd dirp count s = with_fd fd s (getdents_handle fw dirp count s)"

section \<open>File status\<close>

abbreviation (input) st_dev :: u64 where "st_dev \<equiv> 0"
abbreviation (input) st_ino :: u64 where "st_ino \<equiv> 8"
abbreviation (input) st_nlink :: u64 where "st_nlink \<equiv> 16"
abbreviation (input) st_mode :: u64 where "st_mode \<equiv> 24"
abbreviation (input) st_uid :: u64 where "st_uid \<equiv> 28"
abbreviation (input) st_gid :: u64 where "st_gid \<equiv> 32"
abbreviation (input) st_rdev :: u64 where "st_rdev \<equiv> 40"
abbreviation (input) st_size :: u64 where "st_size \<equiv> 48"
abbreviation (input) st_blksize :: u64 where "st_blksize \<equiv> 56"
abbreviation (input) st_blocks :: u64 where "st_blocks \<equiv> 64"
abbreviation (input) st_atime :: u64 where "st_atime \<equiv> 72"
abbreviation (input) st_mtime :: u64 where "st_mtime \<equiv> 88"
abbreviation (input) st_ctime :: u64 where "st_ctime \<equiv> 104"
abbreviation (input) tv_nsec :: u64 where "tv_nsec \<equiv> 8"

text \<open>The members \<open>fd_efi_stat\<close> sets before it asks the firmware, and those it sets afterwards.\<close>

definition store_stat_fixed :: "u64 \<Rightarrow> u64 \<Rightarrow> memory \<Rightarrow> memory" where
  "store_stat_fixed buf vol m =
     (let m = store64 (buf + st_dev) vol m;
          m = store64 (buf + st_ino) 0 m;
          m = store64 (buf + st_nlink) 1 m;
          m = store32 (buf + st_mode) 0x1B6 m;
          m = store32 (buf + st_uid) EMU_UID m;
          m = store32 (buf + st_gid) EMU_GID m;
          m = store64 (buf + st_blksize) 0 m;
          m = store64 (buf + (st_atime + tv_nsec)) 0 m;
          m = store64 (buf + (st_mtime + tv_nsec)) 0 m
      in store64 (buf + (st_ctime + tv_nsec)) 0 m)"

definition store_stat_info :: "u64 \<Rightarrow> efi_file_info \<Rightarrow> memory \<Rightarrow> memory" where
  "store_stat_info buf info m =
     (let m = store64 (buf + st_size) (FileSize info) m;
          m = store64 (buf + st_blocks) (PhysicalSize info) m;
          m = store64 (buf + st_atime) (fst (time_efi_time_to_time_t (LastAccessTime info))) m;
          m = store64 (buf + st_mtime) (fst (time_efi_time_to_time_t (ModificationTime info))) m
      in store64 (buf + st_ctime) (fst (time_efi_time_to_time_t (CreateTime info))) m)"

definition fd_efi_stat ::
  "'w firmware \<Rightarrow> u64 \<Rightarrow> 'w machine \<Rightarrow> u64 \<Rightarrow> ('w machine, i32) outcome" where
  "fd_efi_stat fw buf s FileHandle =
     (if buf = 0 then Undef Null_deref
      else
      let s = s\<lparr>mem := store_stat_fixed buf (Volume_handle s) (mem s)\<rparr> in
      case fd_efi_get_file_info fw FileHandle s of
        (status, info, s) \<Rightarrow>
          if EFI_ERROR (hdr fw) status then Ret (- efi_status_to_errno (hdr fw) status) s
          else Ret 0 (s\<lparr>mem := store_stat_info buf info (mem s)\<rparr>))"

definition fd_fstat :: "'w firmware \<Rightarrow> i32 \<Rightarrow> u64 \<Rightarrow> 'w machine \<Rightarrow> ('w machine, i32) outcome" where
  "fd_fstat fw fd buf s = with_fd fd s (fd_efi_stat fw buf s)"

definition fd_stat :: "'w firmware \<Rightarrow> u64 \<Rightarrow> u64 \<Rightarrow> 'w machine \<Rightarrow> ('w machine, i32) outcome" where
  "fd_stat fw path buf s =
     bind_out (bstr_to_wstr path s) (\<lambda>str s.
       case f_open fw (Volume_handle s) str (EFI_FILE_MODE_READ (hdr fw)) 0 (world s) of
         (status, FileHandle, w) \<Rightarrow>
           if EFI_ERROR (hdr fw) status then Ret (- efi_status_to_errno (hdr fw) status) (s\<lparr>world := w\<rparr>)
           else fd_efi_stat fw buf (s\<lparr>world := w\<rparr>) FileHandle)"

interpretation getdents_call: descriptor_call
  "\<lambda>fd. fd_getdents64 fw fd dirp count" "\<lambda>_. getdents_handle fw dirp count" for fw dirp count
  by unfold_locales (simp add: fd_getdents64_def)

interpretation fstat_call: descriptor_call
  "\<lambda>fd. fd_fstat fw fd buf" "\<lambda>_. fd_efi_stat fw buf" for fw buf
  by unfold_locales (simp add: fd_fstat_def)

section \<open>Facts\<close>

lemma in_range_offset:
  assumes "in_range (a + d) k x" and "unat d + k \<le> n"
  shows "in_range a n x"
proof -
  have "x - a = (x - (a + d)) + d" by simp
  then have "unat (x - a) \<le> unat (x - (a + d)) + unat d"
    using unat_word_ariths(1) [of "x - (a + d)" d] by (metis mod_less_eq_dividend)
  then show ?thesis using assms by (simp add: in_range_def)
qed

lemma load8_store_field:
  assumes "\<not> in_range a n x"
  shows "unat d + 8 \<le> n \<Longrightarrow> load8 (store64 (a + d) v m) x = load8 m x"
    and "unat d + 4 \<le> n \<Longrightarrow> load8 (store32 (a + d) v32 m) x = load8 m x"
    and "unat d + 2 \<le> n \<Longrightarrow> load8 (store16 (a + d) v16 m) x = load8 m x"
    and "unat d + length bs \<le> n \<Longrightarrow> load8 (store_bytes (a + d) bs m) x = load8 m x"
  using assms in_range_offset [of a d 8 x n] in_range_offset [of a d 4 x n]
    in_range_offset [of a d 2 x n] in_range_offset [of a d "length bs" x n]
  by (auto simp: store64_def store32_def store16_def intro!: load8_store_bytes_other)

lemma store_stat_other:
  assumes "\<not> in_range buf 144 x"
  shows "load8 (store_stat_fixed buf vol m) x = load8 m x"
    and "load8 (store_stat_info buf info m) x = load8 m x"
  by (simp_all add: store_stat_fixed_def store_stat_info_def load8_store_field [OF assms] Let_def
      del: add_0_right)

text \<open>What a reader finds in the structure after a successful call.\<close>

definition stat_contents :: "u64 \<Rightarrow> efi_file_info \<Rightarrow> u64 \<Rightarrow> memory \<Rightarrow> bool" where
  "stat_contents vol info buf m \<longleftrightarrow>
     load64 m (buf + st_dev) = vol \<and> load64 m (buf + st_ino) = 0 \<and> load64 m (buf + st_nlink) = 1 \<and>
     load32 m (buf + st_mode) = 0x1B6 \<and> load32 m (buf + st_uid) = EMU_UID \<and>
     load32 m (buf + st_gid) = EMU_GID \<and> load64 m (buf + st_blksize) = 0 \<and>
     load64 m (buf + st_size) = FileSize info \<and> load64 m (buf + st_blocks) = PhysicalSize info \<and>
     load64 m (buf + st_atime) = fst (time_efi_time_to_time_t (LastAccessTime info)) \<and>
     load64 m (buf + st_mtime) = fst (time_efi_time_to_time_t (ModificationTime info)) \<and>
     load64 m (buf + st_ctime) = fst (time_efi_time_to_time_t (CreateTime info)) \<and>
     load64 m (buf + (st_atime + tv_nsec)) = 0 \<and> load64 m (buf + (st_mtime + tv_nsec)) = 0 \<and>
     load64 m (buf + (st_ctime + tv_nsec)) = 0"

lemma stat_contents_stored:
  "stat_contents vol info buf (store_stat_info buf info (store_stat_fixed buf vol m))"
  unfolding stat_contents_def
  by (intro conjI) (simp_all add: store_stat_info_def store_stat_fixed_def Let_def mem_simps)

lemma sext_of_nat:
  assumes "n < 2 ^ 31"
  shows "sext (of_nat n) = of_nat n"
proof -
  have "sint (of_nat n :: i32) = int n" using assms by (rule sint_small)
  then have "sext (of_nat n) = word_of_int (int n)" by (simp only: scast_eq)
  then show ?thesis by simp
qed

lemma in_range_before:
  assumes "in_range a k x" and "k + n \<le> 2 ^ 64"
  shows "\<not> in_range (a + of_nat k) n x"
proof (cases "k < 2 ^ 64")
  case True
  have eq: "x - (a + of_nat k) = (x - a) - of_nat k" by simp
  have "unat (of_nat k :: u64) = k" using True by (rule unat_of_nat_u64)
  then have "unat (x - (a + of_nat k)) = unat (x - a) + 2 ^ 64 - k"
    unfolding eq using assms(1) unat_sub_if' [of "x - a" "of_nat k"] by (simp add: in_range_def)
  then show ?thesis using assms(2) by (simp add: in_range_def)
next
  case False
  then show ?thesis using assms(2) by (simp add: in_range_def)
qed

definition entry_size :: "efi_file_info \<Rightarrow> nat" where
  "entry_size info = 20 + length (before_nul (FileName info))"

lemma store_dirent_other:
  assumes "\<not> in_range dire (entry_size info) x"
  shows "load8 (store_dirent dire info m) x = load8 m x"
proof -
  have d: "\<not> in_range (dire + 0) 8 x"
    using assms in_range_offset [of dire 0 8 x "entry_size info"] by (auto simp: entry_size_def)
  have n: "unat (19 :: u64) + length (map ucast (before_nul (FileName info)) @ [0 :: u8]) \<le> entry_size info"
    by (simp add: entry_size_def)
  show ?thesis
    using load8_store_field(1) [OF assms, of d_off] load8_store_field(3) [OF assms, of d_reclen]
      load8_store_field(1) [OF assms, of d_ino] load8_store_field(4) [OF assms n]
    by (simp add: store_dirent_def Let_def entry_size_def)
qed

lemma store_dirent_name:
  assumes "entry_size info \<le> 2 ^ 64"
  shows "load_bytes (store_dirent dire info m) (dire + d_name) (length (before_nul (FileName info)) + 1)
    = map ucast (before_nul (FileName info)) @ [0]"
proof -
  let ?l = "map ucast (before_nul (FileName info)) @ [0 :: u8]"
  have dis: "disjoint (dire + 0) 8 (dire + d_name) (length ?l)"
      "disjoint (dire + d_off) 8 (dire + d_name) (length ?l)"
      "disjoint (dire + d_reclen) 2 (dire + d_name) (length ?l)"
    using assms by (simp_all add: disjoint_def entry_size_def)
  have le: "length ?l \<le> 2 ^ 64" using assms by (simp add: entry_size_def)
  have "load_bytes (store_dirent dire info m) (dire + d_name) (length ?l)
      = load_bytes (store_bytes (dire + d_name) ?l m) (dire + d_name) (length ?l)"
    using dis le
    by (simp only: store_dirent_def Let_def store64_def store16_def load_bytes_store_bytes_disjoint
        length_le_bytes)
  also have "\<dots> = ?l" using le by (rule load_bytes_store_bytes_same) simp
  finally show ?thesis by simp
qed

text \<open>
  Documented behaviour of \<open>Read\<close> on a directory, for an abstraction that gives the entries still to
  be read: one entry per call, and success without data at the end.
\<close>

definition directory_contract ::
  "'w firmware \<Rightarrow> ('w \<Rightarrow> u64 \<Rightarrow> efi_file_info list) \<Rightarrow> u64 \<Rightarrow> bool" where
  "directory_contract fw entries h \<longleftrightarrow>
     (\<forall>w. \<not> EFI_ERROR (hdr fw) (fst (f_read_entry fw h w)) \<and>
        (case entries w h of
           [] \<Rightarrow> fst (snd (f_read_entry fw h w)) = None
         | e # es \<Rightarrow> fst (snd (f_read_entry fw h w)) = Some e \<and> entries (snd (snd (f_read_entry fw h w))) h = es))"

lemma directory_steps:
  assumes "directory_contract fw entries h"
  shows "entries (world s) h = [] \<Longrightarrow> getdents_loop fw h p d (Suc n) t s = Undef (if p = 0 then Null_deref else Uninit_read)"
    and "getdents_loop fw h 0 d (Suc n) t s = Undef Null_deref"
    and "p \<noteq> 0 \<Longrightarrow> entries (world s) h = e # es \<Longrightarrow> \<exists>w'. entries w' h = es \<and> getdents_loop fw h p d (Suc n) t s =
         getdents_loop fw h p d n (t + zext (dirent_reclen e)) (s\<lparr>world := w', mem := store_dirent d e (mem s)\<rparr>)"
proof -
  have c: "\<not> EFI_ERROR (hdr fw) (fst (f_read_entry fw h (world s))) \<and>
        (case entries (world s) h of
           [] \<Rightarrow> fst (snd (f_read_entry fw h (world s))) = None
         | e # es \<Rightarrow> fst (snd (f_read_entry fw h (world s))) = Some e \<and>
             entries (snd (snd (f_read_entry fw h (world s)))) h = es)"
    using assms unfolding directory_contract_def by blast
  show "entries (world s) h = [] \<Longrightarrow> getdents_loop fw h p d (Suc n) t s = Undef (if p = 0 then Null_deref else Uninit_read)"
    using c by (simp add: case_prod_beta)
  show "getdents_loop fw h 0 d (Suc n) t s = Undef Null_deref"
    using c by (simp add: case_prod_beta)
  show "p \<noteq> 0 \<Longrightarrow> entries (world s) h = e # es \<Longrightarrow> \<exists>w'. entries w' h = es \<and> getdents_loop fw h p d (Suc n) t s =
         getdents_loop fw h p d n (t + zext (dirent_reclen e)) (s\<lparr>world := w', mem := store_dirent d e (mem s)\<rparr>)"
    using c by (intro exI [of _ "snd (snd (f_read_entry fw h (world s)))"]) (simp add: case_prod_beta)
qed

lemma getdents_loop_short:
  assumes "directory_contract fw entries h" and "length (entries (world s) h) < n"
  shows "getdents_loop fw h p d n t s = Undef (if p = 0 then Null_deref else Uninit_read)"
  using assms(2)
proof (induction n arbitrary: s t)
  case 0
  then show ?case by simp
next
  case (Suc n)
  consider "entries (world s) h = []" | "p = 0" | e es where "entries (world s) h = e # es" "p \<noteq> 0"
    by (cases "entries (world s) h") auto
  then show ?case
  proof cases
    case 1
    then show ?thesis by (rule directory_steps(1) [OF assms(1)])
  next
    case 2
    then show ?thesis using directory_steps(2) [OF assms(1)] by simp
  next
    case 3
    with Suc.prems have "length es < n" by simp
    with directory_steps(3) [OF assms(1) 3(2,1), of d n t] Suc.IH show ?thesis by auto
  qed
qed

text \<open>With enough entries, all of them are written to the same place, one over the other.\<close>

lemma getdents_loop_full:
  assumes "directory_contract fw entries h" and "p \<noteq> 0" and "n \<le> length (entries (world s) h)"
  shows "\<exists>w. getdents_loop fw h p d n t s =
      Ret (ucast (t + (\<Sum>e \<leftarrow> take n (entries (world s) h). zext (dirent_reclen e))))
        (s\<lparr>world := w, mem := fold (store_dirent d) (take n (entries (world s) h)) (mem s)\<rparr>)
    \<and> entries w h = drop n (entries (world s) h)"
  using assms(3)
proof (induction n arbitrary: s t)
  case 0
  then show ?case by (intro exI [of _ "world s"]) simp
next
  case (Suc n)
  then obtain e es where es: "entries (world s) h = e # es" by (cases "entries (world s) h") auto
  then obtain w' where w': "entries w' h = es" "getdents_loop fw h p d (Suc n) t s =
      getdents_loop fw h p d n (t + zext (dirent_reclen e)) (s\<lparr>world := w', mem := store_dirent d e (mem s)\<rparr>)"
      (is "_ = getdents_loop _ _ _ _ _ _ ?s")
    using directory_steps(3) [OF assms(1,2) es, of d n t] by blast
  have "n \<le> length (entries (world ?s) h)" using Suc.prems es w'(1) by simp
  from Suc.IH [OF this, of "t + zext (dirent_reclen e)"] show ?case
    using es w' by (auto simp: add.assoc)
qed

lemma fold_store_dirent_other:
  assumes "\<forall>e \<in> set es. \<not> in_range d (entry_size e) x"
  shows "load8 (fold (store_dirent d) es m) x = load8 m x"
  using assms by (induction es arbitrary: m) (simp_all add: store_dirent_other)

text \<open>The entry address and the number of rounds, for a count the caller can mean.\<close>

lemma getdents_handle_eq:
  assumes "unat count < 2 ^ 31" and "k = unat count div 24"
  shows "getdents_handle fw dirp count s h = getdents_loop fw h dirp (dirp + of_nat (24 * k)) k 0 s"
proof -
  have c: "sext count = of_nat (unat count)"
    using sext_of_nat [OF assms(1)] by simp
  have k: "k < 2 ^ 31" using assms by linarith
  have "unat (sext count div sizeof_dirent64) = k"
    using assms unat_of_nat_u64 [of "unat count"] unfolding c by (simp only: unat_div) simp
  moreover have "unat (of_nat k :: u64) = k" by (rule unat_of_nat_u64) (use k in simp)
  ultimately have d: "sext count div sizeof_dirent64 = of_nat k"
    by (simp only: word_unat_eq_iff)
  have u: "unat (of_nat k :: u32) = k" by (rule unat_of_nat_u32) (use k in simp)
  have "unat (to_int (of_nat k)) = k"
    using k by (simp add: unat_of_nat unsigned_ucast_eq take_bit_nat_eq_self)
  then have e: "to_int (sext count div sizeof_dirent64) = of_nat k" "unat (of_nat k :: u32) = k"
    unfolding d using u by (simp_all only: word_unat_eq_iff)
  show ?thesis
    using sext_of_nat [OF k] by (simp only: getdents_handle_def Let_def e) (simp add: mult.commute)
qed

section \<open>Properties\<close>

text \<open>
  C32: Reading a directory that has at least as many entries left as the buffer has room for by the
  code's measure, one for each of its \<open>k\<close> whole 24-byte records: the call returns the sum of the
  entries' record lengths and takes \<open>k\<close> entries, but writes every one of them to the same place, the
  address behind the \<open>k\<close>-th record, one over the other. None of the \<open>24 * k\<close> bytes of the records
  changes, and what is found at that place afterwards is the name of the last entry.
\<close>

theorem fd_getdents64_writes_behind_records:
  assumes "wf_machine s" and "in_window fd" and "slot s fd \<noteq> 0"
    and "directory_contract fw entries (slot s fd)"
    and "unat count < 2 ^ 31" and "k = unat count div 24"
    and "es = entries (world s) (slot s fd)" and "k \<le> length es"
    and "\<forall>e \<in> set es. length (FileName e) < 2 ^ 16" and "dirp \<noteq> 0"
    and "place = dirp + of_nat (24 * k)" and "m = fold (store_dirent place) (take k es) (mem s)"
  shows "(\<exists>w. fd_getdents64 fw fd dirp count s =
        Ret (ucast (\<Sum>e \<leftarrow> take k es. zext (dirent_reclen e))) (s\<lparr>world := w, mem := m\<rparr>) \<and>
      entries w (slot s fd) = drop k es) \<and>
    (\<forall>x. in_range dirp (24 * k) x \<longrightarrow> load8 m x = load8 (mem s) x) \<and>
    (0 < k \<longrightarrow> (let name = before_nul (FileName (es ! (k - 1)))
      in load_bytes m (place + d_name) (length name + 1) = map ucast name @ [0]))"
proof (intro conjI allI impI)
  have len: "length (fds s) = 16" using assms(1) by (simp add: wf_machine_def)
  show "\<exists>w. fd_getdents64 fw fd dirp count s =
        Ret (ucast (\<Sum>e \<leftarrow> take k es. zext (dirent_reclen e))) (s\<lparr>world := w, mem := m\<rparr>) \<and>
      entries w (slot s fd) = drop k es"
    using getdents_loop_full [OF assms(4,10), of k s place 0] assms(7,8,12)
    unfolding getdents_call.live [OF len assms(2,3)] getdents_handle_eq [OF assms(5,6)] assms(11) by simp
next
  have size: "entry_size e \<le> 20 + 2 ^ 16" if "e \<in> set es" for e
    using assms(9) that length_takeWhile_le [of "\<lambda>x. x \<noteq> 0" "FileName e"]
    by (fastforce simp: entry_size_def before_nul_def)
  fix x
  assume "in_range dirp (24 * k) x"
  then have "\<not> in_range place (20 + 2 ^ 16) x"
    unfolding assms(11) by (rule in_range_before) (use assms(5,6) in simp)
  then show "load8 m x = load8 (mem s) x"
    unfolding assms(12) using size
    by (intro fold_store_dirent_other) (fastforce simp: in_range_def dest: in_set_takeD)
next
  assume "0 < k"
  then obtain n where n: "k = Suc n" by (cases k) auto
  have "entry_size (es ! n) \<le> 2 ^ 64"
    using assms(8,9) n length_takeWhile_le [of "\<lambda>x. x \<noteq> 0" "FileName (es ! n)"] nth_mem [of n es]
    by (fastforce simp: entry_size_def before_nul_def)
  moreover have "m = store_dirent place (es ! n) (fold (store_dirent place) (take n es) (mem s))"
    using assms(8,12) n by (simp add: take_Suc_conv_app_nth)
  ultimately show "let name = before_nul (FileName (es ! (k - 1)))
      in load_bytes m (place + d_name) (length name + 1) = map ucast name @ [0]"
    using n by (simp only: store_dirent_name Let_def diff_Suc_1)
qed

text \<open>
  C33: Reading a directory that has fewer entries left than that reaches its end inside the loop and
  uses the entry structure uninitialised; with a null pointer the first entry is already undefined.
\<close>

theorem fd_getdents64_end_of_directory:
  assumes "wf_machine s" and "in_window fd" and "slot s fd \<noteq> 0"
    and "directory_contract fw entries (slot s fd)" and "unat count < 2 ^ 31"
    and "length (entries (world s) (slot s fd)) < unat count div 24"
  shows "fd_getdents64 fw fd dirp count s = Undef (if dirp = 0 then Null_deref else Uninit_read)"
proof -
  have len: "length (fds s) = 16" using assms(1) by (simp add: wf_machine_def)
  show ?thesis
    unfolding getdents_call.live [OF len assms(2,3)] getdents_handle_eq [OF assms(5) refl]
    by (rule getdents_loop_short [OF assms(4,6)])
qed

lemma stat_by_path:
  assumes "wf_machine s"
    and "f_open fw (Volume_handle s) (map ucast (before_nul (load_bytes (mem s) path 510)))
           (EFI_FILE_MODE_READ (hdr fw)) 0 (world s) = (st1, h, w1)"
    and "\<not> EFI_ERROR (hdr fw) st1"
    and "f_getinfo fw h w1 = (st2, info, w2)" and "path \<noteq> 0" and "buf \<noteq> 0"
  shows "\<exists>b m. fd_stat fw path buf s =
      Ret (if EFI_ERROR (hdr fw) st2 then - efi_status_to_errno (hdr fw) st2 else 0)
        (s\<lparr>fres := b, world := w2, mem := m\<rparr>) \<and>
    (\<not> EFI_ERROR (hdr fw) st2 \<longrightarrow> stat_contents (Volume_handle s) info buf m) \<and>
    (\<forall>x. \<not> in_range buf 144 x \<longrightarrow> load8 m x = load8 (mem s) x)"
proof -
  have "length (fres s) = 1024" using assms(1) by (simp add: wf_machine_def)
  then obtain b where "bstr_to_wstr path s =
      Ret (map ucast (before_nul (load_bytes (mem s) path 510))) (s\<lparr>fres := b\<rparr>)"
    using bstr_to_wstr_returns assms(5) by blast
  then have "fd_stat fw path buf s =
      (if EFI_ERROR (hdr fw) st2
       then Ret (- efi_status_to_errno (hdr fw) st2)
         (s\<lparr>fres := b, world := w2, mem := store_stat_fixed buf (Volume_handle s) (mem s)\<rparr>)
       else Ret 0 (s\<lparr>fres := b, world := w2,
         mem := store_stat_info buf info (store_stat_fixed buf (Volume_handle s) (mem s))\<rparr>))"
    using assms(2-4,6) by (simp add: fd_stat_def fd_efi_stat_def fd_efi_get_file_info_def)
  then show ?thesis
    by (intro exI [of _ b] exI [of _ "if EFI_ERROR (hdr fw) st2
          then store_stat_fixed buf (Volume_handle s) (mem s)
          else store_stat_info buf info (store_stat_fixed buf (Volume_handle s) (mem s))"])
      (simp add: store_stat_other stat_contents_stored)
qed

text \<open>
  C17: \<open>stat\<close> by path, both pointers not null: the path before its NUL (at most 510 bytes) is opened for reading, and when the
  firmware reports the file's information, every member of the caller's structure that the code
  sets reads back as the volume, the fixed numbers, the sizes and the converted times; no byte
  outside the 144 of the structure changes. The outside world is left as the query left it: the
  handle that was opened is not closed.
\<close>

theorem fd_stat_fills_structure:
  assumes "wf_machine s"
    and "f_open fw (Volume_handle s) (map ucast (before_nul (load_bytes (mem s) path 510)))
           (EFI_FILE_MODE_READ (hdr fw)) 0 (world s) = (st1, h, w1)"
    and "\<not> EFI_ERROR (hdr fw) st1"
    and "f_getinfo fw h w1 = (st2, info, w2)" and "path \<noteq> 0" and "buf \<noteq> 0"
  shows "\<exists>b m. fd_stat fw path buf s =
      Ret (if EFI_ERROR (hdr fw) st2 then - efi_status_to_errno (hdr fw) st2 else 0)
        (s\<lparr>fres := b, world := w2, mem := m\<rparr>) \<and>
    (\<not> EFI_ERROR (hdr fw) st2 \<longrightarrow> stat_contents (Volume_handle s) info buf m) \<and>
    (\<forall>x. \<not> in_range buf 144 x \<longrightarrow> load8 m x = load8 (mem s) x)"
  by (rule stat_by_path [OF assms])

section \<open>Frames\<close>

lemma getdents_loop_frame:
  "frame s' = frame s \<Longrightarrow> keeps (in_frame f) s (getdents_loop fw h p d n t s')"
proof (induction n arbitrary: s' t)
  case 0
  then show ?case by (simp add: keeps_def)
next
  case (Suc n)
  then show ?case by (auto simp: case_prod_beta split: option.splits intro!: keeps_intros Suc.IH)
qed

lemma fd_getdents64_frame [keeps_intros]: "keeps (in_frame f) s (fd_getdents64 fw fd dirp count s)"
  by (rule getdents_call.keeps_call_always) (simp add: getdents_handle_def getdents_loop_frame Let_def)

lemma fd_efi_stat_frame:
  "frame s' = frame s \<Longrightarrow> keeps (in_frame f) s (fd_efi_stat fw buf s' h)"
  unfolding fd_efi_stat_def fd_efi_get_file_info_def Let_def
  by (auto split: prod.splits intro!: keeps_intros)

lemma fd_fstat_frame [keeps_intros]: "keeps (in_frame f) s (fd_fstat fw fd buf s)"
  by (rule fstat_call.keeps_call_always) (simp add: fd_efi_stat_frame)

lemma fd_stat_frame [keeps_intros]: "keeps (in_frame f) s (fd_stat fw path buf s)"
  unfolding fd_stat_def
  by (auto simp: case_prod_beta intro!: keeps_intros fd_efi_stat_frame)

end
