(* ===== verification/MemMgmt.thy ===== *)
theory MemMgmt
  imports Machine
begin

text \<open>
  \<open>mem_mmap\<close> and \<open>mem_munmap\<close> of \<open>src/linux-uefi.c\<close>: anonymous mappings are pool allocations of the
  firmware. \<open>addr\<close>, \<open>prot\<close>, \<open>flags\<close> and \<open>offset\<close> are ignored by the code.
\<close>

section \<open>The code\<close>

definition mem_mmap ::
  "'w firmware \<Rightarrow> u64 \<Rightarrow> u64 \<Rightarrow> i32 \<Rightarrow> i32 \<Rightarrow> i32 \<Rightarrow> i64 \<Rightarrow> 'w machine \<Rightarrow> ('w machine, u64) outcome" where
  "mem_mmap fw addr len prot flags fd offset s =
     (if sint fd > 0 then Ret (- ENOTSUP) s
      else
        (case allocate_pool fw len (world s) of
           (status, ptr, w) \<Rightarrow> Ret (check_status (hdr fw) status ptr) (s\<lparr>world := w\<rparr>)))"

definition mem_munmap :: "'w firmware \<Rightarrow> u64 \<Rightarrow> u64 \<Rightarrow> 'w machine \<Rightarrow> ('w machine, i32) outcome" where
  "mem_munmap fw addr len s =
     (case free_pool fw addr (world s) of
        (status, w) \<Rightarrow> Ret (check_status (hdr fw) status 0) (s\<lparr>world := w\<rparr>))"

section \<open>Frames\<close>

lemma mem_mmap_frame [keeps_intros]: "keeps (in_frame f) s (mem_mmap fw a l p fl fd off s)"
  by (auto simp: keeps_def mem_mmap_def split: prod.splits if_splits)

lemma mem_munmap_frame [keeps_intros]: "keeps (in_frame f) s (mem_munmap fw a l s)"
  by (auto simp: keeps_def mem_munmap_def split: prod.splits)

section \<open>The pool\<close>

text \<open>
  Documented behaviour of the pool services, for an abstraction \<open>pool\<close> that gives the blocks in use
  (address and length): a successful allocation adds a block that was not there, at an address below
  the last page and not null; freeing the address of a block removes it; freeing anything else is an
  error that changes nothing.
\<close>

definition pool_contract :: "'w firmware \<Rightarrow> ('w \<Rightarrow> u64 \<Rightarrow> u64 option) \<Rightarrow> bool" where
  "pool_contract fw pool \<longleftrightarrow>
     (\<forall>w n. case allocate_pool fw n w of
        (st, a, w') \<Rightarrow>
          if EFI_ERROR (hdr fw) st then pool w' = pool w
          else a \<noteq> 0 \<and> unat a < 2 ^ 63 \<and> pool w a = None \<and> pool w' = (pool w)(a \<mapsto> n)) \<and>
     (\<forall>w a. case free_pool fw a w of
        (st, w') \<Rightarrow>
          if pool w a = None then EFI_ERROR (hdr fw) st \<and> pool w' = pool w
          else \<not> EFI_ERROR (hdr fw) st \<and> pool w' = (pool w)(a := None))"

lemma pool_contract_allocate:
  assumes "pool_contract fw pool" and "allocate_pool fw n w = (st, a, w')"
  shows "if EFI_ERROR (hdr fw) st then pool w' = pool w
     else a \<noteq> 0 \<and> unat a < 2 ^ 63 \<and> pool w a = None \<and> pool w' = (pool w)(a \<mapsto> n)"
  using assms(1) [unfolded pool_contract_def, THEN conjunct1, THEN spec, THEN spec, of w n]
  by (simp add: assms(2))

lemma pool_contract_free:
  assumes "pool_contract fw pool" and "free_pool fw a w = (st, w')"
  shows "if pool w a = None then EFI_ERROR (hdr fw) st \<and> pool w' = pool w
     else \<not> EFI_ERROR (hdr fw) st \<and> pool w' = (pool w)(a := None)"
  using assms(1) [unfolded pool_contract_def, THEN conjunct2, THEN spec, THEN spec, of w a]
  by (simp add: assms(2))

end
