(* ===== verification/PowerControl.thy ===== *)
theory PowerControl
  imports Machine
begin

text \<open>
  The parts of \<open>src/linux-uefi.c\<close> that take control away from the program: \<open>proc_exit\<close>, \<open>proc_abort\<close>,
  \<open>proc_kill\<close> and \<open>power_reboot\<close>. \<open>BS->Exit\<close> and \<open>RT->ResetSystem\<close> normally do not come back; the
  model keeps the code's behaviour for the case that they do.
\<close>

section \<open>The code\<close>

definition exit_image :: "'w firmware \<Rightarrow> u64 \<Rightarrow> 'w machine \<Rightarrow> ('w machine, unit) outcome" where
  "exit_image fw st s =
     (case bs_exit fw (Image_handle s) st (world s) of
        (gone, w) \<Rightarrow> if gone then Exited st (s\<lparr>world := w\<rparr>) else Ret () (s\<lparr>world := w\<rparr>))"

definition proc_exit :: "'w firmware \<Rightarrow> i32 \<Rightarrow> 'w machine \<Rightarrow> ('w machine, unit) outcome" where
  "proc_exit fw status s =
     exit_image fw (if status \<noteq> 0 then EFI_END_OF_FILE (hdr fw) else EFI_SUCCESS (hdr fw)) s"

definition proc_abort :: "'w firmware \<Rightarrow> 'w machine \<Rightarrow> ('w machine, unit) outcome" where
  "proc_abort fw s = exit_image fw (EFI_ABORTED (hdr fw)) s"

definition proc_kill :: "'w firmware \<Rightarrow> i32 \<Rightarrow> i32 \<Rightarrow> 'w machine \<Rightarrow> ('w machine, i32) outcome" where
  "proc_kill fw pid sig s =
     (if pid = EMU_PID - 1 then Ret (- EPERM) s
      else if pid \<noteq> EMU_PID then Ret (- ESRCH) s
      else if sint sig \<ge> 30 then Ret (- EINVAL) s
      else bind_out (proc_abort fw s) (\<lambda>_ s. Hang s))"

abbreviation (input) LINUX_REBOOT_MAGIC1 :: i32 where "LINUX_REBOOT_MAGIC1 \<equiv> 0xfee1dead"
abbreviation (input) LINUX_REBOOT_MAGIC2 :: i32 where "LINUX_REBOOT_MAGIC2 \<equiv> 0x28121969"
abbreviation (input) LINUX_REBOOT_MAGIC2A :: i32 where "LINUX_REBOOT_MAGIC2A \<equiv> 0x05121996"
abbreviation (input) LINUX_REBOOT_MAGIC2B :: i32 where "LINUX_REBOOT_MAGIC2B \<equiv> 0x16041998"
abbreviation (input) LINUX_REBOOT_MAGIC2C :: i32 where "LINUX_REBOOT_MAGIC2C \<equiv> 0x20112000"
abbreviation (input) LINUX_REBOOT_CMD_CAD_OFF :: i32 where "LINUX_REBOOT_CMD_CAD_OFF \<equiv> 0"
abbreviation (input) LINUX_REBOOT_CMD_CAD_ON :: i32 where "LINUX_REBOOT_CMD_CAD_ON \<equiv> 0x89abcdef"
abbreviation (input) LINUX_REBOOT_CMD_HALT :: i32 where "LINUX_REBOOT_CMD_HALT \<equiv> 0xcdef0123"
abbreviation (input) LINUX_REBOOT_CMD_KEXEC :: i32 where "LINUX_REBOOT_CMD_KEXEC \<equiv> 0x45584543"
abbreviation (input) LINUX_REBOOT_CMD_POWER_OFF :: i32 where "LINUX_REBOOT_CMD_POWER_OFF \<equiv> 0x4321fedc"
abbreviation (input) LINUX_REBOOT_CMD_RESTART :: i32 where "LINUX_REBOOT_CMD_RESTART \<equiv> 0x1234567"
abbreviation (input) LINUX_REBOOT_CMD_RESTART2 :: i32 where "LINUX_REBOOT_CMD_RESTART2 \<equiv> 0xa1b2c3d4"
abbreviation (input) LINUX_REBOOT_CMD_SW_SUSPEND :: i32 where "LINUX_REBOOT_CMD_SW_SUSPEND \<equiv> 0xd000fce1"

definition print_wide :: "'w firmware \<Rightarrow> u16 list \<Rightarrow> 'w machine \<Rightarrow> 'w machine" where
  "print_wide fw str s = s\<lparr>world := snd (out_string fw str (world s))\<rparr>"

definition reset_machine :: "'w firmware \<Rightarrow> reset_type \<Rightarrow> 'w machine \<Rightarrow> ('w machine, i32) outcome" where
  "reset_machine fw r s =
     (case reset_system fw r (world s) of
        (gone, w) \<Rightarrow> if gone then Reset r (s\<lparr>world := w\<rparr>) else Ret 0 (s\<lparr>world := w\<rparr>))"

definition power_reboot ::
  "'w firmware \<Rightarrow> i32 \<Rightarrow> i32 \<Rightarrow> i32 \<Rightarrow> u64 \<Rightarrow> 'w machine \<Rightarrow> ('w machine, i32) outcome" where
  "power_reboot fw magic1 magic2 cmd arg s =
     (if magic1 \<noteq> LINUX_REBOOT_MAGIC1 then Ret (- EINVAL) s
      else if magic2 \<noteq> LINUX_REBOOT_MAGIC2 \<and> magic2 \<noteq> LINUX_REBOOT_MAGIC2A \<and>
              magic2 \<noteq> LINUX_REBOOT_MAGIC2B \<and> magic2 \<noteq> LINUX_REBOOT_MAGIC2C then Ret (- EINVAL) s
      else if cmd = LINUX_REBOOT_CMD_CAD_OFF \<or> cmd = LINUX_REBOOT_CMD_CAD_ON then Ret (- EINVAL) s
      else if cmd = LINUX_REBOOT_CMD_HALT then
        Hang (print_wide fw (wide ([CHR 0x0D, CHR 0x0A] @ ''System halted.'')) s)
      else if cmd = LINUX_REBOOT_CMD_KEXEC then Ret (- EINVAL) s
      else if cmd = LINUX_REBOOT_CMD_SW_SUSPEND then Ret (- EINVAL) s
      else if cmd = LINUX_REBOOT_CMD_POWER_OFF then
        reset_machine fw EfiResetShutdown
          (print_wide fw (wide ([CHR 0x0D, CHR 0x0A] @ ''Power down.'')) s)
      else if cmd = LINUX_REBOOT_CMD_RESTART then
        reset_machine fw EfiResetWarm
          (print_wide fw (wide ([CHR 0x0D, CHR 0x0A] @ ''Restarting system.'')) s)
      else if cmd = LINUX_REBOOT_CMD_RESTART2 then
        (let s = print_wide fw
               (wide ([CHR 0x0D, CHR 0x0A] @ ''Restarting system with command '' @ [CHR 0x27])) s
         in bind_out (bstr_to_wstr arg s) (\<lambda>str s.
              reset_machine fw EfiResetWarm (print_wide fw (wide [CHR 0x27]) (print_wide fw str s))))
      else Ret (- EINVAL) s)"

section \<open>Facts\<close>

text \<open>What these calls may change: the outside world, and the static buffer of the conversion.\<close>

lemma print_wide_fields [simp]:
  "fds (print_wide fw str s) = fds s" "fres (print_wide fw str s) = fres s"
  "mem (print_wide fw str s) = mem s" "errno (print_wide fw str s) = errno s"
  "Volume_handle (print_wide fw str s) = Volume_handle s"
  "Image_handle (print_wide fw str s) = Image_handle s"
  by (simp_all add: print_wide_def)

definition valid_magic :: "i32 \<Rightarrow> i32 \<Rightarrow> bool" where
  "valid_magic magic1 magic2 \<longleftrightarrow> magic1 = LINUX_REBOOT_MAGIC1 \<and>
     magic2 \<in> {LINUX_REBOOT_MAGIC2, LINUX_REBOOT_MAGIC2A, LINUX_REBOOT_MAGIC2B, LINUX_REBOOT_MAGIC2C}"

definition power_cmd :: "i32 \<Rightarrow> bool" where
  "power_cmd cmd \<longleftrightarrow> cmd \<in> {LINUX_REBOOT_CMD_HALT, LINUX_REBOOT_CMD_POWER_OFF,
     LINUX_REBOOT_CMD_RESTART, LINUX_REBOOT_CMD_RESTART2}"

text \<open>The texts a command prints, one \<open>OutputString\<close> each, and the reset it asks for.\<close>

definition power_texts :: "i32 \<Rightarrow> u8 list \<Rightarrow> u16 list list" where
  "power_texts cmd bytes =
     (let line = (\<lambda>str. wide ([CHR 0x0D, CHR 0x0A] @ str)) in
      if cmd = LINUX_REBOOT_CMD_POWER_OFF then [line ''Power down.'']
      else if cmd = LINUX_REBOOT_CMD_RESTART then [line ''Restarting system.'']
      else if cmd = LINUX_REBOOT_CMD_RESTART2 then
        [line (''Restarting system with command '' @ [CHR 0x27]), map ucast (before_nul bytes), wide [CHR 0x27]]
      else [line ''System halted.''])"

definition power_reset :: "i32 \<Rightarrow> reset_type option" where
  "power_reset cmd =
     (if cmd = LINUX_REBOOT_CMD_POWER_OFF then Some EfiResetShutdown
      else if cmd = LINUX_REBOOT_CMD_RESTART \<or> cmd = LINUX_REBOOT_CMD_RESTART2 then Some EfiResetWarm
      else None)"

definition show_texts :: "'w firmware \<Rightarrow> u16 list list \<Rightarrow> 'w \<Rightarrow> 'w" where
  "show_texts fw = fold (\<lambda>str w. snd (out_string fw str w))"

definition reset_outcome ::
  "'w firmware \<Rightarrow> reset_type option \<Rightarrow> 'w machine \<Rightarrow> ('w machine, i32) outcome" where
  "reset_outcome fw reset s =
     (case reset of
        None \<Rightarrow> Hang s
      | Some r \<Rightarrow>
          let (gone, w) = reset_system fw r (world s)
          in if gone then Reset r (s\<lparr>world := w\<rparr>) else Ret 0 (s\<lparr>world := w\<rparr>))"

section \<open>Properties\<close>

lemma power_reboot_refused:
  "\<not> (valid_magic magic1 magic2 \<and> power_cmd cmd) \<Longrightarrow> power_reboot fw magic1 magic2 cmd arg s = Ret (- EINVAL) s"
  by (auto simp: power_reboot_def valid_magic_def power_cmd_def)

lemma power_reboot_texts:
  assumes "valid_magic magic1 magic2" and "power_cmd cmd" and "cmd \<noteq> LINUX_REBOOT_CMD_RESTART2"
  shows "power_reboot fw magic1 magic2 cmd arg s =
    reset_outcome fw (power_reset cmd) (s\<lparr>world := show_texts fw (power_texts cmd bytes) (world s)\<rparr>)"
proof -
  have "cmd = LINUX_REBOOT_CMD_HALT \<or> cmd = LINUX_REBOOT_CMD_POWER_OFF \<or> cmd = LINUX_REBOOT_CMD_RESTART"
    using assms(2,3) by (auto simp: power_cmd_def)
  with assms(1) show ?thesis
    by (elim disjE) (auto simp: power_reboot_def valid_magic_def power_texts_def power_reset_def
        reset_outcome_def show_texts_def reset_machine_def print_wide_def split: prod.splits)
qed

lemma power_reboot_restart2:
  assumes "valid_magic magic1 magic2" and "length (fres s) = 1024"
  obtains buf where "power_reboot fw magic1 magic2 LINUX_REBOOT_CMD_RESTART2 arg s =
    (if arg = 0 then Undef Null_deref
     else reset_outcome fw (Some EfiResetWarm) (s\<lparr>fres := buf,
       world := show_texts fw (power_texts LINUX_REBOOT_CMD_RESTART2 (load_bytes (mem s) arg 510)) (world s)\<rparr>))"
proof (cases "arg = 0")
  case True
  then show thesis using that assms(1) by (auto simp: power_reboot_def valid_magic_def)
next
  case False
  let ?s = "print_wide fw (wide ([CHR 0x0D, CHR 0x0A] @ ''Restarting system with command '' @ [CHR 0x27])) s"
  have "length (fres ?s) = 1024" using assms(2) by simp
  then obtain buf where "bstr_to_wstr arg ?s =
      Ret (map ucast (before_nul (load_bytes (mem s) arg 510))) (?s\<lparr>fres := buf\<rparr>)"
    using bstr_to_wstr_returns [of ?s arg] False by auto
  then show thesis
    using assms(1) False
    by (intro that [of buf]) (auto simp: power_reboot_def valid_magic_def power_texts_def
        reset_outcome_def show_texts_def reset_machine_def print_wide_def split: prod.splits)
qed

text \<open>
  C25: A reboot request with a wrong magic number, whatever the command, or with any command other than
  halt, power off, restart and restart with a command string, is refused with \<open>-EINVAL\<close> and has no
  effect at all: no text is printed, the argument is not looked at and the machine is not reset. A
  restart with a command string and a null argument is undefined. Otherwise the command's text is
  printed on a new line (for a command string: its bytes before the NUL, at most 510, between two
  fixed texts, through the static buffer) and then a shutdown or warm reset is asked for, which ends
  the run when the firmware carries it out and returns 0 when it does not; halt prints its text and
  never returns.
\<close>

theorem power_reboot_behaviour:
  assumes "wf_machine s"
  shows "\<exists>buf. (cmd \<noteq> LINUX_REBOOT_CMD_RESTART2 \<longrightarrow> buf = fres s) \<and>
    power_reboot fw magic1 magic2 cmd arg s =
      (if \<not> (valid_magic magic1 magic2 \<and> power_cmd cmd) then Ret (- EINVAL) s
       else if cmd = LINUX_REBOOT_CMD_RESTART2 \<and> arg = 0 then Undef Null_deref
       else reset_outcome fw (power_reset cmd) (s\<lparr>fres := buf,
         world := show_texts fw (power_texts cmd (load_bytes (mem s) arg 510)) (world s)\<rparr>))"
proof -
  consider "\<not> (valid_magic magic1 magic2 \<and> power_cmd cmd)"
    | "valid_magic magic1 magic2" "power_cmd cmd" "cmd \<noteq> LINUX_REBOOT_CMD_RESTART2"
    | "valid_magic magic1 magic2" "cmd = LINUX_REBOOT_CMD_RESTART2" by blast
  then show ?thesis
  proof cases
    case 1
    then show ?thesis using power_reboot_refused [OF 1] by (intro exI [of _ "fres s"]) simp
  next
    case 2
    then show ?thesis
      using power_reboot_texts [OF 2, of fw arg s "load_bytes (mem s) arg 510"]
      by (intro exI [of _ "fres s"]) simp
  next
    case 3
    have "length (fres s) = 1024" using assms by (simp add: wf_machine_def)
    with 3(1) obtain buf where "power_reboot fw magic1 magic2 LINUX_REBOOT_CMD_RESTART2 arg s =
        (if arg = 0 then Undef Null_deref
         else reset_outcome fw (Some EfiResetWarm) (s\<lparr>fres := buf,
           world := show_texts fw (power_texts LINUX_REBOOT_CMD_RESTART2 (load_bytes (mem s) arg 510)) (world s)\<rparr>))"
      by (rule power_reboot_restart2)
    then show ?thesis using 3 by (intro exI [of _ buf]) (simp add: power_cmd_def power_reset_def)
  qed
qed

lemma proc_kill_behaviour:
  "proc_kill fw pid sig s =
     (if pid = 1 then Ret (- EPERM) s
      else if pid \<noteq> 2 then Ret (- ESRCH) s
      else if 30 \<le> sint sig then Ret (- EINVAL) s
      else
        let (gone, w) = bs_exit fw (Image_handle s) (EFI_ABORTED (hdr fw)) (world s)
        in if gone then Exited (EFI_ABORTED (hdr fw)) (s\<lparr>world := w\<rparr>) else Hang (s\<lparr>world := w\<rparr>))"
  by (auto simp: proc_kill_def proc_abort_def exit_image_def split: prod.splits)

section \<open>Frame conditions\<close>

lemma frame_print_wide [simp]: "frame (print_wide fw str s) = frame s"
  by (simp add: frame_def)

lemma exit_image_frame [keeps_intros]:
  "frame s' = frame s \<Longrightarrow> keeps (in_frame f) s (exit_image fw st s')"
  by (auto simp: keeps_def exit_image_def split: prod.splits if_splits)

lemma proc_exit_frame [keeps_intros]: "keeps (in_frame f) s (proc_exit fw st s)"
  unfolding proc_exit_def by (rule exit_image_frame) simp

lemma proc_kill_frame [keeps_intros]: "keeps (in_frame f) s (proc_kill fw pid sig s)"
  unfolding proc_kill_def proc_abort_def by (auto intro!: keeps_intros)

lemma reset_machine_frame [keeps_intros]:
  "frame s' = frame s \<Longrightarrow> keeps (in_frame f) s (reset_machine fw r s')"
  by (auto simp: keeps_def reset_machine_def split: prod.splits if_splits)

lemma power_reboot_frame [keeps_intros]:
  "keeps (in_frame f) s (power_reboot fw magic1 magic2 cmd arg s)"
  unfolding power_reboot_def Let_def by (intro keeps_intros) simp_all

end
