(* ===== verification/Syscall.thy ===== *)
theory Syscall
  imports FileStat MemMgmt PowerControl
begin

text \<open>
  The dispatcher \<open>syscall_emu_x86_64\<close> of \<open>src/linux-uefi.c\<close>, and the states a program that calls it
  can reach.
\<close>

unbundle bit_operations_syntax

section \<open>The code\<close>

text \<open>
  The caller's array \<open>args\<close> is as long as the caller made it; an operation that takes \<open>n\<close> arguments
  reads its first \<open>n\<close> elements. An \<open>int\<close> result is converted to \<open>uint64_t\<close> with its sign.
\<close>

definition with_args :: "nat \<Rightarrow> u64 list \<Rightarrow> ('s, 'a) outcome \<Rightarrow> ('s, 'a) outcome" where
  "with_args n args m = (if n \<le> length args then m else Undef Oob_read)"

definition int_result :: "('s, i32) outcome \<Rightarrow> ('s, u64) outcome" where
  "int_result m = bind_out m (\<lambda>r s. Ret (sext r) s)"

definition syscall_emu_x86_64 ::
  "'w firmware \<Rightarrow> u64 \<Rightarrow> u64 list \<Rightarrow> 'w machine \<Rightarrow> ('w machine, u64) outcome" where
  "syscall_emu_x86_64 fw no args s =
     (if no = 0 then with_args 3 args (fd_read fw (to_int (args ! 0)) (args ! 1) (args ! 2) s)
      else if no = 1 then with_args 3 args (fd_write fw (to_int (args ! 0)) (args ! 1) (args ! 2) s)
      else if no = 2 then with_args 2 args (int_result (fd_open fw (args ! 0) (to_int (args ! 1)) s))
      else if no = 3 then with_args 1 args (int_result (fd_close fw (to_int (args ! 0)) s))
      else if no = 4 then with_args 2 args (int_result (fd_stat fw (args ! 0) (args ! 1) s))
      else if no = 5 then with_args 2 args (int_result (fd_fstat fw (to_int (args ! 0)) (args ! 1) s))
      else if no = 6 then with_args 2 args (int_result (fd_stat fw (args ! 0) (args ! 1) s))
      else if no = 8 then with_args 3 args (fd_lseek fw (to_int (args ! 0)) (args ! 1) (to_int (args ! 2)) s)
      else if no = 9 then with_args 6 args
        (mem_mmap fw (args ! 0) (args ! 1) (to_int (args ! 2)) (to_int (args ! 3)) (to_int (args ! 4)) (args ! 5) s)
      else if no = 11 then with_args 2 args (int_result (mem_munmap fw (args ! 0) (args ! 1) s))
      else if no = 23 then with_args 5 args
        (int_result (fd_select fw (to_int (args ! 0)) (args ! 1) (args ! 2) (args ! 3) (args ! 4) s))
      else if no = 32 then with_args 1 args (int_result (fd_dup (to_int (args ! 0)) s))
      else if no = 33 then with_args 2 args (int_result (fd_dup2 fw (to_int (args ! 0)) (to_int (args ! 1)) s))
      else if no = 60 then with_args 1 args (bind_out (proc_exit fw (to_int (args ! 0)) s) (\<lambda>_ s. Ret 0 s))
      else if no = 74 then with_args 1 args (int_result (fd_fsync fw (to_int (args ! 0)) s))
      else if no = 75 then with_args 1 args (int_result (fd_fsync fw (to_int (args ! 0)) s))
      else if no = 62 then with_args 2 args (int_result (proc_kill fw (to_int (args ! 0)) (to_int (args ! 1)) s))
      else if no = 96 then with_args 1 args (int_result (time_gettimeofday fw (args ! 0) s))
      else if no = 169 then with_args 4 args
        (int_result (power_reboot fw (to_int (args ! 0)) (to_int (args ! 1)) (to_int (args ! 2)) (args ! 3) s))
      else if no = 217 then with_args 3 args
        (int_result (fd_getdents64 fw (to_int (args ! 0)) (args ! 1) (to_int (args ! 2)) s))
      else if no = 10 then Ret 0 s
      else if no = 24 then Ret 0 s
      else if no = 39 then Ret EMU_PID s
      else if no = 102 then Ret EMU_UID s
      else if no = 104 then Ret EMU_GID s
      else if no = 105 then Ret (- EPERM) s
      else if no = 106 then Ret (- EPERM) s
      else if no = 107 then Ret EMU_UID s
      else if no = 108 then Ret EMU_GID s
      else if no = 110 then Ret (EMU_PID - 1) s
      else if no = 186 then Ret EMU_PID s
      else Ret (- ENOSYS) s)"

section \<open>The table\<close>

text \<open>The dispatcher's entry for each number.\<close>

lemma syscall_table:
  "syscall_emu_x86_64 fw 0 args s =
     with_args 3 args (fd_read fw (to_int (args ! 0)) (args ! 1) (args ! 2) s)"
  "syscall_emu_x86_64 fw 1 args s =
     with_args 3 args (fd_write fw (to_int (args ! 0)) (args ! 1) (args ! 2) s)"
  "syscall_emu_x86_64 fw 2 args s =
     with_args 2 args (int_result (fd_open fw (args ! 0) (to_int (args ! 1)) s))"
  "syscall_emu_x86_64 fw 3 args s =
     with_args 1 args (int_result (fd_close fw (to_int (args ! 0)) s))"
  "syscall_emu_x86_64 fw 4 args s =
     with_args 2 args (int_result (fd_stat fw (args ! 0) (args ! 1) s))"
  "syscall_emu_x86_64 fw 5 args s =
     with_args 2 args (int_result (fd_fstat fw (to_int (args ! 0)) (args ! 1) s))"
  "syscall_emu_x86_64 fw 6 args s =
     with_args 2 args (int_result (fd_stat fw (args ! 0) (args ! 1) s))"
  "syscall_emu_x86_64 fw 8 args s =
     with_args 3 args (fd_lseek fw (to_int (args ! 0)) (args ! 1) (to_int (args ! 2)) s)"
  "syscall_emu_x86_64 fw 9 args s =
     with_args 6 args (mem_mmap fw (args ! 0) (args ! 1) (to_int (args ! 2)) (to_int (args ! 3)) (to_int (args ! 4)) (args ! 5) s)"
  "syscall_emu_x86_64 fw 11 args s =
     with_args 2 args (int_result (mem_munmap fw (args ! 0) (args ! 1) s))"
  "syscall_emu_x86_64 fw 23 args s =
     with_args 5 args (int_result (fd_select fw (to_int (args ! 0)) (args ! 1) (args ! 2) (args ! 3) (args ! 4) s))"
  "syscall_emu_x86_64 fw 32 args s =
     with_args 1 args (int_result (fd_dup (to_int (args ! 0)) s))"
  "syscall_emu_x86_64 fw 33 args s =
     with_args 2 args (int_result (fd_dup2 fw (to_int (args ! 0)) (to_int (args ! 1)) s))"
  "syscall_emu_x86_64 fw 60 args s =
     with_args 1 args (bind_out (proc_exit fw (to_int (args ! 0)) s) (\<lambda>_ s. Ret 0 s))"
  "syscall_emu_x86_64 fw 74 args s =
     with_args 1 args (int_result (fd_fsync fw (to_int (args ! 0)) s))"
  "syscall_emu_x86_64 fw 75 args s =
     with_args 1 args (int_result (fd_fsync fw (to_int (args ! 0)) s))"
  "syscall_emu_x86_64 fw 62 args s =
     with_args 2 args (int_result (proc_kill fw (to_int (args ! 0)) (to_int (args ! 1)) s))"
  "syscall_emu_x86_64 fw 96 args s =
     with_args 1 args (int_result (time_gettimeofday fw (args ! 0) s))"
  "syscall_emu_x86_64 fw 169 args s =
     with_args 4 args (int_result (power_reboot fw (to_int (args ! 0)) (to_int (args ! 1)) (to_int (args ! 2)) (args ! 3) s))"
  "syscall_emu_x86_64 fw 217 args s =
     with_args 3 args (int_result (fd_getdents64 fw (to_int (args ! 0)) (args ! 1) (to_int (args ! 2)) s))"
  "syscall_emu_x86_64 fw 10 args s =
     Ret 0 s"
  "syscall_emu_x86_64 fw 24 args s =
     Ret 0 s"
  "syscall_emu_x86_64 fw 39 args s =
     Ret EMU_PID s"
  "syscall_emu_x86_64 fw 102 args s =
     Ret EMU_UID s"
  "syscall_emu_x86_64 fw 104 args s =
     Ret EMU_GID s"
  "syscall_emu_x86_64 fw 105 args s =
     Ret (- EPERM) s"
  "syscall_emu_x86_64 fw 106 args s =
     Ret (- EPERM) s"
  "syscall_emu_x86_64 fw 107 args s =
     Ret EMU_UID s"
  "syscall_emu_x86_64 fw 108 args s =
     Ret EMU_GID s"
  "syscall_emu_x86_64 fw 110 args s =
     Ret (EMU_PID - 1) s"
  "syscall_emu_x86_64 fw 186 args s =
     Ret EMU_PID s"
  by (simp_all add: syscall_emu_x86_64_def)

section \<open>What a call keeps\<close>

lemma with_args_keeps [keeps_intros]: "keeps P s m \<Longrightarrow> keeps P s (with_args n args m)"
  by (simp add: with_args_def keeps_Undef)

lemma int_result_keeps [keeps_intros]: "keeps P s m \<Longrightarrow> keeps P s (int_result m)"
  unfolding int_result_def by (rule keeps_bind) (simp_all add: keeps_Ret)

lemma time_sleep_frame: "keeps (in_frame f) s (time_sleep fw tv s)"
  by (auto simp: keeps_def time_sleep_def split: prod.splits)

lemma fd_select_frame [keeps_intros]: "keeps (in_frame f) s (fd_select fw n r w e t s)"
  unfolding fd_select_def by (intro keeps_intros time_sleep_frame)

lemma time_gettimeofday_frame [keeps_intros]: "keeps (in_frame f) s (time_gettimeofday fw tv s)"
  by (auto simp: keeps_def time_gettimeofday_def time_cstd_time_def Let_def split: prod.splits)

text \<open>
  Every system call keeps the size of the static objects, and none of them ever makes an empty
  descriptor table non-empty.
\<close>

lemma syscall_keeps_wf: "keeps wf_machine s (syscall_emu_x86_64 fw no args s)"
  unfolding syscall_emu_x86_64_def
  by (intro keeps_intros keeps_of_frame(2)) simp_all

lemma syscall_keeps_no_files: "keeps no_files s (syscall_emu_x86_64 fw no args s)"
  unfolding syscall_emu_x86_64_def
  by (intro keeps_intros keeps_of_frame(1)) simp_all

end
