(* ===== verification/Reachability.thy ===== *)
theory Reachability
  imports Syscall
begin

text \<open>
  The states a program running on the emulator can reach: \<open>efi_main\<close> has initialised the globals, and
  from then on the program changes its memory and \<open>errno\<close>, the outside world moves on, and system
  calls are made, in any order. What holds in all of these states, and what system calls do in them.
\<close>

unbundle bit_operations_syntax

section \<open>Reachable states\<close>

inductive reachable :: "'w firmware \<Rightarrow> 'w machine \<Rightarrow> bool" for fw where
  boot: "length (fres s0) = 1024 \<Longrightarrow> efi_init fw img s0 = Ret () s \<Longrightarrow> reachable fw s"
| run: "reachable fw s \<Longrightarrow> reachable fw (s\<lparr>mem := m, errno := e, world := w\<rparr>)"
| call: "reachable fw s \<Longrightarrow> syscall_emu_x86_64 fw no args s = Ret r s' \<Longrightarrow> reachable fw s'"

text \<open>The number of arguments a system call reads.\<close>

definition arity :: "u64 \<Rightarrow> nat" where
  "arity no =
     (if no \<in> {3, 32, 60, 74, 75, 96} then 1
      else if no \<in> {2, 4, 5, 6, 11, 33, 62} then 2
      else if no \<in> {0, 1, 8, 217} then 3
      else if no = 169 then 4 else if no = 23 then 5 else if no = 9 then 6 else 0)"

text \<open>The numbers of the calls that take a descriptor first and go through its guard only.\<close>

definition descriptor_syscall :: "u64 \<Rightarrow> u64 list \<Rightarrow> bool" where
  "descriptor_syscall no args \<longleftrightarrow> no \<in> {3, 5, 8, 32, 74, 75, 217} \<or>
     no = 0 \<and> to_int (args ! 0) \<noteq> 0 \<or> no = 1 \<and> to_int (args ! 0) \<notin> {1, 2}"

section \<open>The invariant\<close>

lemma GetVolume_fields:
  "GetVolume fw img s = Ret v s' \<Longrightarrow> fds s' = fds s \<and> length (fres s') = length (fres s)"
  by (auto simp: GetVolume_def split: prod.splits option.splits)

lemma efi_init_establishes:
  "efi_init fw img s = Ret () s' \<Longrightarrow> length (fres s) = 1024 \<Longrightarrow> wf_machine s' \<and> no_files s'"
  by (auto simp: efi_init_def bind_out_eq_Ret Let_def wf_machine_def no_files_def
      case_prod_beta dest!: GetVolume_fields)

lemma reachable_invariant:
  "reachable fw s \<Longrightarrow> wf_machine s \<and> no_files s"
proof (induction rule: reachable.induct)
  case (boot s0 img s)
  then show ?case by (blast dest: efi_init_establishes)
next
  case (run s m e w)
  then show ?case by (simp add: wf_machine_def no_files_def)
next
  case (call s no args r s')
  then show ?case
    using keepsD [OF syscall_keeps_wf, of s fw no args s'] keepsD [OF syscall_keeps_no_files, of s fw no args s']
    by simp
qed

text \<open>
  C4: In every state a program can reach, whatever it calls and whatever the firmware answers, the
  descriptor table is empty and the static objects have their declared sizes: no file is ever held
  open by a descriptor.
\<close>

theorem reachable_table_empty:
  assumes "reachable fw s"
  shows "fds s = replicate 16 0 \<and> length (fres s) = 1024"
  using reachable_invariant [OF assms] by (simp add: no_files_def wf_machine_def)

section \<open>Calls in reachable states\<close>

lemma empty_table_file_calls:
  assumes "no_files s"
  shows "fd \<noteq> 0 \<Longrightarrow> fd_read fw fd buf count s = Ret (if sint fd < 4 then - EACCES else - EBADF) s"
    and "fd \<notin> {1, 2} \<Longrightarrow> fd_write fw fd buf count s = Ret (if sint fd < 4 then - EACCES else - EBADF) s"
    and "fd_getdents64 fw fd dirp n s = Ret (if sint fd < 4 then - EACCES else - EBADF) s"
    and "fd_fstat fw fd buf s = Ret (if sint fd < 4 then - EACCES else - EBADF) s"
  using assms unfolding no_files_def
  by (simp_all only: fd_read_guarded fd_write_guarded insert_iff empty_iff de_Morgan_disj simp_thms
      read_call.empty_table write_call.empty_table getdents_call.empty_table fstat_call.empty_table)

lemma int_result_Ret [simp]: "int_result (Ret r s) = Ret (sext r) s"
  by (simp add: int_result_def)

lemmas empty_calls = empty_table_calls empty_table_file_calls fd_open_empty

lemma descriptor_syscall_refused:
  assumes "no_files s" and "descriptor_syscall no args" and "arity no \<le> length args"
  shows "syscall_emu_x86_64 fw no args s =
    Ret (if sint (to_int (args ! 0)) < 4 then - EACCES else - EBADF) s"
  using assms(2,3) unfolding descriptor_syscall_def
  by (elim disjE conjE insertE emptyE)
    (simp_all add: syscall_table arity_def with_args_def empty_calls [OF assms(1)])

lemma open_syscall_refused:
  assumes "no_files s" and "arity 2 \<le> length args"
  shows "syscall_emu_x86_64 fw 2 args s = Ret (- EMFILE) s"
  using assms by (simp add: syscall_emu_x86_64_def arity_def with_args_def fd_open_empty)

text \<open>
  C9: In every reachable state \<open>open\<close> fails with \<open>-EMFILE\<close>, and every system call on a descriptor
  other than the console's (read, write, close, fstat, lseek, dup, fsync, fdatasync, getdents64) fails
  with \<open>-EACCES\<close> for a descriptor below 4 and with \<open>-EBADF\<close> for every other, without any effect: no
  program can read or write a file through the emulator.
\<close>

theorem file_calls_always_fail:
  assumes "reachable fw s"
  shows "(2 \<le> length args \<longrightarrow> syscall_emu_x86_64 fw 2 args s = Ret (- EMFILE) s) \<and>
    (descriptor_syscall no args \<and> arity no \<le> length args \<longrightarrow>
      syscall_emu_x86_64 fw no args s = Ret (if sint (to_int (args ! 0)) < 4 then - EACCES else - EBADF) s)"
proof (intro conjI impI)
  assume "2 \<le> length args"
  then show "syscall_emu_x86_64 fw 2 args s = Ret (- EMFILE) s"
    using reachable_invariant [OF assms] open_syscall_refused [of s args fw] by (simp add: arity_def)
next
  assume "descriptor_syscall no args \<and> arity no \<le> length args"
  then show "syscall_emu_x86_64 fw no args s =
      Ret (if sint (to_int (args ! 0)) < 4 then - EACCES else - EBADF) s"
    using reachable_invariant [OF assms] descriptor_syscall_refused by blast
qed

lemma syscall_numbers:
  "arity no = 0 \<or> no \<in> {2, 3, 5, 8, 32, 74, 75, 217} \<or> no \<in> {4, 6} \<or> no \<in> {9, 11} \<or> no = 0 \<or> no = 1 \<or>
   no = 23 \<or> no = 33 \<or> no = 60 \<or> no = 62 \<or> no = 96 \<or> no = 169"
  by (simp add: arity_def)

section \<open>The cases of a call\<close>

lemma with_args_enough: "n \<le> length args \<Longrightarrow> with_args n args m = m"
  by (simp add: with_args_def)

lemma int_result_eq_Undef [simp]: "int_result m = Undef u \<longleftrightarrow> m = Undef u"
  by (cases m) (simp_all add: int_result_def)

text \<open>The answers that leave the state alone.\<close>

definition fixed_answers :: "u64 set" where
  "fixed_answers = {0, EMU_PID, EMU_PID - 1, EMU_UID, EMU_GID, - EPERM, - ENOSYS, - EMFILE, - EACCES, - EBADF}"

lemma fixed_answer:
  assumes "no_files s" and "arity no \<le> length args"
    and "descriptor_syscall no args \<or> no = 2 \<or> arity no = 0"
  shows "\<exists>r \<in> fixed_answers. syscall_emu_x86_64 fw no args s = Ret r s"
  using assms(3)
proof (elim disjE)
  assume "descriptor_syscall no args"
  from descriptor_syscall_refused [OF assms(1) this assms(2), of fw] show ?thesis
    by (simp add: fixed_answers_def)
next
  assume "no = 2"
  then show ?thesis using assms(2) open_syscall_refused [OF assms(1)] by (simp add: fixed_answers_def)
next
  assume "arity no = 0"
  then show ?thesis by (simp add: arity_def syscall_emu_x86_64_def fixed_answers_def split: if_splits)
qed

text \<open>
  What a system call amounts to when the table is empty: a fixed answer that leaves the state alone, one
  of the operations behind the dispatcher, or the one bad array access.
\<close>

lemma syscall_cases:
  assumes "no_files s" and "arity no \<le> length args"
  obtains (answered) r where "r \<in> fixed_answers" "syscall_emu_x86_64 fw no args s = Ret r s"
  | (reads) "no = 0" "to_int (args ! 0) = 0"
      "syscall_emu_x86_64 fw no args s = read_console fw (args ! 1) (args ! 2) s"
  | (writes) "no = 1" "to_int (args ! 0) \<in> {1, 2}"
      "syscall_emu_x86_64 fw no args s = write_console fw (args ! 1) (args ! 2) s"
  | (stat) "no \<in> {4, 6}" "syscall_emu_x86_64 fw no args s = int_result (fd_stat fw (args ! 0) (args ! 1) s)"
  | (mmap) "no = 9" "syscall_emu_x86_64 fw no args s =
      mem_mmap fw (args ! 0) (args ! 1) (to_int (args ! 2)) (to_int (args ! 3)) (to_int (args ! 4)) (args ! 5) s"
  | (munmap) "no = 11" "syscall_emu_x86_64 fw no args s = int_result (mem_munmap fw (args ! 0) (args ! 1) s)"
  | (select) "no = 23" "syscall_emu_x86_64 fw no args s =
      int_result (fd_select fw (to_int (args ! 0)) (args ! 1) (args ! 2) (args ! 3) (args ! 4) s)"
  | (dup2_outside) "no = 33" "in_window (to_int (args ! 0))" "sint (to_int (args ! 1)) < 4 \<or> 19 < sint (to_int (args ! 1))"
      "syscall_emu_x86_64 fw no args s = Undef Oob_read"
  | (exit) "no = 60"
      "syscall_emu_x86_64 fw no args s = bind_out (proc_exit fw (to_int (args ! 0)) s) (\<lambda>_ s. Ret 0 s)"
  | (kill) "no = 62"
      "syscall_emu_x86_64 fw no args s = int_result (proc_kill fw (to_int (args ! 0)) (to_int (args ! 1)) s)"
  | (time) "no = 96" "syscall_emu_x86_64 fw no args s = int_result (time_gettimeofday fw (args ! 0) s)"
  | (reboot) "no = 169" "syscall_emu_x86_64 fw no args s =
      int_result (power_reboot fw (to_int (args ! 0)) (to_int (args ! 1)) (to_int (args ! 2)) (args ! 3) s)"
proof -
  note eqs = syscall_table arity_def with_args_enough
  consider "descriptor_syscall no args \<or> no = 2 \<or> arity no = 0" | "no = 0" "to_int (args ! 0) = 0"
    | "no = 1" "to_int (args ! 0) \<in> {1, 2}" | "no \<in> {4, 6}" | "no = 9" | "no = 11" | "no = 23" | "no = 33"
    | "no = 60" | "no = 62" | "no = 96" | "no = 169"
    using syscall_numbers [of no] unfolding descriptor_syscall_def by fastforce
  then show thesis
  proof cases
    case 1
    from fixed_answer [OF assms this] show thesis using answered by blast
  next
    case 2
    then show thesis using assms(2) by (intro reads) (simp_all add: eqs fd_read_def)
  next
    case 3
    then show thesis using assms(2) by (intro writes) (auto simp: eqs fd_write_def)
  next
    case 4
    then show thesis using assms(2) by (intro stat) (elim insertE emptyE; simp add: eqs)+
  next
    case 5
    then show thesis using assms(2) by (intro mmap) (simp_all add: eqs)
  next
    case 6
    then show thesis using assms(2) by (intro munmap) (simp_all add: eqs)
  next
    case 7
    then show thesis using assms(2) by (intro select) (simp_all add: eqs)
  next
    case 8
    have "syscall_emu_x86_64 fw no args s = int_result (fd_dup2 fw (to_int (args ! 0)) (to_int (args ! 1)) s)"
      using 8 assms(2) by (simp add: eqs)
    then show thesis
      using dup2_outside [OF 8] answered [of "- EBADF"] answered [of "- EACCES"]
      by (auto simp: fd_dup2_empty [OF assms(1)] fixed_answers_def in_window_def split: if_splits)
  next
    case 9
    then show thesis using assms(2) by (intro exit) (simp_all add: eqs)
  next
    case 10
    then show thesis using assms(2) by (intro kill) (simp_all add: eqs)
  next
    case 11
    then show thesis using assms(2) by (intro time) (simp_all add: eqs)
  next
    case 12
    then show thesis using assms(2) by (intro reboot) (simp_all add: eqs)
  qed
qed

section \<open>Where undefined behaviour is left\<close>












section \<open>What system calls may write\<close>

text \<open>The bytes of memory a system call may write, by its number and arguments.\<close>

definition footprint :: "u64 \<Rightarrow> u64 list \<Rightarrow> u64 \<Rightarrow> bool" where
  "footprint no args x \<longleftrightarrow>
     no = 0 \<and> in_range (args ! 1) (unat (args ! 2)) x \<or>
     no \<in> {4, 6} \<and> in_range (args ! 1) 144 x \<or>
     no = 96 \<and> in_range (args ! 0) 16 x"

definition same_outside :: "(u64 \<Rightarrow> bool) \<Rightarrow> memory \<Rightarrow> 'w machine \<Rightarrow> bool" where
  "same_outside R m s \<longleftrightarrow> (\<forall>x. \<not> R x \<longrightarrow> load8 (mem s) x = load8 m x)"

lemma same_outside_world [simp]:
  "same_outside R m (s\<lparr>world := w\<rparr>) \<longleftrightarrow> same_outside R m s"
  "same_outside R m (s\<lparr>fres := b\<rparr>) \<longleftrightarrow> same_outside R m s"
  by (simp_all add: same_outside_def)

lemma read_keys_footprint:
  assumes "read_keys fw buf count it s = Some (Inr x)" and "unat it \<le> unat count"
  shows "\<forall>x'. \<not> in_range buf (unat count) x' \<longrightarrow> load8 (mem (snd x)) x' = load8 (mem s) x'"
proof -
  have lt: "unat it < unat count" "unat (it + 1) \<le> unat count"
    if "zext it \<noteq> count" "unat it \<le> unat count" for it :: u32
  proof -
    have "unat it \<noteq> unat count" using that(1) unat_zext32 [of it] by (metis word_unat_eq_iff)
    with that(2) show "unat it < unat count" by linarith
    moreover have "unat (it + 1) \<le> unat it + unat (1 :: u32)"
      by (simp only: unat_word_ariths(1) mod_less_eq_dividend)
    ultimately show "unat (it + 1) \<le> unat count" by (simp add: unat_1)
  qed
  have keep: "load8 (store8 (buf + zext it) c m) x' = load8 m x'"
    if "zext it \<noteq> count" "unat it \<le> unat count" "\<not> in_range buf (unat count) x'" for it :: u32 and c m x'
  proof -
    have "in_range buf (unat count) (buf + zext it)"
      using lt(1) [OF that(1,2)] by (simp add: in_range_def unat_zext32)
    then show ?thesis using that(3) by (intro ram.get_put_other) auto
  qed
  have "unat it \<le> unat count \<longrightarrow> (\<forall>x. y = Inr x \<longrightarrow>
      (\<forall>x'. \<not> in_range buf (unat count) x' \<longrightarrow> load8 (mem (snd x)) x' = load8 (mem s) x'))"
    if "read_keys fw buf count it s = Some y" for y
    using that by (rule read_keys_rounds) (auto simp: keep lt)
  with assms show ?thesis by blast
qed

text \<open>The calls that write no memory at all.\<close>

lemma mem_unchanged:
  "keeps (same_outside R m) s (proc_exit fw st s)"
  "keeps (same_outside R m) s (proc_kill fw pid sig s)"
  "keeps (same_outside R m) s (mem_mmap fw a l p fl fd off s)"
  "keeps (same_outside R m) s (mem_munmap fw a l s)"
  "keeps (same_outside R m) s (fd_select fw n r w e t s)"
  "keeps (same_outside R m) s (write_console fw buf count s)"
  by (auto simp: keeps_def proc_exit_def proc_kill_def proc_abort_def exit_image_def mem_mmap_def
      mem_munmap_def fd_select_def time_sleep_def write_console_def case_prod_beta
      split: option.splits sum.splits if_splits)

lemma bstr_to_wstr_same_outside [keeps_intros]:
  assumes "same_outside R m s \<Longrightarrow> same_outside R m s'"
  shows "keeps (same_outside R m) s (bstr_to_wstr p s')"
proof -
  have "same_outside R m s''" if "same_outside R m s" "final (bstr_to_wstr p s') = Some s''" for s''
    using assms that
    by (simp add: bstr_to_wstr_def case_prod_beta split: if_splits option.splits sum.splits)
       (auto simp: same_outside_def)
  then show ?thesis by (simp add: keeps_def)
qed

lemma power_reboot_memory: "keeps (same_outside R m) s (power_reboot fw m1 m2 cmd arg s)"
proof -
  have p: "same_outside R m (print_wide fw str s) \<longleftrightarrow> same_outside R m s" for str s
    by (simp add: print_wide_def)
  have "keeps (same_outside R m) s (reset_machine fw r s')"
    if "same_outside R m s \<Longrightarrow> same_outside R m s'" for r s s'
    using that by (auto simp: keeps_def reset_machine_def split: prod.splits if_splits)
  then show ?thesis
    unfolding power_reboot_def Let_def by (intro keeps_intros) (simp_all add: p)
qed

lemma stat_memory:
  assumes "same_outside (in_range buf 144) m s \<Longrightarrow> same_outside (in_range buf 144) m s'"
  shows "keeps (same_outside (in_range buf 144) m) s (fd_efi_stat fw buf s' h)"
  using assms
  by (auto simp: keeps_def fd_efi_stat_def fd_efi_get_file_info_def case_prod_beta Let_def same_outside_def
      store_stat_other split: if_splits)

lemma fd_stat_memory: "keeps (same_outside (in_range buf 144) m) s (fd_stat fw path buf s)"
  unfolding fd_stat_def case_prod_beta
  by (intro keeps_intros stat_memory) simp_all

text \<open>
  C7: In a reachable state, a system call that returns has written memory only inside what its
  arguments name: a console read inside \<open>[buf, buf + count)\<close>, \<open>stat\<close> and \<open>lstat\<close> inside the 144
  bytes of the structure, \<open>gettimeofday\<close> inside its 16 bytes, and every other call nowhere.
\<close>

theorem syscall_memory_footprint:
  assumes "reachable fw s" and "arity no \<le> length args"
    and "syscall_emu_x86_64 fw no args s = Ret r s'" and "\<not> footprint no args x"
  shows "load8 (mem s') x = load8 (mem s) x"
proof -
  let ?P = "same_outside (footprint no args) (mem s)"
  have "keeps ?P s (syscall_emu_x86_64 fw no args s)"
    using reachable_invariant [OF assms(1), THEN conjunct2] assms(2)
  proof (cases rule: syscall_cases [where fw = fw])
    case reads
    then have "footprint no args = in_range (args ! 1) (unat (args ! 2))" by (auto simp: footprint_def)
    then show ?thesis
      using reads(3) read_keys_footprint [of fw "args ! 1" "args ! 2" 0 s]
      by (auto simp: read_console_def keeps_def same_outside_def split: option.splits sum.splits)
  next
    case stat
    then have "footprint no args = in_range (args ! 1) 144" by (auto simp: footprint_def)
    then show ?thesis using stat(2) by (simp add: int_result_keeps fd_stat_memory)
  next
    case time
    then have "footprint no args = in_range (args ! 0) 16" by (auto simp: footprint_def)
    then show ?thesis
      using time(2)
      by (auto simp: time_gettimeofday_def time_cstd_time_def case_prod_beta keeps_def same_outside_def
          load8_store_timeval_other Let_def int_result_def split: if_splits)
  qed (simp_all add: int_result_keeps mem_unchanged power_reboot_memory keeps_bind keeps_Ret keeps_Undef)
  from keepsD [OF this] assms(3,4) show ?thesis by (simp add: same_outside_def)
qed

end
