(* ===== verification/Nolibc.thy ===== *)
theory Nolibc
  imports Reachability
begin

text \<open>
  The system call wrappers of \<open>src/nolibc/unistd.h\<close>, with the macros of \<open>src/nolibc/arch.h\<close> and
  \<open>src/nolibc/errno.h\<close>: a wrapper puts its arguments into an array, calls \<open>syscall_emu_x86_64\<close> with a
  number, and turns a negative result into \<open>-1\<close> and a positive \<open>errno\<close>. Every call has an internal
  form (\<open>sys_close\<close>) and an exported one (\<open>close\<close>); \<open>write\<close> is a keyword and is called \<open>write'\<close>
  here. The calls with more to them than that are in theory \<open>NolibcCalls\<close>.
\<close>

section \<open>The kernel headers\<close>

text \<open>
  \<open>asm/unistd.h\<close> and the other kernel headers are not part of the repository. They are a parameter:
  which \<open>__NR_\<close> macros exist and their values, and the constants the wrappers use.
\<close>

record kernel_hdr =
  nr :: "string \<Rightarrow> u64 option"
  AT_FDCWD :: i32
  SIGCHLD :: i32
  TIOCSPGRP :: u64
  O_CREAT_flag :: i32
  PROT_READ :: i32
  PROT_WRITE :: i32
  ARCH_WANT_SYS_OLD_SELECT :: bool
  ARCH_WANT_SYS_PSELECT6 :: bool

text \<open>
  A use of a macro that does not exist is not C; \<open>NR_first\<close> is \<open>#ifdef a ... #elif defined(b) ...
  #else #error\<close>.
\<close>

definition NR :: "kernel_hdr \<Rightarrow> string \<Rightarrow> (u64 \<Rightarrow> ('s, 'a) outcome) \<Rightarrow> ('s, 'a) outcome" where
  "NR k a f = (case nr k a of None \<Rightarrow> Undef No_return_value | Some n \<Rightarrow> f n)"

definition NR_first ::
  "kernel_hdr \<Rightarrow> string \<Rightarrow> string \<Rightarrow> (u64 \<Rightarrow> ('s, 'a) outcome) \<Rightarrow> (u64 \<Rightarrow> ('s, 'a) outcome) \<Rightarrow> ('s, 'a) outcome" where
  "NR_first k a b f g = (case nr k a of Some n \<Rightarrow> f n | None \<Rightarrow> NR k b g)"

section \<open>Calling the emulator\<close>

text \<open>
  \<open>my_syscall0\<close> passes an array of one zero, \<open>my_syscall1\<close> to \<open>my_syscall6\<close> pass their arguments;
  the result is read as \<open>long\<close>. An \<open>int\<close> function returns the low half of it.
\<close>

definition my_syscall :: "'w firmware \<Rightarrow> u64 \<Rightarrow> u64 list \<Rightarrow> 'w machine \<Rightarrow> ('w machine, i64) outcome" where
  "my_syscall fw num args s = syscall_emu_x86_64 fw num args s"

definition int_value :: "('s, i64) outcome \<Rightarrow> ('s, i32) outcome" where
  "int_value m = bind_out m (\<lambda>r s. Ret (to_int r) s)"

definition SET_ERRNO :: "i32 \<Rightarrow> 'w machine \<Rightarrow> 'w machine" where
  "SET_ERRNO v s = s\<lparr>errno := v\<rparr>"

text \<open>\<open>if (ret < 0) { SET_ERRNO(-ret); ret = -1; } return ret;\<close>.\<close>

definition ret_errno :: "('w machine, 'r::len word) outcome \<Rightarrow> ('w machine, 'r word) outcome" where
  "ret_errno m = bind_out m (\<lambda>ret s. if sint ret < 0 then Ret (- 1) (SET_ERRNO (ucast (- ret)) s) else Ret ret s)"

section \<open>The wrappers\<close>

text \<open>Files and directories, by path.\<close>

definition sys_chdir :: "kernel_hdr \<Rightarrow> 'w firmware \<Rightarrow> u64 \<Rightarrow> 'w machine \<Rightarrow> ('w machine, i32) outcome" where
  "sys_chdir k fw path s = int_value (NR k ''chdir'' (\<lambda>n. my_syscall fw n [path] s))"

definition chdir :: "kernel_hdr \<Rightarrow> 'w firmware \<Rightarrow> u64 \<Rightarrow> 'w machine \<Rightarrow> ('w machine, i32) outcome" where
  "chdir k fw path s = ret_errno (sys_chdir k fw path s)"

definition sys_chmod :: "kernel_hdr \<Rightarrow> 'w firmware \<Rightarrow> u64 \<Rightarrow> u32 \<Rightarrow> 'w machine \<Rightarrow> ('w machine, i32) outcome" where
  "sys_chmod k fw path mode s = int_value (NR_first k ''fchmodat'' ''chmod''
     (\<lambda>n. my_syscall fw n [sext (AT_FDCWD k), path, zext mode, 0] s)
     (\<lambda>n. my_syscall fw n [path, zext mode] s))"

definition chmod :: "kernel_hdr \<Rightarrow> 'w firmware \<Rightarrow> u64 \<Rightarrow> u32 \<Rightarrow> 'w machine \<Rightarrow> ('w machine, i32) outcome" where
  "chmod k fw path mode s = ret_errno (sys_chmod k fw path mode s)"

definition sys_chown :: "kernel_hdr \<Rightarrow> 'w firmware \<Rightarrow> u64 \<Rightarrow> u32 \<Rightarrow> u32 \<Rightarrow> 'w machine \<Rightarrow> ('w machine, i32) outcome" where
  "sys_chown k fw path owner gid s = int_value (NR_first k ''fchownat'' ''chown''
     (\<lambda>n. my_syscall fw n [sext (AT_FDCWD k), path, zext owner, zext gid, 0] s)
     (\<lambda>n. my_syscall fw n [path, zext owner, zext gid] s))"

definition chown :: "kernel_hdr \<Rightarrow> 'w firmware \<Rightarrow> u64 \<Rightarrow> u32 \<Rightarrow> u32 \<Rightarrow> 'w machine \<Rightarrow> ('w machine, i32) outcome" where
  "chown k fw path owner gid s = ret_errno (sys_chown k fw path owner gid s)"

definition sys_chroot :: "kernel_hdr \<Rightarrow> 'w firmware \<Rightarrow> u64 \<Rightarrow> 'w machine \<Rightarrow> ('w machine, i32) outcome" where
  "sys_chroot k fw path s = int_value (NR k ''chroot'' (\<lambda>n. my_syscall fw n [path] s))"

definition chroot :: "kernel_hdr \<Rightarrow> 'w firmware \<Rightarrow> u64 \<Rightarrow> 'w machine \<Rightarrow> ('w machine, i32) outcome" where
  "chroot k fw path s = ret_errno (sys_chroot k fw path s)"

definition sys_link :: "kernel_hdr \<Rightarrow> 'w firmware \<Rightarrow> u64 \<Rightarrow> u64 \<Rightarrow> 'w machine \<Rightarrow> ('w machine, i32) outcome" where
  "sys_link k fw old new s = int_value (NR_first k ''linkat'' ''link''
     (\<lambda>n. my_syscall fw n [sext (AT_FDCWD k), old, sext (AT_FDCWD k), new, 0] s)
     (\<lambda>n. my_syscall fw n [old, new] s))"

definition link :: "kernel_hdr \<Rightarrow> 'w firmware \<Rightarrow> u64 \<Rightarrow> u64 \<Rightarrow> 'w machine \<Rightarrow> ('w machine, i32) outcome" where
  "link k fw old new s = ret_errno (sys_link k fw old new s)"

definition sys_mkdir :: "kernel_hdr \<Rightarrow> 'w firmware \<Rightarrow> u64 \<Rightarrow> u32 \<Rightarrow> 'w machine \<Rightarrow> ('w machine, i32) outcome" where
  "sys_mkdir k fw path mode s = int_value (NR_first k ''mkdirat'' ''mkdir''
     (\<lambda>n. my_syscall fw n [sext (AT_FDCWD k), path, zext mode] s)
     (\<lambda>n. my_syscall fw n [path, zext mode] s))"

definition mkdir :: "kernel_hdr \<Rightarrow> 'w firmware \<Rightarrow> u64 \<Rightarrow> u32 \<Rightarrow> 'w machine \<Rightarrow> ('w machine, i32) outcome" where
  "mkdir k fw path mode s = ret_errno (sys_mkdir k fw path mode s)"

definition sys_mknod :: "kernel_hdr \<Rightarrow> 'w firmware \<Rightarrow> u64 \<Rightarrow> u32 \<Rightarrow> u32 \<Rightarrow> 'w machine \<Rightarrow> ('w machine, i64) outcome" where
  "sys_mknod k fw path mode dev s = NR_first k ''mknodat'' ''mknod''
     (\<lambda>n. my_syscall fw n [sext (AT_FDCWD k), path, zext mode, zext dev] s)
     (\<lambda>n. my_syscall fw n [path, zext mode, zext dev] s)"

definition mknod :: "kernel_hdr \<Rightarrow> 'w firmware \<Rightarrow> u64 \<Rightarrow> u32 \<Rightarrow> u32 \<Rightarrow> 'w machine \<Rightarrow> ('w machine, i32) outcome" where
  "mknod k fw path mode dev s = ret_errno (int_value (sys_mknod k fw path mode dev s))"

definition sys_mount :: "kernel_hdr \<Rightarrow> 'w firmware \<Rightarrow> u64 \<Rightarrow> u64 \<Rightarrow> u64 \<Rightarrow> u64 \<Rightarrow> u64 \<Rightarrow> 'w machine \<Rightarrow> ('w machine, i32) outcome" where
  "sys_mount k fw src tgt fs flags data s = int_value (NR k ''mount'' (\<lambda>n. my_syscall fw n [src, tgt, fs, flags, data] s))"

definition mount :: "kernel_hdr \<Rightarrow> 'w firmware \<Rightarrow> u64 \<Rightarrow> u64 \<Rightarrow> u64 \<Rightarrow> u64 \<Rightarrow> u64 \<Rightarrow> 'w machine \<Rightarrow> ('w machine, i32) outcome" where
  "mount k fw src tgt fs flags data s = ret_errno (sys_mount k fw src tgt fs flags data s)"

definition sys_pivot_root :: "kernel_hdr \<Rightarrow> 'w firmware \<Rightarrow> u64 \<Rightarrow> u64 \<Rightarrow> 'w machine \<Rightarrow> ('w machine, i32) outcome" where
  "sys_pivot_root k fw new old s = int_value (NR k ''pivot_root'' (\<lambda>n. my_syscall fw n [new, old] s))"

definition pivot_root :: "kernel_hdr \<Rightarrow> 'w firmware \<Rightarrow> u64 \<Rightarrow> u64 \<Rightarrow> 'w machine \<Rightarrow> ('w machine, i32) outcome" where
  "pivot_root k fw new old s = ret_errno (sys_pivot_root k fw new old s)"

definition sys_symlink :: "kernel_hdr \<Rightarrow> 'w firmware \<Rightarrow> u64 \<Rightarrow> u64 \<Rightarrow> 'w machine \<Rightarrow> ('w machine, i32) outcome" where
  "sys_symlink k fw old new s = int_value (NR_first k ''symlinkat'' ''symlink''
     (\<lambda>n. my_syscall fw n [old, sext (AT_FDCWD k), new] s)
     (\<lambda>n. my_syscall fw n [old, new] s))"

definition symlink :: "kernel_hdr \<Rightarrow> 'w firmware \<Rightarrow> u64 \<Rightarrow> u64 \<Rightarrow> 'w machine \<Rightarrow> ('w machine, i32) outcome" where
  "symlink k fw old new s = ret_errno (sys_symlink k fw old new s)"

definition sys_umount2 :: "kernel_hdr \<Rightarrow> 'w firmware \<Rightarrow> u64 \<Rightarrow> i32 \<Rightarrow> 'w machine \<Rightarrow> ('w machine, i32) outcome" where
  "sys_umount2 k fw path flags s = int_value (NR k ''umount2'' (\<lambda>n. my_syscall fw n [path, sext flags] s))"

definition umount2 :: "kernel_hdr \<Rightarrow> 'w firmware \<Rightarrow> u64 \<Rightarrow> i32 \<Rightarrow> 'w machine \<Rightarrow> ('w machine, i32) outcome" where
  "umount2 k fw path flags s = ret_errno (sys_umount2 k fw path flags s)"

definition sys_unlink :: "kernel_hdr \<Rightarrow> 'w firmware \<Rightarrow> u64 \<Rightarrow> 'w machine \<Rightarrow> ('w machine, i32) outcome" where
  "sys_unlink k fw path s = int_value (NR_first k ''unlinkat'' ''unlink''
     (\<lambda>n. my_syscall fw n [sext (AT_FDCWD k), path, 0] s)
     (\<lambda>n. my_syscall fw n [path] s))"

definition unlink :: "kernel_hdr \<Rightarrow> 'w firmware \<Rightarrow> u64 \<Rightarrow> 'w machine \<Rightarrow> ('w machine, i32) outcome" where
  "unlink k fw path s = ret_errno (sys_unlink k fw path s)"

text \<open>Descriptors.\<close>

definition sys_close :: "kernel_hdr \<Rightarrow> 'w firmware \<Rightarrow> i32 \<Rightarrow> 'w machine \<Rightarrow> ('w machine, i32) outcome" where
  "sys_close k fw fd s = int_value (NR k ''close'' (\<lambda>n. my_syscall fw n [sext fd] s))"

definition close :: "kernel_hdr \<Rightarrow> 'w firmware \<Rightarrow> i32 \<Rightarrow> 'w machine \<Rightarrow> ('w machine, i32) outcome" where
  "close k fw fd s = ret_errno (sys_close k fw fd s)"

definition sys_dup :: "kernel_hdr \<Rightarrow> 'w firmware \<Rightarrow> i32 \<Rightarrow> 'w machine \<Rightarrow> ('w machine, i32) outcome" where
  "sys_dup k fw fd s = int_value (NR k ''dup'' (\<lambda>n. my_syscall fw n [sext fd] s))"

definition dup :: "kernel_hdr \<Rightarrow> 'w firmware \<Rightarrow> i32 \<Rightarrow> 'w machine \<Rightarrow> ('w machine, i32) outcome" where
  "dup k fw fd s = ret_errno (sys_dup k fw fd s)"

definition sys_dup2 :: "kernel_hdr \<Rightarrow> 'w firmware \<Rightarrow> i32 \<Rightarrow> i32 \<Rightarrow> 'w machine \<Rightarrow> ('w machine, i32) outcome" where
  "sys_dup2 k fw old new s = int_value (NR_first k ''dup3'' ''dup2''
     (\<lambda>n. my_syscall fw n [sext old, sext new, 0] s)
     (\<lambda>n. my_syscall fw n [sext old, sext new] s))"

definition dup2 :: "kernel_hdr \<Rightarrow> 'w firmware \<Rightarrow> i32 \<Rightarrow> i32 \<Rightarrow> 'w machine \<Rightarrow> ('w machine, i32) outcome" where
  "dup2 k fw old new s = ret_errno (sys_dup2 k fw old new s)"

definition sys_dup3 :: "kernel_hdr \<Rightarrow> 'w firmware \<Rightarrow> i32 \<Rightarrow> i32 \<Rightarrow> i32 \<Rightarrow> 'w machine \<Rightarrow> ('w machine, i32) outcome" where
  "sys_dup3 k fw old new flags s = int_value (NR k ''dup3'' (\<lambda>n. my_syscall fw n [sext old, sext new, sext flags] s))"

definition dup3 :: "kernel_hdr \<Rightarrow> 'w firmware \<Rightarrow> i32 \<Rightarrow> i32 \<Rightarrow> i32 \<Rightarrow> 'w machine \<Rightarrow> ('w machine, i32) outcome" where
  "dup3 k fw old new flags s = ret_errno (sys_dup3 k fw old new flags s)"

definition sys_fsync :: "kernel_hdr \<Rightarrow> 'w firmware \<Rightarrow> i32 \<Rightarrow> 'w machine \<Rightarrow> ('w machine, i32) outcome" where
  "sys_fsync k fw fd s = int_value (NR k ''fsync'' (\<lambda>n. my_syscall fw n [sext fd] s))"

definition fsync :: "kernel_hdr \<Rightarrow> 'w firmware \<Rightarrow> i32 \<Rightarrow> 'w machine \<Rightarrow> ('w machine, i32) outcome" where
  "fsync k fw fd s = ret_errno (sys_fsync k fw fd s)"

definition sys_getdents64 :: "kernel_hdr \<Rightarrow> 'w firmware \<Rightarrow> i32 \<Rightarrow> u64 \<Rightarrow> i32 \<Rightarrow> 'w machine \<Rightarrow> ('w machine, i32) outcome" where
  "sys_getdents64 k fw fd dirp count s = int_value (NR k ''getdents64'' (\<lambda>n. my_syscall fw n [sext fd, dirp, sext count] s))"

definition getdents64 :: "kernel_hdr \<Rightarrow> 'w firmware \<Rightarrow> i32 \<Rightarrow> u64 \<Rightarrow> i32 \<Rightarrow> 'w machine \<Rightarrow> ('w machine, i32) outcome" where
  "getdents64 k fw fd dirp count s = ret_errno (sys_getdents64 k fw fd dirp count s)"

definition sys_ioctl :: "kernel_hdr \<Rightarrow> 'w firmware \<Rightarrow> i32 \<Rightarrow> u64 \<Rightarrow> u64 \<Rightarrow> 'w machine \<Rightarrow> ('w machine, i32) outcome" where
  "sys_ioctl k fw fd req val s = int_value (NR k ''ioctl'' (\<lambda>n. my_syscall fw n [sext fd, req, val] s))"

definition ioctl :: "kernel_hdr \<Rightarrow> 'w firmware \<Rightarrow> i32 \<Rightarrow> u64 \<Rightarrow> u64 \<Rightarrow> 'w machine \<Rightarrow> ('w machine, i32) outcome" where
  "ioctl k fw fd req val s = ret_errno (sys_ioctl k fw fd req val s)"

definition sys_lseek :: "kernel_hdr \<Rightarrow> 'w firmware \<Rightarrow> i32 \<Rightarrow> i64 \<Rightarrow> i32 \<Rightarrow> 'w machine \<Rightarrow> ('w machine, i64) outcome" where
  "sys_lseek k fw fd offset whence s = NR k ''lseek'' (\<lambda>n. my_syscall fw n [sext fd, offset, sext whence] s)"

definition lseek :: "kernel_hdr \<Rightarrow> 'w firmware \<Rightarrow> i32 \<Rightarrow> i64 \<Rightarrow> i32 \<Rightarrow> 'w machine \<Rightarrow> ('w machine, i64) outcome" where
  "lseek k fw fd offset whence s = ret_errno (sys_lseek k fw fd offset whence s)"

definition sys_memfd_create :: "kernel_hdr \<Rightarrow> 'w firmware \<Rightarrow> u64 \<Rightarrow> u32 \<Rightarrow> 'w machine \<Rightarrow> ('w machine, i32) outcome" where
  "sys_memfd_create k fw name flags s = int_value (NR k ''memfd_create'' (\<lambda>n. my_syscall fw n [name, zext flags] s))"

definition memfd_create :: "kernel_hdr \<Rightarrow> 'w firmware \<Rightarrow> u64 \<Rightarrow> u32 \<Rightarrow> 'w machine \<Rightarrow> ('w machine, i32) outcome" where
  "memfd_create k fw name flags s = ret_errno (sys_memfd_create k fw name flags s)"

definition sys_read :: "kernel_hdr \<Rightarrow> 'w firmware \<Rightarrow> i32 \<Rightarrow> u64 \<Rightarrow> u64 \<Rightarrow> 'w machine \<Rightarrow> ('w machine, i64) outcome" where
  "sys_read k fw fd buf count s = NR k ''read'' (\<lambda>n. my_syscall fw n [sext fd, buf, count] s)"

definition read :: "kernel_hdr \<Rightarrow> 'w firmware \<Rightarrow> i32 \<Rightarrow> u64 \<Rightarrow> u64 \<Rightarrow> 'w machine \<Rightarrow> ('w machine, i64) outcome" where
  "read k fw fd buf count s = ret_errno (sys_read k fw fd buf count s)"

definition sys_write :: "kernel_hdr \<Rightarrow> 'w firmware \<Rightarrow> i32 \<Rightarrow> u64 \<Rightarrow> u64 \<Rightarrow> 'w machine \<Rightarrow> ('w machine, i64) outcome" where
  "sys_write k fw fd buf count s = NR k ''write'' (\<lambda>n. my_syscall fw n [sext fd, buf, count] s)"

definition write' :: "kernel_hdr \<Rightarrow> 'w firmware \<Rightarrow> i32 \<Rightarrow> u64 \<Rightarrow> u64 \<Rightarrow> 'w machine \<Rightarrow> ('w machine, i64) outcome" where
  "write' k fw fd buf count s = ret_errno (sys_write k fw fd buf count s)"

text \<open>Processes and identities.\<close>

definition sys_execve :: "kernel_hdr \<Rightarrow> 'w firmware \<Rightarrow> u64 \<Rightarrow> u64 \<Rightarrow> u64 \<Rightarrow> 'w machine \<Rightarrow> ('w machine, i32) outcome" where
  "sys_execve k fw filename argv envp s = int_value (NR k ''execve'' (\<lambda>n. my_syscall fw n [filename, argv, envp] s))"

definition execve :: "kernel_hdr \<Rightarrow> 'w firmware \<Rightarrow> u64 \<Rightarrow> u64 \<Rightarrow> u64 \<Rightarrow> 'w machine \<Rightarrow> ('w machine, i32) outcome" where
  "execve k fw filename argv envp s = ret_errno (sys_execve k fw filename argv envp s)"

definition sys_fork :: "kernel_hdr \<Rightarrow> 'w firmware \<Rightarrow> 'w machine \<Rightarrow> ('w machine, i32) outcome" where
  "sys_fork k fw s = int_value (NR_first k ''clone'' ''fork''
     (\<lambda>n. my_syscall fw n [sext (SIGCHLD k), 0, 0, 0, 0] s)
     (\<lambda>n. my_syscall fw n [0] s))"

definition fork :: "kernel_hdr \<Rightarrow> 'w firmware \<Rightarrow> 'w machine \<Rightarrow> ('w machine, i32) outcome" where
  "fork k fw s = ret_errno (sys_fork k fw s)"

definition sys_geteuid :: "kernel_hdr \<Rightarrow> 'w firmware \<Rightarrow> 'w machine \<Rightarrow> ('w machine, u32) outcome" where
  "sys_geteuid k fw s = int_value (NR_first k ''geteuid32'' ''geteuid''
     (\<lambda>n. my_syscall fw n [0] s)
     (\<lambda>n. my_syscall fw n [0] s))"

definition geteuid :: "kernel_hdr \<Rightarrow> 'w firmware \<Rightarrow> 'w machine \<Rightarrow> ('w machine, u32) outcome" where
  "geteuid k fw s = sys_geteuid k fw s"

definition sys_getpgid :: "kernel_hdr \<Rightarrow> 'w firmware \<Rightarrow> i32 \<Rightarrow> 'w machine \<Rightarrow> ('w machine, i32) outcome" where
  "sys_getpgid k fw pid s = int_value (NR k ''getpgid'' (\<lambda>n. my_syscall fw n [sext pid] s))"

definition getpgid :: "kernel_hdr \<Rightarrow> 'w firmware \<Rightarrow> i32 \<Rightarrow> 'w machine \<Rightarrow> ('w machine, i32) outcome" where
  "getpgid k fw pid s = ret_errno (sys_getpgid k fw pid s)"

definition sys_getpgrp :: "kernel_hdr \<Rightarrow> 'w firmware \<Rightarrow> 'w machine \<Rightarrow> ('w machine, i32) outcome" where
  "sys_getpgrp k fw s = sys_getpgid k fw 0 s"

definition getpgrp :: "kernel_hdr \<Rightarrow> 'w firmware \<Rightarrow> 'w machine \<Rightarrow> ('w machine, i32) outcome" where
  "getpgrp k fw s = sys_getpgrp k fw s"

definition sys_getpid :: "kernel_hdr \<Rightarrow> 'w firmware \<Rightarrow> 'w machine \<Rightarrow> ('w machine, i32) outcome" where
  "sys_getpid k fw s = int_value (NR k ''getpid'' (\<lambda>n. my_syscall fw n [0] s))"

definition getpid :: "kernel_hdr \<Rightarrow> 'w firmware \<Rightarrow> 'w machine \<Rightarrow> ('w machine, i32) outcome" where
  "getpid k fw s = sys_getpid k fw s"

definition sys_getppid :: "kernel_hdr \<Rightarrow> 'w firmware \<Rightarrow> 'w machine \<Rightarrow> ('w machine, i32) outcome" where
  "sys_getppid k fw s = int_value (NR k ''getppid'' (\<lambda>n. my_syscall fw n [0] s))"

definition getppid :: "kernel_hdr \<Rightarrow> 'w firmware \<Rightarrow> 'w machine \<Rightarrow> ('w machine, i32) outcome" where
  "getppid k fw s = sys_getppid k fw s"

definition sys_gettid :: "kernel_hdr \<Rightarrow> 'w firmware \<Rightarrow> 'w machine \<Rightarrow> ('w machine, i32) outcome" where
  "sys_gettid k fw s = int_value (NR k ''gettid'' (\<lambda>n. my_syscall fw n [0] s))"

definition gettid :: "kernel_hdr \<Rightarrow> 'w firmware \<Rightarrow> 'w machine \<Rightarrow> ('w machine, i32) outcome" where
  "gettid k fw s = sys_gettid k fw s"

definition sys_getuid :: "kernel_hdr \<Rightarrow> 'w firmware \<Rightarrow> 'w machine \<Rightarrow> ('w machine, u32) outcome" where
  "sys_getuid k fw s = int_value (NR_first k ''getuid32'' ''getuid''
     (\<lambda>n. my_syscall fw n [0] s)
     (\<lambda>n. my_syscall fw n [0] s))"

definition getuid :: "kernel_hdr \<Rightarrow> 'w firmware \<Rightarrow> 'w machine \<Rightarrow> ('w machine, u32) outcome" where
  "getuid k fw s = sys_getuid k fw s"

definition sys_kill :: "kernel_hdr \<Rightarrow> 'w firmware \<Rightarrow> i32 \<Rightarrow> i32 \<Rightarrow> 'w machine \<Rightarrow> ('w machine, i32) outcome" where
  "sys_kill k fw pid signal s = int_value (NR k ''kill'' (\<lambda>n. my_syscall fw n [sext pid, sext signal] s))"

definition kill :: "kernel_hdr \<Rightarrow> 'w firmware \<Rightarrow> i32 \<Rightarrow> i32 \<Rightarrow> 'w machine \<Rightarrow> ('w machine, i32) outcome" where
  "kill k fw pid signal s = ret_errno (sys_kill k fw pid signal s)"

definition sys_prctl :: "kernel_hdr \<Rightarrow> 'w firmware \<Rightarrow> i32 \<Rightarrow> u64 \<Rightarrow> u64 \<Rightarrow> u64 \<Rightarrow> u64 \<Rightarrow> 'w machine \<Rightarrow> ('w machine, i32) outcome" where
  "sys_prctl k fw option arg2 arg3 arg4 arg5 s = int_value (NR k ''prctl'' (\<lambda>n. my_syscall fw n [sext option, arg2, arg3, arg4, arg5] s))"

definition prctl :: "kernel_hdr \<Rightarrow> 'w firmware \<Rightarrow> i32 \<Rightarrow> u64 \<Rightarrow> u64 \<Rightarrow> u64 \<Rightarrow> u64 \<Rightarrow> 'w machine \<Rightarrow> ('w machine, i32) outcome" where
  "prctl k fw option arg2 arg3 arg4 arg5 s = ret_errno (sys_prctl k fw option arg2 arg3 arg4 arg5 s)"

definition sys_sched_yield :: "kernel_hdr \<Rightarrow> 'w firmware \<Rightarrow> 'w machine \<Rightarrow> ('w machine, i32) outcome" where
  "sys_sched_yield k fw s = int_value (NR k ''sched_yield'' (\<lambda>n. my_syscall fw n [0] s))"

definition sched_yield :: "kernel_hdr \<Rightarrow> 'w firmware \<Rightarrow> 'w machine \<Rightarrow> ('w machine, i32) outcome" where
  "sched_yield k fw s = ret_errno (sys_sched_yield k fw s)"

definition sys_setpgid :: "kernel_hdr \<Rightarrow> 'w firmware \<Rightarrow> i32 \<Rightarrow> i32 \<Rightarrow> 'w machine \<Rightarrow> ('w machine, i32) outcome" where
  "sys_setpgid k fw pid pgid s = int_value (NR k ''setpgid'' (\<lambda>n. my_syscall fw n [sext pid, sext pgid] s))"

definition setpgid :: "kernel_hdr \<Rightarrow> 'w firmware \<Rightarrow> i32 \<Rightarrow> i32 \<Rightarrow> 'w machine \<Rightarrow> ('w machine, i32) outcome" where
  "setpgid k fw pid pgid s = ret_errno (sys_setpgid k fw pid pgid s)"

definition sys_setsid :: "kernel_hdr \<Rightarrow> 'w firmware \<Rightarrow> 'w machine \<Rightarrow> ('w machine, i32) outcome" where
  "sys_setsid k fw s = int_value (NR k ''setsid'' (\<lambda>n. my_syscall fw n [0] s))"

definition setsid :: "kernel_hdr \<Rightarrow> 'w firmware \<Rightarrow> 'w machine \<Rightarrow> ('w machine, i32) outcome" where
  "setsid k fw s = ret_errno (sys_setsid k fw s)"

definition sys_umask :: "kernel_hdr \<Rightarrow> 'w firmware \<Rightarrow> u32 \<Rightarrow> 'w machine \<Rightarrow> ('w machine, u32) outcome" where
  "sys_umask k fw mode s = int_value (NR k ''umask'' (\<lambda>n. my_syscall fw n [zext mode] s))"

definition umask :: "kernel_hdr \<Rightarrow> 'w firmware \<Rightarrow> u32 \<Rightarrow> 'w machine \<Rightarrow> ('w machine, u32) outcome" where
  "umask k fw mode s = sys_umask k fw mode s"

definition sys_wait4 :: "kernel_hdr \<Rightarrow> 'w firmware \<Rightarrow> i32 \<Rightarrow> u64 \<Rightarrow> i32 \<Rightarrow> u64 \<Rightarrow> 'w machine \<Rightarrow> ('w machine, i32) outcome" where
  "sys_wait4 k fw pid status options rusage s = int_value (NR k ''wait4'' (\<lambda>n. my_syscall fw n [sext pid, status, sext options, rusage] s))"

definition wait :: "kernel_hdr \<Rightarrow> 'w firmware \<Rightarrow> u64 \<Rightarrow> 'w machine \<Rightarrow> ('w machine, i32) outcome" where
  "wait k fw status s = ret_errno (sys_wait4 k fw (- 1) status 0 0 s)"

definition wait4 :: "kernel_hdr \<Rightarrow> 'w firmware \<Rightarrow> i32 \<Rightarrow> u64 \<Rightarrow> i32 \<Rightarrow> u64 \<Rightarrow> 'w machine \<Rightarrow> ('w machine, i32) outcome" where
  "wait4 k fw pid status options rusage s = ret_errno (sys_wait4 k fw pid status options rusage s)"

definition waitpid :: "kernel_hdr \<Rightarrow> 'w firmware \<Rightarrow> i32 \<Rightarrow> u64 \<Rightarrow> i32 \<Rightarrow> 'w machine \<Rightarrow> ('w machine, i32) outcome" where
  "waitpid k fw pid status options s = ret_errno (sys_wait4 k fw pid status options 0 s)"

text \<open>Time and power.\<close>

definition sys_gettimeofday :: "kernel_hdr \<Rightarrow> 'w firmware \<Rightarrow> u64 \<Rightarrow> u64 \<Rightarrow> 'w machine \<Rightarrow> ('w machine, i32) outcome" where
  "sys_gettimeofday k fw tv tz s = int_value (NR k ''gettimeofday'' (\<lambda>n. my_syscall fw n [tv, tz] s))"

definition gettimeofday :: "kernel_hdr \<Rightarrow> 'w firmware \<Rightarrow> u64 \<Rightarrow> u64 \<Rightarrow> 'w machine \<Rightarrow> ('w machine, i32) outcome" where
  "gettimeofday k fw tv tz s = ret_errno (sys_gettimeofday k fw tv tz s)"

definition sys_reboot :: "kernel_hdr \<Rightarrow> 'w firmware \<Rightarrow> i32 \<Rightarrow> i32 \<Rightarrow> i32 \<Rightarrow> u64 \<Rightarrow> 'w machine \<Rightarrow> ('w machine, i64) outcome" where
  "sys_reboot k fw magic1 magic2 cmd arg s = NR k ''reboot'' (\<lambda>n. my_syscall fw n [sext magic1, sext magic2, sext cmd, arg] s)"

definition reboot :: "kernel_hdr \<Rightarrow> 'w firmware \<Rightarrow> i32 \<Rightarrow> 'w machine \<Rightarrow> ('w machine, i32) outcome" where
  "reboot k fw cmd s = ret_errno (int_value (sys_reboot k fw LINUX_REBOOT_MAGIC1 LINUX_REBOOT_MAGIC2 cmd 0 s))"

section \<open>The contract of an exported call\<close>

text \<open>
  What a program relies on: an exported call reports an internal result that is not negative as it
  is, and a negative one as \<open>-1\<close> with \<open>errno\<close> set; everything else it leaves to the internal call.
\<close>

locale exported_call =
  fixes sys :: "'w machine \<Rightarrow> ('w machine, 'r::len word) outcome"
    and exported :: "'w machine \<Rightarrow> ('w machine, 'r word) outcome"
  assumes exported_eq: "exported s = ret_errno (sys s)"
begin

lemma reports_success: "sys s = Ret r s' \<Longrightarrow> 0 \<le> sint r \<Longrightarrow> exported s = Ret r s'"
  by (simp add: exported_eq ret_errno_def)

lemma reports_error: "sys s = Ret r s' \<Longrightarrow> sint r < 0 \<Longrightarrow> exported s = Ret (- 1) (s'\<lparr>errno := ucast (- r)\<rparr>)"
  by (simp add: exported_eq ret_errno_def SET_ERRNO_def)

lemma passes_undefined: "exported s = Undef u \<longleftrightarrow> sys s = Undef u"
  unfolding exported_eq ret_errno_def by (cases "sys s") (simp_all split: if_splits)

lemma keeps_exported:
  assumes "keeps P s (sys s)" and "\<And>s e. P s \<Longrightarrow> P (s\<lparr>errno := e\<rparr>)"
  shows "keeps P s (exported s)"
  unfolding exported_eq ret_errno_def SET_ERRNO_def
  by (rule keeps_bind [OF assms(1)]) (auto intro!: keeps_intros assms(2))

end

interpretation close_exported: exported_call "sys_close k fw fd" "close k fw fd" for k fw fd
  by unfold_locales (simp add: close_def)

interpretation dup2_exported: exported_call "sys_dup2 k fw old new" "dup2 k fw old new" for k fw old new
  by unfold_locales (simp add: dup2_def)

interpretation read_exported: exported_call "sys_read k fw fd buf count" "read k fw fd buf count"
  for k fw fd buf count
  by unfold_locales (simp add: read_def)

interpretation write_exported: exported_call "sys_write k fw fd buf count" "write' k fw fd buf count"
  for k fw fd buf count
  by unfold_locales (simp add: write'_def)

interpretation lseek_exported: exported_call "sys_lseek k fw fd off wh" "lseek k fw fd off wh" for k fw fd off wh
  by unfold_locales (simp add: lseek_def)

interpretation fork_exported: exported_call "sys_fork k fw" "fork k fw" for k fw
  by unfold_locales (simp add: fork_def)

interpretation mkdir_exported: exported_call "sys_mkdir k fw path mode" "mkdir k fw path mode" for k fw path mode
  by unfold_locales (simp add: mkdir_def)

interpretation unlink_exported: exported_call "sys_unlink k fw path" "unlink k fw path" for k fw path
  by unfold_locales (simp add: unlink_def)

interpretation kill_exported: exported_call "sys_kill k fw pid sig" "kill k fw pid sig" for k fw pid sig
  by unfold_locales (simp add: kill_def)

section \<open>Facts\<close>

lemma NR_Some [simp]: "nr k a = Some n \<Longrightarrow> NR k a f = f n"
  by (simp add: NR_def)

lemma NR_first_Some [simp]:
  "nr k a = Some n \<Longrightarrow> NR_first k a b f g = f n"
  "nr k a = None \<Longrightarrow> nr k b = Some n \<Longrightarrow> NR_first k a b f g = g n"
  by (simp_all add: NR_first_def)

lemma int_value_Ret [simp]: "int_value (Ret r s) = Ret (to_int r) s"
  by (simp add: int_value_def)

lemma ret_errno_returns: "(\<exists>r s'. ret_errno m = Ret r s') \<longleftrightarrow> (\<exists>r s'. m = Ret r s')"
  by (cases m) (auto simp: ret_errno_def)

lemma ret_errno_Undef: "ret_errno m = Undef u \<longleftrightarrow> m = Undef u"
  by (cases m) (auto simp: ret_errno_def)

lemma to_int_sext [simp]: "to_int (sext x) = x"
proof (rule bit_word_eqI)
  fix n assume n: "n < LENGTH(32)"
  then have "n = 31 \<or> n < 31" by auto
  then show "bit (to_int (sext x)) n \<longleftrightarrow> bit x n"
    by (auto simp: bit_ucast_iff bit_signed_iff min_def)
qed

lemma my_syscall_returns: "my_syscall fw no args s = syscall_emu_x86_64 fw no args s"
  by (simp add: my_syscall_def)

end
