(* ===== verification/NolibcCalls.thy ===== *)
theory NolibcCalls
  imports Nolibc
begin

text \<open>
  The calls of \<open>src/nolibc/unistd.h\<close> that do more than pass their arguments on: \<open>brk\<close> and \<open>sbrk\<close>,
  \<open>exit\<close>, \<open>mmap\<close> and \<open>munmap\<close>, \<open>open\<close>, \<open>poll\<close>, \<open>select\<close>, \<open>stat\<close>, the sleeps and \<open>tcsetpgrp\<close>. A local
  structure whose address is taken lives in the program's memory, at the address the parameter
  \<open>sp\<close> gives; a callee's locals are 256 bytes below its caller's.
\<close>

unbundle bit_operations_syntax

section \<open>The program break\<close>

definition sys_brk :: "kernel_hdr \<Rightarrow> 'w firmware \<Rightarrow> u64 \<Rightarrow> 'w machine \<Rightarrow> ('w machine, u64) outcome" where
  "sys_brk k fw addr s = NR k ''brk'' (\<lambda>n. my_syscall fw n [addr] s)"

definition brk :: "kernel_hdr \<Rightarrow> 'w firmware \<Rightarrow> u64 \<Rightarrow> 'w machine \<Rightarrow> ('w machine, i32) outcome" where
  "brk k fw addr s =
     bind_out (sys_brk k fw addr s) (\<lambda>ret s.
       if ret = 0 then Ret (- 1) (SET_ERRNO ENOMEM s) else Ret 0 s)"

definition sbrk :: "kernel_hdr \<Rightarrow> 'w firmware \<Rightarrow> i64 \<Rightarrow> 'w machine \<Rightarrow> ('w machine, u64) outcome" where
  "sbrk k fw inc s =
     bind_out (sys_brk k fw 0 s) (\<lambda>ret s.
       if ret \<noteq> 0 then
         bind_out (sys_brk k fw (ret + inc) s) (\<lambda>ret2 s.
           if ret2 = ret + inc then Ret (ret + inc) s else Ret (- 1) (SET_ERRNO ENOMEM s))
       else Ret (- 1) (SET_ERRNO ENOMEM s))"

section \<open>Leaving the program\<close>

definition sys_exit :: "kernel_hdr \<Rightarrow> 'w firmware \<Rightarrow> i32 \<Rightarrow> 'w machine \<Rightarrow> ('w machine, unit) outcome" where
  "sys_exit k fw status s =
     bind_out (NR k ''exit'' (\<lambda>n. my_syscall fw n [sext (status AND 255)] s)) (\<lambda>_ s. Hang s)"

definition exit :: "kernel_hdr \<Rightarrow> 'w firmware \<Rightarrow> i32 \<Rightarrow> 'w machine \<Rightarrow> ('w machine, unit) outcome" where
  "exit k fw status s = sys_exit k fw status s"

section \<open>Mappings\<close>

abbreviation (input) MAP_PRIVATE :: i32 where "MAP_PRIVATE \<equiv> 0x02"
abbreviation (input) MAP_FAILED :: u64 where "MAP_FAILED \<equiv> - 1"

definition sys_mmap ::
  "kernel_hdr \<Rightarrow> 'w firmware \<Rightarrow> u64 \<Rightarrow> u64 \<Rightarrow> i32 \<Rightarrow> i32 \<Rightarrow> i32 \<Rightarrow> i64 \<Rightarrow> 'w machine \<Rightarrow> ('w machine, u64) outcome" where
  "sys_mmap k fw addr len prot flags fd offset s =
     NR_first k ''mmap2'' ''mmap''
       (\<lambda>n. my_syscall fw (sext (to_int n)) [addr, len, sext prot, sext flags, sext fd, signed_drop_bit 12 offset] s)
       (\<lambda>n. my_syscall fw (sext (to_int n)) [addr, len, sext prot, sext flags, sext fd, offset] s)"

definition mmap ::
  "kernel_hdr \<Rightarrow> 'w firmware \<Rightarrow> u64 \<Rightarrow> u64 \<Rightarrow> i32 \<Rightarrow> i32 \<Rightarrow> i32 \<Rightarrow> i64 \<Rightarrow> 'w machine \<Rightarrow> ('w machine, u64) outcome" where
  "mmap k fw addr len prot flags fd offset s =
     bind_out (sys_mmap k fw addr len prot flags fd offset s) (\<lambda>ret s.
       if ret \<ge> - 4095 then Ret MAP_FAILED (SET_ERRNO (to_int (- ret)) s) else Ret ret s)"

definition sys_munmap :: "kernel_hdr \<Rightarrow> 'w firmware \<Rightarrow> u64 \<Rightarrow> u64 \<Rightarrow> 'w machine \<Rightarrow> ('w machine, i32) outcome" where
  "sys_munmap k fw addr len s = int_value (NR k ''munmap'' (\<lambda>n. my_syscall fw n [addr, len] s))"

definition munmap :: "kernel_hdr \<Rightarrow> 'w firmware \<Rightarrow> u64 \<Rightarrow> u64 \<Rightarrow> 'w machine \<Rightarrow> ('w machine, i32) outcome" where
  "munmap k fw addr len s = ret_errno (sys_munmap k fw addr len s)"

section \<open>Opening files\<close>

definition sys_open ::
  "kernel_hdr \<Rightarrow> 'w firmware \<Rightarrow> u64 \<Rightarrow> i32 \<Rightarrow> u32 \<Rightarrow> 'w machine \<Rightarrow> ('w machine, i32) outcome" where
  "sys_open k fw path flags mode s = int_value (NR_first k ''openat'' ''open''
     (\<lambda>n. my_syscall fw n [sext (AT_FDCWD k), path, sext flags, zext mode] s)
     (\<lambda>n. my_syscall fw n [path, sext flags, zext mode] s))"

text \<open>\<open>open\<close> is variadic; \<open>vararg\<close> is the argument behind \<open>flags\<close>, read only with \<open>O_CREAT\<close>.\<close>

definition open_call ::
  "kernel_hdr \<Rightarrow> 'w firmware \<Rightarrow> u64 \<Rightarrow> i32 \<Rightarrow> u32 \<Rightarrow> 'w machine \<Rightarrow> ('w machine, i32) outcome" where
  "open_call k fw path flags vararg s =
     (let mode = (if flags AND O_CREAT_flag k \<noteq> 0 then vararg else 0)
      in ret_errno (sys_open k fw path flags mode s))"

section \<open>Waiting\<close>

text \<open>A \<open>timeout\<close> that is not negative is split into seconds and nanoseconds.\<close>

definition sys_poll ::
  "kernel_hdr \<Rightarrow> 'w firmware \<Rightarrow> u64 \<Rightarrow> u64 \<Rightarrow> i32 \<Rightarrow> i32 \<Rightarrow> 'w machine \<Rightarrow> ('w machine, i32) outcome" where
  "sys_poll k fw sp pollfds nfds timeout s =
     int_value (NR_first k ''ppoll'' ''poll''
       (\<lambda>n. let s = (if sint timeout \<ge> 0 then
                      s\<lparr>mem := store64 (sp + 8) (word_of_int (sint timeout mod 1000 * 1000000))
                          (store64 sp (word_of_int (sint timeout div 1000)) (mem s))\<rparr>
                    else s)
            in my_syscall fw n [pollfds, sext nfds, if sint timeout \<ge> 0 then sp else 0, 0, 0] s)
       (\<lambda>n. my_syscall fw n [pollfds, sext nfds, sext timeout] s))"

definition poll ::
  "kernel_hdr \<Rightarrow> 'w firmware \<Rightarrow> u64 \<Rightarrow> u64 \<Rightarrow> i32 \<Rightarrow> i32 \<Rightarrow> 'w machine \<Rightarrow> ('w machine, i32) outcome" where
  "poll k fw sp pollfds nfds timeout s = ret_errno (sys_poll k fw sp pollfds nfds timeout s)"

text \<open>
  The three variants of \<open>sys_select\<close>, chosen by macros of the kernel headers; the first passes one
  pointer to a structure of five words.
\<close>

definition store_sel_arg :: "u64 \<Rightarrow> u64 list \<Rightarrow> memory \<Rightarrow> memory" where
  "store_sel_arg sp ws m =
     fold (\<lambda>(i, w) m. store64 (sp + 8 * of_nat i) w m) (zip [0..<length ws] ws) m"

definition sys_select ::
  "kernel_hdr \<Rightarrow> 'w firmware \<Rightarrow> u64 \<Rightarrow> i32 \<Rightarrow> u64 \<Rightarrow> u64 \<Rightarrow> u64 \<Rightarrow> u64 \<Rightarrow> 'w machine \<Rightarrow> ('w machine, i32) outcome" where
  "sys_select k fw sp nfds rfds wfds efds timeout s = int_value
     (if ARCH_WANT_SYS_OLD_SELECT k \<and> nr k ''_newselect'' = None then
        NR k ''select'' (\<lambda>n. my_syscall fw n [sp]
          (s\<lparr>mem := store_sel_arg sp [sext nfds, rfds, wfds, efds, timeout] (mem s)\<rparr>))
      else if ARCH_WANT_SYS_PSELECT6 k \<and> nr k ''pselect6'' \<noteq> None then
        NR k ''pselect6'' (\<lambda>n.
          let s = (if timeout \<noteq> 0 then
                     let s = s\<lparr>mem := store64 sp (load64 (mem s) timeout) (mem s)\<rparr>
                     in s\<lparr>mem := store64 (sp + 8) (load64 (mem s) (timeout + 8) * 1000) (mem s)\<rparr>
                   else s)
          in my_syscall fw n [sext nfds, rfds, wfds, efds, if timeout \<noteq> 0 then sp else 0, 0] s)
      else
        NR_first k ''_newselect'' ''select''
          (\<lambda>n. my_syscall fw n [sext nfds, rfds, wfds, efds, timeout] s)
          (\<lambda>n. my_syscall fw n [sext nfds, rfds, wfds, efds, timeout] s))"

definition select ::
  "kernel_hdr \<Rightarrow> 'w firmware \<Rightarrow> u64 \<Rightarrow> i32 \<Rightarrow> u64 \<Rightarrow> u64 \<Rightarrow> u64 \<Rightarrow> u64 \<Rightarrow> 'w machine \<Rightarrow> ('w machine, i32) outcome" where
  "select k fw sp nfds rfds wfds efds timeout s = ret_errno (sys_select k fw sp nfds rfds wfds efds timeout s)"

text \<open>
  The sleeps put a \<open>struct timeval\<close> on the stack. On an error they return what is left in it; both
  members are below \<open>2^32\<close> there, so unsigned division is C's.
\<close>

definition msleep :: "kernel_hdr \<Rightarrow> 'w firmware \<Rightarrow> u64 \<Rightarrow> u32 \<Rightarrow> 'w machine \<Rightarrow> ('w machine, i32) outcome" where
  "msleep k fw sp msecs s =
     bind_out (sys_select k fw (sp - 256) 0 0 0 0 sp
         (s\<lparr>mem := store_timeval sp (zext (msecs div 1000)) (zext (msecs mod 1000 * 1000)) (mem s)\<rparr>)) (\<lambda>r s.
       if sint r < 0 then
         let sec = load64 (mem s) sp; usec = load64 (mem s) (sp + 8)
         in Ret (to_int (sec * 1000 + usec div 1000 + (if usec mod 1000 \<noteq> 0 then 1 else 0))) s
       else Ret 0 s)"

definition sleep :: "kernel_hdr \<Rightarrow> 'w firmware \<Rightarrow> u64 \<Rightarrow> u32 \<Rightarrow> 'w machine \<Rightarrow> ('w machine, u32) outcome" where
  "sleep k fw sp seconds s =
     bind_out (sys_select k fw (sp - 256) 0 0 0 0 sp
         (s\<lparr>mem := store_timeval sp (zext seconds) 0 (mem s)\<rparr>)) (\<lambda>r s.
       if sint r < 0 then
         Ret (to_int (load64 (mem s) sp + (if load64 (mem s) (sp + 8) \<noteq> 0 then 1 else 0))) s
       else Ret 0 s)"

definition usleep :: "kernel_hdr \<Rightarrow> 'w firmware \<Rightarrow> u64 \<Rightarrow> u32 \<Rightarrow> 'w machine \<Rightarrow> ('w machine, i32) outcome" where
  "usleep k fw sp usecs s =
     sys_select k fw (sp - 256) 0 0 0 0 sp
       (s\<lparr>mem := store_timeval sp (zext (usecs div 1000000)) (zext (usecs mod 1000000)) (mem s)\<rparr>)"

definition tcsetpgrp :: "kernel_hdr \<Rightarrow> 'w firmware \<Rightarrow> u64 \<Rightarrow> i32 \<Rightarrow> i32 \<Rightarrow> 'w machine \<Rightarrow> ('w machine, i32) outcome" where
  "tcsetpgrp k fw sp fd pid s = ioctl k fw fd (TIOCSPGRP k) sp (s\<lparr>mem := store32 sp pid (mem s)\<rparr>)"

section \<open>File status\<close>

text \<open>
  The library's \<open>struct stat\<close> (\<open>nolibc/types.h\<close>) differs from the kernel's: the members are laid out by
  the types of \<open>include/linux-uefi-int.h\<close>, with a 32-bit device number and the mode before the
  number of links.
\<close>

abbreviation (input) lst_dev :: u64 where "lst_dev \<equiv> 0"
abbreviation (input) lst_ino :: u64 where "lst_ino \<equiv> 8"
abbreviation (input) lst_mode :: u64 where "lst_mode \<equiv> 16"
abbreviation (input) lst_nlink :: u64 where "lst_nlink \<equiv> 24"
abbreviation (input) lst_uid :: u64 where "lst_uid \<equiv> 32"
abbreviation (input) lst_gid :: u64 where "lst_gid \<equiv> 36"
abbreviation (input) lst_rdev :: u64 where "lst_rdev \<equiv> 40"
abbreviation (input) lst_size :: u64 where "lst_size \<equiv> 48"
abbreviation (input) lst_blksize :: u64 where "lst_blksize \<equiv> 56"
abbreviation (input) lst_blocks :: u64 where "lst_blocks \<equiv> 64"
abbreviation (input) lst_atime :: u64 where "lst_atime \<equiv> 72"
abbreviation (input) lst_mtime :: u64 where "lst_mtime \<equiv> 88"
abbreviation (input) lst_ctime :: u64 where "lst_ctime \<equiv> 104"

text \<open>The assignments from the kernel's structure at \<open>sp\<close> to the caller's at \<open>buf\<close>, in order.\<close>

definition copy64 :: "u64 \<Rightarrow> u64 \<Rightarrow> memory \<Rightarrow> memory" where
  "copy64 dst src m = store64 dst (load64 m src) m"

definition copy32 :: "u64 \<Rightarrow> u64 \<Rightarrow> memory \<Rightarrow> memory" where
  "copy32 dst src m = store32 dst (load32 m src) m"

definition copy_stat :: "u64 \<Rightarrow> u64 \<Rightarrow> memory \<Rightarrow> memory" where
  "copy_stat sp buf m =
     (let m = store32 (buf + lst_dev) (ucast (load64 m (sp + st_dev))) m;
          m = copy64 (buf + lst_ino) (sp + st_ino) m;
          m = copy32 (buf + lst_mode) (sp + st_mode) m;
          m = copy64 (buf + lst_nlink) (sp + st_nlink) m;
          m = copy32 (buf + lst_uid) (sp + st_uid) m;
          m = copy32 (buf + lst_gid) (sp + st_gid) m;
          m = store32 (buf + lst_rdev) (ucast (load64 m (sp + st_rdev))) m;
          m = copy64 (buf + lst_size) (sp + st_size) m;
          m = copy64 (buf + lst_blksize) (sp + st_blksize) m;
          m = copy64 (buf + lst_blocks) (sp + st_blocks) m;
          m = copy64 (buf + lst_atime) (sp + st_atime) m;
          m = copy64 (buf + (lst_atime + tv_nsec)) (sp + (st_atime + tv_nsec)) m;
          m = copy64 (buf + lst_mtime) (sp + st_mtime) m;
          m = copy64 (buf + (lst_mtime + tv_nsec)) (sp + (st_mtime + tv_nsec)) m;
          m = copy64 (buf + lst_ctime) (sp + st_ctime) m
      in copy64 (buf + (lst_ctime + tv_nsec)) (sp + (st_ctime + tv_nsec)) m)"

text \<open>
  The variant for headers with \<open>statx\<close> only calls a \<open>sys_statx\<close> that the file does not declare.
\<close>

definition sys_stat :: "kernel_hdr \<Rightarrow> 'w firmware \<Rightarrow> u64 \<Rightarrow> u64 \<Rightarrow> u64 \<Rightarrow> 'w machine \<Rightarrow> ('w machine, i32) outcome" where
  "sys_stat k fw sp path buf s =
     (if nr k ''statx'' \<noteq> None \<and> nr k ''newfstatat'' = None \<and> nr k ''stat'' = None then Undef No_return_value
      else int_value (bind_out
        (NR_first k ''newfstatat'' ''stat''
          (\<lambda>n. my_syscall fw n [sext (AT_FDCWD k), path, sp, 0] s)
          (\<lambda>n. my_syscall fw n [path, sp] s))
        (\<lambda>ret s. Ret ret (s\<lparr>mem := copy_stat sp buf (mem s)\<rparr>))))"

definition stat :: "kernel_hdr \<Rightarrow> 'w firmware \<Rightarrow> u64 \<Rightarrow> u64 \<Rightarrow> u64 \<Rightarrow> 'w machine \<Rightarrow> ('w machine, i32) outcome" where
  "stat k fw sp path buf s = ret_errno (sys_stat k fw sp path buf s)"

interpretation open_exported: exported_call
  "\<lambda>s. sys_open k fw path flags (if flags AND O_CREAT_flag k \<noteq> 0 then v else 0) s"
  "\<lambda>s. open_call k fw path flags v s" for k fw path flags v
  by unfold_locales (simp add: open_call_def)

interpretation stat_exported: exported_call "sys_stat k fw sp path buf" "stat k fw sp path buf" for k fw sp path buf
  by unfold_locales (simp add: stat_def)

interpretation munmap_exported: exported_call "sys_munmap k fw addr len" "munmap k fw addr len" for k fw addr len
  by unfold_locales (simp add: munmap_def)

end
