(* ===== verification/ClibcUser.thy ===== *)
theory ClibcUser
  imports NolibcCalls
begin

text \<open>
  The hooks of \<open>src/src/clibc-user-impl.c\<close> through which the C library crosslibc (a submodule that is
  not part of the repository) prints, reads and allocates. A character parameter whose address is
  taken lives at \<open>sp\<close>.
\<close>

section \<open>The code\<close>

text \<open>\<open>strlen\<close> of the C standard library; it runs on until it finds a NUL.\<close>

partial_function (option) strlen_from :: "memory \<Rightarrow> u64 \<Rightarrow> u64 \<Rightarrow> u64 option" where
  "strlen_from m str n = (if load8 m (str + n) = 0 then Some n else strlen_from m str (n + 1))"

definition user_putchar :: "kernel_hdr \<Rightarrow> 'w firmware \<Rightarrow> u64 \<Rightarrow> u8 \<Rightarrow> 'w machine \<Rightarrow> ('w machine, unit) outcome" where
  "user_putchar k fw sp c s =
     bind_out (write' k fw 1 sp 1 (s\<lparr>mem := store8 sp c (mem s)\<rparr>)) (\<lambda>_ s. Ret () s)"

definition user_getchar :: "kernel_hdr \<Rightarrow> 'w firmware \<Rightarrow> u64 \<Rightarrow> 'w machine \<Rightarrow> ('w machine, u8) outcome" where
  "user_getchar k fw sp s =
     bind_out (read k fw 0 sp 1 s) (\<lambda>_ s. Ret (load8 (mem s) sp) s)"

definition user_puts :: "kernel_hdr \<Rightarrow> 'w firmware \<Rightarrow> u64 \<Rightarrow> u64 \<Rightarrow> 'w machine \<Rightarrow> ('w machine, unit) outcome" where
  "user_puts k fw sp str s =
     (case strlen_from (mem s) str 0 of
        None \<Rightarrow> Diverge
      | Some n \<Rightarrow> bind_out (write' k fw 1 str n s) (\<lambda>_ s. user_putchar k fw sp 0x0A s))"

definition heap_init :: "'w machine \<Rightarrow> ('w machine, unit) outcome" where
  "heap_init s = Ret () s"

definition heap_alloc :: "kernel_hdr \<Rightarrow> 'w firmware \<Rightarrow> u64 \<Rightarrow> 'w machine \<Rightarrow> ('w machine, u64) outcome" where
  "heap_alloc k fw size_ptr s =
     mmap k fw 0 (load64 (mem s) size_ptr) (PROT_READ k OR PROT_WRITE k) MAP_PRIVATE (- 1) 0 s"

definition heap_dealloc :: "kernel_hdr \<Rightarrow> 'w firmware \<Rightarrow> u64 \<Rightarrow> u64 \<Rightarrow> 'w machine \<Rightarrow> ('w machine, unit) outcome" where
  "heap_dealloc k fw memptr sz s = bind_out (munmap k fw memptr sz s) (\<lambda>_ s. Ret () s)"

definition get_mem_used :: "'w machine \<Rightarrow> ('w machine, u64) outcome" where
  "get_mem_used s = Ret 0 s"

definition get_mem_total :: "'w machine \<Rightarrow> ('w machine, u64) outcome" where
  "get_mem_total s = Ret 0 s"

definition get_mem_free :: "'w machine \<Rightarrow> ('w machine, u64) outcome" where
  "get_mem_free s = Ret 0 s"

section \<open>Facts\<close>

text \<open>\<open>strlen\<close> of a string that has a NUL.\<close>

lemma strlen_from_runs:
  assumes "load8 m (str + of_nat n) = 0" and "\<forall>i. j \<le> i \<and> i < n \<longrightarrow> load8 m (str + of_nat i) \<noteq> 0" and "j \<le> n"
  shows "strlen_from m str (of_nat j) = Some (of_nat n)"
  using assms(2,3)
proof (induction "n - j" arbitrary: j)
  case 0
  then have "j = n" by simp
  then show ?case using assms(1) by (simp add: strlen_from.simps)
next
  case (Suc d)
  then have "load8 m (str + of_nat j) \<noteq> 0" by simp
  then have "strlen_from m str (of_nat j) = strlen_from m str (of_nat (Suc j))"
    by (subst strlen_from.simps) (simp add: add.commute)
  also have "\<dots> = Some (of_nat n)"
    by (rule Suc.hyps(1)) (use Suc.hyps(2) Suc.prems in auto)
  finally show ?case .
qed

lemma my_syscall_write:
  "my_syscall fw 1 [sext fd, buf, count] s = fd_write fw fd buf count s"
  by (simp add: my_syscall_def syscall_table with_args_def)

lemma my_syscall_read:
  "my_syscall fw 0 [sext fd, buf, count] s = fd_read fw fd buf count s"
  by (simp add: my_syscall_def syscall_table with_args_def)

lemma sys_write_eq: "nr k ''write'' = Some 1 \<Longrightarrow> sys_write k fw fd buf count s = fd_write fw fd buf count s"
  by (simp add: sys_write_def my_syscall_write)

lemma sys_read_eq: "nr k ''read'' = Some 0 \<Longrightarrow> sys_read k fw fd buf count s = fd_read fw fd buf count s"
  by (simp add: sys_read_def my_syscall_read)

lemma putchar_newline_undefined:
  assumes "nr k ''write'' = Some 1" and "sp \<noteq> 0"
  shows "user_putchar k fw sp 0x0A s = Undef Oob_write"
proof -
  let ?s = "s\<lparr>mem := store8 sp 0x0A (mem s)\<rparr>"
  have "load_bytes (mem ?s) sp (unat (1 :: u64)) = [0x0A]"
    by (simp add: load8_def store8_def)
  then have "fd_write fw 1 sp 1 ?s = Undef Oob_write"
    using assms(2) by (simp add: write_console_eq [OF _ refl])
  then have "write' k fw 1 sp 1 ?s = Undef Oob_write"
    using write_exported.passes_undefined [of k fw 1 sp 1 ?s] sys_write_eq [OF assms(1), of fw 1 sp 1 ?s] by simp
  then show ?thesis by (simp add: user_putchar_def)
qed

lemma puts_hook_undefined:
  assumes "nr k ''write'' = Some 1" and "length bs < 2 ^ 31" and "0 \<notin> set bs"
    and "load_bytes (mem s) str (length bs + 1) = bs @ [0]" and "str \<noteq> 0" and "sp \<noteq> 0"
  shows "user_puts k fw sp str s = Undef Oob_write"
proof -
  let ?n = "length bs"
  have at: "load8 (mem s) (str + of_nat i) = (bs @ [0]) ! i" if "i \<le> ?n" for i
    using that assms(4) nth_load_bytes [of i "?n + 1" "mem s" str] by simp
  then have "load8 (mem s) (str + of_nat ?n) = 0"
    and "\<forall>i. 0 \<le> i \<and> i < ?n \<longrightarrow> load8 (mem s) (str + of_nat i) \<noteq> 0"
    using assms(3) by (auto simp: nth_append) (metis nth_mem)
  then have len: "strlen_from (mem s) str 0 = Some (of_nat ?n)"
    using strlen_from_runs [of "mem s" str ?n 0] by simp
  have "unat (of_nat ?n :: u64) < 2 ^ 31"
    using assms(2) unat_of_nat_u64 [of ?n] by simp
  from write_console_eq [of "of_nat ?n" _ s str fw, OF this refl]
  have w: "fd_write fw 1 str (of_nat ?n) s = Undef Oob_write \<or> (\<exists>r s'. fd_write fw 1 str (of_nat ?n) s = Ret r s')"
    using assms(5) by (auto simp: case_prod_beta Let_def)
  have "write' k fw 1 str (of_nat ?n) s = Undef Oob_write \<or> (\<exists>r s'. write' k fw 1 str (of_nat ?n) s = Ret r s')"
    using w sys_write_eq [OF assms(1), of fw 1 str "of_nat ?n" s]
    by (simp add: write'_def ret_errno_returns ret_errno_Undef)
  then show ?thesis
    using putchar_newline_undefined [OF assms(1,6)] by (auto simp: user_puts_def len)
qed

text \<open>Any other character is printed.\<close>

lemma putchar_hook_prints:
  assumes "nr k ''write'' = Some 1" and "sp \<noteq> 0" and "c \<noteq> 0x0A"
    and "out_string fw (console_text [c]) (world s) = (status, w)"
  shows "\<exists>e. user_putchar k fw sp c s = Ret () (s\<lparr>mem := store8 sp c (mem s), world := w, errno := e\<rparr>)"
proof -
  let ?s = "s\<lparr>mem := store8 sp c (mem s)\<rparr>"
  have "load_bytes (mem ?s) sp (unat (1 :: u64)) = [c]"
    by (simp add: load8_def store8_def)
  then have "sys_write k fw 1 sp 1 ?s = Ret (check_status (hdr fw) status 1) (?s\<lparr>world := w\<rparr>)"
    using assms(2-4) unfolding sys_write_eq [OF assms(1)]
    by (simp add: write_console_eq [OF _ refl] del: console_text.simps)
  then have "write' k fw 1 sp 1 ?s = ret_errno (Ret (check_status (hdr fw) status 1) (?s\<lparr>world := w\<rparr>))"
    by (simp add: write'_def)
  then obtain r e where "write' k fw 1 sp 1 ?s = Ret r (?s\<lparr>world := w, errno := e\<rparr>)"
    by (cases "sint (check_status (hdr fw) status (1 :: i64)) < 0")
      (auto simp: ret_errno_def SET_ERRNO_def intro: that [of _ "errno s"])
  then show ?thesis by (intro exI [of _ e]) (simp add: user_putchar_def)
qed

text \<open>
  C31: Printing a string with \<open>_puts\<close>, the hook behind \<open>puts\<close>, always ends in undefined behaviour when
  its NUL is reached within \<open>2^31\<close> bytes: the newline it prints at the end is a write of newlines only,
  whose terminating NUL goes outside the conversion array. (Neither the string nor the character on
  the stack is at the null address.)
\<close>

theorem user_puts_undefined:
  assumes "nr k ''write'' = Some 1" and "length bs < 2 ^ 31" and "0 \<notin> set bs"
    and "load_bytes (mem s) str (length bs + 1) = bs @ [0]" and "str \<noteq> 0" and "sp \<noteq> 0"
  shows "user_puts k fw sp str s = Undef Oob_write"
  by (rule puts_hook_undefined [OF assms])

end
