(* ===== verification/Getdelim.thy ===== *)
theory Getdelim
  imports ClibcUser
begin

text \<open>
  \<open>my_getdelim\<close> and \<open>my_getline\<close> of \<open>src/include/getdelim.h\<close>. \<open>malloc\<close> and \<open>realloc\<close> come from crosslibc,
  which is not part of the repository: they are parameters.
\<close>

unbundle bit_operations_syntax

section \<open>The code\<close>

record 'w heap_ops =
  malloc :: "u64 \<Rightarrow> 'w machine \<Rightarrow> ('w machine, u64) outcome"
  realloc :: "u64 \<Rightarrow> u64 \<Rightarrow> 'w machine \<Rightarrow> ('w machine, u64) outcome"

text \<open>\<open>(*out_size)++; *out = realloc(*out, *out_size + 1);\<close>, where the buffer is too short.\<close>

definition grow_buffer ::
  "'w heap_ops \<Rightarrow> u64 \<Rightarrow> u64 \<Rightarrow> u64 \<Rightarrow> 'w machine \<Rightarrow> ('w machine, unit) outcome" where
  "grow_buffer hp out out_size out_idx s =
     (if load64 (mem s) out_size < out_idx + 1 then
        let s = s\<lparr>mem := store64 out_size (load64 (mem s) out_size + 1) (mem s)\<rparr> in
        bind_out (realloc hp (load64 (mem s) out) (load64 (mem s) out_size + 1) s) (\<lambda>p s.
          Ret () (s\<lparr>mem := store64 out p (mem s)\<rparr>))
      else Ret () s)"

text \<open>One character: \<open>None\<close> when \<open>read\<close> delivers nothing, otherwise the character that was added.\<close>

definition next_char ::
  "kernel_hdr \<Rightarrow> 'w firmware \<Rightarrow> 'w heap_ops \<Rightarrow> u64 \<Rightarrow> i32 \<Rightarrow> u64 \<Rightarrow> u64 \<Rightarrow> u64 \<Rightarrow> 'w machine
     \<Rightarrow> ('w machine, u8 option) outcome" where
  "next_char k fw hp sp in_fd out out_size out_idx s =
     bind_out (read k fw in_fd sp 1 s) (\<lambda>r s.
       if sint r \<le> 0 then Ret None s
       else
         let c = load8 (mem s) sp in
         bind_out (grow_buffer hp out out_size out_idx s) (\<lambda>_ s.
           Ret (Some c) (s\<lparr>mem := store8 (load64 (mem s) out + out_idx) c (mem s)\<rparr>)))"

partial_function (option) getdelim_loop ::
  "kernel_hdr \<Rightarrow> 'w firmware \<Rightarrow> 'w heap_ops \<Rightarrow> u64 \<Rightarrow> i32 \<Rightarrow> u64 \<Rightarrow> u64 \<Rightarrow> i32 \<Rightarrow> u64 \<Rightarrow> 'w machine
     \<Rightarrow> ('w machine, i64) outcome option" where
  "getdelim_loop k fw hp sp in_fd out out_size delim out_idx s =
     (case next_char k fw hp sp in_fd out out_size out_idx s of
        Ret None s \<Rightarrow> Some (Ret (- 1) s)
      | Ret (Some c) s \<Rightarrow>
          if c = ucast delim then
            Some (Ret (out_idx + 1 + 1) (s\<lparr>mem := store8 (load64 (mem s) out + (out_idx + 1)) 0 (mem s)\<rparr>))
          else getdelim_loop k fw hp sp in_fd out out_size delim (out_idx + 1) s
      | Exited st s \<Rightarrow> Some (Exited st s)
      | Reset r s \<Rightarrow> Some (Reset r s)
      | Hang s \<Rightarrow> Some (Hang s)
      | Diverge \<Rightarrow> Some Diverge
      | Undef u \<Rightarrow> Some (Undef u))"

definition my_getdelim ::
  "kernel_hdr \<Rightarrow> 'w firmware \<Rightarrow> 'w heap_ops \<Rightarrow> u64 \<Rightarrow> u64 \<Rightarrow> u64 \<Rightarrow> i32 \<Rightarrow> i32 \<Rightarrow> 'w machine
     \<Rightarrow> ('w machine, i64) outcome" where
  "my_getdelim k fw hp sp out out_size delim in_fd s =
     bind_out
       (if load64 (mem s) out = 0 then
          bind_out (malloc hp 2 s) (\<lambda>p s.
            Ret () (s\<lparr>mem := store64 out_size 1 (store64 out p (mem s))\<rparr>))
        else Ret () s)
       (\<lambda>_ s. case getdelim_loop k fw hp sp in_fd out out_size delim 0 s of None \<Rightarrow> Diverge | Some r \<Rightarrow> r)"

definition my_getline ::
  "kernel_hdr \<Rightarrow> 'w firmware \<Rightarrow> 'w heap_ops \<Rightarrow> u64 \<Rightarrow> u64 \<Rightarrow> u64 \<Rightarrow> i32 \<Rightarrow> 'w machine
     \<Rightarrow> ('w machine, i64) outcome" where
  "my_getline k fw hp sp out out_size in_fd s = my_getdelim k fw hp sp out out_size 0x0A in_fd s"

section \<open>Memory facts\<close>

lemma world_mem_commute: "s\<lparr>world := w, mem := m\<rparr> = (s :: 'w machine)\<lparr>mem := m, world := w\<rparr>"
  by simp

lemma load_bytes_append:
  "load_bytes m a (n + k) = load_bytes m a n @ load_bytes m (a + of_nat n) k"
  by (induction n arbitrary: a) (simp_all add: add.assoc)

lemma load_bytes_prefix:
  "load_bytes m a (n + k) = load_bytes m' b (n + k) \<Longrightarrow> load_bytes m a n = load_bytes m' b n"
  by (simp add: load_bytes_append)

lemma load_bytes_store8_other:
  "\<not> in_range a n x \<Longrightarrow> n \<le> 2 ^ 64 \<Longrightarrow> load_bytes (store8 x b m) a n = load_bytes m a n"
  by (rule load_bytes_cong) (auto intro!: ram.get_put_other)

lemma load_bytes_snoc:
  assumes "n < 2 ^ 64"
  shows "load_bytes (store8 (p + of_nat n) c m) p (n + 1) = load_bytes m p n @ [c]"
proof -
  have "unat (of_nat n :: u64) = n" using assms by (rule unat_of_nat_u64)
  then have "\<not> in_range p n (p + of_nat n)" by (simp add: in_range_def)
  then have "load_bytes (store8 (p + of_nat n) c m) p n = load_bytes m p n"
    using assms by (intro load_bytes_store8_other) simp_all
  then show ?thesis by (simp only: load_bytes_append) (simp add: ram.get_put_same)
qed

lemma load64_store8_other:
  "\<not> in_range a 8 x \<Longrightarrow> load64 (store8 x b m) a = load64 m a"
  by (simp only: load64_def) (subst load_bytes_store8_other, simp_all)

lemma load64_cong:
  "(\<And>x. in_range a 8 x \<Longrightarrow> load8 m x = load8 m' x) \<Longrightarrow> load64 m a = load64 m' a"
  by (simp only: load64_def) (rule arg_cong [OF load_bytes_cong], simp_all)

lemma load_bytes_store64_other:
  "(\<And>x. in_range a 8 x \<Longrightarrow> \<not> in_range b n x) \<Longrightarrow> n \<le> 2 ^ 64 \<Longrightarrow> load_bytes (store64 a v m) b n = load_bytes m b n"
  by (rule load_bytes_cong) (blast intro: load8_store64_other)+

section \<open>What the function relies on\<close>

text \<open>
  The C library's contract. \<open>block q n s\<close>: in state \<open>s\<close>, \<open>q\<close> is an allocated block of \<open>n\<close> bytes. Blocks
  do not overlap the addresses \<open>protected\<close> (the caller's own variables); writing into a block or to
  a protected address does not destroy a block, nor does the outside world. Up to \<open>limit\<close> bytes,
  \<open>malloc\<close> returns a block, and \<open>realloc\<close> a block with the old one's contents; both leave the
  protected addresses and the keys still to be read (\<open>typed\<close>) alone.
\<close>

definition heap_contract ::
  "'w heap_ops \<Rightarrow> (u64 \<Rightarrow> u64 \<Rightarrow> 'w machine \<Rightarrow> bool) \<Rightarrow> (u64 \<Rightarrow> bool) \<Rightarrow> u64 \<Rightarrow> ('w \<Rightarrow> 'v) \<Rightarrow> bool" where
  "heap_contract hp block protected limit view \<longleftrightarrow>
     (\<forall>q n s x. block q n s \<longrightarrow> protected x \<longrightarrow> \<not> in_range q (unat n) x) \<and>
     (\<forall>q n s x b. block q n s \<longrightarrow> protected x \<or> in_range q (unat n) x \<longrightarrow>
        block q n (s\<lparr>mem := store8 x b (mem s)\<rparr>)) \<and>
     (\<forall>q n s w. block q n s \<longrightarrow> block q n (s\<lparr>world := w\<rparr>)) \<and>
     (\<forall>n s. n \<le> limit \<longrightarrow> (\<exists>q m w. malloc hp n s = Ret q (s\<lparr>mem := m, world := w\<rparr>) \<and> q \<noteq> 0 \<and>
        block q n (s\<lparr>mem := m, world := w\<rparr>) \<and> view w = view (world s) \<and>
        (\<forall>x. protected x \<longrightarrow> load8 m x = load8 (mem s) x))) \<and>
     (\<forall>q k n s. block q k s \<longrightarrow> k \<le> n \<longrightarrow> n \<le> limit \<longrightarrow>
        (\<exists>q' m w. realloc hp q n s = Ret q' (s\<lparr>mem := m, world := w\<rparr>) \<and> q' \<noteq> 0 \<and>
           block q' n (s\<lparr>mem := m, world := w\<rparr>) \<and> view w = view (world s) \<and>
           load_bytes m q' (unat k) = load_bytes (mem s) q (unat k) \<and>
           (\<forall>x. protected x \<longrightarrow> load8 m x = load8 (mem s) x)))"

lemma heap_facts:
  assumes "heap_contract hp block protected limit view"
  shows "block q n s \<Longrightarrow> protected x \<Longrightarrow> \<not> in_range q (unat n) x"
    and "block q n s \<Longrightarrow> protected x \<or> in_range q (unat n) x \<Longrightarrow> block q n (s\<lparr>mem := store8 x b (mem s)\<rparr>)"
    and "block q n s \<Longrightarrow> block q n (s\<lparr>world := w\<rparr>)"
    and "n \<le> limit \<Longrightarrow> \<exists>q m w. malloc hp n s = Ret q (s\<lparr>mem := m, world := w\<rparr>) \<and> q \<noteq> 0 \<and>
        block q n (s\<lparr>mem := m, world := w\<rparr>) \<and> view w = view (world s) \<and>
        (\<forall>x. protected x \<longrightarrow> load8 m x = load8 (mem s) x)"
    and "block q k s \<Longrightarrow> k \<le> n \<Longrightarrow> n \<le> limit \<Longrightarrow>
        \<exists>q' m w. realloc hp q n s = Ret q' (s\<lparr>mem := m, world := w\<rparr>) \<and> q' \<noteq> 0 \<and>
           block q' n (s\<lparr>mem := m, world := w\<rparr>) \<and> view w = view (world s) \<and>
           load_bytes m q' (unat k) = load_bytes (mem s) q (unat k) \<and>
           (\<forall>x. protected x \<longrightarrow> load8 m x = load8 (mem s) x)"
proof -
  note c = assms [unfolded heap_contract_def]
  show "block q n s \<Longrightarrow> protected x \<Longrightarrow> \<not> in_range q (unat n) x"
    using c [THEN conjunct1] by blast
  show "block q n s \<Longrightarrow> protected x \<or> in_range q (unat n) x \<Longrightarrow> block q n (s\<lparr>mem := store8 x b (mem s)\<rparr>)"
    using c [THEN conjunct2, THEN conjunct1] by blast
  show "block q n s \<Longrightarrow> block q n (s\<lparr>world := w\<rparr>)"
    using c [THEN conjunct2, THEN conjunct2, THEN conjunct1] by blast
qed (use assms [unfolded heap_contract_def, THEN conjunct2, THEN conjunct2, THEN conjunct2] in blast)+

text \<open>Bytes written into a block.\<close>

lemma block_store_bytes:
  assumes "heap_contract hp block protected limit view" and "block q n s"
    and "\<And>x. in_range a (length bs) x \<Longrightarrow> protected x \<or> in_range q (unat n) x"
  shows "block q n (s\<lparr>mem := store_bytes a bs (mem s)\<rparr>)"
proof -
  have "block q n (s\<lparr>mem := fold (\<lambda>(i, v). store8 i v) ups (mem s)\<rparr>)"
    if "\<forall>u \<in> set ups. protected (fst u) \<or> in_range q (unat n) (fst u)" "block q n s" for ups s
    using that
  proof (induction ups arbitrary: s)
    case Nil
    then show ?case by simp
  next
    case (Cons u ups)
    then have "block q n (s\<lparr>mem := store8 (fst u) (snd u) (mem s)\<rparr>)"
      using heap_facts(2) [OF assms(1)] by simp
    from Cons.IH [OF _ this] Cons.prems show ?case by (simp add: case_prod_beta)
  qed
  moreover have "protected (fst u) \<or> in_range q (unat n) (fst u)" if u: "u \<in> set (byte_writes a bs)" for u
  proof -
    obtain i where i: "u = (a + of_nat i, bs ! i)" "i < length bs" using u by (auto simp: set_byte_writes)
    have "unat (of_nat i :: u64) \<le> i" by (simp add: unat_of_nat)
    then have "in_range a (length bs) (a + of_nat i)" using i(2) by (simp add: in_range_def)
    then show ?thesis using assms(3) i(1) by simp
  qed
  ultimately show ?thesis using assms(2) by (simp add: store_bytes_fold)
qed

lemma block_store64:
  assumes "heap_contract hp block protected limit view" and "block q n s"
    and "\<And>x. in_range a 8 x \<Longrightarrow> protected x"
  shows "block q n (s\<lparr>mem := store64 a v (mem s)\<rparr>)"
  unfolding store64_def by (rule block_store_bytes [OF assms(1,2)]) (use assms(3) in simp)

text \<open>A protected variable can be written without touching a block or what it holds.\<close>

lemma block_variable:
  assumes "heap_contract hp block protected limit view" and "block q (of_nat n) s" and "n < 2 ^ 64"
    and "\<And>x. in_range a 8 x \<Longrightarrow> protected x"
  shows "block q (of_nat n) (s\<lparr>mem := store64 a v (mem s)\<rparr>)"
    and "load_bytes (store64 a v (mem s)) q n = load_bytes (mem s) q n"
proof -
  show "block q (of_nat n) (s\<lparr>mem := store64 a v (mem s)\<rparr>)"
    by (rule block_store64 [OF assms(1,2,4)])
  have "\<not> in_range q n x" if "in_range a 8 x" for x
    using heap_facts(1) [OF assms(1,2) assms(4) [OF that]] assms(3) by (simp add: unat_of_nat_u64)
  then show "load_bytes (store64 a v (mem s)) q n = load_bytes (mem s) q n"
    using assms(3) by (intro load_bytes_store64_other) auto
qed

text \<open>A block that \<open>realloc\<close> makes one byte longer.\<close>

lemma realloc_longer:
  assumes "heap_contract hp block protected limit view" and "block q (of_nat n) s" and "n + 1 \<le> unat limit"
  shows "\<exists>q' m w. realloc hp q (of_nat (n + 1)) s = Ret q' (s\<lparr>mem := m, world := w\<rparr>) \<and> q' \<noteq> 0 \<and>
    block q' (of_nat (n + 1)) (s\<lparr>mem := m, world := w\<rparr>) \<and> view w = view (world s) \<and>
    load_bytes m q' n = load_bytes (mem s) q n \<and> (\<forall>x. protected x \<longrightarrow> load8 m x = load8 (mem s) x)"
proof -
  have "n + 1 < 2 ^ 64" using assms(3) unsigned_less [of limit, where 'a = nat] by simp
  then have sz: "unat (of_nat n :: u64) = n" "unat (of_nat (n + 1) :: u64) = n + 1"
    by (simp_all only: unat_of_nat_u64 add_lessD1)
  have "(of_nat n :: u64) \<le> of_nat (n + 1)" "of_nat (n + 1) \<le> limit"
    using assms(3) by (simp_all only: word_le_nat_alt sz)
  from heap_facts(5) [OF assms(1,2) this] show ?thesis unfolding sz by blast
qed

section \<open>One character\<close>

text \<open>The caller's variables: the two out parameters and the character on the stack.\<close>

definition own_variables :: "u64 \<Rightarrow> u64 \<Rightarrow> u64 \<Rightarrow> u64 \<Rightarrow> bool" where
  "own_variables out out_size sp x \<longleftrightarrow> in_range out 8 x \<or> in_range out_size 8 x \<or> x = sp"

text \<open>They do not overlap, and the character on the stack is not at the null address.\<close>

definition separate :: "u64 \<Rightarrow> u64 \<Rightarrow> u64 \<Rightarrow> bool" where
  "separate out out_size sp \<longleftrightarrow>
     disjoint out 8 out_size 8 \<and> \<not> in_range out 8 sp \<and> \<not> in_range out_size 8 sp \<and> sp \<noteq> 0"

text \<open>The state between two rounds: \<open>acc\<close> is what has been read.\<close>

definition line_inv ::
  "(u64 \<Rightarrow> u64 \<Rightarrow> 'w machine \<Rightarrow> bool) \<Rightarrow> u64 \<Rightarrow> u64 \<Rightarrow> u8 list \<Rightarrow> 'w machine \<Rightarrow> bool" where
  "line_inv block out out_size acc s \<longleftrightarrow>
     (let q = load64 (mem s) out; cap = max 1 (length acc) in
      q \<noteq> 0 \<and> load64 (mem s) out_size = of_nat cap \<and> block q (of_nat (cap + 1)) s \<and>
      load_bytes (mem s) q (length acc) = acc)"

text \<open>Making room for one more character.\<close>

lemma grow_buffer_room:
  assumes h: "heap_contract hp block (own_variables out out_size sp) limit view"
    and sep: "separate out out_size sp"
    and inv: "line_inv block out out_size acc s" and room: "length acc + 2 \<le> unat limit"
  shows "\<exists>m w. grow_buffer hp out out_size (of_nat (length acc)) s = Ret () (s\<lparr>mem := m, world := w\<rparr>) \<and>
    view w = view (world s) \<and> load8 m sp = load8 (mem s) sp \<and>
    load64 m out \<noteq> 0 \<and> load64 m out_size = of_nat (max 1 (length acc + 1)) \<and>
    block (load64 m out) (of_nat (length acc + 2)) (s\<lparr>mem := m, world := w\<rparr>) \<and>
    load_bytes m (load64 m out) (length acc) = acc"
proof (cases acc)
  case Nil
  then show ?thesis
    using inv by (intro exI [of _ "mem s"] exI [of _ "world s"])
      (simp add: grow_buffer_def line_inv_def Let_def)
next
  case (Cons a as)
  let ?n = "length acc" and ?q = "load64 (mem s) out"
  have small: "?n + 2 < 2 ^ 64" and cap: "max 1 ?n = ?n"
    using room unsigned_less [of limit, where 'a = nat] Cons by simp_all
  have I: "load64 (mem s) out_size = of_nat ?n" "block ?q (of_nat (?n + 1)) s" "load_bytes (mem s) ?q ?n = acc"
    using inv unfolding line_inv_def Let_def cap by blast+
  have own: "in_range out_size 8 x \<Longrightarrow> own_variables out out_size sp x"
      "in_range out 8 x \<Longrightarrow> own_variables out out_size sp x" "own_variables out out_size sp sp" for x
    by (auto simp: own_variables_def)
  have dis: "disjoint out_size 8 out 8" "disjoint out 8 out_size 8"
    using sep by (auto simp: separate_def disjoint_def)
  let ?s1 = "s\<lparr>mem := store64 out_size (of_nat (?n + 1)) (mem s)\<rparr>"
  note s1 = block_variable [OF h I(2) _ own(1), where v = "of_nat (?n + 1)"]
  have b1: "block ?q (of_nat (?n + 1)) ?s1" using small by (intro s1(1)) simp
  obtain q' m w where r: "realloc hp ?q (of_nat (?n + 1 + 1)) ?s1 = Ret q' (?s1\<lparr>mem := m, world := w\<rparr>)" "q' \<noteq> 0"
      "block q' (of_nat (?n + 1 + 1)) (?s1\<lparr>mem := m, world := w\<rparr>)" "view w = view (world ?s1)"
      "load_bytes m q' (?n + 1) = load_bytes (mem ?s1) ?q (?n + 1)"
      "\<And>x. own_variables out out_size sp x \<Longrightarrow> load8 m x = load8 (mem ?s1) x"
    using realloc_longer [OF h b1] room by auto
  let ?m = "store64 out q' m"
  note m = block_variable [OF h r(3) _ own(2), where v = q']
  have "load_bytes m q' (?n + 1) = load_bytes (mem s) ?q (?n + 1)"
    using r(5) s1(2) small by simp
  moreover have "load_bytes ?m q' (?n + 1 + 1) = load_bytes m q' (?n + 1 + 1)"
    using m(2) small by simp
  ultimately have keep: "load_bytes ?m q' ?n = acc"
    using load_bytes_prefix [of m q' ?n 1 "mem s" ?q] load_bytes_prefix [of ?m q' ?n 2 m q'] I(3)
    by (metis add.assoc one_add_one)
  have "(of_nat ?n :: u64) < of_nat ?n + 1"
    using small by (simp add: word_less_nat_alt unat_of_nat_u64 flip: of_nat_Suc add.commute [of 1])
  then have "grow_buffer hp out out_size (of_nat ?n) s = Ret () (s\<lparr>mem := ?m, world := w\<rparr>)"
    using r(1) I(1) dis by (simp add: grow_buffer_def Let_def add.commute mem_simps)
  moreover have "load64 ?m out_size = of_nat (?n + 1)"
    using load64_cong [of out_size m "mem ?s1"] r(6) own dis by (simp add: mem_simps)
  moreover have "load8 ?m sp = load8 (mem s) sp"
    using r(6) [OF own(3)] sep by (simp add: separate_def load8_store64_other)
  moreover have "block q' (of_nat (?n + 2)) (s\<lparr>mem := ?m, world := w\<rparr>)"
    using m(1) small by (simp add: world_mem_commute)
  ultimately show ?thesis
    using r(2,4) keep Cons by (intro exI [of _ ?m] exI [of _ w]) (simp add: mem_simps max_def)
qed

text \<open>Reading one key through \<open>read\<close>: the byte it becomes.\<close>

definition key_byte :: "u16 \<Rightarrow> u8" where
  "key_byte k = (if (ucast k :: u8) = 0x0D then 0x0A else ucast k)"

definition key_echo :: "u16 \<Rightarrow> u16 list" where
  "key_echo k = before_nul [k] @ (if (ucast k :: u8) = 0x0D then [0x0A] else [])"

lemma read_key_byte:
  assumes "nr k ''read'' = Some 0" and "console_contract fw typed shown" and "typed (world s) = key # rest"
    and "(ucast key :: u8) \<noteq> 0x08" and "plain_key key \<or> (ucast key :: u8) = 0x0D" and "sp \<noteq> 0"
  shows "\<exists>r w. read k fw 0 sp 1 s = Ret r (s\<lparr>world := w, mem := store8 sp (key_byte key) (mem s)\<rparr>) \<and>
    0 < sint r \<and> typed w = rest \<and> shown w = shown (world s) @ key_echo key"
proof -
  have "\<exists>r w. fd_read fw 0 sp 1 s = Ret r (s\<lparr>world := w, mem := store8 sp (key_byte key) (mem s)\<rparr>) \<and>
    0 < sint r \<and> typed w = rest \<and> shown w = shown (world s) @ key_echo key"
  proof (cases "(ucast key :: u8) = 0x0D")
    case True
    then show ?thesis
      using read_console_line [OF assms(2), of s "[]" key rest 1 sp] assms(3,6)
      by (fastforce simp: key_byte_def key_echo_def)
  next
    case False
    then show ?thesis
      using read_console_full [OF assms(2), of s "[key]" rest 1 sp] assms(3-6)
      by (fastforce simp: key_byte_def key_echo_def)
  qed
  then obtain r w where "fd_read fw 0 sp 1 s = Ret r (s\<lparr>world := w, mem := store8 sp (key_byte key) (mem s)\<rparr>)"
      "0 < sint r" "typed w = rest" "shown w = shown (world s) @ key_echo key" by blast
  then show ?thesis
    using read_exported.reports_success [of k fw 0 sp 1 s r] sys_read_eq [OF assms(1), of fw 0 sp 1 s] by auto
qed

text \<open>The character read into the variable on the stack.\<close>

lemma line_inv_read:
  assumes h: "heap_contract hp block (own_variables out out_size sp) limit view"
    and sep: "separate out out_size sp" and inv: "line_inv block out out_size acc s"
    and small: "length acc + 1 < 2 ^ 64"
  shows "line_inv block out out_size acc (s\<lparr>world := w, mem := store8 sp c (mem s)\<rparr>)"
proof -
  let ?q = "load64 (mem s) out" and ?cap = "max 1 (length acc)"
  have b: "block ?q (of_nat (?cap + 1)) s" and acc: "load_bytes (mem s) ?q (length acc) = acc"
    using inv by (simp_all add: line_inv_def Let_def)
  have sp: "own_variables out out_size sp sp" by (simp add: own_variables_def)
  have "unat (of_nat (?cap + 1) :: u64) = ?cap + 1"
    using small by (intro unat_of_nat_u64) (simp add: max_def)
  then have "\<not> in_range ?q (length acc) sp"
    using heap_facts(1) [OF h b sp] by (auto simp: in_range_def)
  then have "load_bytes (store8 sp c (mem s)) ?q (length acc) = acc"
    using acc small load_bytes_store8_other [of ?q "length acc" sp c "mem s"] by simp
  moreover have "block ?q (of_nat (?cap + 1)) (s\<lparr>world := w, mem := store8 sp c (mem s)\<rparr>)"
    using heap_facts(2) [OF h heap_facts(3) [OF h b] disjI1 [OF sp], where b = c, of w] by simp
  ultimately show ?thesis
    using inv sep by (simp add: line_inv_def Let_def separate_def load64_store8_other)
qed

text \<open>The character appended to what the buffer holds.\<close>

lemma line_inv_append:
  assumes h: "heap_contract hp block (own_variables out out_size sp) limit view"
    and p: "load64 (mem s) out = p" "p \<noteq> 0" and size: "load64 (mem s) out_size = of_nat (max 1 (length acc + 1))"
    and b: "block p (of_nat (length acc + 2)) s" and acc: "load_bytes (mem s) p (length acc) = acc"
    and small: "length acc + 2 < 2 ^ 64"
  shows "line_inv block out out_size (acc @ [c]) (s\<lparr>mem := store8 (p + of_nat (length acc)) c (mem s)\<rparr>)"
proof -
  let ?n = "length acc" and ?m = "store8 (p + of_nat (length acc)) c (mem s)"
  have sz: "unat (of_nat (?n + 2) :: u64) = ?n + 2" "unat (of_nat ?n :: u64) = ?n"
    using small by (simp_all only: unat_of_nat_u64 add_lessD1)
  have inside: "in_range p (unat (of_nat (?n + 2) :: u64)) (p + of_nat ?n)"
    unfolding sz(1) using sz(2) by (simp add: in_range_def)
  then have "\<not> own_variables out out_size sp (p + of_nat ?n)"
    using heap_facts(1) [OF h b] by blast
  then have "load64 ?m out = p" "load64 ?m out_size = of_nat (max 1 (?n + 1))"
    using p(1) size by (simp_all add: own_variables_def load64_store8_other)
  moreover have "block p (of_nat (?n + 2)) (s\<lparr>mem := ?m\<rparr>)"
    using heap_facts(2) [OF h b disjI2 [OF inside]] .
  moreover have "load_bytes ?m p (?n + 1) = acc @ [c]"
    using acc load_bytes_snoc [of ?n p c "mem s"] small by simp
  ultimately show ?thesis using p(2) by (simp add: line_inv_def Let_def)
qed

text \<open>One round of the loop.\<close>

lemma next_char_step:
  assumes h: "heap_contract hp block (own_variables out out_size sp) limit (\<lambda>w. (typed w, shown w))"
    and sep: "separate out out_size sp" and con: "console_contract fw typed shown"
    and nr: "nr k ''read'' = Some 0" and typed: "typed (world s) = key # rest"
    and key: "(ucast key :: u8) \<noteq> 0x08" "plain_key key \<or> (ucast key :: u8) = 0x0D"
    and inv: "line_inv block out out_size acc s" and room: "length acc + 2 \<le> unat limit"
  shows "\<exists>s'. next_char k fw hp sp 0 out out_size (of_nat (length acc)) s = Ret (Some (key_byte key)) s' \<and>
    typed (world s') = rest \<and> shown (world s') = shown (world s) @ key_echo key \<and> frame s' = frame s \<and>
    line_inv block out out_size (acc @ [key_byte key]) s'"
proof -
  let ?n = "length acc" and ?c = "key_byte key"
  have small: "?n + 2 < 2 ^ 64"
    using room unsigned_less [of limit, where 'a = nat] by simp
  obtain r w where rd: "read k fw 0 sp 1 s = Ret r (s\<lparr>world := w, mem := store8 sp ?c (mem s)\<rparr>)"
      "0 < sint r" "typed w = rest" "shown w = shown (world s) @ key_echo key"
    using read_key_byte [OF nr con typed key] sep unfolding separate_def by blast
  let ?s1 = "s\<lparr>world := w, mem := store8 sp ?c (mem s)\<rparr>"
  have inv1: "line_inv block out out_size acc ?s1"
    using small by (intro line_inv_read [OF h sep inv]) simp
  obtain m w' where g: "grow_buffer hp out out_size (of_nat ?n) ?s1 = Ret () (?s1\<lparr>mem := m, world := w'\<rparr>)"
      "(typed w', shown w') = (typed w, shown w)" "load64 m out \<noteq> 0" "load64 m out_size = of_nat (max 1 (?n + 1))"
      "block (load64 m out) (of_nat (?n + 2)) (?s1\<lparr>mem := m, world := w'\<rparr>)"
      "load_bytes m (load64 m out) ?n = acc"
    using grow_buffer_room [OF h sep inv1 room] by auto
  let ?s2 = "?s1\<lparr>mem := m, world := w'\<rparr>\<lparr>mem := store8 (load64 m out + of_nat ?n) ?c m\<rparr>"
  have "line_inv block out out_size (acc @ [?c]) ?s2"
    using line_inv_append [OF h _ g(3) _ g(5) _ small, of ?c] g(4,6) by simp
  moreover have "next_char k fw hp sp 0 out out_size (of_nat ?n) s = Ret (Some ?c) ?s2"
    using rd g(1) by (simp add: next_char_def load8_def store8_def world_mem_commute Let_def)
  ultimately show ?thesis
    using rd(3,4) g(2) by (intro exI [of _ ?s2]) (simp add: frame_def)
qed

section \<open>A line\<close>

text \<open>Keys that are stored as themselves, wherever they are typed.\<close>

definition line_key :: "u16 \<Rightarrow> bool" where
  "line_key key \<longleftrightarrow> plain_key key \<and> (ucast key :: u8) \<noteq> 0x08"

lemma echo_line:
  assumes "\<forall>key \<in> set ks. line_key key" and "(ucast ret :: u8) = 0x0D"
  shows "concat (map key_echo (ks @ [ret])) = echo ks @ before_nul [ret] @ [0x0A]"
  using assms by (induction ks) (auto simp: key_echo_def line_key_def plain_key_def)

text \<open>
  What holds when the line \<open>bs\<close> (with its newline) has been read: the buffer holds it and a NUL, the
  size variable its length, and the buffer is a block with room for both.
\<close>

definition line_done ::
  "(u64 \<Rightarrow> u64 \<Rightarrow> 'w machine \<Rightarrow> bool) \<Rightarrow> u64 \<Rightarrow> u64 \<Rightarrow> u8 list \<Rightarrow> 'w machine \<Rightarrow> bool" where
  "line_done block out out_size bs s \<longleftrightarrow>
     load_bytes (mem s) (load64 (mem s) out) (length bs + 1) = bs @ [0] \<and>
     load64 (mem s) out_size = of_nat (length bs) \<and>
     block (load64 (mem s) out) (of_nat (length bs + 1)) s"

lemma line_end:
  assumes h: "heap_contract hp block (own_variables out out_size sp) limit view"
    and inv: "line_inv block out out_size bs s" and bs: "bs \<noteq> []" and small: "length bs + 1 < 2 ^ 64"
  shows "line_done block out out_size bs
    (s\<lparr>mem := store8 (load64 (mem s) out + of_nat (length bs)) 0 (mem s)\<rparr>)"
proof -
  let ?L = "length bs" and ?p = "load64 (mem s) out"
  let ?m = "store8 (?p + of_nat ?L) 0 (mem s)"
  have cap: "max 1 ?L = ?L" using bs by (cases bs) simp_all
  have sz: "unat (of_nat (?L + 1) :: u64) = ?L + 1" "unat (of_nat ?L :: u64) = ?L"
    using small by (simp_all only: unat_of_nat_u64 add_lessD1)
  have b: "block ?p (of_nat (?L + 1)) s" and acc: "load_bytes (mem s) ?p ?L = bs"
    and size: "load64 (mem s) out_size = of_nat ?L"
    using inv unfolding line_inv_def Let_def cap by simp_all
  have inside: "in_range ?p (unat (of_nat (?L + 1) :: u64)) (?p + of_nat ?L)"
    unfolding sz(1) using sz(2) by (simp add: in_range_def)
  then have "\<not> own_variables out out_size sp (?p + of_nat ?L)"
    using heap_facts(1) [OF h b] by blast
  then have ptr: "load64 ?m out = ?p" "load64 ?m out_size = of_nat ?L"
    using size by (simp_all add: own_variables_def load64_store8_other)
  have "load_bytes ?m ?p (?L + 1) = load_bytes (mem s) ?p ?L @ [0]"
    by (rule load_bytes_snoc) (use small in simp)
  moreover have "block ?p (of_nat (?L + 1)) (s\<lparr>mem := ?m\<rparr>)"
    using heap_facts(2) [OF h b disjI2 [OF inside]] .
  ultimately show ?thesis using ptr acc by (simp add: line_done_def)
qed

lemma getdelim_loop_line:
  assumes h: "heap_contract hp block (own_variables out out_size sp) limit (\<lambda>w. (typed w, shown w))"
    and sep: "separate out out_size sp" and con: "console_contract fw typed shown"
    and nr: "nr k ''read'' = Some 0" and ret: "(ucast ret :: u8) = 0x0D"
    and "\<forall>key \<in> set ks. line_key key" and "typed (world s) = ks @ ret # rest"
    and "line_inv block out out_size acc s" and "length acc + length ks + 2 \<le> unat limit"
  shows "\<exists>s'. getdelim_loop k fw hp sp 0 out out_size 0x0A (of_nat (length acc)) s =
      Some (Ret (of_nat (length acc + length ks + 2)) s') \<and> typed (world s') = rest \<and>
    shown (world s') = shown (world s) @ concat (map key_echo (ks @ [ret])) \<and> frame s' = frame s \<and>
    line_done block out out_size (acc @ map key_byte ks @ [0x0A]) s'"
  using assms(6-)
proof (induction ks arbitrary: s acc)
  case Nil
  let ?L = "length acc + 1"
  have kb: "key_byte ret = 0x0A" using ret by (simp add: key_byte_def)
  from next_char_step [OF h sep con nr, of s ret rest acc] Nil.prems ret
  obtain s' where s': "next_char k fw hp sp 0 out out_size (of_nat (length acc)) s = Ret (Some 0x0A) s'"
      "typed (world s') = rest" "shown (world s') = shown (world s) @ key_echo ret" "frame s' = frame s"
      "line_inv block out out_size (acc @ [0x0A]) s'"
    unfolding kb by auto
  let ?s = "s'\<lparr>mem := store8 (load64 (mem s') out + of_nat ?L) 0 (mem s')\<rparr>"
  have "line_done block out out_size (acc @ [0x0A]) ?s"
    using line_end [OF h s'(5)] Nil.prems(4) unsigned_less [of limit, where 'a = nat] by simp
  moreover have "getdelim_loop k fw hp sp 0 out out_size 0x0A (of_nat (length acc)) s =
      Some (Ret (of_nat (length acc + length ([] :: u16 list) + 2)) ?s)"
    using s'(1) by (subst getdelim_loop.simps) (simp add: add.commute [of 1 "of_nat (length acc)"])
  ultimately show ?case
    using s'(2-4) by (intro exI [of _ ?s]) (simp add: frame_def)
next
  case (Cons key ks)
  have kb: "key_byte key \<noteq> 0x0A" "(ucast key :: u8) \<noteq> 0x08" "plain_key key"
    using Cons.prems(1) by (auto simp: line_key_def plain_key_def key_byte_def)
  from next_char_step [OF h sep con nr, of s key "ks @ ret # rest" acc] Cons.prems kb
  obtain s' where s': "next_char k fw hp sp 0 out out_size (of_nat (length acc)) s = Ret (Some (key_byte key)) s'"
      "typed (world s') = ks @ ret # rest" "shown (world s') = shown (world s) @ key_echo key" "frame s' = frame s"
      "line_inv block out out_size (acc @ [key_byte key]) s'"
    by auto
  then have eq: "getdelim_loop k fw hp sp 0 out out_size 0x0A (of_nat (length acc)) s =
      getdelim_loop k fw hp sp 0 out out_size 0x0A (of_nat (length (acc @ [key_byte key]))) s'"
    using kb(1) by (subst getdelim_loop.simps) (simp add: add.commute [of 1 "of_nat (length acc)"])
  have "\<forall>key \<in> set ks. line_key key" "length (acc @ [key_byte key]) + length ks + 2 \<le> unat limit"
    using Cons.prems(1,4) by simp_all
  note Cons.IH [OF this(1) s'(2,5) this(2)]
  moreover have "length (acc @ [key_byte key]) + length ks + 2 = length acc + length (key # ks) + 2" by simp
  ultimately show ?case unfolding eq using s'(3,4) by (simp only:) (simp del: of_nat_Suc)
qed

lemma getline_line:
  assumes "heap_contract hp block (own_variables out out_size sp) limit (\<lambda>w. (typed w, shown w))"
    and "separate out out_size sp" and "console_contract fw typed shown"
    and "nr k ''read'' = Some 0" and "load64 (mem s) out = 0"
    and "typed (world s) = ks @ ret # rest" and "(ucast ret :: u8) = 0x0D"
    and "\<forall>key \<in> set ks. line_key key" and "length ks + 2 \<le> unat limit"
  shows "\<exists>s'. my_getline k fw hp sp out out_size 0 s = Ret (of_nat (length ks + 2)) s' \<and>
    line_done block out out_size (map ucast ks @ [0x0A]) s' \<and> frame s' = frame s \<and>
    typed (world s') = rest \<and> shown (world s') = shown (world s) @ echo ks @ before_nul [ret] @ [0x0A]"
proof -
  have own: "in_range out 8 x \<Longrightarrow> own_variables out out_size sp x"
      "in_range out_size 8 x \<Longrightarrow> own_variables out out_size sp x" for x
    by (simp_all add: own_variables_def)
  have dis: "disjoint out 8 out_size 8" "disjoint out_size 8 out 8"
    using assms(2) by (auto simp: separate_def disjoint_def)
  have "2 \<le> limit" using assms(9) by (simp add: word_le_nat_alt)
  from heap_facts(4) [OF assms(1) this, of s] obtain q m w
    where q: "malloc hp 2 s = Ret q (s\<lparr>mem := m, world := w\<rparr>)" "q \<noteq> 0"
      "block q 2 (s\<lparr>mem := m, world := w\<rparr>)" "typed w = typed (world s)" "shown w = shown (world s)"
    by blast
  let ?s1 = "s\<lparr>mem := store64 out_size 1 (store64 out q m), world := w\<rparr>"
  have "block q 2 (s\<lparr>mem := store64 out q m, world := w\<rparr>)"
    using block_store64 [OF assms(1) q(3) own(1), of out q] by (simp add: world_mem_commute)
  from block_store64 [OF assms(1) this own(2), of out_size 1]
  have "block q 2 ?s1" by (simp add: world_mem_commute)
  then have inv: "line_inv block out out_size [] ?s1"
    using q(2) dis by (simp add: line_inv_def mem_simps)
  have "map key_byte ks = map ucast ks"
    using assms(8) by (auto simp: key_byte_def line_key_def plain_key_def)
  with getdelim_loop_line [OF assms(1-4) assms(7,8) _ inv] assms(6,9) q(4,5) echo_line [OF assms(8,7)]
  obtain s' where "getdelim_loop k fw hp sp 0 out out_size 0x0A 0 ?s1 = Some (Ret (of_nat (length ks + 2)) s')"
     "typed (world s') = rest" "shown (world s') = shown (world s) @ echo ks @ before_nul [ret] @ [0x0A]"
     "frame s' = frame ?s1" "line_done block out out_size (map ucast ks @ [0x0A]) s'"
    by auto
  moreover have "frame ?s1 = frame s" by (simp add: frame_def)
  ultimately show ?thesis
    using q(1) assms(5) by (intro exI [of _ s']) (simp add: my_getline_def my_getdelim_def world_mem_commute)
qed

text \<open>
  C10: \<open>my_getline\<close> on the console, called with a null buffer: with a C library whose allocator keeps
  its contract and a firmware that queues keys, the keys up to the return key arrive in the
  allocated buffer as their bytes, followed by a newline and a NUL; they are echoed, and the rest of the
  queue stays. The call returns their number plus 2, one more than the length of the line with its
  newline; the size variable holds that length, one less than the buffer has.
\<close>

theorem my_getline_reads_line:
  assumes "heap_contract hp block (own_variables out out_size sp) limit (\<lambda>w. (typed w, shown w))"
    and "separate out out_size sp" and "console_contract fw typed shown"
    and "nr k ''read'' = Some 0" and "load64 (mem s) out = 0"
    and "typed (world s) = ks @ ret # rest" and "(ucast ret :: u8) = 0x0D"
    and "\<forall>key \<in> set ks. line_key key" and "length ks + 2 \<le> unat limit"
  shows "\<exists>s'. my_getline k fw hp sp out out_size 0 s = Ret (of_nat (length ks + 2)) s' \<and>
    load_bytes (mem s') (load64 (mem s') out) (length ks + 2) = map ucast ks @ [0x0A, 0] \<and>
    load64 (mem s') out_size = of_nat (length ks + 1) \<and>
    typed (world s') = rest \<and> shown (world s') = shown (world s) @ echo ks @ before_nul [ret] @ [0x0A]"
proof -
  obtain s' where s': "my_getline k fw hp sp out out_size 0 s = Ret (of_nat (length ks + 2)) s'"
      "line_done block out out_size (map ucast ks @ [0x0A]) s'" "typed (world s') = rest"
      "shown (world s') = shown (world s) @ echo ks @ before_nul [ret] @ [0x0A]"
    using getline_line [OF assms] by blast
  have "length (map ucast ks @ [0x0A]) + 1 = length ks + 2" "length (map ucast ks @ [0x0A]) = length ks + 1"
    by simp_all
  then have "load_bytes (mem s') (load64 (mem s') out) (length ks + 2) = (map ucast ks @ [0x0A]) @ [0]"
    "load64 (mem s') out_size = of_nat (length ks + 1)"
    using s'(2) unfolding line_done_def by (metis)+
  with s' show ?thesis by (intro exI [of _ s']) simp
qed

end
