(* ===== verification/Layout.thy ===== *)
theory Layout
  imports Memory
begin

text \<open>
  The structure declarations of \<open>include/linux-uefi.h\<close>, \<open>nolibc/arch.h\<close> and \<open>nolibc/types.h\<close> over the integer
  types of \<open>include/linux-uefi-int.h\<close>, as data, and where the x86-64 ABI puts their members. The
  offsets the other theories use are those of these declarations.
\<close>

section \<open>C types and their layout\<close>

text \<open>
  The types the declarations use, on x86-64. A member without a name (here always a union) has the empty
  name; \<open>char d_name[]\<close> is an array of no elements.
\<close>

datatype c_num = C_char | C_uchar | C_short | C_ushort | C_int | C_uint | C_long | C_ulong | C_llong

primrec num_size :: "c_num \<Rightarrow> nat" where
  "num_size C_char = 1"
| "num_size C_uchar = 1"
| "num_size C_short = 2"
| "num_size C_ushort = 2"
| "num_size C_int = 4"
| "num_size C_uint = 4"
| "num_size C_long = 8"
| "num_size C_ulong = 8"
| "num_size C_llong = 8"

datatype c_type =
  Num c_num
| Array nat c_type
| Struct "(string \<times> c_type) list"
| Union "(string \<times> c_type) list"

definition round_up :: "nat \<Rightarrow> nat \<Rightarrow> nat" where
  "round_up a n = (n + a - 1) div a * a"

fun align_of :: "c_type \<Rightarrow> nat" and members_align :: "(string \<times> c_type) list \<Rightarrow> nat" where
  "align_of (Num n) = num_size n"
| "align_of (Array k t) = align_of t"
| "align_of (Struct ms) = members_align ms"
| "align_of (Union ms) = members_align ms"
| "members_align [] = 1"
| "members_align ((x, t) # ms) = max (align_of t) (members_align ms)"

fun size_of :: "c_type \<Rightarrow> nat" and struct_end :: "nat \<Rightarrow> (string \<times> c_type) list \<Rightarrow> nat"
  and union_end :: "(string \<times> c_type) list \<Rightarrow> nat" where
  "size_of (Num n) = num_size n"
| "size_of (Array k t) = k * size_of t"
| "size_of (Struct ms) = round_up (members_align ms) (struct_end 0 ms)"
| "size_of (Union ms) = round_up (members_align ms) (union_end ms)"
| "struct_end o1 [] = o1"
| "struct_end o1 ((x, t) # ms) = struct_end (round_up (align_of t) o1 + size_of t) ms"
| "union_end [] = 0"
| "union_end ((x, t) # ms) = max (size_of t) (union_end ms)"

text \<open>The offset and the type of the member with a name; an unnamed member is searched through.\<close>

fun find_member :: "string \<Rightarrow> c_type \<Rightarrow> (nat \<times> c_type) option"
  and find_in_struct :: "string \<Rightarrow> nat \<Rightarrow> (string \<times> c_type) list \<Rightarrow> (nat \<times> c_type) option"
  and find_in_union :: "string \<Rightarrow> (string \<times> c_type) list \<Rightarrow> (nat \<times> c_type) option" where
  "find_member n (Num k) = None"
| "find_member n (Array k t) = None"
| "find_member n (Struct ms) = find_in_struct n 0 ms"
| "find_member n (Union ms) = find_in_union n ms"
| "find_in_struct n o1 [] = None"
| "find_in_struct n o1 ((x, t) # ms) =
     (let p = round_up (align_of t) o1 in
      if x = n then Some (p, t)
      else
        (case if x = [] then find_member n t else None of
           Some (q, u) \<Rightarrow> Some (p + q, u)
         | None \<Rightarrow> find_in_struct n (p + size_of t) ms))"
| "find_in_union n [] = None"
| "find_in_union n ((x, t) # ms) =
     (if x = n then Some (0, t)
      else
        (case if x = [] then find_member n t else None of
           Some (q, u) \<Rightarrow> Some (q, u)
         | None \<Rightarrow> find_in_union n ms))"

text \<open>A member designator \<open>a.b.c\<close>.\<close>

fun designated :: "c_type \<Rightarrow> string list \<Rightarrow> (nat \<times> c_type) option" where
  "designated t [] = Some (0, t)"
| "designated t (n # ns) =
     (case find_member n t of
        None \<Rightarrow> None
      | Some (p, u) \<Rightarrow> (case designated u ns of None \<Rightarrow> None | Some (q, v) \<Rightarrow> Some (p + q, v)))"

section \<open>What a layout guarantees\<close>

lemma round_up_ge: "0 < a \<Longrightarrow> n \<le> round_up a n"
proof -
  assume "0 < a"
  then have "n + a - 1 < (n + a - 1) div a * a + a"
    by (metis add.commute dividend_less_div_times)
  then show ?thesis by (simp add: round_up_def)
qed

lemma round_up_dvd [simp]: "a dvd round_up a n"
  by (simp add: round_up_def)

lemma round_up_dvd_trans: "b dvd a \<Longrightarrow> b dvd round_up a n"
  using dvd_trans round_up_dvd by blast

lemma dvd8_cases: "a dvd 8 \<Longrightarrow> a \<in> {1, 2, 4, 8}" for a :: nat
proof -
  assume a: "a dvd 8"
  then have "a \<le> 8" by (simp add: dvd_imp_le)
  then have "a \<in> {0, 1, 2, 3, 4, 5, 6, 7, 8}" by auto
  with a show ?thesis by auto
qed

lemma dvd8_max:
  assumes "a dvd 8" and "b dvd 8"
  shows "max a b dvd 8" and "a dvd max a b" and "b dvd max a (b :: nat)"
proof -
  show "max a b dvd 8" using assms by (simp add: max_def)
  show "a dvd max a b" "b dvd max a b"
    using dvd8_cases [OF assms(1)] dvd8_cases [OF assms(2)] by (auto simp: max_def)
qed

lemma align_dvd8: "align_of t dvd 8" "members_align ms dvd 8"
proof (induction t and ms rule: align_of_members_align.induct)
  case (1 n)
  then show ?case by (cases n) simp_all
qed (simp_all add: dvd8_max)

lemma align_pos: "0 < align_of t" "0 < members_align ms"
  using align_dvd8(1) [of t] align_dvd8(2) [of ms] by (auto intro: gr0I)

lemmas align_max = dvd8_max(2,3) [OF align_dvd8(1) align_dvd8(2)]

lemma struct_end_ge: "o1 \<le> struct_end o1 ms"
proof (induction ms arbitrary: o1)
  case (Cons m ms)
  obtain x t where m: "m = (x, t)" by (cases m)
  have "o1 \<le> round_up (align_of t) o1 + size_of t"
    using round_up_ge [OF align_pos(1), of o1 t] by simp
  also have "\<dots> \<le> struct_end (round_up (align_of t) o1 + size_of t) ms" by (rule Cons)
  finally show ?case by (simp add: m)
qed simp

text \<open>A member is inside its structure and aligned.\<close>

definition placed :: "nat \<Rightarrow> c_type \<Rightarrow> nat \<Rightarrow> nat \<Rightarrow> nat \<Rightarrow> bool" where
  "placed p u lo hi a \<longleftrightarrow> lo \<le> p \<and> p + size_of u \<le> hi \<and> align_of u dvd p \<and> align_of u dvd a"

lemma find_in_struct_Cons:
  assumes "find_in_struct n o1 ((x, t) # ms) = Some (p, u)"
  obtains (here) "p = round_up (align_of t) o1" "u = t"
  | (inner) q where "x \<noteq> n" "x = []" "find_member n t = Some (q, u)" "p = round_up (align_of t) o1 + q"
  | (later) "x \<noteq> n" "(if x = [] then find_member n t else None) = None"
      "find_in_struct n (round_up (align_of t) o1 + size_of t) ms = Some (p, u)"
proof (cases "x = n")
  case True
  with assms show ?thesis by (intro here) (auto simp: Let_def)
next
  case False
  show ?thesis
  proof (cases "if x = [] then find_member n t else None")
    case None
    with assms False show ?thesis by (intro later) (simp_all only: find_in_struct.simps Let_def option.case if_False simp_thms)
  next
    case (Some qv)
    obtain q v where qv: "qv = (q, v)" by (cases qv)
    have x: "x = []" "find_member n t = Some (q, v)" using Some qv by (simp_all split: if_splits)
    with assms False show ?thesis by (intro inner [of q]) (simp_all add: Let_def)
  qed
qed

lemma find_in_union_Cons:
  assumes "find_in_union n ((x, t) # ms) = Some (p, u)"
  obtains (here) "p = 0" "u = t"
  | (inner) "x \<noteq> n" "x = []" "find_member n t = Some (p, u)"
  | (later) "x \<noteq> n" "(if x = [] then find_member n t else None) = None" "find_in_union n ms = Some (p, u)"
proof (cases "x = n")
  case True
  with assms show ?thesis by (intro here) simp_all
next
  case False
  show ?thesis
  proof (cases "if x = [] then find_member n t else None")
    case None
    with assms False show ?thesis by (intro later) (simp_all only: find_in_union.simps option.case if_False simp_thms)
  next
    case (Some qv)
    obtain q v where qv: "qv = (q, v)" by (cases qv)
    have x: "x = []" "find_member n t = Some (q, v)" using Some qv by (simp_all split: if_splits)
    with assms False show ?thesis by (intro inner) simp_all
  qed
qed

lemma member_placed:
  "find_member n t = Some (p, u) \<Longrightarrow> placed p u 0 (size_of t) (align_of t)"
  "find_in_struct n o1 ms = Some (p, u) \<Longrightarrow> placed p u o1 (struct_end o1 ms) (members_align ms)"
  "find_in_union n ms = Some (p, u) \<Longrightarrow> placed p u 0 (union_end ms) (members_align ms)"
proof (induction n t and n o1 ms and n ms arbitrary: p u and p u and p u
    rule: find_member_find_in_struct_find_in_union.induct)
  case (3 n ms)
  then have "placed p u 0 (struct_end 0 ms) (members_align ms)" by simp
  then show ?case
    using round_up_ge [OF align_pos(2) [of ms], of "struct_end 0 ms"] by (auto simp: placed_def)
next
  case (4 n ms)
  then have "placed p u 0 (union_end ms) (members_align ms)" by simp
  then show ?case
    using round_up_ge [OF align_pos(2) [of ms], of "union_end ms"] by (auto simp: placed_def)
next
  case (6 n o1 x t ms)
  let ?p = "round_up (align_of t) o1"
  have ge: "o1 \<le> ?p" and le: "?p + size_of t \<le> struct_end (?p + size_of t) ms"
    by (simp_all add: round_up_ge align_pos struct_end_ge)
  from "6.prems" show ?case
  proof (cases rule: find_in_struct_Cons)
    case here
    then show ?thesis using ge le by (simp add: placed_def align_max)
  next
    case (inner q)
    from "6.IH"(1) [OF refl inner(1-3)]
    show ?thesis using ge le inner(4) align_max(1) [of t ms]
      by (auto simp: placed_def intro: dvd_add round_up_dvd_trans dvd_trans)
  next
    case later
    from "6.IH"(2) [OF refl later]
    show ?thesis using ge align_max(2) [of ms t] by (auto simp: placed_def intro: dvd_trans)
  qed
next
  case (8 n x t ms)
  from "8.prems" show ?case
  proof (cases rule: find_in_union_Cons)
    case here
    then show ?thesis by (simp add: placed_def align_max)
  next
    case inner
    from "8.IH"(1) [OF inner]
    show ?thesis using align_max(1) [of t ms] by (auto simp: placed_def intro: dvd_trans)
  next
    case later
    from "8.IH"(2) [OF later]
    show ?thesis using align_max(2) [of ms t] by (auto simp: placed_def intro: dvd_trans)
  qed
qed simp_all

lemma size_of_aligned: "align_of t dvd size_of t"
  by (induction t) simp_all

lemma designated_placed:
  "designated t ns = Some (p, u) \<Longrightarrow> placed p u 0 (size_of t) (align_of t)"
proof (induction t ns arbitrary: p u rule: designated.induct)
  case (1 t)
  then show ?case by (simp add: placed_def)
next
  case (2 t n ns)
  obtain q v p' where s: "find_member n t = Some (q, v)" "designated v ns = Some (p', u)" "p = q + p'"
    using "2.prems" by (auto split: option.splits)
  from "2.IH" [OF s(1) refl s(2)] member_placed(1) [OF s(1)] s(3) show ?case
    by (auto simp: placed_def intro: dvd_add dvd_trans)
qed

section \<open>The integer types\<close>

text \<open>The \<open>typedef\<close>s of \<open>linux-uefi-int.h\<close> (the build defines \<open>LINUX_UEFI_USE_INTERNAL_INTS\<close>), in order.\<close>

definition internal_ints :: "(string \<times> c_num) list" where
  "internal_ints =
     [(''wchar_t'', C_ushort), (''size_t'', C_ulong), (''ssize_t'', C_long), (''time_t'', C_long),
      (''off_t'', C_long), (''pid_t'', C_int), (''uid_t'', C_uint), (''gid_t'', C_uint), (''dev_t'', C_uint),
      (''ino_t'', C_ulong), (''mode_t'', C_uint), (''nlink_t'', C_ulong), (''blksize_t'', C_long),
      (''blksize_t'', C_long), (''blkcnt_t'', C_long), (''clock_t'', C_ulong), (''nfds_t'', C_ulong)]"

definition named :: "string \<Rightarrow> c_type" where
  "named n = Num (the (map_of internal_ints n))"

text \<open>The fixed-width names come from \<open>stdint.h\<close>.\<close>

abbreviation (input) uint64_t :: c_type where "uint64_t \<equiv> Num C_ulong"
abbreviation (input) int64_t :: c_type where "int64_t \<equiv> Num C_long"

section \<open>The emulator's structures\<close>

definition uefi_timeval :: c_type where
  "uefi_timeval = Struct [(''tv_sec'', named ''time_t''), (''tv_usec'', Num C_llong)]"

definition uefi_timespec :: c_type where
  "uefi_timespec = Struct [(''tv_sec'', named ''time_t''), (''tv_nsec'', named ''time_t'')]"

definition uefi_timezone :: c_type where
  "uefi_timezone = Struct [(''tz_minuteswest'', Num C_int), (''tz_dsttime'', Num C_int)]"

definition uefi_dirent64 :: c_type where
  "uefi_dirent64 = Struct
     [(''d_ino'', uint64_t), (''d_off'', int64_t), (''d_reclen'', Num C_ushort), (''d_type'', Num C_uchar),
      (''d_name'', Array 0 (Num C_char))]"

definition uefi_stat :: c_type where
  "uefi_stat = Struct
     [(''st_dev'', Num C_ulong), (''st_ino'', Num C_ulong), (''st_nlink'', Num C_ulong), (''st_mode'', Num C_uint),
      (''st_uid'', Num C_uint), (''st_gid'', Num C_uint), (''__pad0'', Num C_uint), (''st_rdev'', Num C_ulong),
      (''st_size'', Num C_long), (''st_blksize'', Num C_long), (''st_blocks'', Num C_long),
      ('''', Union [(''st_atime'', named ''time_t''), (''st_atim'', uefi_timespec)]),
      ('''', Union [(''st_mtime'', named ''time_t''), (''st_mtim'', uefi_timespec)]),
      ('''', Union [(''st_ctime'', named ''time_t''), (''st_ctim'', uefi_timespec)]),
      (''__unused'', Array 3 (Num C_long))]"

section \<open>The library's structures\<close>

definition sys_stat_struct :: c_type where
  "sys_stat_struct = Struct
     [(''st_dev'', Num C_ulong), (''st_ino'', Num C_ulong), (''st_nlink'', Num C_ulong), (''st_mode'', Num C_uint),
      (''st_uid'', Num C_uint), (''st_gid'', Num C_uint), (''__pad0'', Num C_uint), (''st_rdev'', Num C_ulong),
      (''st_size'', Num C_long), (''st_blksize'', Num C_long), (''st_blocks'', Num C_long),
      (''st_atime'', Num C_ulong), (''st_atime_nsec'', Num C_ulong), (''st_mtime'', Num C_ulong),
      (''st_mtime_nsec'', Num C_ulong), (''st_ctime'', Num C_ulong), (''st_ctime_nsec'', Num C_ulong),
      (''__unused'', Array 3 (Num C_long))]"

definition pollfd :: c_type where
  "pollfd = Struct [(''fd'', Num C_int), (''events'', Num C_short), (''revents'', Num C_short)]"

definition linux_dirent64 :: c_type where
  "linux_dirent64 = Struct
     [(''d_ino'', uint64_t), (''d_off'', int64_t), (''d_reclen'', Num C_ushort), (''d_type'', Num C_uchar),
      (''d_name'', Array 0 (Num C_char))]"

text \<open>\<open>struct timeval\<close> and \<open>struct timespec\<close> are the kernel headers' (\<open>linux/time.h\<close>) here.\<close>

definition rusage :: "c_type \<Rightarrow> c_type" where
  "rusage timeval = Struct
     [(''ru_utime'', timeval), (''ru_stime'', timeval), (''ru_maxrss'', Num C_long), (''ru_ixrss'', Num C_long),
      (''ru_idrss'', Num C_long), (''ru_isrss'', Num C_long), (''ru_minflt'', Num C_long),
      (''ru_majflt'', Num C_long), (''ru_nswap'', Num C_long), (''ru_inblock'', Num C_long),
      (''ru_oublock'', Num C_long), (''ru_msgsnd'', Num C_long), (''ru_msgrcv'', Num C_long),
      (''ru_nsignals'', Num C_long), (''ru_nvcsw'', Num C_long), (''ru_nivcsw'', Num C_long)]"

definition libc_stat :: "c_type \<Rightarrow> c_type" where
  "libc_stat timespec = Struct
     [(''st_dev'', named ''dev_t''), (''st_ino'', named ''ino_t''), (''st_mode'', named ''mode_t''),
      (''st_nlink'', named ''nlink_t''), (''st_uid'', named ''uid_t''), (''st_gid'', named ''gid_t''),
      (''st_rdev'', named ''dev_t''), (''st_size'', named ''off_t''), (''st_blksize'', named ''blksize_t''),
      (''st_blocks'', named ''blkcnt_t''),
      ('''', Union [(''st_atime'', named ''time_t''), (''st_atim'', timespec)]),
      ('''', Union [(''st_mtime'', named ''time_t''), (''st_mtim'', timespec)]),
      ('''', Union [(''st_ctime'', named ''time_t''), (''st_ctim'', timespec)])]"

section \<open>Offsets and containers\<close>

definition offsetof :: "c_type \<Rightarrow> string list \<Rightarrow> u64 option" where
  "offsetof t field = map_option (\<lambda>(p, u). of_nat p) (designated t field)"

definition container_of :: "u64 \<Rightarrow> c_type \<Rightarrow> string list \<Rightarrow> u64 option" where
  "container_of ptr t field = map_option (\<lambda>d. ptr - d) (offsetof t field)"

text \<open>Reading a number through a declaration, as a 64-bit value.\<close>

definition member_value :: "c_type \<Rightarrow> string list \<Rightarrow> u64 \<Rightarrow> memory \<Rightarrow> u64 option" where
  "member_value t field a m =
     (case designated t field of
        None \<Rightarrow> None
      | Some (p, u) \<Rightarrow>
          (if size_of u = 8 then Some (load64 m (a + of_nat p))
           else if size_of u = 4 then Some (zext (load32 m (a + of_nat p)))
           else if size_of u = 2 then Some (zext (load16 m (a + of_nat p)))
           else if size_of u = 1 then Some (zext (load8 m (a + of_nat p))) else None))"

lemmas layout_defs = named_def internal_ints_def uefi_timeval_def uefi_timespec_def uefi_timezone_def
  uefi_dirent64_def uefi_stat_def sys_stat_struct_def pollfd_def linux_dirent64_def rusage_def libc_stat_def

section \<open>The two sides of a stat call\<close>

text \<open>Where a member is, and how many bytes it has.\<close>

definition extent :: "c_type \<Rightarrow> string list \<Rightarrow> (nat \<times> nat) option" where
  "extent t field = map_option (\<lambda>(p, u). (p, size_of u)) (designated t field)"

text \<open>The members of the emulator's \<open>struct stat\<close>, each with the library's name for it.\<close>

definition stat_members :: "(string list \<times> string) list" where
  "stat_members = map (\<lambda>n. ([n], n))
       [''st_dev'', ''st_ino'', ''st_nlink'', ''st_mode'', ''st_uid'', ''st_gid'', ''__pad0'', ''st_rdev'', ''st_size'',
        ''st_blksize'', ''st_blocks'', ''st_atime'', ''st_mtime'', ''st_ctime'', ''__unused''] @
     [([''st_atim'', ''tv_nsec''], ''st_atime_nsec''), ([''st_mtim'', ''tv_nsec''], ''st_mtime_nsec''),
      ([''st_ctim'', ''tv_nsec''], ''st_ctime_nsec'')]"

text \<open>
  The structure the emulator fills in \<open>stat\<close> (\<open>struct stat\<close> of \<open>linux-uefi.h\<close>) and the one the library
  passes to it and reads (\<open>struct sys_stat_struct\<close> of \<open>arch.h\<close>) are declared separately; both have 144
  bytes, and every member of the one lies where its counterpart lies, with as many bytes. So do the
  two declarations of \<open>struct linux_dirent64\<close>, 24 bytes with the name at 19.
\<close>

lemma structures_agree:
  "size_of uefi_stat = 144 \<and> size_of sys_stat_struct = 144 \<and>
   map (\<lambda>(f, n). extent uefi_stat f) stat_members = map (\<lambda>(f, n). extent sys_stat_struct [n]) stat_members \<and>
   None \<notin> set (map (\<lambda>(f, n). extent uefi_stat f) stat_members) \<and>
   map (\<lambda>n. extent uefi_dirent64 [n]) [''d_ino'', ''d_off'', ''d_reclen'', ''d_type'', ''d_name''] =
     map Some [(0, 8), (8, 8), (16, 2), (18, 1), (19, 0)] \<and>
   map (\<lambda>n. extent linux_dirent64 [n]) [''d_ino'', ''d_off'', ''d_reclen'', ''d_type'', ''d_name''] =
     map Some [(0, 8), (8, 8), (16, 2), (18, 1), (19, 0)] \<and>
   size_of uefi_dirent64 = 24 \<and> size_of linux_dirent64 = 24"
  by code_simp

text \<open>\<open>container_of\<close> undoes \<open>offsetof\<close>.\<close>

lemma container_of_member: "offsetof t field = Some d \<Longrightarrow> container_of (p + d) t field = Some p"
  by (simp add: container_of_def)

text \<open>The kernel's 116 bytes end inside the last time, not in the unused part behind it.\<close>

lemma kernel_bytes_end: "extent sys_stat_struct [''st_ctime_nsec''] = Some (112, 8)"
    "extent sys_stat_struct [''__unused''] = Some (120, 24)"
  by (simp_all add: layout_defs round_up_def extent_def)

end
