(* ===== verification/EndToEnd.thy ===== *)
theory EndToEnd
  imports Layout ClibcUser
begin

text \<open>
  The library on top of the emulator, with the system call numbers of x86-64 Linux: which calls reach
  a handler, and what a program gets from end to end.
\<close>

unbundle bit_operations_syntax

section \<open>The numbers of x86-64\<close>

text \<open>
  \<open>asm/unistd.h\<close> of x86-64 Linux, for the macros the wrappers use. There is no \<open>mmap2\<close>,
  \<open>_newselect\<close>, \<open>getuid32\<close> or \<open>geteuid32\<close>, and \<open>src/nolibc/arch.h\<close> defines neither
  \<open>__ARCH_WANT_SYS_OLD_SELECT\<close> nor \<open>__ARCH_WANT_SYS_PSELECT6\<close>.
\<close>

definition x86_64_nr :: "string \<Rightarrow> u64 option" where
  "x86_64_nr = map_of
     [(''read'', 0), (''write'', 1), (''open'', 2), (''close'', 3), (''stat'', 4), (''poll'', 7),
      (''lseek'', 8), (''mmap'', 9), (''munmap'', 11), (''brk'', 12), (''ioctl'', 16), (''select'', 23),
      (''sched_yield'', 24), (''dup'', 32), (''dup2'', 33), (''getpid'', 39), (''clone'', 56),
      (''fork'', 57), (''execve'', 59), (''exit'', 60), (''wait4'', 61), (''kill'', 62), (''fsync'', 74),
      (''chdir'', 80), (''mkdir'', 83), (''link'', 86), (''unlink'', 87), (''symlink'', 88), (''chmod'', 90),
      (''chown'', 92), (''umask'', 95), (''gettimeofday'', 96), (''getuid'', 102), (''geteuid'', 107),
      (''setpgid'', 109), (''getppid'', 110), (''setsid'', 112), (''getpgid'', 121), (''mknod'', 133),
      (''pivot_root'', 155), (''prctl'', 157), (''chroot'', 161), (''mount'', 165), (''umount2'', 166),
      (''reboot'', 169), (''gettid'', 186), (''getdents64'', 217), (''openat'', 257), (''mkdirat'', 258),
      (''mknodat'', 259), (''fchownat'', 260), (''newfstatat'', 262), (''unlinkat'', 263), (''linkat'', 265),
      (''symlinkat'', 266), (''fchmodat'', 268), (''pselect6'', 270), (''ppoll'', 271), (''dup3'', 292),
      (''memfd_create'', 319), (''statx'', 332)]"

definition x86_64 :: "kernel_hdr \<Rightarrow> bool" where
  "x86_64 k \<longleftrightarrow> nr k = x86_64_nr \<and> \<not> ARCH_WANT_SYS_OLD_SELECT k \<and> \<not> ARCH_WANT_SYS_PSELECT6 k"

named_theorems x86_64_facts \<open>macros of the x86-64 headers\<close>

lemma x86_64_present [x86_64_facts]:
  assumes "x86_64 k"
  shows "nr k ''read'' = Some 0" "nr k ''write'' = Some 1" "nr k ''mmap'' = Some 9" "nr k ''munmap'' = Some 11"
    "nr k ''brk'' = Some 12" "nr k ''select'' = Some 23" "nr k ''exit'' = Some 60" "nr k ''openat'' = Some 257"
    "nr k ''mkdirat'' = Some 258" "nr k ''mknodat'' = Some 259" "nr k ''fchownat'' = Some 260"
    "nr k ''newfstatat'' = Some 262" "nr k ''unlinkat'' = Some 263" "nr k ''linkat'' = Some 265"
    "nr k ''symlinkat'' = Some 266" "nr k ''fchmodat'' = Some 268" "nr k ''dup3'' = Some 292"
    "nr k ''clone'' = Some 56" "nr k ''kill'' = Some 62" "nr k ''getpid'' = Some 39" "nr k ''getppid'' = Some 110"
  using assms by (simp_all add: x86_64_def x86_64_nr_def)

lemma x86_64_absent [x86_64_facts]:
  assumes "x86_64 k"
  shows "nr k ''mmap2'' = None" "nr k ''_newselect'' = None" "\<not> ARCH_WANT_SYS_OLD_SELECT k"
    "\<not> ARCH_WANT_SYS_PSELECT6 k"
  using assms by (simp_all add: x86_64_def x86_64_nr_def)

section \<open>Calls the emulator does not know\<close>

lemma unknown_number:
  "no \<in> {12, 56, 257, 258, 259, 260, 262, 263, 265, 266, 268, 292} \<Longrightarrow>
     my_syscall fw no args s = Ret (- ENOSYS) s"
  by (elim insertE) (simp_all add: my_syscall_def syscall_emu_x86_64_def)

lemma unknown_call:
  "no \<in> {12, 56, 257, 258, 259, 260, 262, 263, 265, 266, 268, 292} \<Longrightarrow>
     ret_errno (int_value (my_syscall fw no args s)) = Ret (- 1) (s\<lparr>errno := ENOSYS\<rparr>)"
proof -
  assume "no \<in> {12, 56, 257, 258, 259, 260, 262, 263, 265, 266, 268, 292}"
  moreover have "to_int (- ENOSYS) = - ENOSYS" by simp
  ultimately show ?thesis
    by (simp only: unknown_number int_value_Ret) (simp add: ret_errno_def SET_ERRNO_def)
qed

text \<open>There is no \<open>brk\<close> either, but the library takes every result other than 0 for an address.\<close>

lemma break_calls:
  assumes "x86_64 k"
  shows "brk k fw addr s = Ret 0 s \<and>
    sbrk k fw inc s = (if inc = 0 then Ret (- ENOSYS) s else Ret (- 1) (s\<lparr>errno := ENOMEM\<rparr>))"
proof -
  have b: "sys_brk k fw a s = Ret (- ENOSYS) s" for a
    by (simp add: sys_brk_def x86_64_facts [OF assms] unknown_number)
  then show ?thesis
    by (auto simp: brk_def sbrk_def SET_ERRNO_def)
qed

text \<open>
  C13: With the x86-64 headers the library prefers the newer variants of the calls (\<open>openat\<close>, \<open>dup3\<close>,
  \<open>clone\<close>, \<open>mkdirat\<close>, ...), none of which the emulator has: \<open>open\<close>, \<open>dup2\<close>, \<open>mkdir\<close>, \<open>unlink\<close> and the
  other calls named here fail with \<open>ENOSYS\<close> in every state, whatever the arguments, and the
  emulator's own \<open>open\<close> and \<open>dup2\<close> are never reached. \<open>brk\<close>, which it does not have either, reports success and
  moves nothing; \<open>sbrk 0\<close> returns the error number as the current break, any other \<open>sbrk\<close> fails.
\<close>

theorem newer_calls_fail:
  assumes "x86_64 k"
  shows "open_call k fw path flags v s = Ret (- 1) (s\<lparr>errno := ENOSYS\<rparr>) \<and>
    dup2 k fw old new s = Ret (- 1) (s\<lparr>errno := ENOSYS\<rparr>) \<and>
    dup3 k fw old new flags s = Ret (- 1) (s\<lparr>errno := ENOSYS\<rparr>) \<and>
    fork k fw s = Ret (- 1) (s\<lparr>errno := ENOSYS\<rparr>) \<and>
    mkdir k fw path mode s = Ret (- 1) (s\<lparr>errno := ENOSYS\<rparr>) \<and>
    mknod k fw path mode dev s = Ret (- 1) (s\<lparr>errno := ENOSYS\<rparr>) \<and>
    chmod k fw path mode s = Ret (- 1) (s\<lparr>errno := ENOSYS\<rparr>) \<and>
    chown k fw path owner gid s = Ret (- 1) (s\<lparr>errno := ENOSYS\<rparr>) \<and>
    link k fw path path2 s = Ret (- 1) (s\<lparr>errno := ENOSYS\<rparr>) \<and>
    symlink k fw path path2 s = Ret (- 1) (s\<lparr>errno := ENOSYS\<rparr>) \<and>
    unlink k fw path s = Ret (- 1) (s\<lparr>errno := ENOSYS\<rparr>) \<and>
    stat k fw sp path buf s = Ret (- 1) (s\<lparr>mem := copy_stat sp buf (mem s), errno := ENOSYS\<rparr>) \<and>
    brk k fw addr s = Ret 0 s \<and>
    sbrk k fw inc s = (if inc = 0 then Ret (- ENOSYS) s else Ret (- 1) (s\<lparr>errno := ENOMEM\<rparr>))"
proof -
  note x86_64_facts [OF assms, simp] and unknown_call [simp]
  have "open_call k fw path flags v s = Ret (- 1) (s\<lparr>errno := ENOSYS\<rparr>)"
    by (simp add: open_call_def sys_open_def)
  moreover have "dup2 k fw old new s = Ret (- 1) (s\<lparr>errno := ENOSYS\<rparr>)"
      "dup3 k fw old new flags s = Ret (- 1) (s\<lparr>errno := ENOSYS\<rparr>)"
    by (simp_all add: dup2_def sys_dup2_def dup3_def sys_dup3_def)
  moreover have "fork k fw s = Ret (- 1) (s\<lparr>errno := ENOSYS\<rparr>)"
    by (simp add: fork_def sys_fork_def)
  moreover have "mkdir k fw path mode s = Ret (- 1) (s\<lparr>errno := ENOSYS\<rparr>)"
      "mknod k fw path mode dev s = Ret (- 1) (s\<lparr>errno := ENOSYS\<rparr>)"
      "chmod k fw path mode s = Ret (- 1) (s\<lparr>errno := ENOSYS\<rparr>)"
      "chown k fw path owner gid s = Ret (- 1) (s\<lparr>errno := ENOSYS\<rparr>)"
    by (simp_all add: mkdir_def sys_mkdir_def mknod_def sys_mknod_def chmod_def sys_chmod_def
        chown_def sys_chown_def)
  moreover have "link k fw path path2 s = Ret (- 1) (s\<lparr>errno := ENOSYS\<rparr>)"
      "symlink k fw path path2 s = Ret (- 1) (s\<lparr>errno := ENOSYS\<rparr>)"
      "unlink k fw path s = Ret (- 1) (s\<lparr>errno := ENOSYS\<rparr>)"
    by (simp_all add: link_def sys_link_def symlink_def sys_symlink_def unlink_def sys_unlink_def)
  moreover have "stat k fw sp path buf s = Ret (- 1) (s\<lparr>mem := copy_stat sp buf (mem s), errno := ENOSYS\<rparr>)"
    by (simp add: stat_def sys_stat_def unknown_number ret_errno_def SET_ERRNO_def)
  ultimately show ?thesis using break_calls [OF assms, of fw addr s inc] by (intro conjI) simp_all
qed

section \<open>Sleeping\<close>

lemma int_value_int_result [simp]: "int_value (int_result m) = m"
  by (cases m) (simp_all add: int_result_def int_value_def)

lemma timed_wait:
  assumes "x86_64 k" and "stall fw (sec * 1000000 + usec) (world s) = (status, w)" and "tv \<noteq> 0"
  shows "sys_select k fw sp 0 0 0 0 tv (s\<lparr>mem := store_timeval tv sec usec (mem s)\<rparr>) =
    Ret (check_status (hdr fw) status 0) (s\<lparr>mem := store_timeval tv sec usec (mem s), world := w\<rparr>)"
  using assms(2,3)
  by (simp add: sys_select_def x86_64_facts [OF assms(1)] my_syscall_def syscall_table with_args_def
      fd_select_def time_sleep_def load_store_timeval)

lemma sint_check_status: "sint (check_status h status (0 :: i32)) < 0 \<longleftrightarrow> EFI_ERROR h status"
  using sint_neg_errno [of h status] by (simp add: check_status_def)

text \<open>Times as numbers.\<close>

lemma zext_nat: "zext (x :: u32) = of_nat (unat x)"
proof -
  have "of_nat (unat (zext x)) = zext x" by simp
  then show ?thesis unfolding unat_zext32 by (rule sym)
qed

lemma to_int_zext [simp]: "to_int (zext x) = x"
  by (rule bit_word_eqI) (simp add: bit_ucast_iff)

lemma zext_div_mod:
  fixes x d :: u32
  assumes "0 < d"
  shows "zext (x div d) * zext d + zext (x mod d) = zext x"
proof -
  have "zext (x div d) * zext d + zext (x mod d) = of_nat (unat x div unat d * unat d + unat x mod unat d)"
    by (simp only: zext_nat unat_div unat_mod of_nat_add of_nat_mult)
  then show ?thesis by (simp only: div_mult_mod_eq zext_nat)
qed

text \<open>A rest of milliseconds as microseconds, and back.\<close>

lemma rest_in_usec:
  fixes x :: u32
  shows "zext (x mod 1000 * 1000) = zext (x mod 1000) * 1000"
    and "zext (x mod 1000 * 1000) div 1000 = zext (x mod 1000)"
    and "zext (x mod 1000 * 1000) mod 1000 = 0"
proof -
  define n where "n = unat (x mod 1000)"
  have n: "n < 1000" unfolding n_def by (simp add: unat_mod)
  have k: "unat (1000 :: u32) = 1000" "unat (1000 :: u64) = 1000" by simp_all
  have "n * 1000 < 2 ^ LENGTH(32)" using n by simp
  then have "unat (x mod 1000) * unat (1000 :: u32) < 2 ^ LENGTH(32)"
    unfolding n_def k .
  then have "unat (x mod 1000 * 1000) = n * 1000"
    unfolding n_def by (subst (asm) unat_mult_lem) (simp only: k)
  then have z: "zext (x mod 1000 * 1000) = of_nat (n * 1000)" by (simp only: zext_nat)
  have u: "unat (of_nat (n * 1000) :: u64) = n * 1000" using n by (intro unat_of_nat_u64) simp
  show "zext (x mod 1000 * 1000) = zext (x mod 1000) * 1000"
    unfolding z unfolding n_def zext_nat by (simp only: of_nat_mult of_nat_numeral)
  show "zext (x mod 1000 * 1000) div 1000 = zext (x mod 1000)"
    unfolding z word_arith_nat_div [of "of_nat (n * 1000)" "1000 :: u64"] u k unfolding zext_nat [of "x mod 1000"] n_def by simp
  show "zext (x mod 1000 * 1000) mod 1000 = 0"
    unfolding z word_arith_nat_mod [of "of_nat (n * 1000)" "1000 :: u64"] u k by simp
qed

text \<open>
  C24: On x86-64, \<open>sleep\<close>, \<open>msleep\<close> and \<open>usleep\<close> reach the firmware as one \<open>Stall\<close> of the whole time in
  microseconds, and always come back: with 0, or, when the firmware reports an error, with the
  whole time as the rest (\<open>usleep\<close>: with the negative error number). Only the \<open>timeval\<close> on the stack
  (at \<open>sp\<close>) and the outside world change.
\<close>

theorem sleeps_return:
  assumes "x86_64 k" and "stall fw us (world s) = (status, w)" and "sp \<noteq> 0"
  shows "(us = zext seconds * 1000000 \<longrightarrow> sleep k fw sp seconds s =
      Ret (if EFI_ERROR (hdr fw) status then seconds else 0)
        (s\<lparr>mem := store_timeval sp (zext seconds) 0 (mem s), world := w\<rparr>)) \<and>
    (us = zext msecs * 1000 \<longrightarrow> msleep k fw sp msecs s =
      Ret (if EFI_ERROR (hdr fw) status then msecs else 0)
        (s\<lparr>mem := store_timeval sp (zext (msecs div 1000)) (zext (msecs mod 1000 * 1000)) (mem s), world := w\<rparr>)) \<and>
    (us = zext usecs \<longrightarrow> usleep k fw sp usecs s =
      Ret (if EFI_ERROR (hdr fw) status then - efi_status_to_errno (hdr fw) status else 0)
        (s\<lparr>mem := store_timeval sp (zext (usecs div 1000000)) (zext (usecs mod 1000000)) (mem s), world := w\<rparr>))"
proof (intro conjI impI)
  assume "us = zext seconds * 1000000"
  then have "stall fw (zext seconds * 1000000 + 0) (world s) = (status, w)" using assms(2) by simp
  from timed_wait [OF assms(1) this assms(3), of "sp - 256"]
  show "sleep k fw sp seconds s = Ret (if EFI_ERROR (hdr fw) status then seconds else 0)
        (s\<lparr>mem := store_timeval sp (zext seconds) 0 (mem s), world := w\<rparr>)"
    by (simp add: sleep_def sint_check_status load_store_timeval)
next
  assume us: "us = zext msecs * 1000"
  have split: "zext (msecs div 1000) * 1000 + zext (msecs mod 1000) = zext msecs"
    using zext_div_mod [of 1000 msecs] by simp
  have usec: "zext (msecs div 1000) * 1000000 + zext (msecs mod 1000 * 1000) =
      (zext (msecs div 1000) * 1000 + zext (msecs mod 1000)) * 1000"
    unfolding rest_in_usec(1) by (simp add: algebra_simps)
  have "stall fw (zext (msecs div 1000) * 1000000 + zext (msecs mod 1000 * 1000)) (world s) = (status, w)"
    using assms(2) us unfolding usec split by simp
  from timed_wait [OF assms(1) this assms(3), of "sp - 256"]
  show "msleep k fw sp msecs s = Ret (if EFI_ERROR (hdr fw) status then msecs else 0)
        (s\<lparr>mem := store_timeval sp (zext (msecs div 1000)) (zext (msecs mod 1000 * 1000)) (mem s), world := w\<rparr>)"
    by (simp add: msleep_def sint_check_status load_store_timeval rest_in_usec(2,3) split)
next
  assume us: "us = zext usecs"
  have "stall fw (zext (usecs div 1000000) * 1000000 + zext (usecs mod 1000000)) (world s) = (status, w)"
    using assms(2) us zext_div_mod [of 1000000 usecs] by simp
  from timed_wait [OF assms(1) this assms(3), of "sp - 256"]
  show "usleep k fw sp usecs s =
      Ret (if EFI_ERROR (hdr fw) status then - efi_status_to_errno (hdr fw) status else 0)
        (s\<lparr>mem := store_timeval sp (zext (usecs div 1000000)) (zext (usecs mod 1000000)) (mem s), world := w\<rparr>)"
    by (simp add: usleep_def check_status_def)
qed

section \<open>Leaving the program\<close>

text \<open>
  C26: On x86-64, \<open>exit\<close> hands the firmware one of two statuses: success when the low byte of the
  program's status is 0 (so also for 256), \<open>EFI_END_OF_FILE\<close> otherwise; the number itself is lost.
  Control does not come back: when the firmware returns, the program hangs.
\<close>

theorem exit_leaves:
  assumes "x86_64 k"
    and "st = (if uint status mod 256 = 0 then EFI_SUCCESS (hdr fw) else EFI_END_OF_FILE (hdr fw))"
    and "bs_exit fw (Image_handle s) st (world s) = (gone, w)"
  shows "exit k fw status s = (if gone then Exited st (s\<lparr>world := w\<rparr>) else Hang (s\<lparr>world := w\<rparr>))"
proof -
  have "status AND 255 = status mod 256" 
    using take_bit_eq_mod [of 8 status] by (simp add: take_bit_eq_mask mask_eq_exp_minus_1)
  then have "status AND 255 = 0 \<longleftrightarrow> uint status mod 256 = 0"
    by (simp add: word_uint_eq_iff uint_mod)
  then show ?thesis
    using assms(3) unfolding assms(2)
    by (cases "uint status mod 256 = 0") (simp_all add: exit_def sys_exit_def x86_64_facts [OF assms(1)] my_syscall_def syscall_table with_args_def
        proc_exit_def exit_image_def)
qed

text \<open>
  C27: On x86-64, \<open>getpid\<close> is 2 and \<open>getppid\<close> is 1, and \<open>kill\<close> fails for every process but the own
  one, with \<open>EPERM\<close> for the parent and \<open>ESRCH\<close> for all others, whatever the signal; for the own
  process it fails with \<open>EINVAL\<close> for a signal number from 30 on, and for every other one, 0 (which only
  asks whether the process exists) and negative numbers included, it ends the image with
  \<open>EFI_ABORTED\<close>, or hangs when the firmware refuses. It never returns 0.
\<close>

theorem kill_reports:
  assumes "x86_64 k" and "bs_exit fw (Image_handle s) (EFI_ABORTED (hdr fw)) (world s) = (gone, w)"
    and "failed = (\<lambda>e. Ret (- 1) (s\<lparr>errno := e\<rparr>))"
  shows "getpid k fw s = Ret 2 s \<and> getppid k fw s = Ret 1 s \<and>
    kill k fw pid sig s =
      (if pid = 1 then failed EPERM
       else if pid \<noteq> 2 then failed ESRCH
       else if 30 \<le> sint sig then failed EINVAL
       else if gone then Exited (EFI_ABORTED (hdr fw)) (s\<lparr>world := w\<rparr>) else Hang (s\<lparr>world := w\<rparr>))"
proof (intro conjI)
  show "getpid k fw s = Ret 2 s" "getppid k fw s = Ret 1 s"
    by (simp_all add: getpid_def sys_getpid_def getppid_def sys_getppid_def x86_64_facts [OF assms(1)]
        my_syscall_def syscall_table)
  have "sys_kill k fw pid sig s = proc_kill fw pid sig s"
    by (simp add: sys_kill_def x86_64_facts [OF assms(1)] my_syscall_def syscall_table with_args_def)
  then show "kill k fw pid sig s =
      (if pid = 1 then failed EPERM
       else if pid \<noteq> 2 then failed ESRCH
       else if 30 \<le> sint sig then failed EINVAL
       else if gone then Exited (EFI_ABORTED (hdr fw)) (s\<lparr>world := w\<rparr>) else Hang (s\<lparr>world := w\<rparr>))"
    using assms(2,3)
    by (simp add: kill_def proc_kill_behaviour ret_errno_def SET_ERRNO_def)
qed

section \<open>The heap behind the C library\<close>

lemma to_int_minus_one [simp]: "to_int (- 1) = - 1"
  by (rule bit_word_eqI) (simp add: bit_ucast_iff)

text \<open>
  C22: \<open>heap_alloc\<close> and \<open>heap_dealloc\<close> on x86-64 with a firmware whose pool keeps its contract:
  \<open>heap_alloc\<close> either fails with \<open>MAP_FAILED\<close>, a positive \<open>errno\<close> and no block taken, or returns the
  address of a new block of the size asked for; \<open>heap_dealloc\<close> of that block gives exactly it back.
  The program's memory is not touched.
\<close>

theorem heap_round_trip:
  assumes "x86_64 k" and "pool_contract fw pool" and "load64 (mem s) size_ptr = n"
  shows "\<exists>p s1. heap_alloc k fw size_ptr s = Ret p s1 \<and> mem s1 = mem s \<and>
    (if p = MAP_FAILED then pool (world s1) = pool (world s) \<and> 0 < sint (errno s1)
     else p \<noteq> 0 \<and> errno s1 = errno s \<and> pool (world s) p = None \<and> pool (world s1) = (pool (world s))(p \<mapsto> n) \<and>
       (\<exists>s2. heap_dealloc k fw p n s1 = Ret () s2 \<and> pool (world s2) = pool (world s) \<and>
          mem s2 = mem s \<and> errno s2 = errno s))"
proof -
  obtain st a w where al: "allocate_pool fw n (world s) = (st, a, w)" by (cases "allocate_pool fw n (world s)")
  have mm: "sys_mmap k fw 0 n p f (- 1) 0 s = Ret (check_status (hdr fw) st a) (s\<lparr>world := w\<rparr>)" for p f
    using al by (simp add: sys_mmap_def x86_64_facts [OF assms(1)] my_syscall_def syscall_table with_args_def
        mem_mmap_def)
  show ?thesis
  proof (cases "EFI_ERROR (hdr fw) st")
    case True
    have "pool w = pool (world s)" using pool_contract_allocate [OF assms(2) al] True by simp
    moreover have "heap_alloc k fw size_ptr s = Ret MAP_FAILED (s\<lparr>world := w, errno := efi_status_to_errno (hdr fw) st\<rparr>)
        \<and> 0 < sint (efi_status_to_errno (hdr fw) st)"
      using efi_status_to_errno_range [of "hdr fw" st] True
      by (auto simp: heap_alloc_def mmap_def mm assms(3) check_status_def SET_ERRNO_def)
    ultimately show ?thesis by simp
  next
    case False
    have a: "a \<noteq> 0" "unat a < 2 ^ 63" "pool (world s) a = None" "pool w = (pool (world s))(a \<mapsto> n)"
      using pool_contract_allocate [OF assms(2) al] False by simp_all
    then have lo: "\<not> - 4095 \<le> a" "a \<noteq> MAP_FAILED" by (auto simp: word_le_nat_alt unsigned_minus_1_eq_mask mask_eq_exp_minus_1)
    then have al: "heap_alloc k fw size_ptr s = Ret a (s\<lparr>world := w\<rparr>)"
      using False by (simp add: heap_alloc_def mmap_def mm assms(3) check_status_def)
    obtain st2 w2 where fr: "free_pool fw a w = (st2, w2)" by (cases "free_pool fw a w")
    have "\<not> EFI_ERROR (hdr fw) st2" "pool w2 = (pool w)(a := None)"
      using pool_contract_free [OF assms(2) fr] a(4) by simp_all
    then have "heap_dealloc k fw a n (s\<lparr>world := w\<rparr>) = Ret () (s\<lparr>world := w2\<rparr>)" "pool w2 = pool (world s)"
      using fr a(3,4)
      by (auto simp: heap_dealloc_def munmap_def sys_munmap_def x86_64_facts [OF assms(1)] my_syscall_def
          syscall_table with_args_def mem_munmap_def check_status_def int_result_def ret_errno_def)
    then show ?thesis using al a lo by simp
  qed
qed

section \<open>File status\<close>

text \<open>Members of two disjoint structures.\<close>

lemma disjoint_parts:
  assumes "disjoint a n b k" and "unat x + n' \<le> n" and "unat y + k' \<le> k" and "0 < n'" and "0 < k'"
  shows "disjoint (a + x) n' (b + y) k'"
proof -
  have neg: "unat (- w) = 2 ^ 64 - unat w" if "w \<noteq> 0" for w :: u64
    using that unat_sub_if' [of 0 w] by (simp add: unat_eq_0)
  define d where "d = b - a"
  have d: "n \<le> unat d" "k \<le> unat (- d)"
    using assms(1) by (simp_all add: disjoint_def d_def)
  then have nz: "d \<noteq> 0" using assms(2,4) by auto
  then have dk: "unat d + k \<le> 2 ^ 64"
    using d(2) unsigned_less [of d, where 'a = nat] by (simp add: neg)
  have "unat (d + y) = unat d + unat y"
    using dk assms(3,5) by (subst unat_plus_simple [THEN iffD1]) (simp_all add: word_le_nat_alt unat_word_ariths)
  then have u: "unat (d + y - x) = unat d + unat y - unat x"
    using d assms(2) by (subst unat_sub) (simp_all add: word_le_nat_alt)
  have e1: "b + y - (a + x) = d + y - x" by (simp add: d_def)
  have e2: "a + x - (b + y) = - (d + y - x)" by (simp add: d_def)
  have "d + y - x \<noteq> 0"
  proof
    assume "d + y - x = 0"
    then have "unat d + unat y - unat x = 0" using u by simp
    then show False using d assms(2,4) by simp
  qed
  then have "unat (- (d + y - x)) = 2 ^ 64 - (unat d + unat y - unat x)"
    unfolding u [symmetric] by (rule neg)
  then show ?thesis
    unfolding disjoint_def e1 e2 using u d dk assms(2,3) by linarith
qed

lemma copy_same:
  "load64 (copy64 d a m) d = load64 m a" "load32 (copy32 d a m) d = load32 m a"
  by (simp_all add: copy64_def copy32_def mem_simps)

lemma copy_other:
  "disjoint d 8 b 8 \<Longrightarrow> load64 (copy64 d a m) b = load64 m b"
  "disjoint d 8 b 4 \<Longrightarrow> load32 (copy64 d a m) b = load32 m b"
  "disjoint d 4 b 8 \<Longrightarrow> load64 (copy32 d a m) b = load64 m b"
  "disjoint d 4 b 4 \<Longrightarrow> load32 (copy32 d a m) b = load32 m b"
  by (simp_all add: copy64_def copy32_def mem_simps)

lemma copy_outside:
  assumes "\<not> in_range a n x"
  shows "unat d + 8 \<le> n \<Longrightarrow> load8 (copy64 (a + d) b m) x = load8 m x"
    and "unat d + 4 \<le> n \<Longrightarrow> load8 (copy32 (a + d) b m) x = load8 m x"
    and "unat d + 4 \<le> n \<Longrightarrow> load8 (store32 (a + d) v m) x = load8 m x"
proof -
  have "unat d + k \<le> n \<Longrightarrow> \<not> in_range (a + d) k x" for k
    using assms in_range_offset by blast
  note far = this [of 8] this [of 4]
  show "unat d + 8 \<le> n \<Longrightarrow> load8 (copy64 (a + d) b m) x = load8 m x"
    "unat d + 4 \<le> n \<Longrightarrow> load8 (copy32 (a + d) b m) x = load8 m x"
    "unat d + 4 \<le> n \<Longrightarrow> load8 (store32 (a + d) v m) x = load8 m x"
    using far by (simp_all add: copy64_def copy32_def load8_store64_other store32_def load8_store_bytes_other)
qed

text \<open>The library's structure at \<open>buf\<close> in \<open>m'\<close> says what the kernel's at \<open>sp\<close> in \<open>m\<close> says.\<close>

definition same_status :: "u64 \<Rightarrow> memory \<Rightarrow> u64 \<Rightarrow> memory \<Rightarrow> bool" where
  "same_status sp m buf m' \<longleftrightarrow>
     load32 m' (buf + lst_dev) = ucast (load64 m (sp + st_dev)) \<and>
     load32 m' (buf + lst_rdev) = ucast (load64 m (sp + st_rdev)) \<and>
     load32 m' (buf + lst_mode) = load32 m (sp + st_mode) \<and>
     load32 m' (buf + lst_uid) = load32 m (sp + st_uid) \<and>
     load32 m' (buf + lst_gid) = load32 m (sp + st_gid) \<and>
     (\<forall>(l, n) \<in> {(lst_ino, st_ino), (lst_nlink, st_nlink), (lst_size, st_size), (lst_blksize, st_blksize),
         (lst_blocks, st_blocks), (lst_atime, st_atime), (lst_atime + tv_nsec, st_atime + tv_nsec),
         (lst_mtime, st_mtime), (lst_mtime + tv_nsec, st_mtime + tv_nsec), (lst_ctime, st_ctime),
         (lst_ctime + tv_nsec, st_ctime + tv_nsec)}.
        load64 m' (buf + l) = load64 m (sp + n))"

lemma copy_stat_copies:
  assumes "disjoint buf 120 sp 144"
  shows "same_status sp m buf (copy_stat sp buf m)"
proof -
  note d = disjoint_parts [OF assms] disjoint_parts [OF assms, of _ _ 0, simplified]
    disjoint_parts [OF assms, of 0, simplified]
  show ?thesis
    unfolding same_status_def copy_stat_def Let_def
    by (simp add: d copy_same copy_other mem_simps)
qed

lemma copy_stat_outside:
  assumes "\<not> in_range buf 120 x"
  shows "load8 (copy_stat sp buf m) x = load8 m x"
  using copy_outside [OF assms] copy_outside [OF assms, of 0] unfolding copy_stat_def Let_def by simp

lemma stat_copied:
  assumes "nr k ''newfstatat'' = None" and "nr k ''stat'' = Some 4" and "fd_stat fw path sp s = Ret r s'"
  shows "stat k fw sp path buf s =
    (let s' = s'\<lparr>mem := copy_stat sp buf (mem s')\<rparr> in
     if sint r < 0 then Ret (- 1) (s'\<lparr>errno := - r\<rparr>) else Ret r s')"
  using assms
  by (simp add: stat_def sys_stat_def my_syscall_def syscall_table with_args_def int_result_def ret_errno_def
      SET_ERRNO_def Let_def)

text \<open>
  C18: \<open>stat\<close> for headers with a \<open>stat\<close> number and no \<open>newfstatat\<close>: every member of the program's
  structure gets the value of the kernel's structure that the emulator filled (device numbers cut
  to 32 bits), no byte outside the structure changes, and the result and \<open>errno\<close> follow the
  emulator's. The structure is written on an error too, from whatever the emulator left.
\<close>

theorem stat_converts:
  assumes "nr k ''newfstatat'' = None" and "nr k ''stat'' = Some 4"
    and "fd_stat fw path sp s = Ret r s'" and "disjoint buf 120 sp 144"
  shows "\<exists>m. stat k fw sp path buf s =
      (if sint r < 0 then Ret (- 1) (s'\<lparr>mem := m, errno := - r\<rparr>) else Ret r (s'\<lparr>mem := m\<rparr>)) \<and>
    same_status sp (mem s') buf m \<and> (\<forall>x. \<not> in_range buf 120 x \<longrightarrow> load8 m x = load8 (mem s') x)"
  by (intro exI [of _ "copy_stat sp buf (mem s')"])
    (simp add: stat_copied [OF assms(1-3)] copy_stat_copies [OF assms(4)] copy_stat_outside Let_def)

section \<open>A status, member by member\<close>

lemma member_value_extent:
  "extent t f = Some (p, 8) \<Longrightarrow> member_value t f a m = Some (load64 m (a + of_nat p))"
  "extent t f = Some (p, 4) \<Longrightarrow> member_value t f a m = Some (zext (load32 m (a + of_nat p)))"
  by (auto simp: extent_def member_value_def)

text \<open>The members of the program's \<open>struct stat\<close> that get a value; \<open>linux/time.h\<close> has the times in two \<open>long\<close>s.\<close>

definition status_names :: "string list list" where
  "status_names =
     [[''st_dev''], [''st_mode''], [''st_uid''], [''st_gid''], [''st_ino''], [''st_nlink''], [''st_size''],
      [''st_blksize''], [''st_blocks''], [''st_atime''], [''st_mtime''], [''st_ctime''],
      [''st_atim'', ''tv_nsec''], [''st_mtim'', ''tv_nsec''], [''st_ctim'', ''tv_nsec'']]"

abbreviation (input) linux_timespec :: c_type where
  "linux_timespec \<equiv> Struct [(''tv_sec'', Num C_long), (''tv_nsec'', Num C_long)]"

lemma libc_stat_extents:
  "map (extent (libc_stat linux_timespec)) status_names =
     map Some [(0, 4), (16, 4), (32, 4), (36, 4), (8, 8), (24, 8), (48, 8), (56, 8), (64, 8), (72, 8), (88, 8),
       (104, 8), (80, 8), (96, 8), (112, 8)]"
  "size_of (libc_stat linux_timespec) = 120"
  by code_simp+

lemma status_by_name:
  "map (\<lambda>f. member_value (libc_stat linux_timespec) f buf m) status_names =
     map (\<lambda>p. Some (zext (load32 m (buf + p)))) [lst_dev, lst_mode, lst_uid, lst_gid] @
     map (\<lambda>p. Some (load64 m (buf + p)))
       [lst_ino, lst_nlink, lst_size, lst_blksize, lst_blocks, lst_atime, lst_mtime, lst_ctime,
        lst_atime + tv_nsec, lst_mtime + tv_nsec, lst_ctime + tv_nsec]"
  using libc_stat_extents(1) unfolding status_names_def
  by (simp add: member_value_extent)

text \<open>
  C19: \<open>stat\<close> as the program sees it (headers with a \<open>stat\<close> number and no \<open>newfstatat\<close>): when the firmware
  opens the path and reports on the file, the call returns 0 and the program, reading its
  \<open>struct stat\<close> as \<open>types.h\<close> declares it, finds by name the volume (cut to 32 bits), mode 0666, user and
  group 1000, no inode, one link, the size, block size 0, the size on the medium in bytes as
  \<open>st_blocks\<close>, and the three times, to the second. The member \<open>st_rdev\<close> is not among them.
\<close>

theorem stat_by_name:
  assumes "nr k ''newfstatat'' = None" and "nr k ''stat'' = Some 4" and "wf_machine s"
    and "f_open fw (Volume_handle s) (map ucast (before_nul (load_bytes (mem s) path 510)))
           (EFI_FILE_MODE_READ (hdr fw)) 0 (world s) = (st1, h, w1)"
    and "\<not> EFI_ERROR (hdr fw) st1"
    and "f_getinfo fw h w1 = (st2, info, w2)" and "\<not> EFI_ERROR (hdr fw) st2"
    and "disjoint buf (size_of (libc_stat linux_timespec)) sp (size_of sys_stat_struct)"
    and "path \<noteq> 0" and "sp \<noteq> 0"
  shows "\<exists>s'. stat k fw sp path buf s = Ret 0 s' \<and>
    map (\<lambda>f. member_value (libc_stat linux_timespec) f buf (mem s')) status_names =
      map Some [zext (ucast (Volume_handle s) :: u32), 0x1B6, EMU_UID, EMU_GID, 0, 1, FileSize info, 0,
        PhysicalSize info, fst (time_efi_time_to_time_t (LastAccessTime info)),
        fst (time_efi_time_to_time_t (ModificationTime info)), fst (time_efi_time_to_time_t (CreateTime info)),
        0, 0, 0]"
proof -
  obtain b m where r: "fd_stat fw path sp s = Ret 0 (s\<lparr>fres := b, world := w2, mem := m\<rparr>)"
    and c: "stat_contents (Volume_handle s) info sp m"
    using stat_by_path [OF assms(3-6,9,10)] assms(7) by auto
  have "size_of sys_stat_struct = 144" by code_simp
  then have d: "disjoint buf 120 sp 144" using assms(8) libc_stat_extents(2) by simp
  have "stat k fw sp path buf s = Ret 0 (s\<lparr>fres := b, world := w2, mem := copy_stat sp buf m\<rparr>)"
    using stat_copied [OF assms(1,2) r] by (simp add: Let_def)
  then show ?thesis
    using copy_stat_copies [OF d, of m] c
    by (intro exI [of _ "s\<lparr>fres := b, world := w2, mem := copy_stat sp buf m\<rparr>"])
      (simp add: status_by_name same_status_def stat_contents_def)
qed

end
