(* ===== verification/Demo.thy ===== *)
theory Demo
  imports Picture Getdelim EndToEnd
begin

text \<open>
  The demonstration program, \<open>main\<close> of \<open>src/main.c\<close>, with \<open>perror\<close> of \<open>src/nolibc/errno.h\<close>, one definition
  per test it runs, and what it relies on in the C library. What it does is theory \<open>DemoRun\<close>.
\<close>

unbundle bit_operations_syntax

section \<open>The C library\<close>

text \<open>
  \<open>stdio.h\<close>, \<open>malloc\<close>, \<open>realloc\<close> and \<open>free\<close> come from crosslibc, which is not part of the repository:
  they are parameters. A format is given with its arguments: numbers, strings in memory, and string
  literals.
\<close>

datatype print_arg = Num i32 | Str_at u64 | Str_lit string

record 'w clibc =
  puts :: "string \<Rightarrow> 'w machine \<Rightarrow> ('w machine, i32) outcome"
  putchar :: "char \<Rightarrow> 'w machine \<Rightarrow> ('w machine, i32) outcome"
  getchar :: "'w machine \<Rightarrow> ('w machine, i32) outcome"
  printf :: "string \<Rightarrow> print_arg list \<Rightarrow> 'w machine \<Rightarrow> ('w machine, i32) outcome"
  fprintf_stderr :: "string \<Rightarrow> print_arg list \<Rightarrow> 'w machine \<Rightarrow> ('w machine, i32) outcome"
  heap :: "'w heap_ops"
  free :: "u64 \<Rightarrow> 'w machine \<Rightarrow> ('w machine, unit) outcome"

definition ascii :: "string \<Rightarrow> u8 list" where
  "ascii = map of_char"

text \<open>\<open>strcpy\<close> from a string literal.\<close>

definition strcpy :: "u64 \<Rightarrow> string \<Rightarrow> 'w machine \<Rightarrow> 'w machine" where
  "strcpy dst str s = s\<lparr>mem := store_bytes dst (ascii str @ [0]) (mem s)\<rparr>"

text \<open>\<open>perror\<close> is \<open>nolibc\<close>'s own.\<close>

definition perror :: "'w clibc \<Rightarrow> u64 \<Rightarrow> 'w machine \<Rightarrow> ('w machine, unit) outcome" where
  "perror lib msg s =
     (let given = msg \<noteq> 0 \<and> load8 (mem s) msg \<noteq> 0 in
      bind_out (fprintf_stderr lib (''%s%serrno=%d'' @ [CHR 0x0A])
          [if given then Str_at msg else Str_lit '''', if given then Str_lit '': '' else Str_lit '''', Num (errno s)] s)
        (\<lambda>_ s. Ret () s))"

section \<open>The first tests\<close>

text \<open>
  Where the linker and the compiler put the string literals and the variables whose address is taken:
  two pointers into the frame of \<open>main\<close>, and the stack below it for the functions it calls.
\<close>

record main_frame =
  hello_lit :: u64
  hi_lit :: u64
  error_lit :: u64
  input_buf :: u64
  input_len :: u64
  stack :: u64

lemma up_to_end: "it \<noteq> n \<Longrightarrow> unat (n - (it + 1)) < unat (n - it)" for it n :: u32
proof -
  assume "it \<noteq> n"
  then have "n - it \<noteq> 0" by simp
  then have "unat (n - it - 1) = unat (n - it) - 1" "0 < unat (n - it)"
    by (simp_all add: unat_minus_one word_neq_0_conv unat_gt_0)
  then show ?thesis by (simp add: diff_diff_eq)
qed

function write_loop :: "kernel_hdr \<Rightarrow> 'w firmware \<Rightarrow> u64 \<Rightarrow> u32 \<Rightarrow> 'w machine \<Rightarrow> ('w machine, unit) outcome" where
  "write_loop k fw hello it s =
     (if it = 12 then Ret () s
      else bind_out (write' k fw 1 (hello + zext it) (zext (13 - it)) s) (\<lambda>_ s. write_loop k fw hello (it + 1) s))"
  by pat_completeness auto

termination by (relation "measure (\<lambda>(k, fw, hello, it, s). unat (12 - it))")
   (simp, simp only: in_measure prod.case up_to_end not_False_eq_True)

function printf_loop :: "'w clibc \<Rightarrow> u32 \<Rightarrow> 'w machine \<Rightarrow> ('w machine, unit) outcome" where
  "printf_loop lib it s =
     (if it = 16 then Ret () s
      else bind_out (printf lib ''it = %d! '' [Num it] s) (\<lambda>_ s. printf_loop lib (it + 1) s))"
  by pat_completeness auto

termination by (relation "measure (\<lambda>(lib, it, s). unat (16 - it))")
   (simp, simp only: in_measure prod.case up_to_end not_False_eq_True)

declare write_loop.simps [simp del] printf_loop.simps [simp del]

definition test_write :: "kernel_hdr \<Rightarrow> 'w firmware \<Rightarrow> 'w clibc \<Rightarrow> main_frame \<Rightarrow> 'w machine \<Rightarrow> ('w machine, unit) outcome" where
  "test_write k fw lib fr s =
     bind_out (puts lib ''Testing write() to stdout...'' s) (\<lambda>_ s.
     bind_out (write_loop k fw (hello_lit fr) 0 s) (\<lambda>_ s.
     bind_out (puts lib ''Testing bad write()...'' s) (\<lambda>_ s.
     bind_out (write' k fw 123456 (hi_lit fr) 3 s) (\<lambda>_ s.
     perror lib (error_lit fr) s))))"

definition test_printf :: "'w clibc \<Rightarrow> 'w machine \<Rightarrow> ('w machine, unit) outcome" where
  "test_printf lib s =
     bind_out (puts lib ''Testing printf()...'' s) (\<lambda>_ s.
     bind_out (printf_loop lib 0 s) (\<lambda>_ s.
     bind_out (printf lib [CHR 0x0A] [] s) (\<lambda>_ s. Ret () s)))"

definition test_malloc :: "'w clibc \<Rightarrow> 'w machine \<Rightarrow> ('w machine, unit) outcome" where
  "test_malloc lib s =
     bind_out (puts lib ''Testing malloc()...'' s) (\<lambda>_ s.
     bind_out (malloc (heap lib) 16 s) (\<lambda>mbuf s.
     let s = strcpy mbuf ''Hello'' s in
     bind_out (puts lib ''Testing free()...'' s) (\<lambda>_ s.
     free lib mbuf s)))"

definition test_getline :: "kernel_hdr \<Rightarrow> 'w firmware \<Rightarrow> 'w clibc \<Rightarrow> main_frame \<Rightarrow> 'w machine \<Rightarrow> ('w machine, unit) outcome" where
  "test_getline k fw lib fr s =
     bind_out (puts lib ''Testing getline() from stdin...'' s) (\<lambda>_ s.
     let s = s\<lparr>mem := store64 (input_buf fr) 0 (mem s)\<rparr> in
     bind_out (printf lib ''Type something in: '' [] s) (\<lambda>_ s.
     bind_out (my_getline k fw (heap lib) (stack fr) (input_buf fr) (input_len fr) 0 s) (\<lambda>_ s.
     let s = s\<lparr>mem := store8 (load64 (mem s) (input_buf fr) + (load64 (mem s) (input_len fr) - 1)) 0 (mem s)\<rparr> in
     bind_out (printf lib (''You typed in '' @ [CHR 0x27] @ ''%s'' @ [CHR 0x27, CHR 0x0A])
         [Str_at (load64 (mem s) (input_buf fr))] s) (\<lambda>_ s. Ret () s))))"

section \<open>The picture\<close>

text \<open>
  The loops around it count with \<open>float\<close> variables: \<open>y++<15\<close> after a \<open>puts("")\<close>, and
  \<open>x++<84\<close>. A loop whose body does not come back ends with it.
\<close>

definition bind_loop ::
  "('s, 'a) outcome \<Rightarrow> ('a \<Rightarrow> 's \<Rightarrow> ('s, 'b) outcome option) \<Rightarrow> ('s, 'b) outcome option" where
  "bind_loop m f =
     (case m of
        Ret a s \<Rightarrow> f a s
      | Exited st s \<Rightarrow> Some (Exited st s)
      | Reset r s \<Rightarrow> Some (Reset r s)
      | Hang s \<Rightarrow> Some (Hang s)
      | Diverge \<Rightarrow> Some Diverge
      | Undef u \<Rightarrow> Some (Undef u))"

lemma bind_loop_mono [partial_function_mono]:
  assumes "\<And>a s. monotone (fun_ord option_ord) option_ord (\<lambda>F. C F a s)"
  shows "monotone (fun_ord option_ord) option_ord (\<lambda>F. bind_loop m (C F))"
  using assms by (cases m) (auto simp: bind_loop_def monotone_def flat_ord_def)

partial_function (option) columns ::
  "'w clibc \<Rightarrow> f32 \<Rightarrow> f32 \<Rightarrow> 'w machine \<Rightarrow> ('w machine, unit) outcome option" where
  "columns lib y x s =
     (let x' = f_add x (f_int 1) in
      if f_less x (f_int 84) then
        bind_loop (putchar lib (shade (escape x' y (f_int 0) (f_int 0) 0)) s) (\<lambda>_ s. columns lib y x' s)
      else Some (Ret () s))"

partial_function (option) rows ::
  "'w clibc \<Rightarrow> f32 \<Rightarrow> 'w machine \<Rightarrow> ('w machine, unit) outcome option" where
  "rows lib y s =
     bind_loop (puts lib '''' s) (\<lambda>_ s.
       let y' = f_add y (f_int 1) in
       if f_less y (f_int 15) then
         Option.bind (columns lib y' (f_int 0) s) (\<lambda>m. bind_loop m (\<lambda>_ s. rows lib y' s))
       else Some (Ret () s))"

definition test_float :: "'w clibc \<Rightarrow> 'w machine \<Rightarrow> ('w machine, unit) outcome" where
  "test_float lib s =
     bind_out (puts lib ''Testing floating point maths...'' s) (\<lambda>_ s.
       case rows lib (f_int (- 16)) s of None \<Rightarrow> Diverge | Some m \<Rightarrow> m)"

section \<open>The program\<close>

text \<open>\<open>while (getchar() != '\n');\<close>\<close>

partial_function (option) wait_for_return ::
  "'w clibc \<Rightarrow> 'w machine \<Rightarrow> ('w machine, unit) outcome option" where
  "wait_for_return lib s =
     bind_loop (getchar lib s) (\<lambda>c s. if c = 0x0A then Some (Ret () s) else wait_for_return lib s)"

definition main ::
  "kernel_hdr \<Rightarrow> 'w firmware \<Rightarrow> 'w clibc \<Rightarrow> main_frame \<Rightarrow> 'w machine \<Rightarrow> ('w machine, i32) outcome" where
  "main k fw lib fr s =
     bind_out (test_write k fw lib fr s) (\<lambda>_ s.
     bind_out (test_printf lib s) (\<lambda>_ s.
     bind_out (test_malloc lib s) (\<lambda>_ s.
     bind_out (test_getline k fw lib fr s) (\<lambda>_ s.
     bind_out (puts lib ''Testing sleep() for 5 seconds...'' s) (\<lambda>_ s.
     bind_out (sleep k fw (stack fr) 5 s) (\<lambda>_ s.
     bind_out (test_float lib s) (\<lambda>_ s.
     bind_out (sleep k fw (stack fr) 1 s) (\<lambda>_ s.
     bind_out (puts lib ''Press return to exit.'' s) (\<lambda>_ s.
     bind_out (case wait_for_return lib s of None \<Rightarrow> Diverge | Some m \<Rightarrow> m) (\<lambda>_ s.
     bind_out (exit k fw 0 s) (\<lambda>_ s. Ret 0 s)))))))))))"

section \<open>What is relied on\<close>

text \<open>
  What the outside world shows of a run: the keys still to come, the text on the screen; addresses the
  C library leaves alone, and its allocated blocks.
\<close>

record 'w view =
  v_typed :: "'w \<Rightarrow> u16 list"
  v_shown :: "'w \<Rightarrow> u16 list"
  v_kept :: "u64 \<Rightarrow> bool"
  v_block :: "u64 \<Rightarrow> u64 \<Rightarrow> 'w machine \<Rightarrow> bool"

definition goes_on :: "'w view \<Rightarrow> 'w machine \<Rightarrow> u16 list \<Rightarrow> 'w machine \<Rightarrow> bool" where
  "goes_on V s text s' \<longleftrightarrow>
     v_typed V (world s') = v_typed V (world s) \<and> v_shown V (world s') = v_shown V (world s) @ text \<and>
     Image_handle s' = Image_handle s \<and> (\<forall>x. v_kept V x \<longrightarrow> load8 (mem s') x = load8 (mem s) x)"

text \<open>A call that comes back and has printed this text.\<close>

definition prints :: "'w view \<Rightarrow> 'w machine \<Rightarrow> u16 list \<Rightarrow> ('w machine, 'a) outcome \<Rightarrow> bool" where
  "prints V s text m \<longleftrightarrow> (\<exists>r s'. m = Ret r s' \<and> goes_on V s text s')"

text \<open>The text of a format: \<open>%d\<close> and \<open>%s\<close> stand for the next argument.\<close>

fun digits :: "nat \<Rightarrow> string" where
  "digits n = (if n < 10 then [char_of (48 + n)] else digits (n div 10) @ [char_of (48 + n mod 10)])"

declare digits.simps [simp del]

definition decimal :: "int \<Rightarrow> string" where
  "decimal n = (if n < 0 then ''-'' @ digits (nat (- n)) else digits (nat n))"

definition string_at :: "memory \<Rightarrow> u64 \<Rightarrow> u8 list \<Rightarrow> bool" where
  "string_at m p bs \<longleftrightarrow> 0 \<notin> set bs \<and> load_bytes m p (length bs + 1) = bs @ [0]"

fun arg_text :: "memory \<Rightarrow> print_arg \<Rightarrow> u8 list \<Rightarrow> bool" where
  "arg_text m (Num n) bs \<longleftrightarrow> bs = ascii (decimal (sint n))"
| "arg_text m (Str_at p) bs \<longleftrightarrow> string_at m p bs"
| "arg_text m (Str_lit str) bs \<longleftrightarrow> bs = ascii str"

fun fill :: "string \<Rightarrow> u8 list list \<Rightarrow> u8 list" where
  "fill [] ts = []"
| "fill (c # cs) ts =
     (if c = CHR ''%'' then (case (cs, ts) of (_ # cs', t # ts') \<Rightarrow> t @ fill cs' ts' | _ \<Rightarrow> [])
      else of_char c # fill cs ts)"

text \<open>A line on the screen.\<close>

definition line :: "string \<Rightarrow> u16 list" where
  "line str = console_text (ascii str @ [0x0A])"

text \<open>
  The C library's contract for this program: \<open>puts\<close>, \<open>putchar\<close>, \<open>printf\<close> and \<open>fprintf\<close> print what the C
  standard says and return, \<open>puts\<close> without destroying a block; \<open>free\<close> of a block returns; \<open>getchar\<close>
  delivers a typed key as its byte. A library that prints through the hooks of \<open>ClibcUser\<close> does not
  keep it, as a newline through them is undefined; the properties do not rest on it.
\<close>

definition library_contract :: "'w clibc \<Rightarrow> 'w view \<Rightarrow> bool" where
  "library_contract lib V \<longleftrightarrow>
     (\<forall>str s. prints V s (line str) (puts lib str s)) \<and>
     (\<forall>str s r s' q n. puts lib str s = Ret r s' \<longrightarrow> v_block V q n s \<longrightarrow> v_block V q n s') \<and>
     (\<forall>c s. prints V s (console_text [of_char c]) (putchar lib c s)) \<and>
     (\<forall>fmt args texts s. list_all2 (arg_text (mem s)) args texts \<longrightarrow>
        prints V s (console_text (fill fmt texts)) (printf lib fmt args s)) \<and>
     (\<forall>fmt args texts s. list_all2 (arg_text (mem s)) args texts \<longrightarrow>
        prints V s (console_text (fill fmt texts)) (fprintf_stderr lib fmt args s)) \<and>
     (\<forall>q n s. v_block V q n s \<longrightarrow> prints V s [] (free lib q s)) \<and>
     (\<forall>s key rest. v_typed V (world s) = key # rest \<longrightarrow> line_key key \<or> (ucast key :: u8) = 0x0D \<longrightarrow>
        (\<exists>s'. getchar lib s = Ret (ucast (key_byte key)) s' \<and> v_typed V (world s') = rest \<and>
           v_shown V (world s') = v_shown V (world s) @ key_echo key \<and> Image_handle s' = Image_handle s))"

lemma library_facts:
  assumes "library_contract lib V"
  shows "prints V s (line str) (puts lib str s)"
    and "puts lib str s = Ret r s' \<Longrightarrow> v_block V q n s \<Longrightarrow> v_block V q n s'"
    and "prints V s (console_text [of_char c]) (putchar lib c s)"
    and "list_all2 (arg_text (mem s)) args texts \<Longrightarrow> prints V s (console_text (fill fmt texts)) (printf lib fmt args s)"
    and "list_all2 (arg_text (mem s)) args texts \<Longrightarrow>
      prints V s (console_text (fill fmt texts)) (fprintf_stderr lib fmt args s)"
    and "v_block V q n s \<Longrightarrow> prints V s [] (free lib q s)"
    and "v_typed V (world s) = key # rest \<Longrightarrow> line_key key \<or> (ucast key :: u8) = 0x0D \<Longrightarrow>
      \<exists>s'. getchar lib s = Ret (ucast (key_byte key)) s' \<and> v_typed V (world s') = rest \<and>
         v_shown V (world s') = v_shown V (world s) @ key_echo key \<and> Image_handle s' = Image_handle s"
proof -
  note c = assms [unfolded library_contract_def]
  show "prints V s (line str) (puts lib str s)"
    using c [THEN conjunct1] by blast
  show "puts lib str s = Ret r s' \<Longrightarrow> v_block V q n s \<Longrightarrow> v_block V q n s'"
    using c [THEN conjunct2, THEN conjunct1] by blast
  show "prints V s (console_text [of_char c]) (putchar lib c s)"
    using c [THEN conjunct2, THEN conjunct2, THEN conjunct1] by blast
  show "list_all2 (arg_text (mem s)) args texts \<Longrightarrow> prints V s (console_text (fill fmt texts)) (printf lib fmt args s)"
    using c [THEN conjunct2, THEN conjunct2, THEN conjunct2, THEN conjunct1] by blast
  show "list_all2 (arg_text (mem s)) args texts \<Longrightarrow>
      prints V s (console_text (fill fmt texts)) (fprintf_stderr lib fmt args s)"
    using c [THEN conjunct2, THEN conjunct2, THEN conjunct2, THEN conjunct2, THEN conjunct1] by blast
  show "v_block V q n s \<Longrightarrow> prints V s [] (free lib q s)"
    using c [THEN conjunct2, THEN conjunct2, THEN conjunct2, THEN conjunct2, THEN conjunct2, THEN conjunct1] by blast
qed (use assms [unfolded library_contract_def, THEN conjunct2, THEN conjunct2, THEN conjunct2, THEN conjunct2, THEN conjunct2, THEN conjunct2] in blast)

section \<open>Printing, one call after another\<close>

lemma goes_on_refl: "goes_on V s [] s"
  by (simp add: goes_on_def)

lemma goes_on_trans: "goes_on V s t s' \<Longrightarrow> goes_on V s' t' s'' \<Longrightarrow> goes_on V s (t @ t') s''"
  by (simp add: goes_on_def)

lemma prints_Ret: "prints V s [] (Ret r s)"
  by (simp add: prints_def goes_on_refl)

lemma printsE:
  assumes "prints V s text m"
  obtains r s' where "m = Ret r s'" and "goes_on V s text s'"
  using assms by (auto simp: prints_def)

lemma prints_bind:
  assumes "prints V s t m" and "\<And>r s'. m = Ret r s' \<Longrightarrow> goes_on V s t s' \<Longrightarrow> prints V s' t' (f r s')"
  shows "prints V s (t @ t') (bind_out m f)"
proof -
  obtain r s' where m: "m = Ret r s'" "goes_on V s t s'" using assms(1) by (rule printsE)
  obtain r' s'' where f: "f r s' = Ret r' s''" "goes_on V s' t' s''" using assms(2) [OF m] by (rule printsE)
  show ?thesis using m f goes_on_trans [OF m(2) f(2)] by (simp add: prints_def)
qed

lemma prints_bind_nil:
  assumes "prints V s t m" and "\<And>r s'. m = Ret r s' \<Longrightarrow> goes_on V s t s' \<Longrightarrow> prints V s' [] (f r s')"
  shows "prints V s t (bind_out m f)"
  using prints_bind [OF assms] by simp

text \<open>Memory that must be kept only for a while.\<close>

abbreviation loosely :: "'w view \<Rightarrow> 'w view" where
  "loosely V \<equiv> V\<lparr>v_kept := \<lambda>_. False\<rparr>"

lemma prints_loosely: "prints V s text m \<Longrightarrow> prints (loosely V) s text m"
  by (auto simp: prints_def goes_on_def)

lemma prints_mem: "prints (loosely V) (s\<lparr>mem := m\<rparr>) text o' \<Longrightarrow> prints (loosely V) s text o'"
  by (auto simp: prints_def goes_on_def)

lemma kept_bytes:
  assumes "goes_on V s text s'" and "\<And>x. in_range p n x \<Longrightarrow> v_kept V x" and "n \<le> 2 ^ 64"
  shows "load_bytes (mem s') p n = load_bytes (mem s) p n"
  by (rule load_bytes_cong) (use assms in \<open>auto simp: goes_on_def\<close>)

end
