(* ===== verification/DemoRun.thy ===== *)
theory DemoRun
  imports Demo
begin

text \<open>
  What the demonstration program does. First, on output functions that print by themselves: the text
  each of its tests prints, that each of them comes back, and the whole run, from \<open>efi_main\<close> to the
  exit of the image. Then, on the hooks of the repository, through which crosslibc prints: the whole run
  ends at its first line, and a row of the picture is printed.
\<close>

unbundle bit_operations_syntax

section \<open>Writing\<close>

text \<open>\<open>write\<close> to the console prints; what it returns is of no interest here.\<close>

lemma write_prints:
  assumes "x86_64 k" and "console_contract fw (v_typed V) (v_shown V)" and "unat n < 2 ^ 31"
    and "bs = load_bytes (mem s) buf (unat n)" and "b \<in> set bs" and "b \<noteq> 0x0A" and "buf \<noteq> 0"
  shows "prints V s (console_text bs) (write' k fw 1 buf n s)"
proof -
  obtain status w where o: "out_string fw (console_text bs) (world s) = (status, w)"
    by (cases "out_string fw (console_text bs) (world s)")
  have w: "v_typed V w = v_typed V (world s)" "v_shown V w = v_shown V (world s) @ console_text bs"
    using console_calls(1) [OF assms(2) o] by simp_all
  have "write_console fw buf n s = Ret (check_status (hdr fw) status n) (s\<lparr>world := w\<rparr>)"
    using write_console_eq [OF assms(3,4), of fw] assms(5-7) o by auto
  then have "sys_write k fw 1 buf n s = Ret (check_status (hdr fw) status n) (s\<lparr>world := w\<rparr>)"
    by (simp add: sys_write_def x86_64_facts [OF assms(1)] my_syscall_def syscall_table with_args_def fd_write_def)
  then show ?thesis
    using w by (auto simp: write'_def ret_errno_def SET_ERRNO_def prints_def goes_on_def)
qed

definition hello :: "u8 list" where
  "hello = ascii (''Hello world!'' @ [CHR 0x0A])"

text \<open>The literals the memory holds, away from the null address, and that the C library leaves alone.\<close>

definition literals :: "main_frame \<Rightarrow> 'w view \<Rightarrow> 'w machine \<Rightarrow> bool" where
  "literals fr V s \<longleftrightarrow>
     load_bytes (mem s) (hello_lit fr) 13 = hello \<and> \<not> in_range (hello_lit fr) 13 0 \<and> error_lit fr \<noteq> 0 \<and>
     load_bytes (mem s) (error_lit fr) 6 = ascii ''Error'' @ [0] \<and>
     (\<forall>x. in_range (hello_lit fr) 13 x \<or> in_range (error_lit fr) 6 x \<longrightarrow> v_kept V x)"

lemma literals_kept: "literals fr V s \<Longrightarrow> goes_on V s text s' \<Longrightarrow> literals fr V s'"
  unfolding literals_def using kept_bytes [of V s "text" s'] by simp

lemma load_bytes_drop: "n \<le> k \<Longrightarrow> load_bytes m (p + of_nat n) (k - n) = drop n (load_bytes m p k)"
  using load_bytes_append [of m p n "k - n"] by simp

lemma write_loop_prints:
  assumes "x86_64 k" and "console_contract fw (v_typed V) (v_shown V)"
    and "literals fr V s" and "i \<le> 12"
  shows "prints V s (concat (map (\<lambda>i. console_text (drop i hello)) [i..<12])) (write_loop k fw (hello_lit fr) (of_nat i) s)"
  using assms(3,4)
proof (induction "12 - i" arbitrary: i s)
  case 0
  then have i: "i = 12" by simp
  show ?case unfolding i by (simp add: write_loop.simps prints_Ret)
next
  case (Suc d)
  then have lt: "i < 12" by simp
  let ?p = "hello_lit fr + zext (of_nat i :: u32)"
  have z: "zext (of_nat i :: u32) = of_nat i" using lt by (simp add: zext_of_nat)
  have ne: "(of_nat i :: u32) \<noteq> 12"
  proof
    assume "(of_nat i :: u32) = 12"
    then have "unat (of_nat i :: u32) = 12" by simp
    then show False using lt by (simp add: unat_of_nat)
  qed
  have n: "unat (zext (13 - of_nat i :: u32)) = 13 - i"
  proof -
    have u: "unat (of_nat i :: u32) = i" using lt by (simp add: unat_of_nat)
    then have "(of_nat i :: u32) \<le> 13" using lt by (simp add: word_le_nat_alt)
    then have "unat (13 - of_nat i :: u32) = 13 - i" using u by (simp add: unat_sub)
    then show ?thesis by (simp only: unat_zext32)
  qed
  have "load_bytes (mem s) ?p (13 - i) = drop i hello"
    using load_bytes_drop [of i 13 "mem s" "hello_lit fr"] Suc.prems(1) lt by (simp add: z literals_def)
  moreover have "of_char CHR ''!'' \<in> set (drop i hello)"
  proof -
    have "drop i hello ! (11 - i) = of_char CHR ''!''" using lt by (simp add: hello_def ascii_def)
    moreover have "11 - i < length (drop i hello)" using lt by (simp add: hello_def ascii_def)
    ultimately show ?thesis by (metis nth_mem)
  qed
  moreover have "(of_char CHR ''!'' :: u8) \<noteq> 0x0A" by simp
  moreover have "?p \<noteq> 0"
  proof
    assume "?p = 0"
    then have "in_range (hello_lit fr) 13 (hello_lit fr + of_nat i) = in_range (hello_lit fr) 13 0" by (simp only: z)
    moreover have "unat (of_nat i :: u64) = i" using lt by (intro unat_of_nat_u64) simp
    ultimately show False using Suc.prems(1) lt by (simp add: literals_def in_range_def)
  qed
  ultimately have "prints V s (console_text (drop i hello)) (write' k fw 1 ?p (zext (13 - of_nat i :: u32)) s)"
    by (intro write_prints [OF assms(1,2), where b = "of_char CHR ''!''"]) (simp_all add: n)
  then have "prints V s (console_text (drop i hello) @ concat (map (\<lambda>i. console_text (drop i hello)) [Suc i..<12]))
     (bind_out (write' k fw 1 ?p (zext (13 - of_nat i :: u32)) s) (\<lambda>_ s. write_loop k fw (hello_lit fr) (of_nat i + 1) s))"
  proof (rule prints_bind)
    fix r s' assume g: "goes_on V s (console_text (drop i hello)) s'"
    show "prints V s' (concat (map (\<lambda>i. console_text (drop i hello)) [Suc i..<12])) (write_loop k fw (hello_lit fr) (of_nat i + 1) s')"
      using Suc.hyps(1) [of "Suc i" s'] Suc.hyps(2) literals_kept [OF Suc.prems(1) g] lt by (simp add: add.commute)
  qed
  moreover have "[i..<12] = i # [Suc i..<12]" using lt by (simp add: upt_rec)
  ultimately show ?case
    using ne by (subst write_loop.simps) simp
qed

lemma bad_write:
  assumes "x86_64 k"
  shows "write' k fw 123456 p n s = Ret (- 1) (s\<lparr>errno := 9\<rparr>)"
  by (simp add: write'_def sys_write_def x86_64_facts [OF assms] my_syscall_def syscall_table with_args_def
     fd_write_def ret_errno_def SET_ERRNO_def)

lemma perror_prints:
  assumes "library_contract lib V" and "literals fr V s" and "errno s = 9"
  shows "prints V s (line ''Error: errno=9'') (perror lib (error_lit fr) s)"
proof -
  have e: "load_bytes (mem s) (error_lit fr) 6 = ascii ''Error'' @ [0]" "error_lit fr \<noteq> 0"
    using assms(2) by (simp_all add: literals_def)
  have "hd (load_bytes (mem s) (error_lit fr) 6) = load8 (mem s) (error_lit fr)" by (simp add: numeral_eq_Suc)
  then have nz: "load8 (mem s) (error_lit fr) \<noteq> 0" unfolding e(1) by (simp add: ascii_def)
  have len: "length (ascii ''Error'') + 1 = 6" by (simp add: ascii_def)
  have "string_at (mem s) (error_lit fr) (ascii ''Error'')"
    unfolding string_at_def len e(1) by (simp add: ascii_def)
  moreover have "decimal 9 = ''9''" by (simp add: decimal_def digits.simps char_of_def bit_Suc_0_iff)
  ultimately have "list_all2 (arg_text (mem s)) [Str_at (error_lit fr), Str_lit '': '', Num (errno s)]
      [ascii ''Error'', ascii '': '', ascii ''9'']"
    using assms(3) by simp
  note library_facts(5) [OF assms(1) this, of "''%s%serrno=%d'' @ [CHR 0x0A]"]
  then show ?thesis
    using e(2) nz by (auto simp: perror_def line_def ascii_def prints_Ret intro!: prints_bind_nil)
qed

section \<open>The tests\<close>

definition write_text :: "u16 list" where
  "write_text = line ''Testing write() to stdout...'' @ concat (map (\<lambda>i. console_text (drop i hello)) [0..<12]) @
     line ''Testing bad write()...'' @ line ''Error: errno=9''"

lemma test_write_prints:
  assumes "x86_64 k" and "console_contract fw (v_typed V) (v_shown V)" and "library_contract lib V"
    and "literals fr V s"
  shows "prints V s write_text (test_write k fw lib fr s)"
  unfolding test_write_def write_text_def
proof (intro prints_bind library_facts(1) [OF assms(3)])
  fix r1 s1 assume g1: "goes_on V s (line ''Testing write() to stdout...'') s1"
  then have l1: "literals fr V s1" by (rule literals_kept [OF assms(4)])
  show "prints V s1 (concat (map (\<lambda>i. console_text (drop i hello)) [0..<12])) (write_loop k fw (hello_lit fr) 0 s1)"
    using write_loop_prints [OF assms(1,2) l1, of 0] by simp
  fix r2 s2 assume g2: "goes_on V s1 (concat (map (\<lambda>i. console_text (drop i hello)) [0..<12])) s2"
  fix r3 s3 assume g3: "goes_on V s2 (line ''Testing bad write()...'') s3"
  let ?s = "s3\<lparr>errno := 9\<rparr>"
  have "literals fr V ?s"
    using literals_kept [OF literals_kept [OF l1 g2] g3] by (simp add: literals_def)
  then have "prints V ?s (line ''Error: errno=9'') (perror lib (error_lit fr) ?s)"
    by (intro perror_prints [OF assms(3)]) simp_all
  then show "prints V s3 (line ''Error: errno=9'')
      (bind_out (write' k fw 123456 (hi_lit fr) 3 s3) (\<lambda>_ s. perror lib (error_lit fr) s))"
    by (auto simp: bad_write [OF assms(1)] prints_def goes_on_def)
qed

definition count_text :: "nat \<Rightarrow> u16 list" where
  "count_text i = console_text (ascii (''it = '' @ decimal (int i) @ ''! ''))"

definition printf_text :: "u16 list" where
  "printf_text = line ''Testing printf()...'' @ concat (map count_text [0..<16]) @ line ''''"

lemma printf_loop_prints:
  assumes "library_contract lib V" and "i \<le> 16"
  shows "prints V s (concat (map count_text [i..<16])) (printf_loop lib (of_nat i) s)"
  using assms(2)
proof (induction "16 - i" arbitrary: i s)
  case 0
  then have i: "i = 16" by simp
  show ?case unfolding i by (simp add: printf_loop.simps prints_Ret)
next
  case (Suc d)
  then have lt: "i < 16" by simp
  have u: "unat (of_nat i :: u32) = i" using lt by (simp add: unat_of_nat)
  then have ne: "(of_nat i :: u32) \<noteq> 16" using lt by auto
  have "sint (of_nat i :: u32) = int i" using lt by (simp add: signed_of_nat signed_take_bit_int_eq_self)
  then have "list_all2 (arg_text (mem s)) [Num (of_nat i)] [ascii (decimal (int i))]" by simp
  from library_facts(4) [OF assms(1) this, of "''it = %d! ''"]
  have "prints V s (count_text i) (printf lib ''it = %d! '' [Num (of_nat i)] s)"
    by (simp add: ascii_def count_text_def)
  then have "prints V s (count_text i @ concat (map count_text [Suc i..<16]))
    (bind_out (printf lib ''it = %d! '' [Num (of_nat i)] s) (\<lambda>_ s. printf_loop lib (of_nat i + 1) s))"
  proof (rule prints_bind)
    fix r and s' :: "'a machine"
    show "prints V s' (concat (map count_text [Suc i..<16])) (printf_loop lib (of_nat i + 1) s')"
      using Suc.hyps(1) [of "Suc i" s'] Suc.hyps(2) lt by (simp add: add.commute)
  qed
  moreover have "[i..<16] = i # [Suc i..<16]" using lt by (simp add: upt_rec)
  ultimately show ?case using ne by (subst printf_loop.simps) simp
qed

lemma test_printf_prints:
  assumes "library_contract lib V"
  shows "prints V s printf_text (test_printf lib s)"
  unfolding test_printf_def printf_text_def
proof (intro prints_bind prints_bind_nil library_facts(1) [OF assms] prints_Ret)
  fix s1 :: "'a machine"
  show "prints V s1 (concat (map count_text [0..<16])) (printf_loop lib 0 s1)"
    using printf_loop_prints [OF assms, of 0 s1] by simp
  fix s2 :: "'a machine"
  show "prints V s2 (line '''') (printf lib [CHR 0x0A] [] s2)"
    using library_facts(4) [OF assms, of s2 "[]" "[]" "[CHR 0x0A]"] by (simp add: line_def ascii_def)
qed

definition malloc_text :: "u16 list" where
  "malloc_text = line ''Testing malloc()...'' @ line ''Testing free()...''"

lemma test_malloc_prints:
  assumes "library_contract lib V"
    and "heap_contract (heap lib) (v_block V) protected limit (\<lambda>w. (v_typed V w, v_shown V w))" and "16 \<le> limit"
  shows "prints (loosely V) s malloc_text (test_malloc lib s)"
proof -
  have puts: "prints (loosely V) s (line str) (puts lib str s)" for str s
    by (rule prints_loosely [OF library_facts(1) [OF assms(1)]])
  have "prints (loosely V) s1 (line ''Testing free()...'')
      (bind_out (malloc (heap lib) 16 s1) (\<lambda>mbuf s. let s = strcpy mbuf ''Hello'' s in
         bind_out (puts lib ''Testing free()...'' s) (\<lambda>_ s. free lib mbuf s)))" for s1
  proof -
    from heap_facts(4) [OF assms(2,3), of s1] obtain q m w
      where q: "malloc (heap lib) 16 s1 = Ret q (s1\<lparr>mem := m, world := w\<rparr>)"
        "v_block V q 16 (s1\<lparr>mem := m, world := w\<rparr>)"
        "v_typed V w = v_typed V (world s1)" "v_shown V w = v_shown V (world s1)"
      by blast
    let ?s = "strcpy q ''Hello'' (s1\<lparr>mem := m, world := w\<rparr>)"
    have b: "v_block V q 16 ?s"
      using block_store_bytes [OF assms(2) q(2), of q "ascii ''Hello'' @ [0]"]
      by (simp add: strcpy_def ascii_def in_range_def)
    have "prints (loosely V) ?s (line ''Testing free()...'')
        (bind_out (puts lib ''Testing free()...'' ?s) (\<lambda>_ s. free lib q s))"
    proof (rule prints_bind_nil [OF puts])
      fix r s' assume "puts lib ''Testing free()...'' ?s = Ret r s'"
      then have "v_block V q 16 s'" using library_facts(2) [OF assms(1)] b by blast
      then show "prints (loosely V) s' [] (free lib q s')"
        by (intro prints_loosely library_facts(6) [OF assms(1)])
    qed
    then show ?thesis using q by (auto simp: prints_def goes_on_def strcpy_def)
  qed
  then show ?thesis
    unfolding test_malloc_def malloc_text_def by (intro prints_bind puts)
qed

text \<open>The line is echoed as it is typed, and printed again without its newline.\<close>

definition getline_text :: "u16 list \<Rightarrow> u16 \<Rightarrow> u16 list" where
  "getline_text ks ret = line ''Testing getline() from stdin...'' @ console_text (ascii ''Type something in: '') @
     echo ks @ before_nul [ret] @ [0x0A] @
     console_text (ascii (''You typed in '' @ [CHR 0x27]) @ map ucast ks @ ascii [CHR 0x27, CHR 0x0A])"

text \<open>Overwriting the newline.\<close>

lemma cut_newline:
  assumes "heap_contract hp block (own_variables out out_size sp) limit view"
    and "line_done block out out_size (bs @ [0x0A]) s" and "0 \<notin> set bs" and "length bs + 2 < 2 ^ 64"
    and "m = store8 (load64 (mem s) out + (load64 (mem s) out_size - 1)) 0 (mem s)"
  shows "string_at m (load64 m out) bs"
proof -
  let ?p = "load64 (mem s) out" and ?n = "length bs"
  have l: "load_bytes (mem s) ?p (?n + 2) = bs @ [0x0A, 0]" "load64 (mem s) out_size = of_nat (?n + 1)"
    "block ?p (of_nat (?n + 2)) s"
    using assms(2) by (simp_all add: line_done_def)
  have m: "m = store8 (?p + of_nat ?n) 0 (mem s)"
    unfolding assms(5) l(2) by simp
  have sz: "unat (of_nat (?n + 2) :: u64) = ?n + 2" "unat (of_nat ?n :: u64) = ?n"
    using assms(4) by (simp_all only: unat_of_nat_u64 add_lessD1)
  have "in_range ?p (unat (of_nat (?n + 2) :: u64)) (?p + of_nat ?n)"
    unfolding sz(1) using sz(2) by (simp add: in_range_def)
  then have "\<not> own_variables out out_size sp (?p + of_nat ?n)"
    using heap_facts(1) [OF assms(1) l(3)] by blast
  then have ptr: "load64 m out = ?p"
    unfolding m by (intro load64_store8_other) (simp add: own_variables_def)
  have "load_bytes (mem s) ?p ?n = bs"
    using l(1) by (simp only: load_bytes_append) (metis append_eq_append_conv length_load_bytes)
  then have "load_bytes m ?p (?n + 1) = bs @ [0]"
    unfolding m using load_bytes_snoc [of ?n ?p 0 "mem s"] assms(4) by simp
  then show ?thesis using assms(3) ptr by (simp add: string_at_def)
qed

lemma test_getline_prints:
  assumes x86: "x86_64 k" and con: "console_contract fw (v_typed V) (v_shown V)" and lib: "library_contract lib V"
    and h: "heap_contract (heap lib) (v_block V) (own_variables (input_buf fr) (input_len fr) (stack fr)) limit
        (\<lambda>w. (v_typed V w, v_shown V w))"
    and sep: "separate (input_buf fr) (input_len fr) (stack fr)"
    and kept: "\<And>x. in_range (input_buf fr) 8 x \<Longrightarrow> v_kept V x"
    and keys: "v_typed V (world s) = ks @ ret # rest" "(ucast ret :: u8) = 0x0D"
      "\<forall>key \<in> set ks. line_key key \<and> (ucast key :: u8) \<noteq> 0" "length ks + 2 \<le> unat limit"
  shows "\<exists>s'. test_getline k fw lib fr s = Ret () s' \<and> v_typed V (world s') = rest \<and>
    v_shown V (world s') = v_shown V (world s) @ getline_text ks ret \<and> Image_handle s' = Image_handle s"
proof -
  obtain r1 s1 where 1: "puts lib ''Testing getline() from stdin...'' s = Ret r1 s1"
      "goes_on V s (line ''Testing getline() from stdin...'') s1"
    using library_facts(1) [OF lib] by (rule printsE)
  let ?s1 = "s1\<lparr>mem := store64 (input_buf fr) 0 (mem s1)\<rparr>"
  have "prints V ?s1 (console_text (ascii ''Type something in: '')) (printf lib ''Type something in: '' [] ?s1)"
    using library_facts(4) [OF lib, of ?s1 "[]" "[]" "''Type something in: ''"] by (simp add: ascii_def)
  then obtain r2 s2 where 2: "printf lib ''Type something in: '' [] ?s1 = Ret r2 s2"
      "goes_on V ?s1 (console_text (ascii ''Type something in: '')) s2"
    by (rule printsE)
  have "load64 (mem s2) (input_buf fr) = load64 (mem ?s1) (input_buf fr)"
    by (rule load64_cong) (use 2(2) kept in \<open>auto simp: goes_on_def\<close>)
  then have null: "load64 (mem s2) (input_buf fr) = 0" by (simp add: mem_simps)
  have typed: "v_typed V (world s2) = ks @ ret # rest"
    using 1(2) 2(2) keys(1) by (simp add: goes_on_def)
  have nr: "nr k ''read'' = Some 0" using x86_64_facts [OF x86] by simp
  have lk: "\<forall>key \<in> set ks. line_key key" using keys(3) by blast
  obtain s3 where 3: "my_getline k fw (heap lib) (stack fr) (input_buf fr) (input_len fr) 0 s2 = Ret (of_nat (length ks + 2)) s3"
      "line_done (v_block V) (input_buf fr) (input_len fr) (map ucast ks @ [0x0A]) s3" "frame s3 = frame s2"
      "v_typed V (world s3) = rest" "v_shown V (world s3) = v_shown V (world s2) @ echo ks @ before_nul [ret] @ [0x0A]"
    using getline_line [OF h sep con nr null typed keys(2) lk keys(4)] by blast
  let ?m = "store8 (load64 (mem s3) (input_buf fr) + (load64 (mem s3) (input_len fr) - 1)) 0 (mem s3)"
  let ?s3 = "s3\<lparr>mem := ?m\<rparr>"
  have "string_at ?m (load64 ?m (input_buf fr)) (map ucast ks)"
    using keys(3,4) unsigned_less [of limit, where 'a = nat]
    by (intro cut_newline [OF h 3(2) _ _ refl]) auto
  then have "list_all2 (arg_text (mem ?s3)) [Str_at (load64 (mem ?s3) (input_buf fr))] [map ucast ks]" by simp
  from library_facts(4) [OF lib this, of "''You typed in '' @ [CHR 0x27] @ ''%s'' @ [CHR 0x27, CHR 0x0A]"]
  have "prints V ?s3 (console_text (ascii (''You typed in '' @ [CHR 0x27]) @ map ucast ks @ ascii [CHR 0x27, CHR 0x0A]))
      (printf lib (''You typed in '' @ [CHR 0x27] @ ''%s'' @ [CHR 0x27, CHR 0x0A]) [Str_at (load64 (mem ?s3) (input_buf fr))] ?s3)"
    by (simp add: ascii_def)
  then obtain r4 s4 where 4: "printf lib (''You typed in '' @ [CHR 0x27] @ ''%s'' @ [CHR 0x27, CHR 0x0A])
        [Str_at (load64 (mem ?s3) (input_buf fr))] ?s3 = Ret r4 s4"
      "goes_on V ?s3 (console_text (ascii (''You typed in '' @ [CHR 0x27]) @ map ucast ks @ ascii [CHR 0x27, CHR 0x0A])) s4"
    by (rule printsE)
  have "test_getline k fw lib fr s = Ret () s4"
    unfolding test_getline_def Let_def by (simp only: 1 2 3 4 bind_out.simps machine.select_convs simp_thms) 
  moreover have "v_typed V (world s4) = rest"
    "v_shown V (world s4) = v_shown V (world s) @ getline_text ks ret" "Image_handle s4 = Image_handle s"
    using 1(2) 2(2) 3(3-5) 4(2) by (simp_all add: goes_on_def getline_text_def frame_def)
  ultimately show ?thesis by blast
qed

section \<open>The picture\<close>

definition pixel :: "int \<Rightarrow> int \<Rightarrow> char" where
  "pixel a b = shade (of_nat (escape_time (f_int a) (f_int b)))"

definition row_text :: "int \<Rightarrow> u16 list" where
  "row_text b = concat (map (\<lambda>a. console_text [of_char (pixel a b)]) [1..84])"

definition picture_text :: "u16 list" where
  "picture_text = line ''Testing floating point maths...'' @ concat (map (\<lambda>b. line '''' @ row_text b) [-15..15]) @ line ''''"

text \<open>A loop that ends, having printed this text.\<close>

definition loop_prints :: "'w view \<Rightarrow> 'w machine \<Rightarrow> u16 list \<Rightarrow> ('w machine, 'a) outcome option \<Rightarrow> bool" where
  "loop_prints V s text x \<longleftrightarrow> (\<exists>m. x = Some m \<and> prints V s text m)"

lemma loop_prints_bind:
  assumes "prints V s t m" and "\<And>r s'. m = Ret r s' \<Longrightarrow> goes_on V s t s' \<Longrightarrow> loop_prints V s' t' (f r s')"
  shows "loop_prints V s (t @ t') (bind_loop m f)"
proof -
  obtain r s' where m: "m = Ret r s'" "goes_on V s t s'" using assms(1) by (rule printsE)
  obtain m' where m': "f r s' = Some m'" "prints V s' t' m'" using assms(2) [OF m] by (auto simp: loop_prints_def)
  obtain r' s'' where "m' = Ret r' s''" "goes_on V s' t' s''" using m'(2) by (rule printsE)
  then have "prints V s (t @ t') m'" using goes_on_trans [OF m(2)] by (auto simp: prints_def)
  then show ?thesis using m m' by (simp add: loop_prints_def bind_loop_def)
qed

lemma loop_prints_out: "loop_prints V s text x \<Longrightarrow> prints V s text (case x of None \<Rightarrow> Diverge | Some m \<Rightarrow> m)"
  by (auto simp: loop_prints_def)

lemma columns_print:
  assumes lib: "\<And>k s. prints V s (console_text [of_char (shade k)]) (putchar lib (shade k) s)" and "0 \<le> n" and "n \<le> 84"
  shows "loop_prints V s (concat (map (\<lambda>a. console_text [of_char (pixel a b)]) [n + 1..84])) (columns lib (f_int b) (f_int n) s)"
  using assms(2,3)
proof (induction "nat (84 - n)" arbitrary: n s)
  case 0
  then have n: "n = 84" by simp
  show ?case
    unfolding n by (subst columns.simps) (simp add: f_less_int loop_prints_def prints_Ret Let_def)
next
  case (Suc d)
  then have lt: "n < 84" by simp
  have add: "f_add (f_int n) (f_int 1) = f_int (n + 1)" and less: "f_less (f_int n) (f_int 84)"
    using Suc.prems lt by (simp_all add: f_add_int f_less_int)
  have up: "[n + 1..84] = (n + 1) # [n + 1 + 1..84]" using lt by (simp add: upto_rec1)
  have "loop_prints V s (console_text [of_char (pixel (n + 1) b)] @ concat (map (\<lambda>a. console_text [of_char (pixel a b)]) [n + 1 + 1..84]))
     (bind_loop (putchar lib (pixel (n + 1) b) s) (\<lambda>_ s. columns lib (f_int b) (f_int (n + 1)) s))"
    unfolding pixel_def [of "n + 1"]
  proof (rule loop_prints_bind [OF lib])
    fix r s'
    show "loop_prints V s' (concat (map (\<lambda>a. console_text [of_char (pixel a b)]) [n + 1 + 1..84])) (columns lib (f_int b) (f_int (n + 1)) s')"
      by (rule Suc.hyps(1)) (use Suc.hyps(2) Suc.prems lt in simp_all)
  qed
  then show ?case
    unfolding up using less by (subst columns.simps) (simp add: add escape_eq pixel_def Let_def)
qed

lemma rows_print:
  assumes "library_contract lib V" and "- 16 \<le> n" and "n \<le> 15"
  shows "loop_prints V s (concat (map (\<lambda>b. line '''' @ row_text b) [n + 1..15]) @ line '''') (rows lib (f_int n) s)"
  using assms(2,3)
proof (induction "nat (15 - n)" arbitrary: n s)
  case 0
  then have n: "n = 15" by simp
  have "loop_prints V s (line '''' @ []) (bind_loop (puts lib '''' s) (\<lambda>_ s. Some (Ret () s)))"
    by (rule loop_prints_bind [OF library_facts(1) [OF assms(1)]]) (simp add: loop_prints_def prints_Ret)
  then show ?case
    unfolding n by (subst rows.simps) (simp add: f_less_int Let_def)
next
  case (Suc d)
  then have lt: "n < 15" by simp
  have add: "f_add (f_int n) (f_int 1) = f_int (n + 1)" and less: "f_less (f_int n) (f_int 15)"
    using Suc.prems lt by (simp_all add: f_add_int f_less_int)
  have up: "[n + 1..15] = (n + 1) # [n + 1 + 1..15]" using lt by (simp add: upto_rec1)
  let ?rest = "concat (map (\<lambda>b. line '''' @ row_text b) [n + 1 + 1..15]) @ line ''''"
  have "loop_prints V s (line '''' @ row_text (n + 1) @ ?rest)
    (bind_loop (puts lib '''' s) (\<lambda>_ s. Option.bind (columns lib (f_int (n + 1)) (f_int 0) s)
        (\<lambda>m. bind_loop m (\<lambda>_ s. rows lib (f_int (n + 1)) s))))"
  proof (rule loop_prints_bind [OF library_facts(1) [OF assms(1)]])
    fix r s'
    obtain m where m: "columns lib (f_int (n + 1)) (f_int 0) s' = Some m" "prints V s' (row_text (n + 1)) m"
      using columns_print [of V lib 0 s' "n + 1"] library_facts(3) [OF assms(1)] by (auto simp: loop_prints_def row_text_def)
    have "loop_prints V s' (row_text (n + 1) @ ?rest) (bind_loop m (\<lambda>_ s. rows lib (f_int (n + 1)) s))"
    proof (rule loop_prints_bind [OF m(2)])
      fix r' s''
      show "loop_prints V s'' ?rest (rows lib (f_int (n + 1)) s'')"
        by (rule Suc.hyps(1)) (use Suc.hyps(2) Suc.prems lt in simp_all)
    qed
    then show "loop_prints V s' (row_text (n + 1) @ ?rest) (Option.bind (columns lib (f_int (n + 1)) (f_int 0) s')
        (\<lambda>m. bind_loop m (\<lambda>_ s. rows lib (f_int (n + 1)) s)))"
      by (simp add: m(1))
  qed
  then show ?case
    unfolding up using less by (subst rows.simps) (simp add: add Let_def)
qed

lemma test_float_prints:
  assumes "library_contract lib V"
  shows "prints V s picture_text (test_float lib s)"
  unfolding test_float_def picture_text_def
proof (rule prints_bind [OF library_facts(1) [OF assms]])
  fix r s'
  show "prints V s' (concat (map (\<lambda>b. line '''' @ row_text b) [-15..15]) @ line '''')
      (case rows lib (f_int (- 16)) s' of None \<Rightarrow> Diverge | Some m \<Rightarrow> m)"
    using rows_print [OF assms, of "- 16" s'] by (intro loop_prints_out) simp
qed

section \<open>The end\<close>

lemma sleep_prints:
  assumes "x86_64 k" and "console_contract fw (v_typed V) (v_shown V)" and "sp \<noteq> 0"
  shows "prints (loosely V) s [] (sleep k fw sp n s)"
proof -
  obtain status w where st: "stall fw (zext n * 1000000 + 0) (world s) = (status, w)"
    by (cases "stall fw (zext n * 1000000 + 0) (world s)")
  have "v_typed V w = v_typed V (world s)" "v_shown V w = v_shown V (world s)"
    using console_calls(2) [OF assms(2) st] by simp_all
  then show ?thesis
    using timed_wait [OF assms(1) st assms(3), of "sp - 256"] by (simp add: sleep_def prints_def goes_on_def)
qed

lemma wait_for_return_ends:
  assumes "library_contract lib V" and "(ucast ret :: u8) = 0x0D"
    and "\<forall>key \<in> set ks. line_key key" and "v_typed V (world s) = ks @ ret # rest"
  shows "\<exists>s'. wait_for_return lib s = Some (Ret () s') \<and> v_typed V (world s') = rest \<and>
    v_shown V (world s') = v_shown V (world s) @ concat (map key_echo (ks @ [ret])) \<and> Image_handle s' = Image_handle s"
  using assms(3,4)
proof (induction ks arbitrary: s)
  case Nil
  then obtain s' where "getchar lib s = Ret (ucast (key_byte ret)) s'" "v_typed V (world s') = rest"
      "v_shown V (world s') = v_shown V (world s) @ key_echo ret" "Image_handle s' = Image_handle s"
    using library_facts(7) [OF assms(1), of s ret rest] assms(2) by auto
  moreover have "key_byte ret = 0x0A" using assms(2) by (simp add: key_byte_def)
  ultimately show ?case by (subst wait_for_return.simps) (simp add: bind_loop_def)
next
  case (Cons key ks)
  then obtain s1 where s1: "getchar lib s = Ret (ucast (key_byte key)) s1" "v_typed V (world s1) = ks @ ret # rest"
      "v_shown V (world s1) = v_shown V (world s) @ key_echo key" "Image_handle s1 = Image_handle s"
    using library_facts(7) [OF assms(1), of s key "ks @ ret # rest"] by auto
  have "key_byte key \<noteq> 0x0A" using Cons.prems(1) by (auto simp: line_key_def plain_key_def key_byte_def)
  moreover have "ucast (ucast (key_byte key) :: i32) = key_byte key"
    by (rule bit_word_eqI) (auto simp: bit_ucast_iff dest: bit_imp_le_length)
  ultimately have "(ucast (key_byte key) :: i32) \<noteq> 0x0A" by (intro notI) simp
  then show ?case
    using Cons.IH [OF _ s1(2)] Cons.prems(1) s1 by (subst wait_for_return.simps) (simp add: bind_loop_def)
qed

lemma exit_success:
  assumes "x86_64 k" and "bs_exit fw (Image_handle s) (EFI_SUCCESS (hdr fw)) (world s) = (True, w)"
  shows "exit k fw 0 s = Exited (EFI_SUCCESS (hdr fw)) (s\<lparr>world := w\<rparr>)"
  using assms(2)
  by (simp add: exit_def sys_exit_def x86_64_facts [OF assms(1)] my_syscall_def syscall_table with_args_def
      proc_exit_def exit_image_def)

section \<open>The whole run\<close>

definition demo_text :: "u16 list \<Rightarrow> u16 \<Rightarrow> u16 list \<Rightarrow> u16 \<Rightarrow> u16 list" where
  "demo_text ks ret js ret' = write_text @ printf_text @ malloc_text @ getline_text ks ret @
     line ''Testing sleep() for 5 seconds...'' @ picture_text @ line ''Press return to exit.'' @
     concat (map key_echo (js @ [ret']))"

text \<open>What a run relies on besides its memory and keys.\<close>

definition environment ::
  "kernel_hdr \<Rightarrow> 'w firmware \<Rightarrow> 'w clibc \<Rightarrow> main_frame \<Rightarrow> 'w view \<Rightarrow> nat \<Rightarrow> bool" where
  "environment k fw lib fr V n \<longleftrightarrow>
     x86_64 k \<and> console_contract fw (v_typed V) (v_shown V) \<and> library_contract lib V \<and>
     separate (input_buf fr) (input_len fr) (stack fr) \<and> (\<forall>x. in_range (input_buf fr) 8 x \<longrightarrow> v_kept V x) \<and>
     (\<exists>limit. 16 \<le> limit \<and> n + 2 \<le> unat limit \<and>
        heap_contract (heap lib) (v_block V) (own_variables (input_buf fr) (input_len fr) (stack fr)) limit
          (\<lambda>w. (v_typed V w, v_shown V w))) \<and>
     (\<forall>img st w. fst (bs_exit fw img st w) \<and> v_typed V (snd (bs_exit fw img st w)) = v_typed V w \<and>
        v_shown V (snd (bs_exit fw img st w)) = v_shown V w)"

lemma main_runs:
  assumes env: "environment k fw lib fr V (length ks)" and lits: "literals fr V s"
    and keys: "v_typed V (world s) = ks @ ret # js @ ret' # rest" "(ucast ret :: u8) = 0x0D" "(ucast ret' :: u8) = 0x0D"
      "\<forall>key \<in> set ks. line_key key \<and> (ucast key :: u8) \<noteq> 0" "\<forall>key \<in> set js. line_key key"
  shows "\<exists>s'. main k fw lib fr s = Exited (EFI_SUCCESS (hdr fw)) s' \<and> v_typed V (world s') = rest \<and>
    v_shown V (world s') = v_shown V (world s) @ demo_text ks ret js ret'"
proof -
  let ?V = "loosely V"
  from env obtain limit where e: "x86_64 k" "console_contract fw (v_typed V) (v_shown V)" "library_contract lib V"
    "separate (input_buf fr) (input_len fr) (stack fr)" "\<And>x. in_range (input_buf fr) 8 x \<Longrightarrow> v_kept V x"
    "16 \<le> limit" "length ks + 2 \<le> unat limit"
    "heap_contract (heap lib) (v_block V) (own_variables (input_buf fr) (input_len fr) (stack fr)) limit
       (\<lambda>w. (v_typed V w, v_shown V w))"
    "\<And>img st w. fst (bs_exit fw img st w) \<and> v_typed V (snd (bs_exit fw img st w)) = v_typed V w \<and>
        v_shown V (snd (bs_exit fw img st w)) = v_shown V w"
    unfolding environment_def by (elim conjE exE) (rule that; blast)
  have puts: "prints ?V s (line str) (puts lib str s)" for str s
    by (rule prints_loosely [OF library_facts(1) [OF e(3)]])
  have sleep: "prints ?V s [] (sleep k fw (stack fr) n s)" for n s
    using e(4) by (intro sleep_prints [OF e(1,2)]) (simp add: separate_def)
  obtain r1 s1 where 1: "test_write k fw lib fr s = Ret r1 s1" "goes_on ?V s write_text s1"
    using prints_loosely [OF test_write_prints [OF e(1-3) lits]] by (rule printsE)
  obtain r2 s2 where 2: "test_printf lib s1 = Ret r2 s2" "goes_on ?V s1 printf_text s2"
    using prints_loosely [OF test_printf_prints [OF e(3)]] by (rule printsE)
  obtain r3 s3 where 3: "test_malloc lib s2 = Ret r3 s3" "goes_on ?V s2 malloc_text s3"
    using test_malloc_prints [OF e(3,8,6)] by (rule printsE)
  have "v_typed V (world s3) = ks @ ret # js @ ret' # rest"
    using 1(2) 2(2) 3(2) keys(1) by (simp add: goes_on_def)
  from test_getline_prints [OF e(1-3,8,4,5) this keys(2,4) e(7)]
  obtain s4 where 4: "test_getline k fw lib fr s3 = Ret () s4" "v_typed V (world s4) = js @ ret' # rest"
      "v_shown V (world s4) = v_shown V (world s3) @ getline_text ks ret" by blast
  obtain r5 s5 where 5: "puts lib ''Testing sleep() for 5 seconds...'' s4 = Ret r5 s5"
      "goes_on ?V s4 (line ''Testing sleep() for 5 seconds...'') s5" using puts by (rule printsE)
  obtain r6 s6 where 6: "sleep k fw (stack fr) 5 s5 = Ret r6 s6" "goes_on ?V s5 [] s6" using sleep by (rule printsE)
  obtain r7 s7 where 7: "test_float lib s6 = Ret r7 s7" "goes_on ?V s6 picture_text s7"
    using prints_loosely [OF test_float_prints [OF e(3)]] by (rule printsE)
  obtain r8 s8 where 8: "sleep k fw (stack fr) 1 s7 = Ret r8 s8" "goes_on ?V s7 [] s8" using sleep by (rule printsE)
  obtain r9 s9 where 9: "puts lib ''Press return to exit.'' s8 = Ret r9 s9"
      "goes_on ?V s8 (line ''Press return to exit.'') s9" using puts by (rule printsE)
  have typed: "v_typed V (world s9) = js @ ret' # rest"
    using 4(2) 5(2) 6(2) 7(2) 8(2) 9(2) by (simp add: goes_on_def)
  from wait_for_return_ends [OF e(3) keys(3,5) typed]
  obtain s10 where 10: "wait_for_return lib s9 = Some (Ret () s10)" "v_typed V (world s10) = rest"
      "v_shown V (world s10) = v_shown V (world s9) @ concat (map key_echo (js @ [ret']))" by blast
  obtain w where w: "bs_exit fw (Image_handle s10) (EFI_SUCCESS (hdr fw)) (world s10) = (True, w)"
      "v_typed V w = v_typed V (world s10)" "v_shown V w = v_shown V (world s10)"
    using e(9) [of "Image_handle s10" "EFI_SUCCESS (hdr fw)" "world s10"]
    by (cases "bs_exit fw (Image_handle s10) (EFI_SUCCESS (hdr fw)) (world s10)") simp
  have "main k fw lib fr s = Exited (EFI_SUCCESS (hdr fw)) (s10\<lparr>world := w\<rparr>)"
    by (simp add: main_def 1(1) 2(1) 3(1) 4(1) 5(1) 6(1) 7(1) 8(1) 9(1) 10(1) exit_success [OF e(1) w(1)])
  moreover have "v_shown V w = v_shown V (world s) @ demo_text ks ret js ret'"
    using 1(2) 2(2) 3(2) 4(3) 5(2) 6(2) 7(2) 8(2) 9(2) 10(3) w(3) by (simp add: goes_on_def demo_text_def)
  ultimately show ?thesis using 10(2) w(2) by (intro exI [of _ "s10\<lparr>world := w\<rparr>"]) simp
qed

text \<open>
  The program on top of output functions that print by themselves, as the C standard says, newlines
  included. The repository's own hooks are no such functions (theorem \<open>demo_stops_at_first_line\<close>
  below): for them this says what the program would do. With a firmware that finds its volume and
  keeps its console contract, the x86-64 numbers, and a user who types a line and later presses
  return, the run then prints exactly this text and leaves the image with success.
\<close>

lemma demo_runs:
  assumes "environment k fw lib fr V (length ks)" and "literals fr V s0"
    and "handle_loaded_image fw img (world s0) = (sa, Some dev, w1)"
    and "handle_file_system fw dev w1 = (sb, Some io, w2)"
    and "open_volume fw io w2 = (sc, Some vol, w3)"
    and "v_typed V w3 = ks @ ret # js @ ret' # rest" and "(ucast ret :: u8) = 0x0D" and "(ucast ret' :: u8) = 0x0D"
    and "\<forall>key \<in> set ks. line_key key \<and> (ucast key :: u8) \<noteq> 0" and "\<forall>key \<in> set js. line_key key"
  shows "\<exists>s'. efi_main fw (main k fw lib fr) img s0 = Exited (EFI_SUCCESS (hdr fw)) s' \<and>
    v_typed V (world s') = rest \<and>
    v_shown V (world s') = v_shown V w3 @ line ''Initialized! Calling main()...'' @ demo_text ks ret js ret'"
proof -
  let ?greeting = "wide (''Initialized! Calling main()...'' @ [CHR 0x0D, CHR 0x0A])"
  obtain sd w4 where w4: "out_string fw ?greeting w3 = (sd, w4)" by (cases "out_string fw ?greeting w3")
  have "console_contract fw (v_typed V) (v_shown V)" using assms(1) by (simp add: environment_def)
  then have v: "v_typed V w4 = v_typed V w3" "v_shown V w4 = v_shown V w3 @ ?greeting"
    using console_calls(1) [OF _ w4] by blast+
  let ?s = "s0\<lparr>Image_handle := img, world := w4, Volume_handle := vol, fds := replicate 16 0\<rparr>"
  have i: "efi_init fw img s0 = Ret () ?s"
    using assms(3-5) w4 by (simp add: efi_init_def GetVolume_def Let_def del: append.simps replicate.simps)
  have "literals fr V ?s" using assms(2) by (simp add: literals_def)
  from main_runs [OF assms(1) this _ assms(7,8,9,10)] v assms(6)
  obtain s' where s': "main k fw lib fr ?s = Exited (EFI_SUCCESS (hdr fw)) s'" "v_typed V (world s') = rest"
      "v_shown V (world s') = v_shown V (world ?s) @ demo_text ks ret js ret'" by auto
  moreover have "?greeting = line ''Initialized! Calling main()...''" by (simp add: wide_def line_def ascii_def)
  ultimately show ?thesis using v(2) by (intro exI [of _ s']) (simp add: efi_main_def i)
qed

section \<open>The program on the hooks of the repository\<close>

text \<open>
  crosslibc prints through the hooks of \<open>clibc-user-impl.c\<close>: \<open>puts\<close> of a literal begins with \<open>_puts\<close> on
  the address \<open>lit\<close> it was given, and \<open>putchar\<close> calls \<open>_putchar\<close> and returns the character.
\<close>

definition puts_through_hook ::
  "kernel_hdr \<Rightarrow> 'w firmware \<Rightarrow> u64 \<Rightarrow> (string \<Rightarrow> u64) \<Rightarrow> 'w clibc \<Rightarrow> bool" where
  "puts_through_hook k fw sp lit lib \<longleftrightarrow>
     (\<forall>str s. \<exists>rest. puts lib str s = bind_out (user_puts k fw sp (lit str) s) rest)"

definition putchar_through_hook :: "kernel_hdr \<Rightarrow> 'w firmware \<Rightarrow> u64 \<Rightarrow> 'w clibc \<Rightarrow> bool" where
  "putchar_through_hook k fw sp lib \<longleftrightarrow>
     (\<forall>c s. putchar lib c s = bind_out (user_putchar k fw sp (of_char c) s) (\<lambda>_ s. Ret (ucast (of_char c :: u8)) s))"

text \<open>
  C3: The demonstration program as the repository builds it, its \<open>puts\<close> printing through the hook
  \<open>_puts\<close>, gets no further than its first line: once the firmware has found the volume, the run from
  \<open>efi_main\<close> on ends in undefined behaviour, a write outside the conversion array of \<open>fd_write\<close>, when
  the first \<open>puts\<close> prints its newline. Nothing is assumed of the rest of the C library.
\<close>

theorem demo_stops_at_first_line:
  assumes "nr k ''write'' = Some 1" and "puts_through_hook k fw sp lit lib" and "sp \<noteq> 0"
    and "string_at (mem s0) (lit title) (ascii title)" and "lit title \<noteq> 0"
    and "title = ''Testing write() to stdout...''"
    and "handle_loaded_image fw img (world s0) = (sa, Some dev, w1)"
    and "handle_file_system fw dev w1 = (sb, Some io, w2)"
    and "open_volume fw io w2 = (sc, Some vol, w3)"
  shows "efi_main fw (main k fw lib fr) img s0 = Undef Oob_write"
proof -
  let ?greeting = "wide (''Initialized! Calling main()...'' @ [CHR 0x0D, CHR 0x0A])"
  obtain sd w4 where w4: "out_string fw ?greeting w3 = (sd, w4)" by (cases "out_string fw ?greeting w3")
  let ?s = "s0\<lparr>Image_handle := img, world := w4, Volume_handle := vol, fds := replicate 16 0\<rparr>"
  have i: "efi_init fw img s0 = Ret () ?s"
    using assms(7-9) w4 by (simp add: efi_init_def GetVolume_def Let_def del: append.simps replicate.simps)
  have l: "load_bytes (mem ?s) (lit title) (length (ascii title) + 1) = ascii title @ [0]" "0 \<notin> set (ascii title)"
    using assms(4) by (simp_all add: string_at_def)
  have "length (ascii title) < 2 ^ 31" unfolding assms(6) by (simp add: ascii_def)
  from puts_hook_undefined [OF assms(1) this l(2,1) assms(5,3)]
  have "user_puts k fw sp (lit title) ?s = Undef Oob_write" .
  moreover obtain rest where "puts lib title ?s = bind_out (user_puts k fw sp (lit title) ?s) rest"
    using assms(2) unfolding puts_through_hook_def by blast
  ultimately have "puts lib title ?s = Undef Oob_write" by simp
  then have "main k fw lib fr ?s = Undef Oob_write"
    unfolding main_def test_write_def assms(6) by simp
  then show ?thesis by (simp add: efi_main_def i)
qed

lemma shade_char: "shade k \<in> set '' .:-;!/>)|&IH%*#''"
proof -
  have "unat (k AND 15) \<le> unat (15 :: i32)" by (simp only: word_le_nat_alt [symmetric] word_and_le1)
  then show ?thesis unfolding shade_def by (intro nth_mem) simp
qed

text \<open>
  C20: A row of the picture, its characters printed through the hook \<open>_putchar\<close>: the float loop over
  the columns ends, and has printed the 84 shades of the row's points, one for the number of rounds
  each stays inside the circle; the keys typed are still there and of the memory only the byte on the
  stack that the hook writes from has changed.
\<close>

theorem row_printed_through_hook:
  assumes "nr k ''write'' = Some 1" and "sp \<noteq> 0" and "putchar_through_hook k fw sp lib"
    and "console_contract fw typed shown"
  shows "\<exists>s'. columns lib (f_int b) (f_int 0) s = Some (Ret () s') \<and> typed (world s') = typed (world s) \<and>
    shown (world s') = shown (world s) @
      map (\<lambda>a. of_char (shade (of_nat (escape_time (f_int a) (f_int b))))) [1..84] \<and>
    (\<forall>x. x \<noteq> sp \<longrightarrow> load8 (mem s') x = load8 (mem s) x)"
proof -
  let ?V = "\<lparr>v_typed = typed, v_shown = shown, v_kept = \<lambda>x. x \<noteq> sp, v_block = \<lambda>_ _ _. False\<rparr>"
  have char: "console_text [of_char (shade n)] = [of_char (shade n)] \<and> (of_char (shade n) :: u8) \<noteq> 0x0A" for n
    using shade_char [of n] by (auto simp: unsigned_of_nat)
  have lib: "prints ?V s (console_text [of_char (shade n)]) (putchar lib (shade n) s)" for n s
  proof -
    let ?c = "of_char (shade n) :: u8"
    obtain st w where o: "out_string fw (console_text [?c]) (world s) = (st, w)"
      by (cases "out_string fw (console_text [?c]) (world s)")
    have w: "typed w = typed (world s)" "shown w = shown (world s) @ console_text [?c]"
      using console_calls(1) [OF assms(4) o] by simp_all
    obtain e where "user_putchar k fw sp ?c s = Ret () (s\<lparr>mem := store8 sp ?c (mem s), world := w, errno := e\<rparr>)"
      using putchar_hook_prints [where fw = fw, OF assms(1,2) _ o] char by blast
    then have "putchar lib (shade n) s = Ret (ucast ?c) (s\<lparr>mem := store8 sp ?c (mem s), world := w, errno := e\<rparr>)"
      using assms(3) by (simp add: putchar_through_hook_def)
    then show ?thesis using w by (simp add: prints_def goes_on_def load8_def store8_def)
  qed
  have "concat (map (\<lambda>a. console_text [of_char (pixel a b)]) xs) = map (\<lambda>a. of_char (pixel a b)) xs" for xs
    by (induction xs) (simp_all add: char pixel_def del: console_text.simps)
  with columns_print [of ?V lib 0 s b, OF lib] show ?thesis
    by (auto simp: loop_prints_def prints_def goes_on_def pixel_def)
qed

end
