(* ===== verification/Files.thy ===== *)
theory Files
  imports FileIO
begin

text \<open>
  Files as contents: what the firmware's file services promise of one open file, and what follows
  for \<open>fd_write\<close>, \<open>fd_lseek\<close> and \<open>fd_read\<close> of \<open>src/linux-uefi.c\<close> used one after the other.
\<close>

unbundle bit_operations_syntax

section \<open>What the firmware promises of a file\<close>

text \<open>
  A file as an array of bytes with a position. Documented behaviour of the file services, for
  abstraction functions that read a handle's bytes and position off the outside world: a write that
  succeeds replaces the bytes from the position on (and extends the file), a read succeeds and
  delivers what is there, up to the number asked for, and both move the position behind these bytes;
  setting the position to anything but all ones succeeds and moves there. A write may be refused, on
  a full or protected volume; the handle is taken to be open and its medium readable.
\<close>

definition overwrite :: "nat \<Rightarrow> u8 list \<Rightarrow> u8 list \<Rightarrow> u8 list" where
  "overwrite p bs file = take p file @ bs @ drop (p + length bs) file"

definition file_contract ::
  "'w firmware \<Rightarrow> ('w \<Rightarrow> u64 \<Rightarrow> u8 list) \<Rightarrow> ('w \<Rightarrow> u64 \<Rightarrow> u64) \<Rightarrow> u64 \<Rightarrow> bool" where
  "file_contract fw data pos h \<longleftrightarrow>
     (\<forall>w n bs. length bs = unat n \<longrightarrow> unat (pos w h) \<le> length (data w h) \<longrightarrow>
        (case f_write fw h n bs w of (st, k, w') \<Rightarrow>
           \<not> EFI_ERROR (hdr fw) st \<longrightarrow> k = n \<and> pos w' h = pos w h + n \<and>
             data w' h = overwrite (unat (pos w h)) bs (data w h))) \<and>
     (\<forall>w n. unat (pos w h) \<le> length (data w h) \<longrightarrow>
        (case f_read fw h n w of (st, k, bs, w') \<Rightarrow>
           \<not> EFI_ERROR (hdr fw) st \<and> bs = take (unat n) (drop (unat (pos w h)) (data w h)) \<and>
             k = of_nat (length bs) \<and> data w' h = data w h \<and> pos w' h = pos w h + k)) \<and>
     (\<forall>w p. p \<noteq> 0xFFFFFFFFFFFFFFFF \<longrightarrow>
        (case f_setpos fw h p w of (st, w') \<Rightarrow>
           \<not> EFI_ERROR (hdr fw) st \<and> pos w' h = p \<and> data w' h = data w h))"

lemma file_contract_write:
  assumes "file_contract fw data pos h" and "f_write fw h n bs w = (st, k, w')"
    and "length bs = unat n" and "unat (pos w h) \<le> length (data w h)" and "\<not> EFI_ERROR (hdr fw) st"
  shows "k = n \<and> pos w' h = pos w h + n \<and> data w' h = overwrite (unat (pos w h)) bs (data w h)"
  using assms(1) [unfolded file_contract_def, THEN conjunct1, THEN spec, THEN spec, THEN spec, of bs n w] assms(2-5)
  by simp

lemma file_contract_read:
  assumes "file_contract fw data pos h" and "f_read fw h n w = (st, k, bs, w')"
    and "unat (pos w h) \<le> length (data w h)"
  shows "\<not> EFI_ERROR (hdr fw) st \<and> bs = take (unat n) (drop (unat (pos w h)) (data w h)) \<and>
    k = of_nat (length bs) \<and> data w' h = data w h \<and> pos w' h = pos w h + k"
  using assms(1) [unfolded file_contract_def, THEN conjunct2, THEN conjunct1, THEN spec, THEN spec, of w n] assms(2,3)
  by simp

lemma file_contract_setpos:
  assumes "file_contract fw data pos h" and "f_setpos fw h p w = (st, w')" and "p \<noteq> 0xFFFFFFFFFFFFFFFF"
  shows "\<not> EFI_ERROR (hdr fw) st \<and> pos w' h = p \<and> data w' h = data w h"
  using assms(1) [unfolded file_contract_def, THEN conjunct2, THEN conjunct2, THEN spec, THEN spec, of p w] assms(2,3)
  by simp

lemma overwrite_facts:
  assumes "p \<le> length file"
  shows "take (length bs) (drop p (overwrite p bs file)) = bs"
    and "length (overwrite p bs file) = max (length file) (p + length bs)"
    and "p \<le> length (overwrite p bs file)"
  using assms by (simp_all add: overwrite_def)

section \<open>Open files\<close>

text \<open>The three calls on an open descriptor.\<close>

lemma open_file_calls:
  assumes "wf_machine s" and "in_window fd" and "slot s fd \<noteq> 0"
  shows "fd_write fw fd buf n s = write_file fw buf n s (slot s fd)"
    and "fd_read fw fd buf n s = read_file fw buf n s (slot s fd)"
    and "fd_lseek fw fd offset SEEK_SET s = seek_handle fw offset SEEK_SET s (slot s fd)"
proof -
  have len: "length (fds s) = 16" using assms(1) by (simp add: wf_machine_def)
  show "fd_write fw fd buf n s = write_file fw buf n s (slot s fd)"
    "fd_read fw fd buf n s = read_file fw buf n s (slot s fd)"
    "fd_lseek fw fd offset SEEK_SET s = seek_handle fw offset SEEK_SET s (slot s fd)"
    using in_window_not_std [OF assms(2)] read_call.live [OF len assms(2,3)] write_call.live [OF len assms(2,3)]
      lseek_call.live [OF len assms(2,3)]
    by (simp_all add: fd_read_guarded fd_write_guarded)
qed

text \<open>
  C21: Writing and reading back: on an open descriptor, with a firmware that keeps its file contract
  and accepts the write, \<open>write\<close> of \<open>n\<close> bytes returns \<open>n\<close> and replaces the file's bytes from its position
  on; \<open>lseek\<close> back to the old position returns it, and \<open>read\<close> of \<open>n\<close> bytes then returns \<open>n\<close> and
  delivers the very bytes that were written, to any buffer. The file is not changed by the last two.
\<close>

theorem file_round_trip:
  assumes "wf_machine s" and "in_window fd" and "slot s fd \<noteq> 0" and "file_contract fw data pos (slot s fd)"
    and "\<not> EFI_ERROR (hdr fw) (fst (f_write fw (slot s fd) n (load_bytes (mem s) buf (unat n)) (world s)))"
    and "old = pos (world s) (slot s fd)" and "file = data (world s) (slot s fd)"
    and "unat old \<le> length file" and "unat old < 2 ^ 63"
  shows "\<exists>s1 s2 s3. fd_write fw fd buf n s = Ret n s1 \<and>
    data (world s1) (slot s fd) = overwrite (unat old) (load_bytes (mem s) buf (unat n)) file \<and>
    fd_lseek fw fd old SEEK_SET s1 = Ret old s2 \<and>
    fd_read fw fd buf2 n s2 = Ret n s3 \<and>
    load_bytes (mem s3) buf2 (unat n) = load_bytes (mem s) buf (unat n) \<and>
    data (world s3) (slot s fd) = data (world s1) (slot s fd)"
proof -
  let ?h = "slot s fd" and ?bs = "load_bytes (mem s) buf (unat n)"
  obtain st1 k1 w1 where w1: "f_write fw ?h n ?bs (world s) = (st1, k1, w1)"
    by (cases "f_write fw ?h n ?bs (world s)")
  have d1: "k1 = n" "data w1 ?h = overwrite (unat old) ?bs file" "\<not> EFI_ERROR (hdr fw) st1"
    using file_contract_write [OF assms(4) w1] assms(5-8) w1 by simp_all
  obtain st2 w2 where w2: "f_setpos fw ?h old w1 = (st2, w2)" by (cases "f_setpos fw ?h old w1")
  have "old \<noteq> 0xFFFFFFFFFFFFFFFF" using assms(9) by auto
  then have d2: "\<not> EFI_ERROR (hdr fw) st2" "pos w2 ?h = old" "data w2 ?h = overwrite (unat old) ?bs file"
    using file_contract_setpos [OF assms(4) w2] d1 by simp_all
  obtain st3 k3 bs3 w3 where w3: "f_read fw ?h n w2 = (st3, k3, bs3, w3)" by (cases "f_read fw ?h n w2")
  have "unat (pos w2 ?h) \<le> length (data w2 ?h)"
    using d2 overwrite_facts(3) [OF assms(8)] by simp
  then have d3: "\<not> EFI_ERROR (hdr fw) st3" "bs3 = ?bs" "k3 = n" "data w3 ?h = data w1 ?h"
    using file_contract_read [OF assms(4) w3] d1 d2 overwrite_facts(1) [OF assms(8), of ?bs] by simp_all
  let ?s1 = "s\<lparr>world := w1\<rparr>" and ?s2 = "s\<lparr>world := w2\<rparr>"
    and ?s3 = "s\<lparr>world := w3, mem := store_bytes buf2 ?bs (mem s)\<rparr>"
  have same: "wf_machine ?s1" "slot ?s1 fd = ?h" "wf_machine ?s2" "slot ?s2 fd = ?h"
    using assms(1) by (simp_all add: wf_machine_def slot_def)
  have "fd_write fw fd buf n s = Ret n ?s1"
    using w1 d1 by (simp add: open_file_calls(1) [OF assms(1-3)] write_file_def check_status_def)
  moreover have "fd_lseek fw fd old SEEK_SET ?s1 = Ret old ?s2"
    using w2 d2 same assms(3) open_file_calls(3) [OF same(1) assms(2), of fw old]
    by (simp add: seek_handle_def check_status_def)
  moreover have "fd_read fw fd buf2 n ?s2 = Ret n ?s3"
    using w3 d3 same assms(3) open_file_calls(2) [OF same(3) assms(2), of fw buf2 n]
    by (simp add: read_file_def check_status_def)
  moreover have "load_bytes (mem ?s3) buf2 (unat n) = ?bs"
    using unsigned_less [of n, where 'a = nat] by simp (intro load_bytes_store_bytes_same, simp_all)
  ultimately show ?thesis
    using d1(2) d3(4) by (intro exI [of _ ?s1] exI [of _ ?s2] exI [of _ ?s3]) simp
qed
end
