(* ===== verification/RamFirmware.thy ===== *)
theory RamFirmware
  imports Files FileStat MemMgmt
begin

text \<open>
  One concrete firmware, with its outside world in a record: keys and screen, a clock, files and
  directories with positions, pool memory, and the last power request. It satisfies every
  contract the properties assume, so none of them is empty; the witnesses run on it. It is not part
  of the program.
\<close>

unbundle bit_operations_syntax

section \<open>The world and its services\<close>

record ram_world =
  keys :: "u16 list"
  screen :: "u16 list"
  clock :: "efi_time option"
  stalls :: "u64 list"
  content :: "u64 \<Rightarrow> u8 list"
  position :: "u64 \<Rightarrow> u64"
  info :: "u64 \<Rightarrow> efi_file_info"
  entries :: "u64 \<Rightarrow> efi_file_info list"
  closed :: "u64 list"
  pool :: "u64 \<Rightarrow> u64 option"
  next_block :: u64

definition ram_setpos :: "u64 \<Rightarrow> u64 \<Rightarrow> ram_world \<Rightarrow> u64 \<times> ram_world" where
  "ram_setpos h p w =
     (0, w\<lparr>position := (position w)
            (h := if p = 0xFFFFFFFFFFFFFFFF then of_nat (length (content w h)) else p)\<rparr>)"

definition ram_read :: "u64 \<Rightarrow> u64 \<Rightarrow> ram_world \<Rightarrow> u64 \<times> u64 \<times> u8 list \<times> ram_world" where
  "ram_read h n w =
     (let bs = take (unat n) (drop (unat (position w h)) (content w h))
      in (0, of_nat (length bs), bs, w\<lparr>position := (position w)(h := position w h + of_nat (length bs))\<rparr>))"

definition ram_write :: "u64 \<Rightarrow> u64 \<Rightarrow> u8 list \<Rightarrow> ram_world \<Rightarrow> u64 \<times> u64 \<times> ram_world" where
  "ram_write h n bs w =
     (0, n, w\<lparr>content := (content w)(h := overwrite (unat (position w h)) bs (content w h)),
              position := (position w)(h := position w h + n)\<rparr>)"

definition ram_read_entry :: "u64 \<Rightarrow> ram_world \<Rightarrow> u64 \<times> efi_file_info option \<times> ram_world" where
  "ram_read_entry h w =
     (case entries w h of
        [] \<Rightarrow> (0, None, w)
      | e # es \<Rightarrow> (0, Some e, w\<lparr>entries := (entries w)(h := es)\<rparr>))"

definition ram_read_key :: "ram_world \<Rightarrow> u64 \<times> u16 \<times> ram_world" where
  "ram_read_key w =
     (case keys w of [] \<Rightarrow> (efi_err 6, 0, w) | k # ks \<Rightarrow> (0, k, w\<lparr>keys := ks\<rparr>))"

definition ram_allocate :: "u64 \<Rightarrow> ram_world \<Rightarrow> u64 \<times> u64 \<times> ram_world" where
  "ram_allocate n w =
     (let a = next_block w in
      if a = 0 \<or> 2 ^ 63 \<le> unat a \<or> pool w a \<noteq> None then (efi_err 9, 0, w)
      else (0, a, w\<lparr>pool := (pool w)(a \<mapsto> n), next_block := a + 0x1000\<rparr>))"

definition ram_free :: "u64 \<Rightarrow> ram_world \<Rightarrow> u64 \<times> ram_world" where
  "ram_free a w =
     (if pool w a = None then (efi_err 2, w) else (0, w\<lparr>pool := (pool w)(a := None)\<rparr>))"

definition ram_fw :: "ram_world firmware" where
  "ram_fw = \<lparr>
     hdr = uefi_consts,
     handle_loaded_image = \<lambda>img w. (0, Some 1, w),
     handle_file_system = \<lambda>dev w. (0, Some 2, w),
     open_volume = \<lambda>io w. (0, Some 3, w),
     f_open = \<lambda>this path mode attr w. (0, 7, w),
     f_close = \<lambda>h w. (0, w\<lparr>closed := h # closed w\<rparr>),
     f_flush = \<lambda>h w. (0, w),
     f_read = ram_read,
     f_read_entry = ram_read_entry,
     f_write = ram_write,
     f_getpos = \<lambda>h w. (0, position w h, w),
     f_setpos = ram_setpos,
     f_getinfo = \<lambda>h w. (0, info w h, w),
     f_setinfo = \<lambda>h buf w. (efi_err 2, w),
     out_string = \<lambda>str w. (0, w\<lparr>screen := screen w @ str\<rparr>),
     wait_for_key = \<lambda>w. (0, w),
     read_key = ram_read_key,
     stall = \<lambda>us w. (0, w\<lparr>stalls := us # stalls w\<rparr>),
     allocate_pool = ram_allocate,
     free_pool = ram_free,
     get_time = \<lambda>w. (0, clock w, w),
     bs_exit = \<lambda>img st w. (True, w),
     reset_system = \<lambda>r w. (True, w)\<rparr>"

section \<open>It keeps the contracts\<close>

lemma efi_err_is_error [simp]: "bit (efi_err n) 63"
  by (simp add: efi_err_def bit_or_iff)

lemma ram_fw_hdr [simp]: "hdr ram_fw = uefi_consts" "EFI_ERROR uefi_consts st = bit st 63"
  by (simp_all add: ram_fw_def uefi_consts_def)

lemma ram_console: "console_contract ram_fw keys screen"
  by (simp add: console_contract_def ram_fw_def ram_read_key_def)

lemma ram_positions:
  "position_contract ram_fw position (\<lambda>w h. of_nat (length (content w h))) h"
  by (simp add: position_contract_def ram_fw_def ram_setpos_def uefi_consts_def)

lemma ram_files: "file_contract ram_fw content position h"
  by (simp add: file_contract_def ram_fw_def ram_write_def ram_read_def ram_setpos_def uefi_consts_def)

lemma ram_directories: "directory_contract ram_fw entries h"
  by (simp add: directory_contract_def ram_fw_def ram_read_entry_def uefi_consts_def split: list.splits)

lemma ram_pool: "pool_contract ram_fw pool"
  by (simp add: pool_contract_def ram_fw_def ram_allocate_def ram_free_def uefi_consts_def Let_def)

section \<open>A machine to run on\<close>

definition demo_time :: efi_time where
  "demo_time = \<lparr>Year = 2023, Month = 3, Day = 15, Hour = 12, Minute = 30, Second = 45\<rparr>"

definition demo_info :: efi_file_info where
  "demo_info = \<lparr>FileSize = 3, PhysicalSize = 512, CreateTime = demo_time, LastAccessTime = demo_time,
     ModificationTime = demo_time, Attribute = 0x20, FileName = [0x61, 0x62]\<rparr>"

text \<open>Handle 7 is a file of three bytes, handle 9 a directory of two entries.\<close>

definition demo_world :: ram_world where
  "demo_world = \<lparr>keys = [0x68, 0x69, 0x0D, 0x21], screen = [], clock = Some demo_time, stalls = [],
     content = (\<lambda>h. if h = 7 then [0x61, 0x62, 0x63] else []), position = (\<lambda>_. 1),
     info = (\<lambda>_. demo_info), entries = (\<lambda>h. if h = 9 then [demo_info, demo_info] else []),
     closed = [], pool = (\<lambda>_. None), next_block = 0x100000\<rparr>"

text \<open>
  Slots 0 and 3 (descriptors 4 and 7) share handle 7, slot 2 (descriptor 6) holds handle 9. The
  bytes \<open>hi\<close> and a newline are at address \<open>0x1000\<close>.
\<close>

definition demo :: "ram_world machine" where
  "demo = \<lparr>Image_handle = 1, Volume_handle = 3, fds = [7, 0, 9, 7] @ replicate 12 0,
     fres = replicate 1024 0, mem = store_bytes 0x1000 [0x68, 0x69, 0x0A] (\<lambda>_. 0), errno = 0,
     world = demo_world\<rparr>"

text \<open>The same machine as start-up leaves it: an empty table.\<close>

definition fresh :: "ram_world machine" where
  "fresh = demo\<lparr>fds := replicate 16 0\<rparr>"

lemma demo_fields [simp]:
  "Image_handle demo = 1" "Volume_handle demo = 3" "fds demo = [7, 0, 9, 7, 0, 0, 0, 0, 0, 0, 0, 0, 0, 0, 0, 0]"
  "errno demo = 0" "world demo = demo_world" "length (fres demo) = 1024"
  "mem demo = store_bytes 0x1000 [0x68, 0x69, 0x0A] (\<lambda>_. 0)"
  by (simp_all add: demo_def numeral_eq_Suc)

lemma wf_demo: "wf_machine demo"
  by (simp add: wf_machine_def)

lemma wf_fresh: "wf_machine fresh" and fresh_no_files: "no_files fresh"
  by (simp_all add: fresh_def wf_machine_def no_files_def)

lemma fresh_fields [simp]: "world fresh = demo_world" "mem fresh = mem demo" "Image_handle fresh = 1"
  by (simp_all add: fresh_def)

end
