(* ===== verification/Witnesses.thy ===== *)
theory Witnesses
  imports RamFirmware Reachability
begin

text \<open>
  The properties applied to concrete inputs, on the firmware and the machine of \<open>RamFirmware\<close>: each
  hypothesis of a property is discharged there, so that no property holds for want of an instance.
\<close>

unbundle bit_operations_syntax

section \<open>Time\<close>

theorem gettimeofday_writes_unix_time_witness:
  "\<exists>m. time_gettimeofday ram_fw 0x2000 demo = Ret 0 (demo\<lparr>world := demo_world, mem := m\<rparr>) \<and>
     sint (load64 m 0x2000) = unix_seconds 2023 3 15 12 30 45 \<and> load64 m 0x2008 = 0"
  using gettimeofday_writes_unix_time [of ram_fw demo 0 "Some demo_time" demo_world "0x2000"]
  by (auto simp: ram_fw_def demo_world_def demo_time_def)

section \<open>Power\<close>

theorem power_reboot_behaviour_witness:
  "power_reboot ram_fw 0xfee1dead 0x16041998 0x4321fedc 0 demo =
     Reset EfiResetShutdown (demo\<lparr>world := demo_world\<lparr>screen := wide ([CHR 0x0D, CHR 0x0A] @ ''Power down.'')\<rparr>\<rparr>) \<and>
   power_reboot ram_fw 0xfee1dead 0x16041999 0xa1b2c3d4 0 demo = Ret (- 22) demo \<and>
   power_reboot ram_fw 0xfee1dead 0x28121969 0xa1b2c3d4 0 demo = Undef Null_deref"
proof (intro conjI)
  show "power_reboot ram_fw 0xfee1dead 0x16041998 0x4321fedc 0 demo =
     Reset EfiResetShutdown (demo\<lparr>world := demo_world\<lparr>screen := wide ([CHR 0x0D, CHR 0x0A] @ ''Power down.'')\<rparr>\<rparr>)"
    using power_reboot_behaviour [OF wf_demo, of "0x4321fedc" ram_fw "0xfee1dead" "0x16041998" 0]
    by (auto simp: valid_magic_def power_cmd_def power_texts_def power_reset_def show_texts_def reset_outcome_def
        ram_fw_def demo_world_def Let_def)
  show "power_reboot ram_fw 0xfee1dead 0x16041999 0xa1b2c3d4 0 demo = Ret (- 22) demo"
    using power_reboot_behaviour [OF wf_demo, of "0xa1b2c3d4" ram_fw "0xfee1dead" "0x16041999" 0]
    by (simp add: valid_magic_def)
  show "power_reboot ram_fw 0xfee1dead 0x28121969 0xa1b2c3d4 0 demo = Undef Null_deref"
    using power_reboot_behaviour [OF wf_demo, of "0xa1b2c3d4" ram_fw "0xfee1dead" "0x28121969" 0]
    by (simp add: valid_magic_def power_cmd_def)
qed

section \<open>Descriptors\<close>

lemma demo_slots:
  "in_window 4" "in_window 5" "in_window 6" "in_window 7"
  "slot demo 4 = 7" "slot demo 6 = 9" "slot demo 7 = 7" "slot demo 5 = 0"
  by (simp_all add: in_window_def slot_def)

theorem fd_close_open_descriptor_witness:
  "fd_close ram_fw 6 demo =
     Ret 0 (demo\<lparr>fds := (fds demo)[2 := 0], world := demo_world\<lparr>closed := [9]\<rparr>\<rparr>)"
  using fd_close_open_descriptor [of demo 6 _ ram_fw, OF wf_demo _ _ refl]
  by (simp add: demo_slots demo_world_def) (simp add: ram_fw_def uefi_consts_def)

lemma demo_close:
  "fd_close ram_fw 6 demo =
     Ret 0 (demo\<lparr>fds := (fds demo)[2 := 0], world := demo_world\<lparr>closed := [9]\<rparr>\<rparr>)"
  using close_open_slot [of demo 6 _ ram_fw, OF wf_demo _ _ refl]
  by (simp add: demo_slots demo_world_def) (simp add: ram_fw_def uefi_consts_def check_status_def)

theorem fd_dup2_outcomes_witness:
  "(\<exists>s'. fd_dup2 ram_fw 6 6 demo = Ret (- 9) s' \<and> slot s' 6 = 0) \<and>
   fd_dup2 ram_fw 6 5 demo = Ret 9 (demo\<lparr>fds := (fds demo)[5 := 9]\<rparr>)"
proof (intro conjI exI)
  let ?s = "demo\<lparr>fds := (fds demo)[2 := 0], world := demo_world\<lparr>closed := [9]\<rparr>\<rparr>"
  have c: "close_target ram_fw 6 demo = Ret 0 ?s" "close_target ram_fw 5 demo = Ret 0 demo"
    using demo_close by (simp_all add: close_target_def demo_slots)
  have r: "fd_dup2 ram_fw 6 6 demo = Ret (- 9) ?s"
    using demo_close by (simp add: fd_dup2_def fds_at_def arr_get_def TO_REAL_FD_def)
  have r': "\<exists>x s'. fd_dup2 ram_fw 6 5 demo = Ret x s'"
    by (simp add: fd_dup2_def fds_at_def arr_get_def TO_REAL_FD_def TO_VIRTUAL_FD_def)
  then obtain x s' where x: "fd_dup2 ram_fw 6 5 demo = Ret x s'" by blast
  show "fd_dup2 ram_fw 6 6 demo = Ret (- 9) ?s" "slot ?s 6 = 0"
    using fd_dup2_outcomes [OF wf_demo demo_slots(3,3) c(1) r] r by (simp_all add: slot_def)
  show "fd_dup2 ram_fw 6 5 demo = Ret 9 (demo\<lparr>fds := (fds demo)[5 := 9]\<rparr>)"
    using fd_dup2_outcomes [OF wf_demo demo_slots(3,2) c(2) x] x by (simp add: demo_slots)
qed

theorem fd_lseek_moves_witness:
  "\<exists>w. fd_lseek ram_fw 4 (- 1) 2 demo = Ret 2 (demo\<lparr>world := w\<rparr>) \<and> position w 7 = 2"
  using fd_lseek_moves [of demo 4 ram_fw, OF wf_demo _ _ ram_positions, of 2 2 "- 1"]
  by (simp add: demo_slots seek_target_def demo_world_def)

theorem descriptors_given_out_are_used_witness:
  "(\<exists>s'. fd_open ram_fw 0x5000 0 demo = Ret 4 s' \<and> fds s' = fds demo) \<and> fds demo ! 0 \<noteq> 0 \<and>
   (\<exists>i < 16. fds demo ! i \<noteq> 0 \<and> fd_dup 6 demo = Ret (of_nat (i + 4)) (demo\<lparr>fds := (fds demo)[i := 9]\<rparr>))"
proof -
  obtain buf where "bstr_to_wstr 0x5000 demo =
      Ret (map ucast (before_nul (load_bytes (mem demo) 0x5000 510))) (demo\<lparr>fres := buf\<rparr>)"
    using bstr_to_wstr_returns [of demo "0x5000"] by auto
  then have "\<exists>s'. fd_open ram_fw 0x5000 0 demo = Ret 4 s'"
    by (simp add: fd_open_def fd_real_find_free_def fd_efi_get_file_info_def open_mode_def ram_fw_def
        uefi_consts_def Let_def demo_world_def demo_info_def TO_VIRTUAL_FD_def efi_err_def)
  then obtain s' where s': "fd_open ram_fw 0x5000 0 demo = Ret 4 s'" by blast
  show ?thesis
    using descriptors_given_out_are_used [OF wf_demo, of ram_fw "0x5000" 0 4 s' 6] s'
    by (auto simp: demo_slots)
qed

section \<open>Console and files\<close>

lemma demo_bytes: "load_bytes (mem demo) 0x1000 3 = [0x68, 0x69, 0x0A]"
  by (simp add: load_bytes_store_bytes_same del: store_bytes.simps)

theorem fd_write_console_witness:
  "fd_write ram_fw 1 0x1000 3 demo =
     Ret 3 (demo\<lparr>world := demo_world\<lparr>screen := [0x68, 0x69, 0x0D, 0x0A]\<rparr>\<rparr>)"
  using fd_write_console [of 1 3 _ demo "0x1000" ram_fw, OF _ _ refl] demo_bytes
  by (simp add: ram_fw_def demo_world_def uefi_consts_def Let_def)

theorem console_io_terminates_witness:
  "fd_read ram_fw 0 0x1000 3 demo \<noteq> Diverge \<and> fd_write ram_fw 1 0x1000 0x100000000 demo = Diverge \<and>
   fd_write ram_fw 1 0x1000 0x4000000000000000 demo = Undef Array_size"
  using console_io_terminates [of 3 ram_fw 0 "0x1000" demo] console_io_terminates [of "0x100000000" ram_fw 0 "0x1000" demo]
    console_io_terminates [of "0x4000000000000000" ram_fw 0 "0x1000" demo]
  by simp

theorem fd_read_console_line_witness:
  "\<exists>w. fd_read ram_fw 0 0x2000 80 demo =
      Ret 3 (demo\<lparr>world := w, mem := store_bytes 0x2000 [0x68, 0x69, 0x0A] (mem demo)\<rparr>) \<and>
    keys w = [0x21] \<and> screen w = [0x68, 0x69, 0x0D, 0x0A]"
  using fd_read_console_line [OF ram_console, of demo "[0x68, 0x69]" "0x0D" "[0x21]" 80 "0x2000"]
  by (simp add: demo_world_def plain_key_def before_nul_def)

theorem fd_read_console_full_witness:
  "\<exists>w. fd_read ram_fw 0 0x2000 2 demo =
      Ret 3 (demo\<lparr>world := w, mem := store_bytes 0x2000 [0x68, 0x69] (mem demo)\<rparr>) \<and> keys w = [0x0D, 0x21]"
  using fd_read_console_full [OF ram_console, of demo "[0x68, 0x69]" "[0x0D, 0x21]" 2 "0x2000"]
  by (simp add: demo_world_def plain_key_def) blast

theorem fd_read_console_leading_backspace_witness:
  "\<exists>w m. fd_read ram_fw 0 0x2000 80 (demo\<lparr>world := demo_world\<lparr>keys := [0x08, 0x68, 0x0D]\<rparr>\<rparr>) =
      Ret 3 (demo\<lparr>world := w, mem := m\<rparr>) \<and> load8 m 0x2000 = load8 (mem demo) 0x2000 \<and>
      load8 m 0x2001 = 0x68"
  using fd_read_console_leading_backspace [OF ram_console, of "demo\<lparr>world := demo_world\<lparr>keys := [0x08, 0x68, 0x0D]\<rparr>\<rparr>"
     "0x08" "[0x68]" "0x0D" "[]" 80 "0x2000"]
  by (simp add: plain_key_def) blast

theorem fd_read_file_witness:
  "\<exists>m w. fd_read ram_fw 4 0x2000 8 demo = Ret 2 (demo\<lparr>world := w, mem := m\<rparr>) \<and>
     load_bytes m 0x2000 2 = [0x62, 0x63]"
proof -
  let ?w = "demo_world\<lparr>position := (position demo_world)(7 := 3)\<rparr>"
  have f: "f_read ram_fw (slot demo 4) 8 (world demo) = (0, 2, [0x62, 0x63], ?w)"
    by (simp add: demo_slots ram_fw_def ram_read_def demo_world_def Let_def)
  have "in_window 4" "slot demo 4 \<noteq> 0" "length [0x62, 0x63 :: u8] \<le> unat (8 :: u64)" by (simp_all add: demo_slots)
  from fd_read_file [OF wf_demo this(1,2) f this(3), of "0x2000"]
  obtain m where "fd_read ram_fw 4 0x2000 8 demo = Ret 2 (demo\<lparr>world := ?w, mem := m\<rparr>)"
      "load_bytes m 0x2000 (length [0x62, 0x63 :: u8]) = [0x62, 0x63]"
    by (auto simp: uefi_consts_def)
  then show ?thesis by (intro exI [of _ m] exI [of _ ?w]) (simp add: numeral_2_eq_2)
qed

text \<open>The three bytes at \<open>0x1000\<close> written behind the first byte of handle 7, and read back.\<close>

theorem file_round_trip_witness:
  "\<exists>s1 s2 s3. fd_write ram_fw 4 0x1000 3 demo = Ret 3 s1 \<and> content (world s1) 7 = [0x61, 0x68, 0x69, 0x0A] \<and>
     fd_lseek ram_fw 4 1 0 s1 = Ret 1 s2 \<and> fd_read ram_fw 4 0x2000 3 s2 = Ret 3 s3 \<and>
     load_bytes (mem s3) 0x2000 3 = [0x68, 0x69, 0x0A]"
proof -
  have "\<exists>s1 s2 s3. fd_write ram_fw 4 0x1000 3 demo = Ret 3 s1 \<and>
      content (world s1) (slot demo 4) = overwrite (unat (1 :: u64)) (load_bytes (mem demo) 0x1000 (unat (3 :: u64))) [0x61, 0x62, 0x63] \<and>
      fd_lseek ram_fw 4 1 0 s1 = Ret 1 s2 \<and> fd_read ram_fw 4 0x2000 3 s2 = Ret 3 s3 \<and>
      load_bytes (mem s3) 0x2000 (unat (3 :: u64)) = load_bytes (mem demo) 0x1000 (unat (3 :: u64)) \<and>
      content (world s3) (slot demo 4) = content (world s1) (slot demo 4)"
    by (rule file_round_trip [OF wf_demo _ _ ram_files])
      (simp_all add: demo_slots, simp_all add: ram_fw_def ram_write_def demo_world_def uefi_consts_def)
  moreover have "load_bytes (mem demo) 0x1000 (unat (3 :: u64)) = [0x68, 0x69, 0x0A]"
    using demo_bytes by simp
  ultimately show ?thesis by (simp only: demo_slots) (auto simp: overwrite_def)
qed

section \<open>Directories and status\<close>

theorem fd_getdents64_writes_behind_records_witness:
  "\<exists>w m. fd_getdents64 ram_fw 6 0x2000 48 demo = Ret 44 (demo\<lparr>world := w, mem := m\<rparr>) \<and>
     entries w 9 = [] \<and> load8 m 0x2000 = load8 (mem demo) 0x2000 \<and> load_bytes m 0x2043 3 = [0x61, 0x62, 0]"
proof -
  let ?m = "fold (store_dirent 0x2030) (take 2 [demo_info, demo_info]) (mem demo)"
  have "(\<exists>w. fd_getdents64 ram_fw 6 0x2000 48 demo =
      Ret (ucast (\<Sum>e \<leftarrow> take 2 [demo_info, demo_info]. zext (dirent_reclen e))) (demo\<lparr>world := w, mem := ?m\<rparr>) \<and>
      entries w (slot demo 6) = drop 2 [demo_info, demo_info]) \<and>
    (\<forall>x. in_range 0x2000 (24 * 2) x \<longrightarrow> load8 ?m x = load8 (mem demo) x) \<and>
    (0 < (2 :: nat) \<longrightarrow> (let name = before_nul (FileName ([demo_info, demo_info] ! (2 - 1)))
      in load_bytes ?m (0x2030 + 19) (length name + 1) = map ucast name @ [0]))"
    by (rule fd_getdents64_writes_behind_records [OF wf_demo _ _ ram_directories])
      (simp_all add: demo_slots, simp_all add: demo_world_def demo_info_def)
  moreover have "dirent_reclen demo_info = 22" "before_nul (FileName demo_info) = [0x61, 0x62]"
    by (simp_all add: dirent_reclen_def demo_info_def before_nul_def)
  moreover have "in_range 0x2000 (24 * 2) 0x2000" by (simp add: in_range_def)
  ultimately obtain w where w: "fd_getdents64 ram_fw 6 0x2000 48 demo = Ret 44 (demo\<lparr>world := w, mem := ?m\<rparr>)"
      "entries w 9 = []" "load8 ?m 0x2000 = load8 (mem demo) 0x2000" "load_bytes ?m 0x2043 3 = [0x61, 0x62, 0]"
    by (auto simp: demo_slots Let_def numeral_3_eq_3 simp del: load_bytes.simps store_bytes.simps demo_fields(7) fold_simps)
  show ?thesis by (intro exI [of _ w] exI [of _ ?m] conjI w)
qed

theorem fd_getdents64_end_of_directory_witness:
  "fd_getdents64 ram_fw 6 0x2000 72 demo = Undef Uninit_read"
  using fd_getdents64_end_of_directory [OF wf_demo _ _ ram_directories, of 6 72 "0x2000"]
  by (simp add: demo_slots) (simp add: demo_world_def)

theorem fd_stat_fills_structure_witness:
  "\<exists>b m. fd_stat ram_fw 0x5000 0x2000 demo = Ret 0 (demo\<lparr>fres := b, world := demo_world, mem := m\<rparr>) \<and>
     stat_contents 3 demo_info 0x2000 m"
  using fd_stat_fills_structure [of demo ram_fw "0x5000" 0 7 demo_world 0 demo_info demo_world "0x2000", OF wf_demo]
  by (auto simp: ram_fw_def uefi_consts_def demo_world_def)

section \<open>Reachable states\<close>

lemma reachable_fresh: "reachable ram_fw fresh"
proof -
  let ?s0 = "fresh\<lparr>Image_handle := 0, Volume_handle := 0\<rparr>"
  obtain s where s: "efi_init ram_fw 1 ?s0 = Ret () s"
    and eq: "s\<lparr>mem := mem fresh, errno := errno fresh, world := world fresh\<rparr> = fresh"
    by (simp add: efi_init_def GetVolume_def ram_fw_def fresh_def demo_def Let_def)
  have "reachable ram_fw s"
    using s by (rule reachable.boot [rotated]) (simp add: fresh_def)
  from reachable.run [OF this, where m = "mem fresh" and e = "errno fresh" and w = "world fresh"] show ?thesis
    unfolding eq .
qed

theorem reachable_table_empty_witness: "fds fresh = replicate 16 0 \<and> length (fres fresh) = 1024"
  by (rule reachable_table_empty [OF reachable_fresh])

theorem file_calls_always_fail_witness:
  "syscall_emu_x86_64 ram_fw 2 [0x1000, 0] fresh = Ret (- 24) fresh \<and>
   syscall_emu_x86_64 ram_fw 3 [4] fresh = Ret (- 9) fresh"
  using file_calls_always_fail [OF reachable_fresh, of "[0x1000, 0]" 0]
    file_calls_always_fail [OF reachable_fresh, of "[4]" 3]
  by (simp add: descriptor_syscall_def arity_def)


theorem syscall_memory_footprint_witness:
  "\<exists>s'. syscall_emu_x86_64 ram_fw 96 [0x2000, 0] fresh = Ret 0 s' \<and> load8 (mem s') 0x1000 = load8 (mem fresh) 0x1000"
proof -
  obtain s' where r: "syscall_emu_x86_64 ram_fw 96 [0x2000, 0] fresh = Ret 0 s'"
    by (simp add: syscall_table with_args_def time_gettimeofday_def time_cstd_time_def ram_fw_def Let_def case_prod_beta)
  moreover have "load8 (mem s') 0x1000 = load8 (mem fresh) 0x1000"
    by (rule syscall_memory_footprint [OF reachable_fresh _ r])
      (simp_all add: arity_def footprint_def in_range_def)
  ultimately show ?thesis by blast
qed

end
