(* ===== verification/NolibcTypes.thy ===== *)
theory NolibcTypes
  imports Machine
begin

text \<open>
  The macros of \<open>src/nolibc/types.h\<close>: file modes and directory entry types, device numbers, wait
  statuses and descriptor sets; the structures are in theory \<open>Layout\<close>.
  \<open>FD_CLR\<close>, \<open>FD_ISSET\<close> and \<open>minor\<close> name macros that do not exist or lack a parenthesis; a use of
  them is not C.
\<close>

unbundle bit_operations_syntax

section \<open>File modes\<close>

abbreviation (input) S_IFDIR :: u32 where "S_IFDIR \<equiv> 0x4000"
abbreviation (input) S_IFCHR :: u32 where "S_IFCHR \<equiv> 0x2000"
abbreviation (input) S_IFBLK :: u32 where "S_IFBLK \<equiv> 0x6000"
abbreviation (input) S_IFREG :: u32 where "S_IFREG \<equiv> 0x8000"
abbreviation (input) S_IFIFO :: u32 where "S_IFIFO \<equiv> 0x1000"
abbreviation (input) S_IFLNK :: u32 where "S_IFLNK \<equiv> 0xA000"
abbreviation (input) S_IFSOCK :: u32 where "S_IFSOCK \<equiv> 0xC000"
abbreviation (input) S_IFMT :: u32 where "S_IFMT \<equiv> 0xF000"

definition S_ISDIR :: "u32 \<Rightarrow> bool" where "S_ISDIR mode \<longleftrightarrow> mode AND S_IFMT = S_IFDIR"
definition S_ISCHR :: "u32 \<Rightarrow> bool" where "S_ISCHR mode \<longleftrightarrow> mode AND S_IFMT = S_IFCHR"
definition S_ISBLK :: "u32 \<Rightarrow> bool" where "S_ISBLK mode \<longleftrightarrow> mode AND S_IFMT = S_IFBLK"
definition S_ISREG :: "u32 \<Rightarrow> bool" where "S_ISREG mode \<longleftrightarrow> mode AND S_IFMT = S_IFREG"
definition S_ISFIFO :: "u32 \<Rightarrow> bool" where "S_ISFIFO mode \<longleftrightarrow> mode AND S_IFMT = S_IFIFO"
definition S_ISLNK :: "u32 \<Rightarrow> bool" where "S_ISLNK mode \<longleftrightarrow> mode AND S_IFMT = S_IFLNK"
definition S_ISSOCK :: "u32 \<Rightarrow> bool" where "S_ISSOCK mode \<longleftrightarrow> mode AND S_IFMT = S_IFSOCK"

text \<open>Permissions, in octal in the source, and the types of directory entries.\<close>

abbreviation (input) S_IRWXU :: u32 where "S_IRWXU \<equiv> 0x1C0"
abbreviation (input) S_IRUSR :: u32 where "S_IRUSR \<equiv> 0x100"
abbreviation (input) S_IWUSR :: u32 where "S_IWUSR \<equiv> 0x080"
abbreviation (input) S_IXUSR :: u32 where "S_IXUSR \<equiv> 0x040"
abbreviation (input) S_IRWXG :: u32 where "S_IRWXG \<equiv> 0x038"
abbreviation (input) S_IRGRP :: u32 where "S_IRGRP \<equiv> 0x020"
abbreviation (input) S_IWGRP :: u32 where "S_IWGRP \<equiv> 0x010"
abbreviation (input) S_IXGRP :: u32 where "S_IXGRP \<equiv> 0x008"
abbreviation (input) S_IRWXO :: u32 where "S_IRWXO \<equiv> 0x007"
abbreviation (input) S_IROTH :: u32 where "S_IROTH \<equiv> 0x004"
abbreviation (input) S_IWOTH :: u32 where "S_IWOTH \<equiv> 0x002"
abbreviation (input) S_IXOTH :: u32 where "S_IXOTH \<equiv> 0x001"

abbreviation (input) DT_UNKNOWN :: u8 where "DT_UNKNOWN \<equiv> 0x0"
abbreviation (input) DT_FIFO :: u8 where "DT_FIFO \<equiv> 0x1"
abbreviation (input) DT_CHR :: u8 where "DT_CHR \<equiv> 0x2"
abbreviation (input) DT_DIR :: u8 where "DT_DIR \<equiv> 0x4"
abbreviation (input) DT_BLK :: u8 where "DT_BLK \<equiv> 0x6"
abbreviation (input) DT_REG :: u8 where "DT_REG \<equiv> 0x8"
abbreviation (input) DT_LNK :: u8 where "DT_LNK \<equiv> 0xa"
abbreviation (input) DT_SOCK :: u8 where "DT_SOCK \<equiv> 0xc"

section \<open>Wait statuses and device numbers\<close>

definition WEXITSTATUS :: "i32 \<Rightarrow> i32" where "WEXITSTATUS status = drop_bit 8 (status AND 0xff00)"
definition WIFEXITED :: "i32 \<Rightarrow> bool" where "WIFEXITED status \<longleftrightarrow> status AND 0x7f = 0"
definition WTERMSIG :: "i32 \<Rightarrow> i32" where "WTERMSIG status = status AND 0x7f"
definition WIFSIGNALED :: "i32 \<Rightarrow> bool" where "WIFSIGNALED status \<longleftrightarrow> sint status - 1 < 0xff"

definition makedev :: "u32 \<Rightarrow> u32 \<Rightarrow> u32" where
  "makedev maj mnr = push_bit 8 (maj AND 0xfff) OR (mnr AND 0xff)"

definition major :: "u32 \<Rightarrow> u32" where
  "major dev = drop_bit 8 dev AND 0xfff"

section \<open>Descriptor sets\<close>

text \<open>
  An \<open>fd_set\<close> is an array of four \<open>unsigned long\<close>. \<open>FD_SET\<close> shifts an \<open>int\<close>: by 31 and more this is
  undefined.
\<close>

abbreviation (input) FD_SETSIZE :: nat where "FD_SETSIZE \<equiv> 256"
abbreviation (input) FD_SETIDXMASK :: nat where "FD_SETIDXMASK \<equiv> 64"
abbreviation (input) FD_SETBITMASK :: nat where "FD_SETBITMASK \<equiv> 63"

definition fd_set_words :: nat where
  "fd_set_words = (FD_SETSIZE + FD_SETBITMASK) div FD_SETIDXMASK"

definition FD_SET :: "i32 \<Rightarrow> u64 list \<Rightarrow> ub + u64 list" where
  "FD_SET fd ws =
     (if sint fd \<ge> 0 then
        let i = nat (sint fd) div FD_SETIDXMASK;
            b = nat (sint fd) mod (FD_SETBITMASK + 1)
        in if b \<ge> 31 then Inl Bad_shift
           else
             (case arr_get ws i of
                None \<Rightarrow> Inl Oob_read
              | Some w \<Rightarrow>
                  (case arr_put i (w OR push_bit b 1) ws of
                     None \<Rightarrow> Inl Oob_write
                   | Some ws \<Rightarrow> Inr ws))
      else Inr ws)"

fun fd_zero_loop :: "nat \<Rightarrow> nat \<Rightarrow> u64 list \<Rightarrow> ub + u64 list" where
  "fd_zero_loop idx 0 ws = Inr ws"
| "fd_zero_loop idx (Suc n) ws =
     (case arr_put idx 0 ws of None \<Rightarrow> Inl Oob_write | Some ws \<Rightarrow> fd_zero_loop (Suc idx) n ws)"

definition FD_ZERO :: "u64 list \<Rightarrow> ub + u64 list" where
  "FD_ZERO ws = fd_zero_loop 0 fd_set_words ws"

section \<open>Facts\<close>

lemma fd_set_words [simp]: "fd_set_words = 4"
  by (simp add: fd_set_words_def)

lemma FD_ZERO_clears: "length ws = 4 \<Longrightarrow> FD_ZERO ws = Inr [0, 0, 0, 0]"
  by (auto simp: FD_ZERO_def numeral_eq_Suc length_Suc_conv)

text \<open>The members of a set, as \<open>select\<close> would read them.\<close>

definition members :: "u64 list \<Rightarrow> nat set" where
  "members ws = {n. n < 64 * length ws \<and> bit (ws ! (n div 64)) (n mod 64)}"

text \<open>
  Of a file type with any permissions exactly the macro of that type holds, and its directory entry
  type is the type shifted down.
\<close>

definition file_types :: "(u32 \<times> u8 \<times> (u32 \<Rightarrow> bool)) list" where
  "file_types =
     [(S_IFDIR, DT_DIR, S_ISDIR), (S_IFCHR, DT_CHR, S_ISCHR), (S_IFBLK, DT_BLK, S_ISBLK), (S_IFREG, DT_REG, S_ISREG),
      (S_IFIFO, DT_FIFO, S_ISFIFO), (S_IFLNK, DT_LNK, S_ISLNK), (S_IFSOCK, DT_SOCK, S_ISSOCK)]"

lemmas mode_defs = S_ISDIR_def S_ISCHR_def S_ISBLK_def S_ISREG_def S_ISFIFO_def S_ISLNK_def S_ISSOCK_def

lemma file_type_table:
  "(t, d, is) \<in> set file_types \<Longrightarrow> is = (\<lambda>mode. mode AND S_IFMT = t) \<and> t AND S_IFMT = t \<and> d = ucast (drop_bit 12 t)"
  unfolding file_types_def list.set
  by (elim insertE emptyE) (simp_all add: mode_defs fun_eq_iff)

lemma file_type_macros:
  assumes "(t, d, is) \<in> set file_types" and "(t', d', is') \<in> set file_types" and "perm AND S_IFMT = 0"
  shows "(is' (t OR perm) \<longleftrightarrow> t = t') \<and> (is' (t OR perm) \<longleftrightarrow> d = d') \<and> d = ucast (drop_bit 12 ((t OR perm) AND S_IFMT))"
proof -
  have "(t OR perm) AND S_IFMT = t"
    using file_type_table [OF assms(1)] assms(3) by (simp add: bit.conj_disj_distrib2)
  moreover have "d = d' \<longleftrightarrow> t = t'" using assms(1,2) unfolding file_types_def list.set by (elim insertE emptyE) simp_all
  ultimately show ?thesis
    using file_type_table [OF assms(1)] file_type_table [OF assms(2)] by auto
qed

lemma permission_bits:
  "S_IRWXU = S_IRUSR OR S_IWUSR OR S_IXUSR" "S_IRWXG = S_IRGRP OR S_IWGRP OR S_IXGRP"
  "S_IRWXO = S_IROTH OR S_IWOTH OR S_IXOTH" "(S_IRWXU OR S_IRWXG OR S_IRWXO) AND S_IFMT = 0"
  "0x1B6 = S_IRUSR OR S_IWUSR OR S_IRGRP OR S_IWGRP OR S_IROTH OR (S_IWOTH :: u32)"
  by simp_all

text \<open>The mode \<open>fd_efi_stat\<close> reports has no file type at all.\<close>

lemma emulated_mode_has_no_type:
  "\<not> S_ISREG 0x1B6 \<and> \<not> S_ISDIR 0x1B6 \<and> \<not> S_ISCHR 0x1B6 \<and> \<not> S_ISBLK 0x1B6 \<and> \<not> S_ISFIFO 0x1B6 \<and>
   \<not> S_ISLNK 0x1B6 \<and> \<not> S_ISSOCK 0x1B6"
  by (simp add: S_ISREG_def S_ISDIR_def S_ISCHR_def S_ISBLK_def S_ISFIFO_def S_ISLNK_def S_ISSOCK_def)

section \<open>Properties\<close>

text \<open>
  C34: \<open>FD_SET\<close> on a set of four words: a descriptor whose place in its word is below 31 becomes a
  member, no other member changes and the set keeps its size; a place of 31 or more is undefined
  behaviour (the shifted constant is an \<open>int\<close>), as is a descriptor of 256 or more; a negative one
  changes nothing.
\<close>

theorem FD_SET_behaviour:
  assumes "length ws = 4"
  shows "(sint fd < 0 \<longrightarrow> FD_SET fd ws = Inr ws) \<and>
    (0 \<le> sint fd \<and> sint fd < 256 \<and> sint fd mod 64 < 31 \<longrightarrow>
       (\<exists>ws'. FD_SET fd ws = Inr ws' \<and> length ws' = 4 \<and>
          members ws' = insert (nat (sint fd)) (members ws))) \<and>
    (0 \<le> sint fd \<and> 31 \<le> sint fd mod 64 \<longrightarrow> FD_SET fd ws = Inl Bad_shift) \<and>
    (256 \<le> sint fd \<and> sint fd mod 64 < 31 \<longrightarrow> FD_SET fd ws = Inl Oob_read)"
proof -
  have nat_mod: "0 \<le> i \<Longrightarrow> nat i mod 64 = nat (i mod 64)" for i :: int
    by (simp add: nat_mod_distrib)
  show ?thesis
  proof (intro conjI impI)
    assume r: "0 \<le> sint fd \<and> sint fd < 256 \<and> sint fd mod 64 < 31"
    define n where "n = nat (sint fd)"
    let ?ws' = "ws[n div 64 := ws ! (n div 64) OR push_bit (n mod 64) 1]"
    have n: "n < 256" "n mod 64 < 31" using r by (auto simp: n_def nat_mod)
    have i: "n div 64 < 4" using n by simp
    have "FD_SET fd ws = Inr ?ws'"
      using r i n assms by (simp add: FD_SET_def arr_get_def Let_def flip: n_def)
    moreover have "members ?ws' = insert n (members ws)"
    proof (rule set_eqI)
      fix x
      have "x div 64 = n div 64 \<and> x mod 64 = n mod 64 \<longleftrightarrow> x = n"
        by (metis div_mult_mod_eq)
      moreover have "x mod 64 < 64" by simp
      ultimately show "x \<in> members ?ws' \<longleftrightarrow> x \<in> insert n (members ws)"
        using i n assms
        by (cases "x div 64 = n div 64") (auto simp: members_def bit_or_iff bit_exp_iff)
    qed
    ultimately show "\<exists>ws'. FD_SET fd ws = Inr ws' \<and> length ws' = 4 \<and>
        members ws' = insert (nat (sint fd)) (members ws)"
      using assms by (auto simp: n_def)
  qed (use assms in \<open>auto simp: FD_SET_def Let_def nat_mod arr_get_def\<close>)
qed

text \<open>
  C35: The wait status macros: a normal end with code \<open>n\<close> (status \<open>n * 256\<close>) reads as exited with that
  code, an end by signal \<open>g\<close> (status \<open>g\<close>, 1 to 126) as signalled with that number and not exited;
  but \<open>WIFSIGNALED\<close> also holds for the status 0 of a successful end, so that one reads as both.
\<close>

theorem wait_status_decoding:
  assumes "n < 256" and "0 < g" and "g < 127"
  shows "WIFEXITED (of_nat (n * 256)) \<and> WEXITSTATUS (of_nat (n * 256)) = of_nat n \<and>
    (WIFSIGNALED (of_nat (n * 256)) \<longleftrightarrow> n = 0) \<and>
    \<not> WIFEXITED (of_nat g) \<and> WTERMSIG (of_nat g) = of_nat g \<and> WIFSIGNALED (of_nat g)"
proof -
  have sint: "sint (of_nat k :: i32) = int k" if "k < 2 ^ 31" for k
    using that by (simp add: signed_of_nat signed_take_bit_int_eq_self)
  have low: "(of_nat k :: i32) AND 0x7f = of_nat (k mod 128)" for k
  proof -
    have "(of_nat k :: i32) AND mask 7 = of_nat (take_bit 7 k)"
      by (simp only: take_bit_eq_mask [symmetric] of_nat_take_bit)
    then show ?thesis by (simp add: take_bit_eq_mod mask_eq_exp_minus_1)
  qed
  have ne: "(of_nat k :: i32) \<noteq> 0" if "0 < k" "k < 2 ^ 31" for k
    using sint [OF that(2)] that(1) by auto
  have "WEXITSTATUS (of_nat (n * 256)) = of_nat n"
  proof -
    have "push_bit 8 (of_nat n) AND push_bit 8 (mask 8) = push_bit 8 (of_nat n :: i32)"
      using assms(1) by (simp only: push_bit_and [symmetric] take_bit_eq_mask [symmetric] of_nat_take_bit [symmetric])
        (simp add: take_bit_nat_eq_self)
    then have "of_nat (n * 256) AND 0xff00 = (of_nat (n * 256) :: i32)"
      by (simp add: push_bit_eq_mult mask_eq_exp_minus_1)
    moreover have "drop_bit 8 (of_nat (n * 256) :: i32) = of_nat (n * 256 div 256)"
      using assms(1) by (simp only: drop_bit_eq_div word_arith_nat_div unat_of_nat)
        (simp add: take_bit_nat_eq_self)
    ultimately show ?thesis by (simp add: WEXITSTATUS_def)
  qed
  then show ?thesis
    using assms sint [of "n * 256"] sint [of g] ne [of g]
    by (simp add: WIFEXITED_def WTERMSIG_def WIFSIGNALED_def low del: of_nat_mult)
qed

end
