(* ===== verification/Results.thy ===== *)
theory Results
  imports Reachability
begin

text \<open>
  What the values that system calls return look like: the error numbers of the emulator, or a number
  that is not negative and fits in 32 bits; and which system calls do not come back at all.
\<close>

unbundle bit_operations_syntax

section \<open>Error numbers and counts\<close>

definition emulated_errors :: "i64 set" where
  "emulated_errors = {EPERM, ENOENT, ESRCH, EIO, EBADF, EACCES, EINVAL, EMFILE, ENOSPC, EROFS, ENOSYS}"

definition proper_result :: "i64 \<Rightarrow> bool" where
  "proper_result r \<longleftrightarrow> - r \<in> emulated_errors \<or> 0 \<le> sint r \<and> sint r < 2 ^ 32"

lemma proper_errors:
  "proper_result (- EPERM)" "proper_result (- ESRCH)" "proper_result (- EBADF)" "proper_result (- EACCES)"
  "proper_result (- EINVAL)" "proper_result (- EMFILE)" "proper_result (- ENOSYS)"
  "proper_result 0"
  by (simp_all add: proper_result_def emulated_errors_def)

lemma proper_small: "unat r < 2 ^ 32 \<Longrightarrow> proper_result r"
proof -
  assume r: "unat r < 2 ^ 32"
  then have "signed_take_bit 63 (int (unat r)) = int (unat r)"
    by (intro signed_take_bit_int_eq_self) (simp_all del: of_nat_unat)
  then have "sint r = int (unat r)"
    by (simp only: sint_uint uint_nat) simp
  then have "0 \<le> sint r \<and> sint r < 2 ^ 32" using r by (simp del: of_nat_unat)
  then show ?thesis by (simp add: proper_result_def)
qed

lemma proper_check_status:
  "proper_result ok \<Longrightarrow> proper_result (check_status h st ok)"
  "proper_result (sext (check_status h st 0))"
  "proper_result (sext (- efi_status_to_errno h st))"
  using efi_status_to_errno_range [of h st]
  by (auto simp: check_status_def proper_result_def emulated_errors_def)

lemma expand_chars_count:
  "expand_chars m src count it str_it buf = Some (Inr r) \<Longrightarrow> unat count < 2 ^ 32"
proof -
  assume "expand_chars m src count it str_it buf = Some (Inr r)"
  moreover have "(case x of Inl u \<Rightarrow> True | Inr r \<Rightarrow> unat count < 2 ^ 32)"
    if "expand_chars m src count it str_it buf = Some x" for x
  proof (rule expand_chars.raw_induct [where P = "\<lambda>m src count it str_it buf x.
      (case x of Inl u \<Rightarrow> True | Inr r \<Rightarrow> unat count < 2 ^ 32)", OF _ that])
    fix loop :: "memory \<Rightarrow> u64 \<Rightarrow> u64 \<Rightarrow> u32 \<Rightarrow> u32 \<Rightarrow> u16 option list \<Rightarrow> (ub + u32 \<times> u16 option list) option"
      and m src count it str_it buf x
    assume IH: "\<And>m src count it str_it buf x. loop m src count it str_it buf = Some x \<Longrightarrow>
        (case x of Inl u \<Rightarrow> True | Inr r \<Rightarrow> unat count < 2 ^ 32)"
    show "(if zext it = count then Some (Inr (str_it, buf)) else if src = 0 then Some (Inl Null_deref) else
        let c = load8 m (src + zext it) in
        if c = 0 then loop m src count (it + 1) (str_it - 1 + 1) buf
        else if c = 0x0A then
          (case arr_put (unat str_it) (Some 0x0D) buf of
             None \<Rightarrow> Some (Inl Oob_write)
           | Some buf1 \<Rightarrow>
               (case arr_put (unat (str_it + 1)) (Some 0x0A) buf1 of
                  None \<Rightarrow> Some (Inl Oob_write)
                | Some buf2 \<Rightarrow> loop m src count (it + 1) (str_it + 1 + 1) buf2))
        else
          (case arr_put (unat str_it) (Some (ucast c)) buf of
             None \<Rightarrow> Some (Inl Oob_write)
           | Some buf1 \<Rightarrow> loop m src count (it + 1) (str_it + 1) buf1)) = Some x \<Longrightarrow>
       (case x of Inl u \<Rightarrow> True | Inr r \<Rightarrow> unat count < 2 ^ 32)"
      using zext_less [of it] by (auto simp: Let_def split: if_splits option.splits dest!: IH)
  qed
  ultimately show ?thesis by force
qed

lemma write_console_result: "returns (\<lambda>r _. proper_result r) (write_console fw buf count s)"
  unfolding write_console_def
  by (auto simp: returns_def split: option.splits sum.splits prod.splits dest!: expand_chars_count
      intro!: proper_check_status(1) intro: proper_small)

lemma read_console_result: "returns (\<lambda>r _. proper_result r) (read_console fw buf count s)"
  unfolding read_console_def
  by (auto simp: returns_def split: option.splits sum.splits intro!: proper_small zext_less)


text \<open>The handlers that return an \<open>int\<close>.\<close>

lemma int_result_proper:
  "returns (\<lambda>r _. proper_result (sext r)) m \<Longrightarrow> returns (\<lambda>r _. proper_result r) (int_result m)"
  by (cases m) (auto simp: returns_def int_result_def)

lemma int_handlers_proper:
  "returns (\<lambda>r _. proper_result (sext r)) (fd_stat fw path buf s)"
  "returns (\<lambda>r _. proper_result (sext r)) (mem_munmap fw addr len s)"
  "returns (\<lambda>r _. proper_result (sext r)) (fd_select fw n rd wr ex t s)"
  "returns (\<lambda>r _. proper_result (sext r)) (time_gettimeofday fw tv s)"
  "returns (\<lambda>r _. proper_result (sext r)) (proc_kill fw pid sig s)"
  "returns (\<lambda>r _. proper_result (sext r)) (power_reboot fw m1 m2 cmd arg s)"
proof -
  have const: "proper_result (sext 0)" "proper_result (sext ENOTSUP)" "proper_result (sext (- EPERM))"
      "proper_result (sext (- ESRCH))" "proper_result (sext (- EINVAL))"
    by (simp_all add: proper_result_def emulated_errors_def)
  note defs = returns_def const proper_check_status proper_errors
  show "returns (\<lambda>r _. proper_result (sext r)) (fd_stat fw path buf s)"
    unfolding fd_stat_def fd_efi_stat_def
    by (auto intro!: returns_intros const proper_check_status split: prod.splits simp: Let_def)
  show "returns (\<lambda>r _. proper_result (sext r)) (mem_munmap fw addr len s)"
    by (auto simp: mem_munmap_def defs split: prod.splits)
  show "returns (\<lambda>r _. proper_result (sext r)) (fd_select fw n rd wr ex t s)"
    unfolding fd_select_def time_sleep_def
    by (intro returns_intros const) (auto simp: defs split: prod.splits)
  show "returns (\<lambda>r _. proper_result (sext r)) (time_gettimeofday fw tv s)"
    by (auto simp: time_gettimeofday_def defs Let_def split: prod.splits)
  show "returns (\<lambda>r _. proper_result (sext r)) (proc_kill fw pid sig s)"
    unfolding proc_kill_def by (intro returns_intros const)
  have reset: "returns (\<lambda>r _. proper_result (sext r)) (reset_machine fw t s)" for t s
    by (auto simp: reset_machine_def defs split: prod.splits if_splits)
  show "returns (\<lambda>r _. proper_result (sext r)) (power_reboot fw m1 m2 cmd arg s)"
    unfolding power_reboot_def Let_def by (intro returns_intros const reset)
qed

lemmas int_results = int_handlers_proper [THEN int_result_proper, THEN returnsD]

lemma proper_fixed: "r \<in> fixed_answers \<Longrightarrow> proper_result r"
  by (auto simp: fixed_answers_def proper_result_def emulated_errors_def)

text \<open>
  C8: In a reachable state, whatever a system call other than \<open>mmap\<close> returns (given all its arguments)
  is the negative of one of the eleven error numbers the emulator uses, or a number that is not
  negative and below \<open>2^32\<close>; so the library's test for a negative result always tells the two apart,
  and \<open>errno\<close> is never set to anything else.
\<close>

theorem syscall_results_proper:
  assumes "reachable fw s" and "arity no \<le> length args" and "no \<noteq> 9"
    and "syscall_emu_x86_64 fw no args s = Ret r s'"
  shows "proper_result r"
  using reachable_invariant [OF assms(1), THEN conjunct2] assms(2)
proof (cases rule: syscall_cases [where fw = fw])
  case answered
  then show ?thesis using assms(4) by (auto simp: proper_fixed)
next
  case exit
  then show ?thesis using assms(4) proper_errors(8) by (auto simp: bind_out_eq_Ret)
qed (use assms(3,4) int_results read_console_result [THEN returnsD] write_console_result [THEN returnsD]
    in \<open>auto simp: eq_commute [of "Ret r s'"]\<close>)

section \<open>Calls that do not come back\<close>

text \<open>
  Which ends other than a return a system call with these arguments may have: the image is left by
  \<open>exit\<close> with the status its argument chooses, or aborted by \<open>kill\<close> of the own process with a signal
  number below 30; the machine is reset or halted by \<open>reboot\<close> with valid magic numbers and the command
  for it; the endless loop behind \<open>kill\<close> is reached; or the 32-bit loop counter of a console read or
  write never meets its count.
\<close>

definition kills_itself :: "u64 \<Rightarrow> u64 list \<Rightarrow> bool" where
  "kills_itself no args \<longleftrightarrow> no = 62 \<and> to_int (args ! 0) = 2 \<and> sint (to_int (args ! 1)) < 30"

definition reboots :: "u64 \<Rightarrow> u64 list \<Rightarrow> i32 set \<Rightarrow> bool" where
  "reboots no args cmds \<longleftrightarrow> no = 169 \<and> valid_magic (to_int (args ! 0)) (to_int (args ! 1)) \<and> to_int (args ! 2) \<in> cmds"

primrec end_allowed :: "'w firmware \<Rightarrow> u64 \<Rightarrow> u64 list \<Rightarrow> ('s, 'a) outcome \<Rightarrow> bool" where
  "end_allowed fw no args (Ret r s) \<longleftrightarrow> True"
| "end_allowed fw no args (Exited st s) \<longleftrightarrow>
     no = 60 \<and> st = (if to_int (args ! 0) = 0 then EFI_SUCCESS (hdr fw) else EFI_END_OF_FILE (hdr fw)) \<or>
     kills_itself no args \<and> st = EFI_ABORTED (hdr fw)"
| "end_allowed fw no args (Reset r s) \<longleftrightarrow>
     r = EfiResetShutdown \<and> reboots no args {0x4321fedc} \<or>
     r = EfiResetWarm \<and> reboots no args {0x1234567, 0xa1b2c3d4}"
| "end_allowed fw no args (Hang s) \<longleftrightarrow> kills_itself no args \<or> reboots no args {0xcdef0123}"
| "end_allowed fw no args Diverge \<longleftrightarrow>
     (no = 0 \<and> to_int (args ! 0) = 0 \<or> no = 1 \<and> to_int (args ! 0) \<in> {1, 2}) \<and> 2 ^ 32 \<le> unat (args ! 2)"
| "end_allowed fw no args (Undef u) \<longleftrightarrow> True"

lemma end_allowed_int_result [simp]: "end_allowed fw no args (int_result m) \<longleftrightarrow> end_allowed fw no args m"
  by (cases m) (simp_all add: int_result_def)

lemma end_allowed_exit_image:
  "end_allowed fw no args (exit_image fw st s) \<longleftrightarrow>
    fst (bs_exit fw (Image_handle s) st (world s)) \<longrightarrow> end_allowed fw no args (Exited st s)"
  by (simp add: exit_image_def split: prod.splits)

lemma end_allowed_bstr:
  assumes "length (fres s) = 1024" and "\<And>str s'. end_allowed fw no args (f str s')"
  shows "end_allowed fw no args (bind_out (bstr_to_wstr p s) f)"
  using bstr_to_wstr_returns [OF assms(1), of p] assms(2) by (cases "p = 0") auto

lemma end_allowed_stat: "wf_machine s \<Longrightarrow> end_allowed fw no args (fd_stat fw p b s)"
  unfolding fd_stat_def
  by (rule end_allowed_bstr) (simp_all add: wf_machine_def fd_efi_stat_def Let_def case_prod_beta)

lemma end_allowed_quiet:
  "end_allowed fw no args (mem_mmap fw a l pr fl fd off s)"
  "end_allowed fw no args (mem_munmap fw a l s)" "end_allowed fw no args (fd_select fw n r w e t s)"
  "end_allowed fw no args (time_gettimeofday fw tv s)"
  by (simp_all add: mem_mmap_def mem_munmap_def fd_select_def time_sleep_def
      time_gettimeofday_def time_cstd_time_def Let_def case_prod_beta)

lemma end_allowed_reset:
  "end_allowed fw no args (Reset r s) \<Longrightarrow> end_allowed fw no args (reset_machine fw r s)"
  by (simp add: reset_machine_def split: prod.splits)

lemma end_allowed_power_reboot:
  assumes "no = 169" and "length (fres s) = 1024"
  shows "end_allowed fw no args (power_reboot fw (to_int (args ! 0)) (to_int (args ! 1)) (to_int (args ! 2)) arg s)"
  using assms unfolding power_reboot_def Let_def
  by (auto intro!: end_allowed_reset end_allowed_bstr simp: reboots_def valid_magic_def)

lemma end_allowed_kill:
  assumes "no = 62"
  shows "end_allowed fw no args (proc_kill fw (to_int (args ! 0)) (to_int (args ! 1)) s)"
  using assms
  by (simp add: proc_kill_def proc_abort_def exit_image_def kills_itself_def split: prod.splits)

lemma end_allowed_console:
  "no = 0 \<Longrightarrow> to_int (args ! 0) = 0 \<Longrightarrow> end_allowed fw no args (read_console fw b (args ! 2) s)"
  "no = 1 \<Longrightarrow> to_int (args ! 0) \<in> {1, 2} \<Longrightarrow> end_allowed fw no args (write_console fw b (args ! 2) s)"
proof -
  have r: "2 ^ 32 \<le> unat (args ! 2)" if "read_keys fw b (args ! 2) 0 s = None"
    using that read_keys_ends [of 0 "args ! 2" fw b s] by (intro leI notI) simp
  have w: "2 ^ 32 \<le> unat (args ! 2)" if "expand_chars (mem s) b (args ! 2) 0 0 buf = None" for buf
    using that expand_chars_ends [of 0 "args ! 2" "mem s" b 0 buf] by (intro leI notI) simp
  show "end_allowed fw no args (read_console fw b (args ! 2) s)" if "no = 0" "to_int (args ! 0) = 0"
    using that r by (auto simp: read_console_def split: option.splits sum.splits)
  show "end_allowed fw no args (write_console fw b (args ! 2) s)" if "no = 1" "to_int (args ! 0) \<in> {1, 2}"
    using that w by (auto simp: write_console_def case_prod_beta split: option.splits sum.splits)
qed

text \<open>
  C6: In a reachable state, a system call given all its arguments comes back to its caller unless it
  is one of these: \<open>exit\<close>, and \<open>kill\<close> of the own process with a signal number below 30, which leave the
  image with the status that belongs to the request or (\<open>kill\<close>, when the firmware refuses) loop for
  ever; \<open>reboot\<close> with valid magic numbers and the command to power off, restart or halt; and a console
  read or write of \<open>2^32\<close> bytes or more, whose 32-bit counter never reaches the count. (Undefined behaviour is the subject
  of another property.)
\<close>

theorem calls_that_do_not_return:
  assumes "reachable fw s" and "arity no \<le> length args"
  shows "end_allowed fw no args (syscall_emu_x86_64 fw no args s)"
proof -
  have wf: "wf_machine s" and e: "no_files s" using reachable_invariant [OF assms(1)] by simp_all
  then have len: "length (fres s) = 1024" by (simp add: wf_machine_def)
  from e assms(2) show ?thesis
  proof (cases rule: syscall_cases [where fw = fw])
    case exit
    then show ?thesis by (simp add: proc_exit_def exit_image_def split: prod.splits)
  next
    case kill
    then show ?thesis using end_allowed_kill by simp
  next
    case reboot
    then show ?thesis using end_allowed_power_reboot [OF _ len] by simp
  qed (simp_all add: end_allowed_quiet end_allowed_stat [OF wf] end_allowed_console)
qed

end
