(* ===== verification/AbstractKernel.thy ===== *)
theory AbstractKernel
  imports Reachability
begin

text \<open>
  An abstract kernel without descriptor table, conversion buffer and \<open>errno\<close>: its state is the two
  handles of the start-up code, the program's memory and the outside world. In reachable states the
  emulator refines it, call by call and over whole programs: what it adds to the abstract state is
  never seen by a program.
\<close>

unbundle bit_operations_syntax

section \<open>The abstract kernel\<close>

record 'w kernel =
  k_image :: u64
  k_volume :: u64
  k_mem :: memory
  k_world :: 'w

definition project :: "'w machine \<Rightarrow> 'w kernel" where
  "project s = \<lparr>k_image = Image_handle s, k_volume = Volume_handle s, k_mem = mem s, k_world = world s\<rparr>"

definition embed :: "'w kernel \<Rightarrow> 'w machine" where
  "embed a = \<lparr>Image_handle = k_image a, Volume_handle = k_volume a, fds = replicate 16 0,
     fres = replicate 1024 0, mem = k_mem a, errno = 0, world = k_world a\<rparr>"

abbreviation abstract :: "('w machine, 'a) outcome \<Rightarrow> ('w kernel, 'a) outcome" where
  "abstract m \<equiv> map_outcome project id m"

text \<open>A handler of the emulator, run on an abstract state.\<close>

definition on_kernel ::
  "('w machine \<Rightarrow> ('w machine, 'a) outcome) \<Rightarrow> 'w kernel \<Rightarrow> ('w kernel, 'a) outcome" where
  "on_kernel h a = abstract (h (embed a))"

lemma project_fields [simp]:
  "k_image (project s) = Image_handle s" "k_volume (project s) = Volume_handle s"
  "k_mem (project s) = mem s" "k_world (project s) = world s"
  by (simp_all add: project_def)

lemma project_updates [simp]:
  "project (s\<lparr>world := w\<rparr>) = (project s)\<lparr>k_world := w\<rparr>"
  "project (s\<lparr>mem := m\<rparr>) = (project s)\<lparr>k_mem := m\<rparr>"
  "project (s\<lparr>fres := b\<rparr>) = project s" "project (s\<lparr>errno := e\<rparr>) = project s" "project (s\<lparr>fds := t\<rparr>) = project s"
  by (simp_all add: project_def)

lemma embed_fields [simp]:
  "Image_handle (embed a) = k_image a" "Volume_handle (embed a) = k_volume a" "mem (embed a) = k_mem a"
  "world (embed a) = k_world a" "fds (embed a) = replicate 16 0" "length (fres (embed a)) = 1024"
  by (simp_all add: embed_def)

lemma project_embed [simp]: "project (embed a) = a"
  by (simp add: project_def embed_def)

section \<open>Handlers that do not see the difference\<close>

text \<open>
  The interface between a handler and the abstract kernel: what it does to the abstract state depends
  on the abstract state only.
\<close>

locale blind_handler =
  fixes h :: "'w machine \<Rightarrow> ('w machine, 'a) outcome"
  assumes blind: "length (fres s) = 1024 \<Longrightarrow> abstract (h s) = on_kernel h (project s)"
begin

lemma same_view:
  assumes "length (fres s) = 1024" and "length (fres t) = 1024" and "project s = project t"
  shows "abstract (h s) = abstract (h t)"
  using assms by (simp add: blind)

lemma same_result:
  assumes "length (fres s) = 1024" and "length (fres t) = 1024" and "project s = project t" and "h s = Ret r s'"
  shows "\<exists>t'. h t = Ret r t' \<and> project t' = project s'"
  using same_view [OF assms(1-3)] assms(4) by (cases "h t") auto

end

text \<open>What the keyboard loop gives, without what the abstract kernel does not see.\<close>

definition keys_view :: "ub + u32 \<times> 'w machine \<Rightarrow> ub + u32 \<times> 'w kernel" where
  "keys_view = map_sum id (map_prod id project)"

lemma read_keys_view:
  assumes "read_keys fw buf count it s = Some x" and "project t = project s"
  shows "\<exists>y. read_keys fw buf count it t = Some y \<and> keys_view y = keys_view x"
proof -
  have "\<forall>t. project t = project s \<longrightarrow> (\<exists>y. read_keys fw buf count it t = Some y \<and> keys_view y = keys_view x)"
    if "read_keys fw buf count it s = Some x" for x
  proof (rule read_keys.raw_induct [where P = "\<lambda>fw buf count it s x. \<forall>t. project t = project s \<longrightarrow>
      (\<exists>y. read_keys fw buf count it t = Some y \<and> keys_view y = keys_view x)", OF _ that])
    fix loop :: "'a firmware \<Rightarrow> u64 \<Rightarrow> u64 \<Rightarrow> u32 \<Rightarrow> 'a machine \<Rightarrow> (ub + u32 \<times> 'a machine) option"
      and fw buf count it s x
    assume IH: "\<And>fw buf count it s x. loop fw buf count it s = Some x \<Longrightarrow> \<forall>t. project t = project s \<longrightarrow>
        (\<exists>y. read_keys fw buf count it t = Some y \<and> keys_view y = keys_view x)"
    assume r: "(if zext it = count then Some (Inr (it, s)) else
        let w = snd (stall fw 1000 (world s)); w = snd (wait_for_key fw w);
            (_, key, w) = read_key fw w; c = (ucast key :: u8)
        in if it = 0 \<and> c = 0x08 then loop fw buf count (it + 1) (s\<lparr>world := w\<rparr>)
           else let w = snd (out_string fw (before_nul [key]) w);
                 w = (if c = 0x0D then snd (out_string fw [0x0A] w) else w);
                 c = (if c = 0x0D then 0x0A else c);
                 s = s\<lparr>world := w, mem := store8 (buf + zext it) c (mem s)\<rparr>
             in if buf = 0 then Some (Inl Null_deref)
                else if c = 0x0A then Some (Inr (it, s)) else loop fw buf count (it + 1) s) = Some x"
    show "\<forall>t. project t = project s \<longrightarrow> (\<exists>y. read_keys fw buf count it t = Some y \<and> keys_view y = keys_view x)"
    proof (intro allI impI)
      fix t assume p: "project t = project s"
      then have w: "world t = world s" "mem t = mem s" by (metis project_fields(3,4))+
      show "\<exists>y. read_keys fw buf count it t = Some y \<and> keys_view y = keys_view x"
        using r p by (subst read_keys.simps)
          (auto simp: Let_def w case_prod_beta keys_view_def split: if_splits dest!: IH)
    qed
  qed
  from this [OF assms(1)] assms(2) show ?thesis by simp
qed

lemma read_console_view:
  assumes "project t = project s"
  shows "abstract (read_console fw buf count t) = abstract (read_console fw buf count s)"
proof (cases "read_keys fw buf count 0 s")
  case None
  then have "read_keys fw buf count 0 t = None"
    using read_keys_view [of fw buf count 0 t _ s] assms by (cases "read_keys fw buf count 0 t") fastforce+
  with None show ?thesis by (simp add: read_console_def)
next
  case (Some x)
  then obtain y where "read_keys fw buf count 0 t = Some y" "keys_view y = keys_view x"
    using read_keys_view assms by blast
  with Some show ?thesis
    by (cases x; cases y) (auto simp: read_console_def keys_view_def split: prod.splits)
qed

lemma view_eqD: "project t = project s \<Longrightarrow> world t = world s \<and> mem t = mem s \<and> Image_handle t = Image_handle s \<and> Volume_handle t = Volume_handle s"
  by (metis project_fields)

lemma write_console_view:
  assumes "project t = project s"
  shows "abstract (write_console fw buf count t) = abstract (write_console fw buf count s)"
  using view_eqD [OF assms] assms by (auto simp: write_console_def arr_put_def split: option.splits sum.splits prod.splits if_splits)

interpretation blind_read: blind_handler "read_console fw buf count" for fw buf count
  by unfold_locales (unfold on_kernel_def, rule read_console_view, simp_all)

interpretation blind_write: blind_handler "write_console fw buf count" for fw buf count
  by unfold_locales (unfold on_kernel_def, rule write_console_view, simp_all)

section \<open>The system calls of the abstract kernel\<close>

text \<open>
  What each call is to do, written down for the abstract state: no table, no buffer. Only the keyboard
  loop of a console read, and console writes of \<open>2^31\<close> bytes or more, are taken from the emulator.
\<close>

definition kernel_stat :: "'w firmware \<Rightarrow> u64 \<Rightarrow> u64 \<Rightarrow> 'w kernel \<Rightarrow> ('w kernel, u64) outcome" where
  "kernel_stat fw path buf a =
     (if path = 0 then Undef Null_deref
      else
        let name = map ucast (before_nul (load_bytes (k_mem a) path 510));
            (status, h, w) = f_open fw (k_volume a) name (EFI_FILE_MODE_READ (hdr fw)) 0 (k_world a)
        in if EFI_ERROR (hdr fw) status then Ret (sext (- efi_status_to_errno (hdr fw) status)) (a\<lparr>k_world := w\<rparr>)
           else if buf = 0 then Undef Null_deref
           else
             let m = store_stat_fixed buf (k_volume a) (k_mem a);
                 (status, info, w) = f_getinfo fw h w
             in if EFI_ERROR (hdr fw) status
                then Ret (sext (- efi_status_to_errno (hdr fw) status)) (a\<lparr>k_world := w, k_mem := m\<rparr>)
                else Ret 0 (a\<lparr>k_world := w, k_mem := store_stat_info buf info m\<rparr>))"

definition refused :: "i32 \<Rightarrow> 'w kernel \<Rightarrow> ('w kernel, u64) outcome" where
  "refused fd a = Ret (if sint fd < 4 then - EACCES else - EBADF) a"

text \<open>A firmware service whose error becomes a negative number, and whose success this value.\<close>

definition service :: "'w firmware \<Rightarrow> u64 \<Rightarrow> u64 \<Rightarrow> 'w \<Rightarrow> 'w kernel \<Rightarrow> ('w kernel, u64) outcome" where
  "service fw status ok w a =
     Ret (if EFI_ERROR (hdr fw) status then sext (- efi_status_to_errno (hdr fw) status) else ok) (a\<lparr>k_world := w\<rparr>)"

definition kernel_write :: "'w firmware \<Rightarrow> u64 \<Rightarrow> u64 \<Rightarrow> 'w kernel \<Rightarrow> ('w kernel, u64) outcome" where
  "kernel_write fw buf count a =
     (let bs = load_bytes (k_mem a) buf (unat count) in
      if 2 ^ 31 \<le> unat count then on_kernel (write_console fw buf count) a
      else if buf = 0 \<and> count \<noteq> 0 then Undef Null_deref
      else if \<forall>b \<in> set bs. b = 0x0A then Undef Oob_write
      else (case out_string fw (console_text bs) (k_world a) of (status, w) \<Rightarrow> service fw status count w a))"

definition kernel_mmap :: "'w firmware \<Rightarrow> u64 \<Rightarrow> i32 \<Rightarrow> 'w kernel \<Rightarrow> ('w kernel, u64) outcome" where
  "kernel_mmap fw len fd a =
     (if 0 < sint fd then Ret (- ENOTSUP) a
      else (case allocate_pool fw len (k_world a) of (status, p, w) \<Rightarrow> service fw status p w a))"

definition kernel_wait :: "'w firmware \<Rightarrow> bool \<Rightarrow> u64 \<Rightarrow> 'w kernel \<Rightarrow> ('w kernel, u64) outcome" where
  "kernel_wait fw watch tv a =
     (if watch then Ret ENOTSUP a
      else if tv = 0 then Undef Null_deref
      else
        (case stall fw (load64 (k_mem a) tv * 1000000 + load64 (k_mem a) (tv + 8)) (k_world a) of
           (status, w) \<Rightarrow> service fw status 0 w a))"

definition kernel_time :: "'w firmware \<Rightarrow> u64 \<Rightarrow> 'w kernel \<Rightarrow> ('w kernel, u64) outcome" where
  "kernel_time fw tv a =
     (let (_, t, w) = get_time fw (k_world a);
          seconds = fst (time_efi_time_to_time_t (case t of None \<Rightarrow> zero_time | Some t \<Rightarrow> t))
      in if tv = 0 then Undef Null_deref
         else Ret 0 (a\<lparr>k_world := w, k_mem := store64 (tv + 8) 0 (store64 tv seconds (k_mem a))\<rparr>))"

definition kernel_leave ::
  "'w firmware \<Rightarrow> u64 \<Rightarrow> ('w kernel \<Rightarrow> ('w kernel, u64) outcome) \<Rightarrow> 'w kernel \<Rightarrow> ('w kernel, u64) outcome" where
  "kernel_leave fw status stay a =
     (case bs_exit fw (k_image a) status (k_world a) of
        (gone, w) \<Rightarrow> if gone then Exited status (a\<lparr>k_world := w\<rparr>) else stay (a\<lparr>k_world := w\<rparr>))"

definition kernel_kill :: "'w firmware \<Rightarrow> i32 \<Rightarrow> i32 \<Rightarrow> 'w kernel \<Rightarrow> ('w kernel, u64) outcome" where
  "kernel_kill fw pid sig a =
     (if pid = 1 then Ret (- EPERM) a
      else if pid \<noteq> 2 then Ret (- ESRCH) a
      else if 30 \<le> sint sig then Ret (- EINVAL) a
      else kernel_leave fw (EFI_ABORTED (hdr fw)) Hang a)"

definition kernel_reboot :: "'w firmware \<Rightarrow> i32 \<Rightarrow> i32 \<Rightarrow> i32 \<Rightarrow> u64 \<Rightarrow> 'w kernel \<Rightarrow> ('w kernel, u64) outcome" where
  "kernel_reboot fw magic1 magic2 cmd arg a =
     (if \<not> (valid_magic magic1 magic2 \<and> power_cmd cmd) then Ret (- EINVAL) a
      else if cmd = LINUX_REBOOT_CMD_RESTART2 \<and> arg = 0 then Undef Null_deref
      else
        let w = show_texts fw (power_texts cmd (load_bytes (k_mem a) arg 510)) (k_world a)
        in case power_reset cmd of
             None \<Rightarrow> Hang (a\<lparr>k_world := w\<rparr>)
           | Some r \<Rightarrow>
               (case reset_system fw r w of
                  (gone, w) \<Rightarrow> if gone then Reset r (a\<lparr>k_world := w\<rparr>) else Ret 0 (a\<lparr>k_world := w\<rparr>)))"

text \<open>The calls with a fixed answer: user and group 1000, process 2 with parent 1, \<open>-ENOSYS\<close> for the rest.\<close>

definition fixed_result :: "u64 \<Rightarrow> u64" where
  "fixed_result no =
     (if no \<in> {10, 24} then 0
      else if no \<in> {102, 104, 107, 108} then 1000
      else if no \<in> {39, 186} then 2
      else if no = 110 then 1
      else if no \<in> {105, 106} then - EPERM
      else - ENOSYS)"

definition kernel_call :: "'w firmware \<Rightarrow> u64 \<Rightarrow> u64 list \<Rightarrow> 'w kernel \<Rightarrow> ('w kernel, u64) outcome" where
  "kernel_call fw no args a =
     with_args (arity no) args
      (if no = 0 \<and> to_int (args ! 0) = 0 then on_kernel (read_console fw (args ! 1) (args ! 2)) a
       else if no = 1 \<and> to_int (args ! 0) \<in> {1, 2} then kernel_write fw (args ! 1) (args ! 2) a
       else if no \<in> {0, 1, 3, 5, 8, 32, 74, 75, 217} then refused (to_int (args ! 0)) a
       else if no = 2 then Ret (- EMFILE) a
       else if no = 4 \<or> no = 6 then kernel_stat fw (args ! 0) (args ! 1) a
       else if no = 9 then kernel_mmap fw (args ! 1) (to_int (args ! 4)) a
       else if no = 11 then (case free_pool fw (args ! 0) (k_world a) of (status, w) \<Rightarrow> service fw status 0 w a)
       else if no = 23 then
         kernel_wait fw (to_int (args ! 0) \<noteq> 0 \<or> args ! 1 \<noteq> 0 \<or> args ! 2 \<noteq> 0 \<or> args ! 3 \<noteq> 0) (args ! 4) a
       else if no = 33 then
         let old = to_int (args ! 0); new = to_int (args ! 1)
         in if 4 \<le> sint old \<and> sint old \<le> 16 \<and> (sint new < 4 \<or> 19 < sint new) then Undef Oob_read
            else refused old a
       else if no = 60 then
         kernel_leave fw (if to_int (args ! 0) = 0 then EFI_SUCCESS (hdr fw) else EFI_END_OF_FILE (hdr fw)) (Ret 0) a
       else if no = 62 then kernel_kill fw (to_int (args ! 0)) (to_int (args ! 1)) a
       else if no = 96 then kernel_time fw (args ! 0) a
       else if no = 169 then
         kernel_reboot fw (to_int (args ! 0)) (to_int (args ! 1)) (to_int (args ! 2)) (args ! 3) a
       else Ret (fixed_result no) a)"

text \<open>
  A program between its start and its result: it makes system calls and goes on with what they return,
  writes and reads its memory, and ends with the value of \<open>main\<close>.
\<close>

datatype program =
    Done i32
  | Call u64 "u64 list" "u64 \<Rightarrow> program"
  | Poke u64 u8 program
  | Peek u64 "u8 \<Rightarrow> program"

primrec machine_run :: "'w firmware \<Rightarrow> program \<Rightarrow> 'w machine \<Rightarrow> ('w machine, i32) outcome" where
  "machine_run fw (Done c) = Ret c"
| "machine_run fw (Call no args k) =
     (\<lambda>s. bind_out (syscall_emu_x86_64 fw no args s) (\<lambda>r. machine_run fw (k r)))"
| "machine_run fw (Poke x b p) = (\<lambda>s. machine_run fw p (s\<lparr>mem := store8 x b (mem s)\<rparr>))"
| "machine_run fw (Peek x k) = (\<lambda>s. machine_run fw (k (load8 (mem s) x)) s)"

primrec kernel_run :: "'w firmware \<Rightarrow> program \<Rightarrow> 'w kernel \<Rightarrow> ('w kernel, i32) outcome" where
  "kernel_run fw (Done c) = Ret c"
| "kernel_run fw (Call no args k) = (\<lambda>a. bind_out (kernel_call fw no args a) (\<lambda>r. kernel_run fw (k r)))"
| "kernel_run fw (Poke x b p) = (\<lambda>a. kernel_run fw p (a\<lparr>k_mem := store8 x b (k_mem a)\<rparr>))"
| "kernel_run fw (Peek x k) = (\<lambda>a. kernel_run fw (k (load8 (k_mem a) x)) a)"

section \<open>The simulation\<close>

lemma abstract_simps [simp]:
  "abstract (with_args n args m) = with_args n args (abstract m)"
  "abstract (int_result m) = bind_out (abstract m) (\<lambda>r. Ret (sext r))"
  by (cases m, simp_all add: with_args_def int_result_def)+

lemma fd_stat_abstract:
  assumes "length (fres s) = 1024"
  shows "abstract (int_result (fd_stat fw path buf s)) = kernel_stat fw path buf (project s)"
proof (cases "path = 0")
  case True
  then show ?thesis by (simp add: fd_stat_def kernel_stat_def)
next
  case False
  obtain b where "bstr_to_wstr path s = Ret (map ucast (before_nul (load_bytes (mem s) path 510))) (s\<lparr>fres := b\<rparr>)"
    using bstr_to_wstr_returns [OF assms False] by blast
  with False show ?thesis
    by (simp add: fd_stat_def kernel_stat_def fd_efi_stat_def fd_efi_get_file_info_def Let_def split: prod.splits)
qed

lemma write_abstract:
  assumes "length (fres s) = 1024"
  shows "abstract (write_console fw buf count s) = kernel_write fw buf count (project s)"
proof (cases "2 ^ 31 \<le> unat count")
  case True
  then show ?thesis using blind_write.blind [OF assms] by (simp add: kernel_write_def)
next
  case False
  then have "unat count < 2 ^ 31" by simp
  from write_console_eq [OF this refl, of fw buf s] False show ?thesis
    by (simp add: kernel_write_def service_def check_status_def Let_def split: prod.splits)
qed

lemma leave_abstract:
  "abstract (bind_out (exit_image fw st s) f) =
     (case bs_exit fw (Image_handle s) st (world s) of
        (gone, w) \<Rightarrow> if gone then Exited st ((project s)\<lparr>k_world := w\<rparr>) else abstract (f () (s\<lparr>world := w\<rparr>)))"
  by (simp add: exit_image_def split: prod.splits)

lemma reboot_abstract:
  assumes "length (fres s) = 1024"
  shows "abstract (int_result (power_reboot fw m1 m2 cmd arg s)) = kernel_reboot fw m1 m2 cmd arg (project s)"
proof -
  have r: "abstract (int_result (reset_outcome fw reset s')) =
      (case reset of None \<Rightarrow> Hang (project s')
       | Some r \<Rightarrow> (case reset_system fw r (world s') of (gone, w) \<Rightarrow>
           if gone then Reset r ((project s')\<lparr>k_world := w\<rparr>) else Ret 0 ((project s')\<lparr>k_world := w\<rparr>)))"
    for reset and s' :: "'a machine"
    by (simp add: reset_outcome_def split: option.splits prod.splits)
  consider "\<not> (valid_magic m1 m2 \<and> power_cmd cmd)"
    | "valid_magic m1 m2" "power_cmd cmd" "cmd \<noteq> LINUX_REBOOT_CMD_RESTART2"
    | "valid_magic m1 m2" "cmd = LINUX_REBOOT_CMD_RESTART2" by blast
  then show ?thesis
  proof cases
    case 1
    then show ?thesis unfolding power_reboot_refused [OF 1] by (simp add: kernel_reboot_def)
  next
    case 2
    then show ?thesis
      unfolding power_reboot_texts [OF 2, where bytes = "load_bytes (mem s) arg 510"] r
      by (simp add: kernel_reboot_def Let_def split: option.splits prod.splits)
  next
    case 3
    obtain b where b: "power_reboot fw m1 m2 LINUX_REBOOT_CMD_RESTART2 arg s =
        (if arg = 0 then Undef Null_deref
         else reset_outcome fw (Some EfiResetWarm) (s\<lparr>fres := b, world := show_texts fw
           (power_texts LINUX_REBOOT_CMD_RESTART2 (load_bytes (mem s) arg 510)) (world s)\<rparr>))"
      using power_reboot_restart2 [OF 3(1) assms] .
    have p: "power_cmd LINUX_REBOOT_CMD_RESTART2" "power_reset LINUX_REBOOT_CMD_RESTART2 = Some EfiResetWarm"
      by (simp_all add: power_cmd_def power_reset_def)
    show ?thesis
    proof (cases "arg = 0")
      case True
      then show ?thesis using 3 b p by (simp add: kernel_reboot_def)
    next
      case False
      then have "power_reboot fw m1 m2 cmd arg s = reset_outcome fw (Some EfiResetWarm) (s\<lparr>fres := b,
          world := show_texts fw (power_texts cmd (load_bytes (mem s) arg 510)) (world s)\<rparr>)"
        using b 3(2) by simp
      then have "abstract (int_result (power_reboot fw m1 m2 cmd arg s)) =
          abstract (int_result (reset_outcome fw (Some EfiResetWarm) (s\<lparr>fres := b,
            world := show_texts fw (power_texts cmd (load_bytes (mem s) arg 510)) (world s)\<rparr>)))" by (rule arg_cong)
      then show ?thesis
        unfolding r using 3 p False by (simp add: kernel_reboot_def Let_def split: prod.splits)
    qed
  qed
qed

text \<open>The other calls behind the dispatcher.\<close>

lemma plain_calls_abstract:
  "abstract (mem_mmap fw x l p f fd off s) = kernel_mmap fw l fd (project s)"
  "abstract (int_result (mem_munmap fw x l s)) =
     (case free_pool fw x (world s) of (status, w) \<Rightarrow> service fw status 0 w (project s))"
  "abstract (int_result (fd_select fw n r w e tv s)) =
     kernel_wait fw (n \<noteq> 0 \<or> r \<noteq> 0 \<or> w \<noteq> 0 \<or> e \<noteq> 0) tv (project s)"
  "abstract (int_result (time_gettimeofday fw tv s)) = kernel_time fw tv (project s)"
  "abstract (bind_out (proc_exit fw st s) (\<lambda>_ s. Ret 0 s)) =
     kernel_leave fw (if st = 0 then EFI_SUCCESS (hdr fw) else EFI_END_OF_FILE (hdr fw)) (Ret 0) (project s)"
  "abstract (int_result (proc_kill fw pid sig s)) = kernel_kill fw pid sig (project s)"
  by (simp_all add: mem_mmap_def kernel_mmap_def service_def check_status_def mem_munmap_def fd_select_def
      time_sleep_def kernel_wait_def time_gettimeofday_def time_cstd_time_def kernel_time_def store_timeval_def
      proc_exit_def kernel_leave_def leave_abstract proc_kill_def proc_abort_def kernel_kill_def Let_def
      int_result_def bind_out_assoc split: prod.splits)

lemma fixed_result_eq:
  "arity no = 0 \<Longrightarrow> syscall_emu_x86_64 fw no args s = Ret (fixed_result no) s"
  by (simp add: arity_def syscall_emu_x86_64_def fixed_result_def split: if_splits)

lemma syscall_simulation:
  assumes "wf_machine s" and "no_files s"
  shows "abstract (syscall_emu_x86_64 fw no args s) = kernel_call fw no args (project s)"
proof (cases "arity no \<le> length args")
  case False
  then have "no \<in> {0, 1, 2, 3, 4, 5, 6, 8, 9, 11, 23, 32, 33, 60, 62, 74, 75, 96, 169, 217}"
    by (auto simp: arity_def split: if_splits)
  with False show ?thesis
    by (elim insertE emptyE) (simp_all add: syscall_table arity_def with_args_def kernel_call_def)
next
  case True
  have len: "length (fres s) = 1024" using assms(1) by (simp add: wf_machine_def)
  note eqs = syscall_table arity_def with_args_enough kernel_call_def refused_def empty_calls [OF assms(2)]
  consider (fixed) "arity no = 0"
    | (table) "no \<in> {2, 3, 5, 8, 32, 74, 75, 217}" | (n_read) "no = 0" | (n_write) "no = 1"
    | (n_stat) "no \<in> {4, 6}" | (n_dup2) "no = 33" | (n_reboot) "no = 169" | (plain) "no \<in> {9, 11, 23, 60, 62, 96}"
    using syscall_numbers [of no] by fastforce
  then show ?thesis
  proof cases
    case fixed
    then have "no \<notin> {0, 1, 2, 3, 4, 5, 6, 8, 9, 11, 23, 32, 33, 60, 62, 74, 75, 96, 169, 217}"
      by (auto simp: arity_def)
    then have "kernel_call fw no args (project s) = Ret (fixed_result no) (project s)"
      using fixed by (simp add: kernel_call_def with_args_def)
    then show ?thesis unfolding fixed_result_eq [OF fixed] by simp
  next
    case table
    then show ?thesis using True by (elim insertE emptyE) (simp_all add: eqs)
  next
    case n_read
    then show ?thesis
      using True blind_read.blind [OF len, of fw "args ! 1" "args ! 2"]
      by (cases "to_int (args ! 0) = 0") (simp_all add: eqs)
  next
    case n_write
    then show ?thesis
      using True write_abstract [OF len, of fw "args ! 1" "args ! 2"]
      by (cases "to_int (args ! 0) \<in> {1, 2}") (auto simp: eqs)
  next
    case n_stat
    then show ?thesis
      using True by (elim insertE emptyE) (simp_all add: eqs fd_stat_abstract [OF len] del: abstract_simps)
  next
    case n_dup2
    then show ?thesis using True fd_dup2_empty [OF assms(2)] by (auto simp: eqs Let_def)
  next
    case n_reboot
    then show ?thesis using True reboot_abstract [OF len] by (simp add: eqs del: abstract_simps)
  next
    case plain
    then show ?thesis
      using True by (elim insertE emptyE) (simp_all add: eqs plain_calls_abstract del: abstract_simps)
  qed
qed

lemma run_simulation:
  assumes "reachable fw s"
  shows "abstract (machine_run fw p s) = kernel_run fw p (project s)"
  using assms
proof (induction p arbitrary: s)
  case (Done c)
  then show ?case by simp
next
  case (Call no args k)
  have sim: "kernel_call fw no args (project s) = abstract (syscall_emu_x86_64 fw no args s)"
    using reachable_invariant [OF Call.prems] by (simp add: syscall_simulation)
  show ?case
  proof (cases "syscall_emu_x86_64 fw no args s")
    case (Ret r s')
    then show ?thesis using Call.IH [OF _ reachable.call [OF Call.prems Ret]] by (simp add: sim)
  qed (simp_all add: sim)
next
  case (Poke x b p)
  have "reachable fw (s\<lparr>mem := store8 x b (mem s)\<rparr>)"
    using reachable.run [OF Poke.prems, where m = "store8 x b (mem s)" and e = "errno s" and w = "world s"] by simp
  from Poke.IH [OF this] show ?case by simp
next
  case (Peek x k)
  then show ?case by simp
qed

text \<open>
  C1: The emulator refines the abstract kernel: from a reachable state, a program has the outcome the
  abstract kernel gives it: the same results of every call on the way, the same end (return, exit,
  reset, endless loop or undefined behaviour) and the same memory, world and handles. The
  descriptor table, the conversion buffer and \<open>errno\<close> have no influence on what a program sees.
\<close>

theorem emulator_refines_kernel:
  assumes "reachable fw s"
  shows "map_outcome project id (machine_run fw p s) = kernel_run fw p (project s)"
  by (rule run_simulation [OF assms])

text \<open>
  C2: A whole run, from the firmware's call of \<open>efi_main\<close> on: with a firmware that finds the volume,
  \<open>efi_main\<close> prints its text and runs the program as the abstract kernel does, on the volume it
  found, the memory as it was and whatever the globals held before; when the program returns, the
  image ends with success for 0 and with \<open>EFI_END_OF_FILE\<close> for everything else.
\<close>

theorem efi_main_runs_program:
  assumes "length (fres s0) = 1024"
    and "handle_loaded_image fw img (world s0) = (sa, Some dev, w1)"
    and "handle_file_system fw dev w1 = (sb, Some io, w2)"
    and "open_volume fw io w2 = (sc, Some vol, w3)"
    and "out_string fw (wide (''Initialized! Calling main()...'' @ [CHR 0x0D, CHR 0x0A])) w3 = (sd, w4)"
  shows "map_outcome project id (efi_main fw (machine_run fw p) img s0) =
    bind_out (kernel_run fw p \<lparr>k_image = img, k_volume = vol, k_mem = mem s0, k_world = w4\<rparr>)
      (\<lambda>r. Ret (if r \<noteq> 0 then EFI_END_OF_FILE (hdr fw) else EFI_SUCCESS (hdr fw)))"
proof -
  let ?s = "s0\<lparr>Image_handle := img, world := w4, Volume_handle := vol, fds := replicate 16 0\<rparr>"
  have i: "efi_init fw img s0 = Ret () ?s"
    using assms(2-5) by (simp add: efi_init_def GetVolume_def Let_def del: append.simps replicate.simps)
  have r: "reachable fw ?s" using reachable.boot [OF assms(1) i] .
  have "kernel_run fw p \<lparr>k_image = img, k_volume = vol, k_mem = mem s0, k_world = w4\<rparr> =
      abstract (machine_run fw p ?s)"
    unfolding run_simulation [OF r] by (simp add: project_def)
  then show ?thesis
    by (cases "machine_run fw p ?s") (simp_all add: efi_main_def i)
qed

end
