(* ===== verification/LibraryWitnesses.thy ===== *)
theory LibraryWitnesses
  imports Witnesses NolibcTypes Getdelim EndToEnd Results AbstractKernel
begin

text \<open>
  The properties of the library, and those of the emulator as its callers see it, applied to concrete
  inputs: the firmware and the machine of \<open>RamFirmware\<close>, kernel headers of x86-64 and of an older
  kernel, and a C library whose heap is one static block.
\<close>

unbundle bit_operations_syntax

section \<open>Kernel headers\<close>

definition demo_hdr :: kernel_hdr where
  "demo_hdr = \<lparr>nr = x86_64_nr, AT_FDCWD = - 100, SIGCHLD = 17, TIOCSPGRP = 0x5410, O_CREAT_flag = 0x40,
     PROT_READ = 1, PROT_WRITE = 2, ARCH_WANT_SYS_OLD_SELECT = False, ARCH_WANT_SYS_PSELECT6 = False\<rparr>"

definition old_hdr :: kernel_hdr where
  "old_hdr = demo_hdr\<lparr>nr := x86_64_nr(''newfstatat'' := None)\<rparr>"

lemma x86_64_demo: "x86_64 demo_hdr"
  by (simp add: x86_64_def demo_hdr_def)

lemma demo_hdr_numbers [simp]:
  "nr demo_hdr ''read'' = Some 0" "nr demo_hdr ''write'' = Some 1"
  "nr old_hdr ''newfstatat'' = None" "nr old_hdr ''stat'' = Some 4"
  by (simp_all add: x86_64_facts [OF x86_64_demo]) (simp_all add: old_hdr_def x86_64_nr_def)

section \<open>A static heap\<close>

definition static_heap :: "ram_world heap_ops" where
  "static_heap = \<lparr>malloc = \<lambda>n s. Ret 0x700000 s, realloc = \<lambda>p n s. Ret 0x700000 s\<rparr>"

definition static_block :: "u64 \<Rightarrow> u64 \<Rightarrow> ram_world machine \<Rightarrow> bool" where
  "static_block q n s \<longleftrightarrow> q = 0x700000 \<and> n \<le> 0x10000"

lemma static_heap_contract:
  "heap_contract static_heap static_block (own_variables 0x2000 0x2008 0x3000) 0x10000 view"
proof -
  have far: "\<not> in_range 0x700000 (unat n) x"
    if "n \<le> 0x10000" "own_variables 0x2000 0x2008 0x3000 x" for n x :: u64
  proof -
    have "\<not> in_range 0x700000 0x10000 x"
      using that(2) disjoint_not_in_range [of "0x700000" "0x10000" "0x2000" 8 x]
        disjoint_not_in_range [of "0x700000" "0x10000" "0x2008" 8 x]
      by (auto simp: own_variables_def disjoint_def) (simp add: in_range_def)
    moreover have "unat n \<le> 0x10000" using that(1) by (simp add: word_le_nat_alt)
    ultimately show ?thesis by (simp add: in_range_def)
  qed
  moreover have "\<exists>m w. s = s\<lparr>mem := m, world := w\<rparr> \<and> view w = view (world s) \<and> P m" if "P (mem s)"
    for P and s :: "ram_world machine"
    using that by (intro exI [of _ "mem s"] exI [of _ "world s"]) simp
  ultimately show ?thesis
    unfolding heap_contract_def by (auto simp: static_heap_def static_block_def)
qed

section \<open>Library calls\<close>

theorem newer_calls_fail_witness:
  "open_call demo_hdr ram_fw 0x1000 0 0 demo = Ret (- 1) (demo\<lparr>errno := 38\<rparr>) \<and>
   sbrk demo_hdr ram_fw 16 demo = Ret (- 1) (demo\<lparr>errno := 12\<rparr>)"
  using newer_calls_fail [OF x86_64_demo, where fw = ram_fw and path = "0x1000" and flags = 0 and v = 0 and s = demo and inc = 16]
  by simp

theorem sleeps_return_witness:
  "sleep demo_hdr ram_fw 0x3000 5 demo =
     Ret 0 (demo\<lparr>mem := store_timeval 0x3000 5 0 (mem demo), world := demo_world\<lparr>stalls := [5000000]\<rparr>\<rparr>)"
  using sleeps_return [OF x86_64_demo, of ram_fw 5000000 demo 0 "demo_world\<lparr>stalls := [5000000]\<rparr>" "0x3000" 5 0 0]
  by (simp add: ram_fw_def demo_world_def uefi_consts_def)

theorem exit_leaves_witness:
  "exit demo_hdr ram_fw 256 demo = Exited 0 demo"
  using exit_leaves [OF x86_64_demo refl, of ram_fw demo 256 True demo_world]
  by (simp add: ram_fw_def uefi_consts_def)

theorem kill_reports_witness:
  "kill demo_hdr ram_fw 1 9 demo = Ret (- 1) (demo\<lparr>errno := 1\<rparr>) \<and> kill demo_hdr ram_fw 2 0 demo = Exited (efi_err 21) demo"
  using kill_reports [OF x86_64_demo, of ram_fw demo True demo_world _ 1 9]
    kill_reports [OF x86_64_demo, of ram_fw demo True demo_world _ 2 0]
  by (simp add: ram_fw_def uefi_consts_def)

theorem heap_round_trip_witness:
  "\<exists>s1 s2. heap_alloc demo_hdr ram_fw 0x1000 demo = Ret 0x100000 s1 \<and>
     heap_dealloc demo_hdr ram_fw 0x100000 (load64 (mem demo) 0x1000) s1 = Ret () s2 \<and>
     pool (world s2) = (\<lambda>_. None) \<and> mem s2 = mem demo"
proof -
  obtain s1 where r: "heap_alloc demo_hdr ram_fw 0x1000 demo = Ret 0x100000 s1"
    by (simp add: heap_alloc_def mmap_def sys_mmap_def x86_64_facts [OF x86_64_demo] my_syscall_def syscall_table
        with_args_def mem_mmap_def check_status_def ram_fw_def ram_allocate_def demo_world_def uefi_consts_def
        Let_def)
  show ?thesis
    using heap_round_trip [OF x86_64_demo ram_pool refl, where s = demo and size_ptr = "0x1000"] r
    by (auto simp: demo_world_def)
qed

theorem stat_converts_witness:
  "\<exists>m s'. stat old_hdr ram_fw 0x9000 0x5000 0x2000 demo = Ret 0 (s'\<lparr>mem := m\<rparr>) \<and>
     fd_stat ram_fw 0x5000 0x9000 demo = Ret 0 s' \<and> load64 m (0x2000 + lst_size) = load64 (mem s') (0x9000 + st_size)"
proof -
  obtain b m where r: "fd_stat ram_fw 0x5000 0x9000 demo = Ret 0 (demo\<lparr>fres := b, world := demo_world, mem := m\<rparr>)"
    using stat_by_path [of demo ram_fw "0x5000" 0 7 demo_world 0 demo_info demo_world "0x9000", OF wf_demo]
    by (auto simp: ram_fw_def uefi_consts_def demo_world_def)
  show ?thesis
    using stat_converts [OF _ _ r, where k = old_hdr and buf = "0x2000"] r
    by (fastforce simp: disjoint_def same_status_def)
qed

theorem stat_by_name_witness:
  "\<exists>s'. stat old_hdr ram_fw 0x9000 0x5000 0x2000 demo = Ret 0 s' \<and>
     member_value (libc_stat linux_timespec) [''st_size''] 0x2000 (mem s') = Some (FileSize demo_info)"
proof -
  have "size_of (libc_stat linux_timespec) = 120" "size_of sys_stat_struct = 144" by code_simp+
  then have "disjoint 0x2000 (size_of (libc_stat linux_timespec)) 0x9000 (size_of sys_stat_struct)"
    by (simp add: disjoint_def)
  from stat_by_name [OF _ _ wf_demo _ _ _ _ this, of old_hdr ram_fw "0x5000" 0 7 demo_world 0 demo_info demo_world]
  show ?thesis
    by (auto simp: status_names_def ram_fw_def uefi_consts_def demo_world_def)
qed

section \<open>Console hooks and lines\<close>

theorem user_puts_undefined_witness:
  "user_puts demo_hdr ram_fw 0x3000 0x1000 demo = Undef Oob_write"
proof -
  have "load8 (mem demo) 0x1003 = 0"
    unfolding demo_fields by (subst load8_store_bytes_other) (simp_all add: in_range_def load8_def)
  then have "load_bytes (mem demo) 0x1000 (3 + 1) = [0x68, 0x69, 0x0A] @ [0]"
    using demo_bytes by (simp only: load_bytes_append) simp
  moreover have "length [0x68, 0x69, 0x0A :: u8] = 3" by simp
  ultimately show ?thesis
    by (intro user_puts_undefined [where bs = "[0x68, 0x69, 0x0A]"]) (simp_all only: demo_hdr_numbers, simp_all)
qed

theorem my_getline_reads_line_witness:
  "\<exists>s'. my_getline demo_hdr ram_fw static_heap 0x3000 0x2000 0x2008 0 demo = Ret 4 s' \<and>
     load_bytes (mem s') (load64 (mem s') 0x2000) 4 = [0x68, 0x69, 0x0A, 0] \<and> load64 (mem s') 0x2008 = 3 \<and>
     keys (world s') = [0x21] \<and> screen (world s') = [0x68, 0x69, 0x0D, 0x0A]"
proof -
  have "separate 0x2000 0x2008 0x3000"
    by (simp add: separate_def disjoint_def in_range_def)
  moreover have "load64 (mem demo) 0x2000 = 0"
  proof -
    have "load_bytes (mem demo) 0x2000 8 = load_bytes (\<lambda>_. 0) 0x2000 8"
      unfolding demo_fields by (rule load_bytes_store_bytes_disjoint) (simp_all add: disjoint_def)
    also have "\<dots> = replicate 8 0" by (simp add: numeral_eq_Suc load8_def)
    finally show ?thesis by (simp add: load64_def numeral_eq_Suc)
  qed
  ultimately have "\<exists>s'. my_getline demo_hdr ram_fw static_heap 0x3000 0x2000 0x2008 0 demo =
      Ret (of_nat (length [0x68, 0x69 :: u16] + 2)) s' \<and>
    load_bytes (mem s') (load64 (mem s') 0x2000) (length [0x68, 0x69 :: u16] + 2) = map ucast [0x68, 0x69 :: u16] @ [0x0A, 0] \<and>
    load64 (mem s') 0x2008 = of_nat (length [0x68, 0x69 :: u16] + 1) \<and>
    keys (world s') = [0x21] \<and> screen (world s') = screen (world demo) @ echo [0x68, 0x69] @ before_nul [0x0D] @ [0x0A]"
    by (intro my_getline_reads_line [OF static_heap_contract _ ram_console, where ret = "0x0D"])
      (simp_all add: demo_world_def line_key_def plain_key_def)
  moreover have "length [0x68, 0x69 :: u16] + 2 = 4" "length [0x68, 0x69 :: u16] + 1 = 3" by simp_all
  ultimately show ?thesis by (simp only:) (simp add: demo_world_def before_nul_def)
qed

section \<open>Types\<close>

theorem FD_SET_behaviour_witness:
  "FD_SET 31 [0, 0, 0, 0] = Inl Bad_shift \<and> (\<exists>ws. FD_SET 70 [0, 0, 0, 0] = Inr ws \<and> members ws = {70})"
proof -
  have "[0, 0, 0, 0 :: u64] ! i = 0" if "i < 4" for i
    using that by (auto simp: less_Suc_eq numeral_eq_Suc)
  then have "members [0, 0, 0, 0] = {}" by (auto simp: members_def)
  then show ?thesis
    using FD_SET_behaviour [of "[0, 0, 0, 0]" 31] FD_SET_behaviour [of "[0, 0, 0, 0]" 70] by auto
qed

theorem wait_status_decoding_witness:
  "WEXITSTATUS 0x2A00 = 42 \<and> WTERMSIG 9 = 9 \<and> WIFSIGNALED 0"
  using wait_status_decoding [of 42 9] wait_status_decoding [of 0 9] by simp

section \<open>Reachable states\<close>

theorem syscall_results_proper_witness:
  "syscall_emu_x86_64 ram_fw 62 [7, 9] fresh = Ret (- 3) fresh \<and> proper_result (- 3)"
proof -
  have r: "syscall_emu_x86_64 ram_fw 62 [7, 9] fresh = Ret (- 3) fresh"
    by (simp add: syscall_table with_args_def proc_kill_def)
  show ?thesis
    using r syscall_results_proper [OF reachable_fresh _ _ r] by (simp add: arity_def)
qed

text \<open>A program that asks for its process number, writes its low byte to memory and tries to open a file.\<close>

definition demo_program :: program where
  "demo_program = Call 39 [] (\<lambda>pid. Poke 0x2000 (ucast pid) (Call 2 [0x1000, 0] (\<lambda>fd.
     Peek 0x2000 (\<lambda>b. Done (if sint fd < 0 then ucast b else 0)))))"

lemma demo_program_run:
  "kernel_run ram_fw demo_program a = Ret 2 (a\<lparr>k_mem := store8 0x2000 2 (k_mem a)\<rparr>)"
  by (simp add: demo_program_def kernel_call_def fixed_result_def arity_def with_args_def ram.get_put_same)

theorem emulator_refines_kernel_witness:
  "map_outcome project id (machine_run ram_fw demo_program fresh) =
     Ret 2 ((project fresh)\<lparr>k_mem := store8 0x2000 2 (mem fresh)\<rparr>)"
  unfolding emulator_refines_kernel [OF reachable_fresh] by (simp add: demo_program_run)

theorem efi_main_runs_program_witness:
  "map_outcome project id (efi_main ram_fw (machine_run ram_fw demo_program) 1 demo) =
     Ret (efi_err 31) \<lparr>k_image = 1, k_volume = 3, k_mem = store8 0x2000 2 (mem demo),
       k_world = demo_world\<lparr>screen := wide (''Initialized! Calling main()...'' @ [CHR 0x0D, CHR 0x0A])\<rparr>\<rparr>"
proof -
  let ?w = "demo_world\<lparr>screen := wide (''Initialized! Calling main()...'' @ [CHR 0x0D, CHR 0x0A])\<rparr>"
  have "map_outcome project id (efi_main ram_fw (machine_run ram_fw demo_program) 1 demo) =
    bind_out (kernel_run ram_fw demo_program \<lparr>k_image = 1, k_volume = 3, k_mem = mem demo, k_world = ?w\<rparr>)
      (\<lambda>r. Ret (if r \<noteq> 0 then EFI_END_OF_FILE (hdr ram_fw) else EFI_SUCCESS (hdr ram_fw)))"
    by (rule efi_main_runs_program [where sd = 0]) (simp_all add: ram_fw_def, simp_all add: demo_world_def)
  then show ?thesis by (simp add: demo_program_run uefi_consts_def del: append.simps demo_fields)
qed

theorem calls_that_do_not_return_witness:
  "(\<exists>st. syscall_emu_x86_64 ram_fw 60 [1] fresh = Exited st fresh \<and> st = EFI_END_OF_FILE uefi_consts) \<and>
   syscall_emu_x86_64 ram_fw 0 [0, 0x2000, 80] fresh \<noteq> Diverge"
proof -
  have x: "syscall_emu_x86_64 ram_fw 60 [1] fresh = Exited (EFI_END_OF_FILE uefi_consts) fresh"
    by (simp add: syscall_table with_args_def proc_exit_def exit_image_def)
       (simp add: ram_fw_def fresh_def demo_def)
  have "end_allowed ram_fw 60 [1] (syscall_emu_x86_64 ram_fw 60 [1] fresh)"
    and "end_allowed ram_fw 0 [0, 0x2000, 80] (syscall_emu_x86_64 ram_fw 0 [0, 0x2000, 80] fresh)"
    by (rule calls_that_do_not_return [OF reachable_fresh], simp add: arity_def)+
  then show ?thesis using x by (auto simp: kills_itself_def)
qed

end
