(* ===== verification/DemoWitness.thy ===== *)
theory DemoWitness
  imports DemoRun LibraryWitnesses
begin

text \<open>
  Runs of the demonstration program on the firmware of \<open>RamFirmware\<close>: with a C library that prints to
  its screen by itself, so that the contracts of \<open>Demo\<close> can all hold together, and with one whose \<open>puts\<close>
  and \<open>putchar\<close> call the hooks of the repository.
\<close>

unbundle bit_operations_syntax

section \<open>A C library on the RAM firmware\<close>

text \<open>
  Output goes to the screen, keys come from the queue. A string in memory is what stands before the
  first NUL.
\<close>

definition show_text :: "u16 list \<Rightarrow> ram_world machine \<Rightarrow> ram_world machine" where
  "show_text str s = s\<lparr>world := (world s)\<lparr>screen := screen (world s) @ str\<rparr>\<rparr>"

fun arg_bytes :: "memory \<Rightarrow> print_arg \<Rightarrow> u8 list" where
  "arg_bytes m (Num n) = ascii (decimal (sint n))"
| "arg_bytes m (Str_at p) = before_nul (load_bytes m p (2 ^ 64))"
| "arg_bytes m (Str_lit str) = ascii str"

definition ram_printf :: "string \<Rightarrow> print_arg list \<Rightarrow> ram_world machine \<Rightarrow> (ram_world machine, i32) outcome" where
  "ram_printf fmt args s = Ret 0 (show_text (console_text (fill fmt (map (arg_bytes (mem s)) args))) s)"

definition ram_getchar :: "ram_world machine \<Rightarrow> (ram_world machine, i32) outcome" where
  "ram_getchar s =
     (case keys (world s) of
        [] \<Rightarrow> Diverge
      | key # rest \<Rightarrow>
          Ret (ucast (key_byte key)) (show_text (key_echo key) (s\<lparr>world := (world s)\<lparr>keys := rest\<rparr>\<rparr>)))"

definition ram_libc :: "ram_world clibc" where
  "ram_libc = \<lparr>puts = \<lambda>str s. Ret 0 (show_text (line str) s),
     putchar = \<lambda>c s. Ret 0 (show_text (console_text [of_char c]) s), getchar = ram_getchar,
     printf = ram_printf, fprintf_stderr = ram_printf, heap = static_heap, free = \<lambda>q s. Ret () s\<rparr>"

definition demo_frame :: main_frame where
  "demo_frame = \<lparr>hello_lit = 0x1000, hi_lit = 0x1100, error_lit = 0x1200, input_buf = 0x2000,
     input_len = 0x2008, stack = 0x3000\<rparr>"

definition ram_view :: "ram_world view" where
  "ram_view = \<lparr>v_typed = keys, v_shown = screen, v_kept = \<lambda>_. True,
     v_block = static_block\<rparr>"

lemma string_at_bytes:
  assumes "string_at m p bs"
  shows "before_nul (load_bytes m p (2 ^ 64)) = bs"
proof -
  have b: "0 \<notin> set bs" "load_bytes m p (length bs + 1) = bs @ [0]" using assms by (simp_all add: string_at_def)
  have "length bs < 2 ^ 64"
  proof (rule ccontr)
    assume "\<not> length bs < 2 ^ 64"
    then have i: "length bs mod 2 ^ 64 < length bs" by (meson mod_less_divisor le_less_trans not_le order_less_le_trans pos2 zero_less_power)
    have n: "load_bytes m p (length bs + 1) ! j = load8 m (p + of_nat j)" if "j < length bs + 1" for j
      using that by (rule nth_load_bytes)
    have "(of_nat (length bs mod 2 ^ 64) :: u64) = of_nat (length bs)"
      by (rule word_unat_eq_iff [THEN iffD2]) (simp add: unat_of_nat)
    then have "bs ! (length bs mod 2 ^ 64) = 0"
      using n [of "length bs"] n [of "length bs mod 2 ^ 64"] i b(2) by (simp add: nth_append)
    then show False using b(1) i by (metis nth_mem)
  qed
  then have "2 ^ 64 = length bs + 1 + (2 ^ 64 - (length bs + 1))" by simp
  then obtain xs where "load_bytes m p (2 ^ 64) = bs @ 0 # xs"
    using load_bytes_append [of m p "length bs + 1" "2 ^ 64 - (length bs + 1)"] b(2)
    by (metis append.assoc append_Cons append_Nil)
  then show ?thesis using b(1) by simp
qed

lemma arg_bytes_text: "arg_text m a bs \<Longrightarrow> arg_bytes m a = bs"
  by (cases a) (simp_all only: arg_text.simps arg_bytes.simps string_at_bytes)

lemma ram_library: "library_contract ram_libc ram_view"
proof -
  have "map (arg_bytes m) args = texts" if "list_all2 (arg_text m) args texts" for m args texts
    using that by (induction rule: list_all2_induct) (simp_all add: arg_bytes_text)
  then show ?thesis
    unfolding library_contract_def
    by (auto simp: ram_libc_def ram_view_def ram_printf_def ram_getchar_def prints_def goes_on_def show_text_def static_block_def)
qed

lemma demo_environment: "environment demo_hdr ram_fw ram_libc demo_frame ram_view 2"
  unfolding environment_def
proof (intro conjI allI exI [of _ "0x10000"])
  show "x86_64 demo_hdr" by (rule x86_64_demo)
  show "library_contract ram_libc ram_view" by (rule ram_library)
  show "console_contract ram_fw (v_typed ram_view) (v_shown ram_view)"
    by (simp add: ram_view_def ram_console)
  show "heap_contract (heap ram_libc) (v_block ram_view)
      (own_variables (input_buf demo_frame) (input_len demo_frame) (stack demo_frame)) 0x10000
      (\<lambda>w. (v_typed ram_view w, v_shown ram_view w))"
    using static_heap_contract by (simp add: ram_libc_def ram_view_def demo_frame_def)
  show "separate (input_buf demo_frame) (input_len demo_frame) (stack demo_frame)"
    by (simp add: demo_frame_def separate_def disjoint_def in_range_def)
qed (simp_all add: ram_view_def ram_fw_def)

text \<open>The machine with the program's literals in memory, and somebody who types \<open>hi\<close> and two returns.\<close>

definition typing_world :: ram_world where
  "typing_world = demo_world\<lparr>keys := [0x68, 0x69, 0x0D, 0x0D, 0x21]\<rparr>"

definition demo_start :: "ram_world machine" where
  "demo_start = demo\<lparr>mem := store_bytes 0x1000 hello (store_bytes 0x1200 (ascii ''Error'' @ [0]) (\<lambda>_. 0)),
     world := typing_world\<rparr>"

lemma demo_literals: "literals demo_frame ram_view demo_start"
proof -
  let ?m = "store_bytes 0x1200 (ascii ''Error'' @ [0]) (\<lambda>_. 0)"
  have l: "length hello = 13" "length (ascii ''Error'' @ [0]) = 6" by (simp_all add: hello_def ascii_def)
  have "load_bytes (store_bytes 0x1000 hello ?m) 0x1000 (length hello) = hello"
    by (rule load_bytes_store_bytes_same) (simp_all add: l ascii_def)
  moreover have "load_bytes (store_bytes 0x1000 hello ?m) 0x1200 6 = load_bytes ?m 0x1200 6"
    by (rule load_bytes_store_bytes_disjoint) (simp_all add: l disjoint_def)
  moreover have "load_bytes ?m 0x1200 (length (ascii ''Error'' @ [0])) = ascii ''Error'' @ [0]"
    by (rule load_bytes_store_bytes_same) (simp_all add: l ascii_def)
  ultimately show ?thesis
    by (simp only: literals_def l demo_start_def demo_frame_def) (simp add: ram_view_def in_range_def)
qed

lemma demo_runs_example:
  "\<exists>s'. efi_main ram_fw (main demo_hdr ram_fw ram_libc demo_frame) 1 demo_start = Exited 0 s' \<and> keys (world s') = [0x21] \<and>
     screen (world s') = line ''Initialized! Calling main()...'' @ demo_text [0x68, 0x69] 0x0D [] 0x0D"
proof -
  have env: "environment demo_hdr ram_fw ram_libc demo_frame ram_view (length [0x68, 0x69 :: u16])"
    using demo_environment by (simp add: numeral_2_eq_2)
  have "\<exists>s'. efi_main ram_fw (main demo_hdr ram_fw ram_libc demo_frame) 1 demo_start = Exited (EFI_SUCCESS (hdr ram_fw)) s' \<and>
    v_typed ram_view (world s') = [0x21] \<and>
    v_shown ram_view (world s') = v_shown ram_view typing_world @ line ''Initialized! Calling main()...'' @
      demo_text [0x68, 0x69] 0x0D [] 0x0D"
    by (rule demo_runs [OF env demo_literals, where dev = 1 and io = 2 and vol = 3 and sa = 0 and sb = 0 and sc = 0 and ?w1.0 = typing_world and ?w2.0 = typing_world])
      (simp_all add: line_key_def plain_key_def, simp_all add: ram_fw_def demo_start_def ram_view_def typing_world_def)
  then show ?thesis by (simp add: ram_view_def typing_world_def demo_world_def uefi_consts_def)
qed

section \<open>A C library on the hooks\<close>

text \<open>\<open>puts\<close> and \<open>putchar\<close> call the hooks, with the character of \<open>_putchar\<close> at \<open>0x4000\<close>.\<close>

definition hook_libc :: "ram_world clibc" where
  "hook_libc = ram_libc\<lparr>
     puts := \<lambda>str s. bind_out (user_puts demo_hdr ram_fw 0x4000 0x5000 s) (\<lambda>_ s. Ret 0 s),
     putchar := \<lambda>c s. bind_out (user_putchar demo_hdr ram_fw 0x4000 (of_char c) s) (\<lambda>_ s. Ret (ucast (of_char c :: u8)) s)\<rparr>"

theorem demo_stops_at_first_line_witness:
  "efi_main ram_fw (main demo_hdr ram_fw hook_libc demo_frame) 1
     (demo\<lparr>mem := store_bytes 0x5000 (ascii ''Testing write() to stdout...'' @ [0]) (\<lambda>_. 0)\<rparr>) = Undef Oob_write"
proof (rule demo_stops_at_first_line [OF demo_hdr_numbers(2), where sp = "0x4000" and lit = "\<lambda>_. 0x5000"])
  let ?title = "''Testing write() to stdout...''"
  have "length (ascii ?title @ [0]) \<le> 2 ^ 64" by (simp add: ascii_def)
  then have "load_bytes (store_bytes 0x5000 (ascii ?title @ [0]) (\<lambda>_. 0)) 0x5000 (length (ascii ?title @ [0])) = ascii ?title @ [0]"
    by (rule load_bytes_store_bytes_same) simp
  moreover have "0 \<notin> set (ascii ?title)" by (simp add: ascii_def)
  ultimately show "string_at (mem (demo\<lparr>mem := store_bytes 0x5000 (ascii ?title @ [0]) (\<lambda>_. 0)\<rparr>)) 0x5000 (ascii ?title)"
    by (simp add: string_at_def del: load_bytes.simps store_bytes.simps)
  show "puts_through_hook demo_hdr ram_fw 0x4000 (\<lambda>_. 0x5000) hook_libc"
    by (auto simp: puts_through_hook_def hook_libc_def)
qed (simp_all add: ram_fw_def)

theorem row_printed_through_hook_witness:
  "\<exists>s'. columns hook_libc (f_int 3) (f_int 0) demo = Some (Ret () s') \<and>
     screen (world s') = map (\<lambda>a. of_char (shade (of_nat (escape_time (f_int a) (f_int 3))))) [1..84]"
proof -
  have "putchar_through_hook demo_hdr ram_fw 0x4000 hook_libc"
    by (simp add: putchar_through_hook_def hook_libc_def)
  from row_printed_through_hook [OF demo_hdr_numbers(2) _ this ram_console, of 3 demo] show ?thesis
    by (auto simp: demo_world_def)
qed

end
