(* ===== verification/Spec2Isabelle.thy ===== *)
theory Spec2Isabelle
  imports DemoWitness
begin

text \<open>
  A verification development of UEFI Linux (\<open>README.md\<close>), an emulation of Linux system calls inside the
  UEFI environment. A program is linked with a small C library (\<open>nolibc\<close>) whose wrappers do not
  execute a \<open>syscall\<close> instruction but call the function \<open>syscall_emu_x86_64\<close> of \<open>src/linux-uefi.c\<close>,
  which carries the call out with UEFI boot and runtime services. Everything runs in one address
  space and one thread.

  \<^bold>\<open>Parts and theories.\<close>

  \<^item> \<open>Prelude\<close>: the C integer types as words, \<open>outcome\<close> (how a call can end: it returns, the firmware
    takes control by exit or reset, it hangs in an endless loop, it never leaves a loop, it meets
    undefined behaviour), sequencing, and the \<open>keeps\<close> and \<open>returns\<close> calculi used for invariants.
  \<^item> \<open>Memory\<close>: the byte-addressed memory the program and the emulator share, little-endian scalars,
    runs of bytes; locale \<open>cells\<close> is the contract of every indexed container. \<open>Layout\<close>: the structure
    declarations of \<open>include/\<close> and \<open>nolibc/\<close> over the integer types of \<open>linux-uefi-int.h\<close>, as data, with the
    offsets, sizes and alignments of the x86-64 ABI; a member is always aligned and inside its structure.
  \<^item> \<open>Firmware\<close>: the UEFI services as a record of functions on an arbitrary outside world. gnu-efi and
    the firmware are not in the repository, so they stay a parameter; what a theorem relies on
    is a named contract (\<open>console_contract\<close>, \<open>file_contract\<close>, \<open>position_contract\<close>, \<open>directory_contract\<close>,
    \<open>pool_contract\<close>).
  \<^item> \<open>Machine\<close>: the globals of \<open>src/linux-uefi.c\<close> as the record \<open>machine\<close> (\<open>Image_handle\<close>,
    \<open>Volume_handle\<close>, the descriptor table \<open>fds\<close>, the static buffer \<open>fres\<close> of \<open>bstr_to_wstr\<close>), the program's
    memory and \<open>errno\<close>, and the world; \<open>efi_init\<close>, \<open>efi_main\<close>, the string and status conversions.
  \<^item> \<open>Calendar\<close>, \<open>Timekeeping\<close>: EFI time to Unix time, \<open>gettimeofday\<close>, the sleep behind \<open>select\<close>.
  \<^item> \<open>PowerControl\<close>: \<open>proc_exit\<close>, \<open>proc_abort\<close>, \<open>proc_kill\<close>, \<open>power_reboot\<close>.
  \<^item> \<open>Descriptors\<close>, \<open>FileIO\<close>, \<open>Files\<close>, \<open>FileStat\<close>: the \<open>fd_\<close> functions (open, close, fsync, dup, dup2, lseek; read and
    write on the console and on files; getdents64, fstat, stat). Locale \<open>descriptor_call\<close> is what the
    guard shared by all of them gives.
  \<^item> \<open>MemMgmt\<close>: \<open>mem_mmap\<close> and \<open>mem_munmap\<close> over the pool services.
  \<^item> \<open>Syscall\<close>: the dispatcher \<open>syscall_emu_x86_64\<close>, one branch per number.
  \<^item> \<open>Reachability\<close>: the states a program can reach (rule-inductive: start-up, arbitrary memory writes of
    the program and changes of the world, system calls), their invariant and what calls do in them; the case
    rule \<open>syscall_cases\<close> splits a call by what it amounts to, for the properties of all calls.
  \<^item> \<open>Results\<close>: the values calls return, and the calls that do not come back. \<open>AbstractKernel\<close>: the refinement
    below.
  \<^item> \<open>Nolibc\<close>, \<open>NolibcCalls\<close>: the wrappers of \<open>nolibc/unistd.h\<close> over \<open>nolibc/arch.h\<close> and \<open>nolibc/errno.h\<close>; the
    kernel headers (numbers and constants) are a record. Locale \<open>exported_call\<close> is the convention
    of an exported call. \<open>NolibcTypes\<close>: the macros of \<open>nolibc/types.h\<close>.
  \<^item> \<open>ClibcUser\<close>: the hooks of \<open>src/clibc-user-impl.c\<close> for crosslibc. \<open>Getdelim\<close>: \<open>include/getdelim.h\<close>, with
    \<open>malloc\<close> and \<open>realloc\<close> of crosslibc as parameters under \<open>heap_contract\<close>.
  \<^item> \<open>EndToEnd\<close>: the library on the emulator with the system call numbers of x86-64.
  \<^item> \<open>Float32\<close>, \<open>Picture\<close>, \<open>Demo\<close>, \<open>DemoRun\<close>: the demonstration program \<open>src/main.c\<close>: \<open>float\<close> as binary32, the
    loop that computes a point of its picture, the program with one definition per test, and its run. The
    functions of crosslibc it calls are the record \<open>clibc\<close>: in the properties they go through the hooks of
    \<open>ClibcUser\<close> (\<open>puts_through_hook\<close>, \<open>putchar_through_hook\<close>), in the lemma \<open>demo_runs\<close> they print by themselves
    (\<open>library_contract\<close>), which the repository's hooks do not. Where its string
    literals and addressed variables lie is the record \<open>main_frame\<close>.
  \<^item> \<open>RamFirmware\<close>, \<open>Witnesses\<close>, \<open>LibraryWitnesses\<close>, \<open>DemoWitness\<close>: a concrete firmware that satisfies every contract, and
    each property applied to a concrete input.

  \<^bold>\<open>What is shown.\<close> For whole programs: in every reachable state the descriptor table is empty and the
  static objects have their sizes (an invariant by rule induction); the emulator refines an abstract
  kernel that has no descriptor table, no conversion buffer and no \<open>errno\<close> (\<open>AbstractKernel\<close>, a
  simulation by the function \<open>project\<close>, over every program that makes calls and uses its memory, from
  \<open>efi_main\<close> on; the kernel spells out every call but the keyboard loop of a console read and console
  writes of \<open>2^31\<close> bytes or more, which it takes from the emulator); which calls do not come back; the results of calls are the eleven error numbers or
  small numbers; the calls that are undefined, and those that may be, are listed; memory is written
  inside what the arguments name; every file call fails. For the demonstration program: on the hooks of the
  repository it ends in undefined behaviour at its first line; what it would print on output
  functions that print by themselves is the lemma \<open>demo_runs\<close>; a row of its picture, which has no
  newline in it, is printed through the hook \<open>_putchar\<close>. For each component: the functional behaviour of its
  operations on all branches, on arbitrary well-formed states, so also on those with open
  files; the equivalence of the calendar computation with the reference \<open>unix_seconds\<close>; round
  trips of the structures that go through memory (\<open>timeval\<close>, both layouts of \<open>stat\<close>, the second by the names of its members), of heap
  blocks and of what is written to a file and read back; termination and non-termination of the console loops. For the library: what its
  calls give from end to end, which of them never reach a handler, and that a line typed at the
  console arrives in \<open>my_getline\<close>'s buffer.

  \<^bold>\<open>Loops, bounds and integers.\<close> There is no fuel. Loops whose counter cannot reach its bound for some
  arguments (\<open>read_keys\<close>, \<open>expand_chars\<close>, \<open>bstr_loop\<close>, \<open>strlen_from\<close>, \<open>getdelim_loop\<close>), that count with \<open>float\<close>
  (\<open>columns\<close>, \<open>rows\<close>) or wait for a key (\<open>wait_for_return\<close>) are partial
  functions into \<open>option\<close>; \<open>None\<close> becomes \<open>Diverge\<close>, and that they do return is proved where it
  is claimed. All other recursions are structural or have a measure (\<open>write_loop\<close>, \<open>printf_loop\<close>, \<open>escape\<close>). Integers keep their width: a C \<open>int\<close> is a 32-bit
  word read with \<open>sint\<close>, conversions between widths are written out. Arrays are lists whose reads and
  writes outside are undefined behaviour, and so is an array whose size in bytes overflows. The
  program's memory is a total map, as firmware runs the program without memory protection, but in the
  functions of \<open>src/linux-uefi.c\<close> a null pointer that the code reads or writes through is undefined
  behaviour (\<open>Null_deref\<close>). Any other address counts as accessible. The pointers that the C library, \<open>getdelim.h\<close> and
  \<open>main.c\<close> themselves dereference are taken to be valid, and so are those the code hands to the
  firmware. An object on the stack (\<open>sp\<close> in the wrappers and hooks) is never at the null address; theorems about
  calls that pass such an address down say so as a hypothesis.

  \<^bold>\<open>Not modelled.\<close> crosslibc, gnu-efi and the kernel headers, which are not in the repository and stay
  parameters; infinities and not-a-numbers of \<open>float\<close>, which the program is shown not to reach;
  \<open>argv\<close>, \<open>environ\<close> and \<open>_auxv\<close>, which the emulator does not read; the macros \<open>FD_CLR\<close>, \<open>FD_ISSET\<close>,
  \<open>minor\<close>, \<open>syscall\<close> and the variant of \<open>sys_stat\<close> for \<open>statx\<close>, which do not compile when used; constants
  no code of the repository reads; prototypes and build files. Concurrency does not occur: there is one thread and no signal
  handler.
\<close>

end
